(* ===== verification/Prelude.thy ===== *)
theory Prelude
  imports Main "HOL-Library.AList"
begin

text \<open>
  What every theory of the development shares: the outcome of a C++ function that may throw or
  reach undefined behaviour, the two standard containers the program uses (\<open>std::unordered_map\<close>
  where its iteration order matters, \<open>std::queue\<close>), and the collections of rules the component
  proofs are carried by.
\<close>

named_theorems umap_rules \<open>characteristic equations of the unordered_map operations\<close>
named_theorems outcome_rules \<open>introduction and elimination of outcomes\<close>
named_theorems inv_intros \<open>preservation of the component invariants\<close>

section \<open>Outcomes\<close>

text \<open>
  A C++ call on a state either returns a value and a new state, throws an exception (the effects
  made before the throw stay), or runs into behaviour the standard leaves undefined, or that ends
  the process (\<open>std::terminate\<close>).
\<close>

datatype exn = Out_of_range | Runtime_error string | Library_error string

datatype fault = Null_deref | Bad_cast | Index_out_of_bounds | Terminate

datatype ('a, 's) outcome = Ret 'a 's | Throw exn 's | Crash fault

fun bind_o :: "('a, 's) outcome \<Rightarrow> ('a \<Rightarrow> 's \<Rightarrow> ('b, 's) outcome) \<Rightarrow> ('b, 's) outcome" where
  "bind_o (Ret a s) f = f a s"
| "bind_o (Throw e s) f = Throw e s"
| "bind_o (Crash c) f = Crash c"

text \<open>A run that neither reaches undefined behaviour nor ends the process.\<close>

fun safe :: "('a, 's) outcome \<Rightarrow> bool" where
  "safe (Ret a s) = True"
| "safe (Throw e s) = True"
| "safe (Crash c) = False"

text \<open>The state an outcome leaves, when there is one.\<close>

fun state_of :: "('a, 's) outcome \<Rightarrow> 's option" where
  "state_of (Ret a s) = Some s"
| "state_of (Throw e s) = Some s"
| "state_of (Crash c) = None"

lemma bind_o_assoc: "bind_o (bind_o m f) g = bind_o m (\<lambda>a s. bind_o (f a s) g)"
  by (cases m) simp_all

lemma bind_o_Ret_right [simp]: "bind_o m (\<lambda>a s. Ret a s) = m"
  by (cases m) simp_all

lemma bind_o_eq_Ret [outcome_rules]:
  "bind_o m f = Ret b t \<longleftrightarrow> (\<exists>a s. m = Ret a s \<and> f a s = Ret b t)"
  by (cases m) auto

lemma bind_o_eq_Crash [outcome_rules]:
  "bind_o m f = Crash c \<longleftrightarrow> m = Crash c \<or> (\<exists>a s. m = Ret a s \<and> f a s = Crash c)"
  by (cases m) auto

lemma safe_bind_o [outcome_rules]:
  "safe (bind_o m f) \<longleftrightarrow> safe m \<and> (\<forall>a s. m = Ret a s \<longrightarrow> safe (f a s))"
  by (cases m) auto

lemma safe_not_Crash: "safe m \<longleftrightarrow> (\<forall>c. m \<noteq> Crash c)"
  by (cases m) auto

lemma state_of_None: "state_of m = None \<longleftrightarrow> \<not> safe m"
  by (cases m) auto

section \<open>Unordered maps\<close>

text \<open>
  \<open>std::unordered_map\<close> promises no order of iteration. Where a loop of the program walks such a
  map the model keeps the entries as a list, in the order the loop would see them; a new key is
  appended, and every theorem that depends on a loop is stated for an arbitrary list of entries,
  that is, for every order. A map that is only looked up is a partial function.
\<close>

type_synonym ('k, 'v) umap = "('k \<times> 'v) list"

abbreviation (input) um_empty :: "('k, 'v) umap" where
  "um_empty \<equiv> []"

definition um_find :: "('k, 'v) umap \<Rightarrow> 'k \<Rightarrow> 'v option" where
  "um_find m k = map_of m k"

definition um_contains :: "('k, 'v) umap \<Rightarrow> 'k \<Rightarrow> bool" where
  "um_contains m k \<longleftrightarrow> um_find m k \<noteq> None"

definition um_put :: "'k \<Rightarrow> 'v \<Rightarrow> ('k, 'v) umap \<Rightarrow> ('k, 'v) umap" where
  "um_put k v m = AList.update k v m"

definition um_erase :: "'k \<Rightarrow> ('k, 'v) umap \<Rightarrow> ('k, 'v) umap" where
  "um_erase k m = AList.delete k m"

text \<open>\<open>operator[]\<close>: a missing key is inserted with the value-initialised default.\<close>

definition um_touch :: "'v \<Rightarrow> 'k \<Rightarrow> ('k, 'v) umap \<Rightarrow> ('k, 'v) umap" where
  "um_touch d k m = (if um_contains m k then m else um_put k d m)"

definition um_get :: "'v \<Rightarrow> ('k, 'v) umap \<Rightarrow> 'k \<Rightarrow> 'v" where
  "um_get d m k = (case um_find m k of None \<Rightarrow> d | Some v \<Rightarrow> v)"

definition um_keys :: "('k, 'v) umap \<Rightarrow> 'k list" where
  "um_keys m = map fst m"

definition um_wf :: "('k, 'v) umap \<Rightarrow> bool" where
  "um_wf m \<longleftrightarrow> distinct (um_keys m)"

lemma um_find_empty [umap_rules, simp]: "um_find um_empty k = None"
  by (simp add: um_find_def)

lemma um_find_Cons [umap_rules, simp]:
  "um_find ((k, v) # m) k' = (if k' = k then Some v else um_find m k')"
  by (simp add: um_find_def)

lemma um_find_put [umap_rules, simp]:
  "um_find (um_put k v m) k' = (if k' = k then Some v else um_find m k')"
  by (simp add: um_find_def um_put_def update_conv')

lemma um_find_erase [umap_rules, simp]:
  "um_find (um_erase k m) k' = (if k' = k then None else um_find m k')"
  by (simp add: um_find_def um_erase_def delete_conv')

lemma um_find_touch [umap_rules]:
  "um_find (um_touch d k m) k' =
     (if k' = k then Some (um_get d m k) else um_find m k')"
  by (auto simp: um_touch_def um_contains_def um_get_def)

lemma um_keys_put [umap_rules]:
  "um_keys (um_put k v m) = (if k \<in> set (um_keys m) then um_keys m else um_keys m @ [k])"
  by (simp add: um_keys_def um_put_def update_keys)

lemma um_contains_keys: "um_contains m k \<longleftrightarrow> k \<in> set (um_keys m)"
  by (simp add: um_contains_def um_find_def um_keys_def map_of_eq_None_iff)

lemma um_find_None_keys: "um_find m k = None \<longleftrightarrow> k \<notin> set (um_keys m)"
  by (simp add: um_find_def um_keys_def map_of_eq_None_iff)

lemma um_wf_empty [inv_intros, simp]: "um_wf um_empty"
  by (simp add: um_wf_def um_keys_def)

lemma um_wf_put [inv_intros]: "um_wf m \<Longrightarrow> um_wf (um_put k v m)"
  by (simp add: um_wf_def um_keys_put)

lemma um_wf_touch [inv_intros]: "um_wf m \<Longrightarrow> um_wf (um_touch d k m)"
  by (simp add: um_touch_def um_wf_put)

lemma um_wf_erase [inv_intros]: "um_wf m \<Longrightarrow> um_wf (um_erase k m)"
  by (simp add: um_wf_def um_keys_def um_erase_def distinct_delete)

lemma um_keys_touch [umap_rules]:
  "um_keys (um_touch d k m) = (if k \<in> set (um_keys m) then um_keys m else um_keys m @ [k])"
  by (simp add: um_touch_def um_contains_keys um_keys_put)

lemma um_find_entry: "um_wf m \<Longrightarrow> (k, v) \<in> set m \<longleftrightarrow> um_find m k = Some v"
  by (simp add: um_wf_def um_keys_def um_find_def)

lemma um_find_SomeD: "um_find m k = Some v \<Longrightarrow> (k, v) \<in> set m"
  by (simp add: um_find_def map_of_SomeD)

section \<open>The interface of a keyed store\<close>

text \<open>
  What the components rely on when they keep values by key: a lookup sees the last value written
  under the key, and an erased key is gone.
\<close>

locale keyed_store =
  fixes empty :: "'m"
    and lookup :: "'m \<Rightarrow> 'k \<Rightarrow> 'v option"
    and insert :: "'k \<Rightarrow> 'v \<Rightarrow> 'm \<Rightarrow> 'm"
    and erase :: "'k \<Rightarrow> 'm \<Rightarrow> 'm"
    and wf :: "'m \<Rightarrow> bool"
  assumes lookup_empty: "lookup empty k = None"
    and lookup_insert: "wf m \<Longrightarrow> lookup (insert k v m) k' = (if k' = k then Some v else lookup m k')"
    and lookup_erase: "wf m \<Longrightarrow> lookup (erase k m) k' = (if k' = k then None else lookup m k')"
    and wf_empty: "wf empty"
    and wf_insert: "wf m \<Longrightarrow> wf (insert k v m)"
    and wf_erase: "wf m \<Longrightarrow> wf (erase k m)"
begin

text \<open>A sequence of writes: the last one under a key wins, the others leave it alone.\<close>

lemma wf_inserts: "wf m \<Longrightarrow> wf (fold (\<lambda>(k, v). insert k v) kvs m)"
  by (induction kvs arbitrary: m) (auto simp: wf_insert)

lemma lookup_inserts:
  "wf m \<Longrightarrow> lookup (fold (\<lambda>(k, v). insert k v) kvs m) k =
     (case map_of (rev kvs) k of Some v \<Rightarrow> Some v | None \<Rightarrow> lookup m k)"
proof (induction kvs arbitrary: m)
  case Nil
  then show ?case by simp
next
  case (Cons kv kvs)
  obtain k' v' where kv: "kv = (k', v')" by (cases kv)
  have "lookup (fold (\<lambda>(k, v). insert k v) kvs (insert k' v' m)) k =
      (case map_of (rev kvs) k of Some v \<Rightarrow> Some v | None \<Rightarrow> lookup (insert k' v' m) k)"
    using Cons.prems by (intro Cons.IH wf_insert)
  then show ?case
    using Cons.prems by (auto simp: kv lookup_insert map_add_def split: option.splits)
qed

text \<open>Writes under different keys commute as far as lookups can tell.\<close>

lemma insert_commute:
  "wf m \<Longrightarrow> k \<noteq> k' \<Longrightarrow>
     lookup (insert k v (insert k' v' m)) = lookup (insert k' v' (insert k v m))"
  by (rule ext) (simp add: lookup_insert wf_insert)

end

interpretation um_store: keyed_store um_empty um_find um_put um_erase um_wf
  by unfold_locales (simp_all add: um_wf_put um_wf_erase)

interpretation map_store: keyed_store Map.empty "\<lambda>m. m" "\<lambda>k v m. m(k \<mapsto> v)" "\<lambda>k m. m(k := None)" "\<lambda>_. True"
  by unfold_locales simp_all

end
