(* ===== verification/Doubles.thy ===== *)
theory Doubles
  imports Complex_Main "HOL-Library.Log_Nat" Prelude
begin

text \<open>
  The C++ type \<open>double\<close>: IEEE 754 binary64 values with round-to-nearest, ties to even, on rational
  numbers. Every arithmetic operation of the program (positions, costs, profit and loss) is the
  exact rational operation followed by this rounding. The sign of zero is the one thing left out:
  no operation of the program divides or looks at it.

  The definitions compute. The lemmas give the sums and products on which no rounding happens:
  the values on a dyadic grid of at most \<open>2 ^ 53\<close> steps, which hold every whole number of shares
  and every price with a power-of-two tick below that bound.
\<close>

section \<open>Rounding\<close>

datatype double = Fin rat | PInf | NInf | NaN

definition bit_length :: "int \<Rightarrow> int" where
  "bit_length n = bitlen n"

text \<open>The binary exponent of a positive rational: \<open>2 ^ e \<le> q < 2 ^ (e + 1)\<close>.\<close>

definition rat_exponent :: "rat \<Rightarrow> int" where
  "rat_exponent q =
     (case quotient_of q of (n, d) \<Rightarrow>
        let k = bit_length n - bit_length d in if 2 powi k \<le> q then k else k - 1)"

definition round_half_even :: "rat \<Rightarrow> int" where
  "round_half_even x =
     (let f = \<lfloor>x\<rfloor>; r = x - of_int f in
      if r < 1 / 2 then f else if r > 1 / 2 then f + 1 else if even f then f else f + 1)"

text \<open>
  The unit in the last place: 53 bits of significand, and no exponent below the one of the
  subnormal numbers.
\<close>

definition ulp_exponent :: "rat \<Rightarrow> int" where
  "ulp_exponent q = max (- 1074) (rat_exponent \<bar>q\<bar> - 52)"

definition round_double :: "rat \<Rightarrow> double" where
  "round_double q =
     (if q = 0 then Fin 0
      else let e = ulp_exponent q; r = of_int (round_half_even (q / 2 powi e)) * 2 powi e in
        if r \<ge> 2 powi 1024 then PInf else if r \<le> - (2 powi 1024) then NInf else Fin r)"

definition DBL_MAX :: double where
  "DBL_MAX = Fin ((2 ^ 53 - 1) * 2 ^ 971)"

section \<open>Arithmetic and comparison\<close>

fun dneg :: "double \<Rightarrow> double" where
  "dneg (Fin a) = Fin (- a)"
| "dneg PInf = NInf"
| "dneg NInf = PInf"
| "dneg NaN = NaN"

fun dadd :: "double \<Rightarrow> double \<Rightarrow> double" where
  "dadd (Fin a) (Fin b) = round_double (a + b)"
| "dadd NaN _ = NaN"
| "dadd _ NaN = NaN"
| "dadd PInf NInf = NaN"
| "dadd NInf PInf = NaN"
| "dadd PInf _ = PInf"
| "dadd _ PInf = PInf"
| "dadd NInf _ = NInf"
| "dadd _ NInf = NInf"

definition dsub :: "double \<Rightarrow> double \<Rightarrow> double" where
  "dsub x y = dadd x (dneg y)"

text \<open>The infinity with the sign of \<open>s\<close> times that of a finite factor; \<open>0 * inf\<close> is NaN.\<close>

definition inf_times :: "bool \<Rightarrow> rat \<Rightarrow> double" where
  "inf_times pos a = (if a = 0 then NaN else if (0 < a) = pos then PInf else NInf)"

fun dmul :: "double \<Rightarrow> double \<Rightarrow> double" where
  "dmul (Fin a) (Fin b) = round_double (a * b)"
| "dmul NaN _ = NaN"
| "dmul _ NaN = NaN"
| "dmul (Fin a) PInf = inf_times True a"
| "dmul (Fin a) NInf = inf_times False a"
| "dmul PInf (Fin b) = inf_times True b"
| "dmul NInf (Fin b) = inf_times False b"
| "dmul PInf PInf = PInf"
| "dmul NInf NInf = PInf"
| "dmul PInf NInf = NInf"
| "dmul NInf PInf = NInf"

fun dabs :: "double \<Rightarrow> double" where
  "dabs (Fin a) = Fin \<bar>a\<bar>"
| "dabs PInf = PInf"
| "dabs NInf = PInf"
| "dabs NaN = NaN"

fun dlt :: "double \<Rightarrow> double \<Rightarrow> bool" where
  "dlt (Fin a) (Fin b) \<longleftrightarrow> a < b"
| "dlt NaN _ \<longleftrightarrow> False"
| "dlt _ NaN \<longleftrightarrow> False"
| "dlt NInf NInf \<longleftrightarrow> False"
| "dlt NInf _ \<longleftrightarrow> True"
| "dlt PInf _ \<longleftrightarrow> False"
| "dlt _ PInf \<longleftrightarrow> True"
| "dlt _ NInf \<longleftrightarrow> False"

text \<open>The operator \<open>==\<close>, which is false on NaN.\<close>

definition deq :: "double \<Rightarrow> double \<Rightarrow> bool" where
  "deq x y \<longleftrightarrow> x \<noteq> NaN \<and> y \<noteq> NaN \<and> x = y"

definition dle :: "double \<Rightarrow> double \<Rightarrow> bool" where
  "dle x y \<longleftrightarrow> dlt x y \<or> deq x y"

instantiation double :: "{zero, one, plus, minus, times, uminus, ord, abs}"
begin

definition zero_double :: double where "0 = Fin 0"
definition one_double :: double where "1 = Fin 1"
definition plus_double :: "double \<Rightarrow> double \<Rightarrow> double" where "x + y = dadd x y"
definition minus_double :: "double \<Rightarrow> double \<Rightarrow> double" where "x - y = dsub x y"
definition times_double :: "double \<Rightarrow> double \<Rightarrow> double" where "x * y = dmul x y"
definition uminus_double :: "double \<Rightarrow> double" where "- x = dneg x"
definition abs_double :: "double \<Rightarrow> double" where "\<bar>x\<bar> = dabs x"
definition less_double :: "double \<Rightarrow> double \<Rightarrow> bool" where "x < y \<longleftrightarrow> dlt x y"
definition less_eq_double :: "double \<Rightarrow> double \<Rightarrow> bool" where "x \<le> y \<longleftrightarrow> dle x y"

instance
  by standard

end

lemmas double_ops = zero_double_def one_double_def plus_double_def minus_double_def
  times_double_def uminus_double_def abs_double_def less_double_def less_eq_double_def

section \<open>Correct rounding\<close>

lemma bit_length_pos: "n > 0 \<Longrightarrow> bit_length n \<ge> 1"
  using bitlen_bounds [of n] bitlen_nonneg[of n] bitlen_eq_zero_iff[of n] by (simp add: bit_length_def)

lemma bit_length_bounds:
  assumes "n > 0"
  shows "2 powi (bit_length n - 1) \<le> (of_int n :: rat)" and "(of_int n :: rat) < 2 powi (bit_length n)"
proof -
  from assms have b: "1 \<le> bit_length n" by (rule bit_length_pos)
  have 1: "2 ^ nat (bit_length n - 1) \<le> n" "n < 2 ^ nat (bit_length n)"
    using bitlen_bounds [OF assms] by (simp_all add: bit_length_def)
  have "(of_int (2 ^ nat (bit_length n - 1)) :: rat) \<le> of_int n"
    using 1(1) by (simp only: of_int_le_iff)
  then show "2 powi (bit_length n - 1) \<le> (of_int n :: rat)"
    using b by (simp add: power_int_def)
  have "(of_int n :: rat) < of_int (2 ^ nat (bit_length n))"
    using 1(2) by (simp only: of_int_less_iff)
  then show "(of_int n :: rat) < 2 powi (bit_length n)"
    using b by (simp add: power_int_def)
qed

lemma rat_exponent_bounds:
  assumes "q > 0"
  shows "2 powi rat_exponent q \<le> q" and "q < 2 powi (rat_exponent q + 1)"
proof -
  obtain n d where nd: "quotient_of q = (n, d)" by (cases "quotient_of q")
  then have d: "d > 0" and q: "q = of_int n / of_int d"
    by (simp_all add: quotient_of_denom_pos quotient_of_div)
  with assms have n: "n > 0" by (simp add: zero_less_divide_iff)
  let ?k = "bit_length n - bit_length d"
  have dpos: "(0::rat) < of_int d" using d by simp
  have "2 powi (?k - 1) * of_int d < (2 powi (?k - 1) * 2 powi (bit_length d) :: rat)"
    using bit_length_bounds(2) [OF d] by simp
  also have "\<dots> = 2 powi (bit_length n - 1)"
    by (simp flip: power_int_add)
  also have "\<dots> \<le> of_int n" by (rule bit_length_bounds(1) [OF n])
  finally have lo: "2 powi (?k - 1) \<le> q"
    using dpos by (simp add: q pos_le_divide_eq)
  have "(of_int n :: rat) < 2 powi (bit_length n)" by (rule bit_length_bounds(2) [OF n])
  also have "\<dots> = 2 powi (?k + 1) * 2 powi (bit_length d - 1)"
    by (simp flip: power_int_add)
  also have "\<dots> \<le> (2 powi (?k + 1) * of_int d)"
    using bit_length_bounds(1) [OF d] by simp
  finally have hi: "q < 2 powi (?k + 1)"
    using dpos by (simp add: q pos_divide_less_eq)
  have e: "rat_exponent q = (if 2 powi ?k \<le> q then ?k else ?k - 1)"
    by (simp add: rat_exponent_def nd)
  show "2 powi rat_exponent q \<le> q" using lo by (simp add: e)
  show "q < 2 powi (rat_exponent q + 1)" using hi by (simp add: e)
qed

lemma round_half_even_int [simp]: "round_half_even (of_int k) = k"
  by (simp add: round_half_even_def)

text \<open>What a double can hold exactly.\<close>

definition exact :: "rat \<Rightarrow> bool" where
  "exact q \<longleftrightarrow> (\<exists>m e. q = of_int m * 2 powi e \<and> \<bar>m\<bar> < 2 ^ 53 \<and> - 1074 \<le> e \<and> e \<le> 971)"

lemma round_double_exact:
  assumes "exact q"
  shows "round_double q = Fin q"
proof (cases "q = 0")
  case True
  then show ?thesis by (simp add: round_double_def)
next
  case False
  from assms obtain m e where q: "q = of_int m * 2 powi e" and m: "\<bar>m\<bar> < 2 ^ 53"
    and e: "- 1074 \<le> e" "e \<le> 971" by (auto simp: exact_def)
  have absq: "\<bar>q\<bar> = of_int \<bar>m\<bar> * 2 powi e" by (simp add: q abs_mult)
  have m': "(of_int \<bar>m\<bar> :: rat) < 2 ^ 53"
    using m by (metis of_int_less_iff of_int_power of_int_numeral)
  have lt: "\<bar>q\<bar> < 2 powi (53 + e)"
  proof -
    have "\<bar>q\<bar> < 2 ^ 53 * 2 powi e" unfolding absq using m' by simp
    also have "\<dots> = 2 powi (53 + e)" by (simp add: power_int_add)
    finally show ?thesis .
  qed
  let ?e = "ulp_exponent q"
  have "2 powi rat_exponent \<bar>q\<bar> < (2 powi (53 + e) :: rat)"
    using rat_exponent_bounds(1) [of "\<bar>q\<bar>"] False lt by linarith
  then have "rat_exponent \<bar>q\<bar> < 53 + e"
    by (meson not_le one_le_numeral power_int_increasing)
  then have le: "?e \<le> e" using e(1) by (simp add: ulp_exponent_def)
  have "q / 2 powi ?e = of_int m * 2 powi (e - ?e)"
    by (simp add: q power_int_diff)
  also have "\<dots> = of_int (m * 2 ^ nat (e - ?e))"
    using le by (simp add: power_int_def)
  finally have "of_int (round_half_even (q / 2 powi ?e)) * 2 powi ?e = q"
    by (metis round_half_even_int nonzero_eq_divide_eq power_int_not_zero zero_neq_numeral)
  moreover have "\<bar>q\<bar> < 2 powi 1024"
  proof -
    have "(2 powi (53 + e) :: rat) \<le> 2 powi 1024" using e(2) by (intro power_int_increasing) auto
    with lt show ?thesis by linarith
  qed
  ultimately show ?thesis using False
    by (auto simp: round_double_def Let_def)
qed

lemma round_half_even_near: "\<bar>of_int (round_half_even x) - x\<bar> \<le> 1 / 2"
proof -
  have "of_int \<lfloor>x\<rfloor> \<le> x" "x < of_int \<lfloor>x\<rfloor> + 1" by linarith+
  then show ?thesis by (auto simp: round_half_even_def Let_def abs_le_iff)
qed

text \<open>The rounding error is at most half a unit in the last place.\<close>

lemma round_double_near:
  assumes "round_double q = Fin r"
  shows "\<bar>r - q\<bar> \<le> 2 powi ulp_exponent q / 2"
proof (cases "q = 0")
  case True
  with assms show ?thesis by (simp add: round_double_def)
next
  case False
  let ?u = "2 powi ulp_exponent q :: rat"
  let ?n = "round_half_even (q / ?u)"
  have u: "?u > 0" by simp
  from assms False have r: "r = of_int ?n * ?u"
    by (auto simp: round_double_def Let_def split: if_splits)
  have "r - q = (of_int ?n - q / ?u) * ?u" using u by (simp add: r left_diff_distrib)
  then have "\<bar>r - q\<bar> = \<bar>of_int ?n - q / ?u\<bar> * ?u" using u by (simp add: abs_mult)
  also have "\<dots> \<le> 1 / 2 * ?u"
    using round_half_even_near [of "q / ?u"] u by (intro mult_right_mono) auto
  finally show ?thesis by simp
qed

section \<open>The exact grid\<close>

text \<open>Rationals with at most \<open>k\<close> binary digits after the point.\<close>

definition dyadic :: "nat \<Rightarrow> rat \<Rightarrow> bool" where
  "dyadic k q \<longleftrightarrow> of_int \<lfloor>q * 2 ^ k\<rfloor> = q * 2 ^ k"

definition grid_bound :: "nat \<Rightarrow> rat" where
  "grid_bound k = 2 ^ 53 / 2 ^ k"

lemma dyadicI: "q * 2 ^ k = of_int m \<Longrightarrow> dyadic k q"
  by (simp add: dyadic_def)

lemma dyadicE:
  assumes "dyadic k q" obtains m where "q * 2 ^ k = of_int m"
  using assms by (metis dyadic_def)

lemma dyadic_of_int [simp]: "dyadic k (of_int n)"
  by (rule dyadicI [of _ _ "n * 2 ^ k"]) simp

lemma dyadic_zero [simp]: "dyadic k 0" and dyadic_one [simp]: "dyadic k 1"
  and dyadic_numeral [simp]: "dyadic k (numeral w)"
  using dyadic_of_int [of k 0] dyadic_of_int [of k 1] dyadic_of_int [of k "numeral w"] by simp_all

lemma dyadic_add: "dyadic k p \<Longrightarrow> dyadic k q \<Longrightarrow> dyadic k (p + q)"
  by (elim dyadicE, rule dyadicI) (simp add: distrib_right flip: of_int_add)

lemma dyadic_uminus [simp]: "dyadic k (- q) \<longleftrightarrow> dyadic k q"
proof -
  have "dyadic k (- p)" if "dyadic k p" for p
    using that by (elim dyadicE) (rule dyadicI [where m = "- m" for m], simp flip: of_int_minus)
  from this [of q] this [of "- q"] show ?thesis by auto
qed

lemma dyadic_diff: "dyadic k p \<Longrightarrow> dyadic k q \<Longrightarrow> dyadic k (p - q)"
  using dyadic_add [of k p "- q"] by simp

lemma dyadic_mult: "dyadic j p \<Longrightarrow> dyadic k q \<Longrightarrow> dyadic (j + k) (p * q)"
proof -
  assume "dyadic j p" "dyadic k q"
  then obtain m n where "p * 2 ^ j = of_int m" "q * 2 ^ k = of_int n" by (elim dyadicE)
  then have "p * q * 2 ^ (j + k) = of_int (m * n)"
    by (simp add: power_add mult_ac) (metis mult.assoc mult.left_commute)
  then show ?thesis by (rule dyadicI)
qed

lemma exact_dyadic:
  assumes "dyadic k q" "\<bar>q\<bar> \<le> grid_bound k" "k \<le> 1074"
  shows "exact q"
proof -
  obtain m where m: "q * 2 ^ k = of_int m" using assms(1) by (rule dyadicE)
  have qm: "q = of_int m / 2 ^ k" using m by (simp add: nonzero_eq_divide_eq)
  have "\<bar>of_int m :: rat\<bar> \<le> 2 ^ 53"
    using assms(2) by (simp add: qm grid_bound_def divide_le_cancel)
  then have "(of_int \<bar>m\<bar> :: rat) \<le> of_int (2 ^ 53)" by simp
  then have mb: "\<bar>m\<bar> \<le> 2 ^ 53" by (simp only: of_int_le_iff)
  show ?thesis
  proof (cases "\<bar>m\<bar> = 2 ^ 53")
    case True
    then have "m = sgn m * 2 ^ 53" by (metis abs_mult_sgn mult.commute)
    then have "q = of_int (sgn m * 2 ^ 53) / 2 ^ k" using qm by simp
    then have "q = of_int (sgn m) * 2 powi (53 - int k)" by (simp add: power_int_diff)
    moreover have "\<bar>sgn m\<bar> < (2::int) ^ 53" by (simp add: sgn_if)
    moreover have "- 1074 \<le> 53 - int k" "53 - int k \<le> 971" using assms(3) by simp_all
    ultimately show ?thesis unfolding exact_def by blast
  next
    case False
    with mb have "\<bar>m\<bar> < 2 ^ 53" by linarith
    moreover have "q = of_int m * 2 powi (- int k)" by (simp add: qm power_int_minus divide_inverse)
    moreover have "- 1074 \<le> - int k" "- int k \<le> 971" using assms(3) by simp_all
    ultimately show ?thesis unfolding exact_def by blast
  qed
qed

lemma round_double_dyadic:
  "dyadic k q \<Longrightarrow> \<bar>q\<bar> \<le> grid_bound k \<Longrightarrow> k \<le> 1074 \<Longrightarrow> round_double q = Fin q"
  by (rule round_double_exact, rule exact_dyadic)

lemma round_double_int: "\<bar>n\<bar> \<le> 2 ^ 53 \<Longrightarrow> round_double (of_int n) = Fin (of_int n)"
proof (rule round_double_dyadic [of 0])
  assume "\<bar>n\<bar> \<le> 2 ^ 53"
  then have "of_int \<bar>n\<bar> \<le> (of_int (2 ^ 53) :: rat)" by (simp only: of_int_le_iff)
  then show "\<bar>of_int n\<bar> \<le> grid_bound 0" by (simp add: grid_bound_def)
qed simp_all

lemma round_double_numeral [simp]:
  "(numeral w :: int) \<le> 2 ^ 53 \<Longrightarrow> round_double (numeral w) = Fin (numeral w)"
  "(numeral w :: int) \<le> 2 ^ 53 \<Longrightarrow> round_double (- numeral w) = Fin (- numeral w)"
  "round_double 0 = Fin 0" "round_double 1 = Fin 1" "round_double (- 1) = Fin (- 1)"
  using round_double_int [of "numeral w"] round_double_int [of "- numeral w"]
    round_double_int [of 0] round_double_int [of 1] round_double_int [of "- 1"] by simp_all

end
