(* ===== verification/Objects.thy ===== *)
theory Objects
  imports Doubles
begin

text \<open>
  The data of the trading system: \<open>lib/objects/constants.h\<close>, \<open>enums.h\<close>, \<open>enums.cpp\<close>,
  \<open>objects.h\<close>, \<open>utils.cpp\<close> and the tests for unset values of \<open>lib/utils/utils.cpp\<close>. Integers
  that are only copied, compared or counted up by one (order ids, request ids, timestamps) are
  mathematical integers: the counters start far below the end of their C++ types.
\<close>

section \<open>Unset values\<close>

type_synonym order_id = int
type_synonym ticker_id = int
type_synonym time_t = int

definition UnsetDouble :: double where
  "UnsetDouble = DBL_MAX"

definition UnsetInt :: int where
  "UnsetInt = 2 ^ 31 - 1"

definition UnsetLong :: int where
  "UnsetLong = 2 ^ 63 - 1"

definition is_unset_double :: "double \<Rightarrow> bool" where
  "is_unset_double num \<longleftrightarrow> deq num UnsetDouble \<or> deq num DBL_MAX"

definition is_unset_int :: "int \<Rightarrow> bool" where
  "is_unset_int num \<longleftrightarrow> num = UnsetInt \<or> num = 2 ^ 31 - 1"

definition is_unset_llong :: "int \<Rightarrow> bool" where
  "is_unset_llong num \<longleftrightarrow> num = UnsetLong \<or> num = 2 ^ 63 - 1"

lemma is_unset_double_iff [simp]: "is_unset_double x \<longleftrightarrow> x = UnsetDouble"
  by (auto simp: is_unset_double_def deq_def UnsetDouble_def DBL_MAX_def)

lemma is_unset_llong_iff [simp]: "is_unset_llong n \<longleftrightarrow> n = UnsetLong"
  by (auto simp: is_unset_llong_def UnsetLong_def)

lemma is_unset_int_iff [simp]: "is_unset_int n \<longleftrightarrow> n = UnsetInt"
  by (auto simp: is_unset_int_def UnsetInt_def)

section \<open>Enumerations and their names on the wire\<close>

datatype action = A_buy | A_sell

datatype order_type = OT_limit | OT_market

datatype order_status =
    OS_pending_submit
  | OS_pending_cancel
  | OS_pre_submitted
  | OS_submitted
  | OS_api_cancelled
  | OS_cancelled
  | OS_filled
  | OS_inactive

datatype event_type =
    ET_event_engine_stop
  | ET_event_engine_test
  | ET_event_engine_test_1
  | ET_tick_data
  | ET_order_data
  | ET_ib_err_msg
  | ET_hist_bar
  | ET_hist_bar_end
  | ET_timer
  | ET_algo_pos_update
  | ET_algo_pnl
  | ET_total_pnl

text \<open>The loop of \<open>invert_KV\<close>: each entry of the map is written, swapped, into a new map.\<close>

fun invert_KV :: "('k, 'v) umap \<Rightarrow> ('v, 'k) umap \<Rightarrow> ('v, 'k) umap" where
  "invert_KV [] vk = vk"
| "invert_KV ((k, v) # kv) vk = invert_KV kv (um_put v k vk)"

text \<open>\<open>at\<close> on a constant map throws on a missing key.\<close>

definition um_at :: "('k, 'v) umap \<Rightarrow> 'k \<Rightarrow> exn + 'v" where
  "um_at m k = (case um_find m k of None \<Rightarrow> Inl Out_of_range | Some v \<Rightarrow> Inr v)"

definition action_to_ib :: "(action, string) umap" where
  "action_to_ib = [(A_buy, ''BUY''), (A_sell, ''SELL'')]"

definition action_to_calm :: "(string, action) umap" where
  "action_to_calm = invert_KV action_to_ib um_empty"

definition order_type_to_ib :: "(order_type, string) umap" where
  "order_type_to_ib = [(OT_limit, ''LMT''), (OT_market, ''MKT'')]"

definition order_type_to_calm :: "(string, order_type) umap" where
  "order_type_to_calm = invert_KV order_type_to_ib um_empty"

definition order_status_to_ib :: "(order_status, string) umap" where
  "order_status_to_ib =
     [(OS_pending_submit, ''PendingSubmit''),
      (OS_pending_cancel, ''PendingCancel''),
      (OS_pre_submitted, ''PreSubmitted''),
      (OS_submitted, ''Submitted''),
      (OS_api_cancelled, ''ApiCancelled''),
      (OS_cancelled, ''Cancelled''),
      (OS_filled, ''Filled''),
      (OS_inactive, ''Inactive'')]"

definition order_status_to_calm :: "(string, order_status) umap" where
  "order_status_to_calm = invert_KV order_status_to_ib um_empty"

section \<open>Records\<close>

record err_msg =
  em_id :: int
  em_error_code :: int
  em_message :: string
  em_order_rejection_json :: string

record tick_data =
  t_symbol :: string
  t_last_price :: double
  t_last_size :: double
  t_bid_price :: double
  t_bid_size :: double
  t_ask_price :: double
  t_ask_size :: double
  t_timestamp :: time_t

text \<open>\<open>TickData{symbol}\<close>: every other member has its initialiser \<open>0\<close>.\<close>

definition new_tick :: "string \<Rightarrow> tick_data" where
  "new_tick symb = \<lparr>t_symbol = symb, t_last_price = 0, t_last_size = 0, t_bid_price = 0,
     t_bid_size = 0, t_ask_price = 0, t_ask_size = 0, t_timestamp = 0\<rparr>"

record order_req =
  r_symbol :: string
  r_exchange :: string
  r_source :: string
  r_action :: action
  r_order_type :: order_type
  r_quantity :: double
  r_price :: double
  r_order_id :: order_id

record order_update_req =
  u_order_id :: order_id
  u_symbol :: string
  u_quantity :: double
  u_price :: double

record order_data =
  d_order_id :: order_id
  d_symbol :: string
  d_exchange :: string
  d_source :: string
  d_order_type :: order_type
  d_action :: action
  d_total_quantity :: double
  d_traded_quantity :: double
  d_avg_trade_price :: double
  d_commission :: double
  d_status :: order_status
  d_error_code :: int

record hist_bar =
  hb_id :: int
  hb_time :: string
  hb_high :: double
  hb_low :: double
  hb_open :: double
  hb_close :: double
  hb_wap :: double
  hb_volume :: double
  hb_count :: int

record hist_bar_end =
  he_id :: int
  he_start :: string
  he_end :: string

record timer =
  tm_sec :: int
  tm_timestamp :: time_t

record algo_pnl_rec =
  ap_algo :: string
  ap_pnl :: double
  ap_timestamp :: time_t

record total_pnl_rec =
  tp_pnl :: double
  tp_timestamp :: time_t

section \<open>Active orders\<close>

fun is_active_order :: "order_status \<Rightarrow> bool" where
  "is_active_order OS_pending_submit = True"
| "is_active_order OS_pending_cancel = True"
| "is_active_order OS_pre_submitted = True"
| "is_active_order OS_submitted = True"
| "is_active_order _ = False"

section \<open>The name tables are inverse to each other\<close>

lemma um_find_invert_KV:
  "distinct (map snd kv) \<Longrightarrow> um_find (invert_KV kv vk) v =
    (case um_find (map (\<lambda>(k, v). (v, k)) kv) v of Some k \<Rightarrow> Some k | None \<Rightarrow> um_find vk v)"
proof (induction kv vk rule: invert_KV.induct)
  case (1 vk)
  then show ?case by simp
next
  case (2 k v' kv vk)
  have "um_find (map (\<lambda>(k, v). (v, k)) kv) v' = None"
    using "2.prems" by (force simp: um_find_def map_of_eq_None_iff)
  with 2 show ?case by (auto split: option.splits)
qed

text \<open>A table with distinct keys and distinct values is inverted exactly.\<close>

lemma invert_KV_inverse:
  assumes "distinct (map fst kv)" and "distinct (map snd kv)"
  shows "um_find (invert_KV kv um_empty) v = Some k \<longleftrightarrow> um_find kv k = Some v"
proof -
  have "um_find (map (\<lambda>(k, v). (v, k)) kv) v = Some k \<longleftrightarrow> (v, k) \<in> set (map (\<lambda>(k, v). (v, k)) kv)"
    using assms(2) by (simp add: um_find_def comp_def case_prod_unfold)
  also have "\<dots> \<longleftrightarrow> (k, v) \<in> set kv" by force
  also have "\<dots> \<longleftrightarrow> um_find kv k = Some v" using assms(1) by (simp add: um_find_def)
  finally show ?thesis using assms(2) by (auto simp: um_find_invert_KV split: option.splits)
qed

lemma order_status_to_calm_iff:
  "um_find order_status_to_calm s = Some st \<longleftrightarrow> um_find order_status_to_ib st = Some s"
  unfolding order_status_to_calm_def
  by (rule invert_KV_inverse) (simp_all add: order_status_to_ib_def)

lemma order_type_to_calm_iff:
  "um_find order_type_to_calm s = Some ot \<longleftrightarrow> um_find order_type_to_ib ot = Some s"
  unfolding order_type_to_calm_def
  by (rule invert_KV_inverse) (simp_all add: order_type_to_ib_def)

lemma action_to_calm_iff:
  "um_find action_to_calm s = Some a \<longleftrightarrow> um_find action_to_ib a = Some s"
  unfolding action_to_calm_def
  by (rule invert_KV_inverse) (simp_all add: action_to_ib_def)

text \<open>The forward tables are total, so \<open>at\<close> on them never throws.\<close>

lemma action_to_ib_total: "\<exists>s. um_find action_to_ib a = Some s"
  by (cases a) (simp_all add: action_to_ib_def um_find_def)

lemma order_type_to_ib_total: "\<exists>s. um_find order_type_to_ib ot = Some s"
  by (cases ot) (simp_all add: order_type_to_ib_def um_find_def)

lemma order_status_to_ib_total: "\<exists>s. um_find order_status_to_ib st = Some s"
  by (cases st) (simp_all add: order_status_to_ib_def um_find_def)

lemma um_at_Inr [simp]: "um_at m k = Inr v \<longleftrightarrow> um_find m k = Some v"
  by (simp add: um_at_def split: option.splits)

text \<open>
  Every name the gateway can send back is parsed to the status it was printed from, every status
  has a name, and a name outside the table makes \<open>at\<close> throw.
\<close>

lemma order_status_names:
  "(\<exists>s. um_at order_status_to_ib st = Inr s \<and> um_at order_status_to_calm s = Inr st)
   \<and> (um_at order_status_to_calm name = Inr st \<longleftrightarrow> um_at order_status_to_ib st = Inr name)
   \<and> ((\<forall>st'. um_at order_status_to_ib st' \<noteq> Inr name)
       \<longleftrightarrow> um_at order_status_to_calm name = Inl Out_of_range)"
proof -
  have "(\<forall>st'. um_at order_status_to_ib st' \<noteq> Inr name)
       \<longleftrightarrow> um_find order_status_to_calm name = None"
    using order_status_to_calm_iff [of name] by (auto simp flip: not_Some_eq)
  also have "\<dots> \<longleftrightarrow> um_at order_status_to_calm name = Inl Out_of_range"
    by (simp add: um_at_def split: option.splits)
  finally show ?thesis
    using order_status_to_ib_total [of st] by (simp add: order_status_to_calm_iff)
qed

end
