(* ===== verification/Utils.thy ===== *)
theory Utils
  imports Objects
begin

text \<open>
  String splitting of \<open>lib/utils/utils.cpp\<close>, on which the parsing of contract symbols rests, with
  the two functions of \<open>std::string\<close> it calls.
\<close>

section \<open>The standard string functions\<close>

text \<open>\<open>s.find(d, pos)\<close>: the least index from \<open>pos\<close> on at which \<open>d\<close> occurs, or npos.\<close>

definition str_find :: "string \<Rightarrow> string \<Rightarrow> nat \<Rightarrow> nat option" where
  "str_find s d pos = find (\<lambda>i. take (length d) (drop i s) = d) [pos ..< Suc (length s)]"

text \<open>\<open>s.substr(pos, n)\<close> throws when \<open>pos\<close> is past the end.\<close>

definition substr :: "string \<Rightarrow> nat \<Rightarrow> nat \<Rightarrow> exn + string" where
  "substr s pos n = (if length s < pos then Inl Out_of_range else Inr (take n (drop pos s)))"

lemma str_find_SomeD:
  assumes "str_find s d pos = Some i"
  shows "pos \<le> i" "i \<le> length s" "take (length d) (drop i s) = d"
    and "\<And>j. pos \<le> j \<Longrightarrow> j < i \<Longrightarrow> take (length d) (drop j s) \<noteq> d"
proof -
  obtain k where k: "k < length [pos ..< Suc (length s)]" "i = [pos ..< Suc (length s)] ! k"
      "take (length d) (drop i s) = d"
      "\<And>j. j < k \<Longrightarrow> take (length d) (drop ([pos ..< Suc (length s)] ! j) s) \<noteq> d"
    using assms unfolding str_find_def find_Some_iff by blast
  then have i: "i = pos + k" "pos + k < Suc (length s)" by (auto simp del: upt_Suc)
  then show "pos \<le> i" "i \<le> length s" "take (length d) (drop i s) = d" using k(3) by auto
  show "take (length d) (drop j s) \<noteq> d" if "pos \<le> j" "j < i" for j
  proof -
    from that i have "j - pos < k" "[pos ..< Suc (length s)] ! (j - pos) = j"
      by (auto simp del: upt_Suc)
    with k(4) [of "j - pos"] show ?thesis by simp
  qed
qed

lemma str_find_bounds: "str_find s d pos = Some i \<Longrightarrow> pos \<le> i \<and> i \<le> length s"
  by (simp add: str_find_SomeD(1,2))

lemma str_find_NoneD:
  "str_find s d pos = None \<Longrightarrow> pos \<le> j \<Longrightarrow> j \<le> length s \<Longrightarrow> take (length d) (drop j s) \<noteq> d"
  unfolding str_find_def find_None_iff by (auto simp del: upt_Suc)

section \<open>split\<close>

text \<open>
  The loop of \<open>split\<close>, from the index \<open>last\<close> of the code: a piece up to each occurrence of the delimiter, then
  the rest. The next search starts one past the occurrence, whatever the delimiter's length.
\<close>

function split_from :: "string \<Rightarrow> string \<Rightarrow> nat \<Rightarrow> exn + string list" where
  "split_from s delim lst =
     (case str_find s delim lst of
        Some next \<Rightarrow>
          (case substr s lst (next - lst) of
             Inl e \<Rightarrow> Inl e
           | Inr p \<Rightarrow>
               (case split_from s delim (next + 1) of Inl e \<Rightarrow> Inl e | Inr ps \<Rightarrow> Inr (p # ps)))
      | None \<Rightarrow>
          (case substr s lst (length s) of Inl e \<Rightarrow> Inl e | Inr p \<Rightarrow> Inr [p]))"
  by pat_completeness auto
termination
  by (relation "measure (\<lambda>(s, d, l). Suc (length s) - l)") (auto dest!: str_find_bounds)

declare split_from.simps [simp del]

definition split :: "string \<Rightarrow> string \<Rightarrow> exn + string list" where
  "split s delim = split_from s delim 0"

section \<open>Splitting at one character\<close>

text \<open>What splitting at a character means, by recursion on the string.\<close>

fun split_char :: "char \<Rightarrow> string \<Rightarrow> string list" where
  "split_char c [] = [[]]"
| "split_char c (x # xs) =
     (if x = c then [] # split_char c xs
      else (case split_char c xs of [] \<Rightarrow> [[x]] | p # ps \<Rightarrow> (x # p) # ps))"

fun join :: "char \<Rightarrow> string list \<Rightarrow> string" where
  "join c [] = []"
| "join c [p] = p"
| "join c (p # ps) = p @ c # join c ps"

lemma split_char_nonempty [simp]: "split_char c s \<noteq> []"
  by (induction s) (auto split: list.splits)

lemma split_char_free: "c \<notin> set s \<Longrightarrow> split_char c s = [s]"
  by (induction s) auto

lemma split_char_append: "c \<notin> set p \<Longrightarrow> split_char c (p @ c # r) = p # split_char c r"
  by (induction p) auto

lemma join_Cons: "ps \<noteq> [] \<Longrightarrow> join c (p # ps) = p @ c # join c ps"
  by (cases ps) auto

lemma join_split_char: "join c (split_char c s) = s"
proof (induction s)
  case Nil
  then show ?case by simp
next
  case (Cons x xs)
  obtain p ps where "split_char c xs = p # ps" by (cases "split_char c xs") auto
  with Cons show ?case by (cases ps) auto
qed

lemma split_char_pieces: "p \<in> set (split_char c s) \<Longrightarrow> c \<notin> set p"
  by (induction s arbitrary: p) (auto split: list.splits if_splits)

lemma split_char_join:
  "ps \<noteq> [] \<Longrightarrow> \<forall>p \<in> set ps. c \<notin> set p \<Longrightarrow> split_char c (join c ps) = ps"
proof (induction ps)
  case Nil
  then show ?case by simp
next
  case (Cons p ps)
  then show ?case
    by (cases "ps = []") (simp_all add: join_Cons split_char_free split_char_append)
qed

lemma str_find_char:
  "take (Suc 0) (drop j s) = [c] \<longleftrightarrow> j < length s \<and> s ! j = c"
  by (cases "j < length s") (auto simp: Cons_nth_drop_Suc [symmetric])

lemma split_from_char:
  "lst \<le> length s \<Longrightarrow> split_from s [c] lst = Inr (split_char c (drop lst s))"
proof (induction s "[c]" lst rule: split_from.induct)
  case (1 s lst)
  show ?case
  proof (cases "str_find s [c] lst")
    case None
    have "c \<notin> set (drop lst s)"
    proof
      assume "c \<in> set (drop lst s)"
      then obtain j where j: "j < length (drop lst s)" "drop lst s ! j = c"
        by (auto simp: in_set_conv_nth)
      then have "lst + j < length s" "s ! (lst + j) = c" using "1.prems" by auto
      with str_find_NoneD [OF None, of "lst + j"] show False by (simp add: str_find_char)
    qed
    then show ?thesis using None "1.prems"
      by (subst split_from.simps) (simp add: substr_def split_char_free)
  next
    case (Some n)
    note f = str_find_SomeD [OF Some]
    have n: "n < length s" "s ! n = c" using f(3) by (simp_all add: str_find_char)
    let ?p = "take (n - lst) (drop lst s)"
    have "c \<notin> set ?p"
    proof
      assume "c \<in> set ?p"
      then obtain j where j: "j < n - lst" "drop lst s ! j = c" "j < length (drop lst s)"
        by (auto simp: in_set_conv_nth)
      then have "lst + j < n" "s ! (lst + j) = c" "lst + j < length s" by auto
      with f(4) [of "lst + j"] show False by (simp add: str_find_char)
    qed
    moreover have "drop lst s = ?p @ c # drop (n + 1) s"
    proof -
      have "drop lst s = ?p @ drop (n - lst) (drop lst s)" by (simp only: append_take_drop_id)
      also have "drop (n - lst) (drop lst s) = drop n s" using f(1) by simp
      also have "drop n s = c # drop (n + 1) s" using n by (simp add: Cons_nth_drop_Suc [symmetric])
      finally show ?thesis .
    qed
    ultimately have "split_char c (drop lst s) = ?p # split_char c (drop (n + 1) s)"
      by (metis split_char_append)
    moreover have "split_from s [c] (n + 1) = Inr (split_char c (drop (n + 1) s))"
      using "1.hyps" [OF Some] "1.prems" n by (simp add: substr_def)
    ultimately show ?thesis using Some "1.prems"
      by (subst split_from.simps) (simp add: substr_def)
  qed
qed

lemma split_eq_split_char: "split s [c] = Inr (split_char c s)"
  by (simp add: split_def split_from_char)

text \<open>
  With a one-character delimiter \<open>split\<close> never throws and is the inverse of joining: the pieces
  hold no delimiter and put back together give the string, and a list of delimiter-free pieces is
  what its joined string is split into.
\<close>

theorem split_join_roundtrip:
  "(\<exists>ps. split s [c] = Inr ps \<and> ps \<noteq> [] \<and> join c ps = s \<and> (\<forall>p \<in> set ps. c \<notin> set p))
   \<and> (ps \<noteq> [] \<longrightarrow> (\<forall>p \<in> set ps. c \<notin> set p) \<longrightarrow> split (join c ps) [c] = Inr ps)"
  by (simp add: split_eq_split_char join_split_char split_char_join)
    (blast dest: split_char_pieces)

theorem split_join_roundtrip_witness:
  "split (join (CHR ''-'') [''6758'', ''STK'', ''JPY'']) [CHR ''-''] = Inr [''6758'', ''STK'', ''JPY'']"
  using split_join_roundtrip [of "[]" "CHR ''-''" "[''6758'', ''STK'', ''JPY'']"] by simp

end
