(* ===== verification/Dates.thy ===== *)
theory Dates
  imports Utils
begin

text \<open>
  The civil calendar of the date library the program is built with
  (\<open>external/date/include/date/date.h\<close>), as far as the historical data uses it: the conversion
  between days since 1970-01-01 and year, month and day. The divisions of the C++ code truncate; on its
  unsigned values and on its adjusted signed ones that is the division of the integers, which is shown
  where it matters. A date keeps its year in a \<open>short\<close> and its month and day in an \<open>unsigned char\<close>, and
  a number of days is an \<open>int\<close>: the conversions that narrow are written out. Sums of an \<open>int\<close> that
  overflow, which the language leaves undefined, need days some five million years from 1970; here they do not wrap.
\<close>

section \<open>Integers of the library\<close>

text \<open>The values of \<open>static_cast\<close> to \<open>short\<close>, \<open>int\<close> and \<open>unsigned char\<close>.\<close>

definition as_short :: "int \<Rightarrow> int" where
  "as_short n = signed_take_bit 15 n"

definition as_int :: "int \<Rightarrow> int" where
  "as_int n = signed_take_bit 31 n"

definition as_uchar :: "int \<Rightarrow> int" where
  "as_uchar n = take_bit 8 n"

lemma as_short_id: "- 32768 \<le> n \<Longrightarrow> n \<le> 32767 \<Longrightarrow> as_short n = n"
  by (simp add: as_short_def signed_take_bit_int_eq_self)

lemma as_int_id: "- (2 ^ 31) \<le> n \<Longrightarrow> n < 2 ^ 31 \<Longrightarrow> as_int n = n"
  by (simp add: as_int_def signed_take_bit_int_eq_self)

lemma as_uchar_id: "0 \<le> n \<Longrightarrow> n \<le> 255 \<Longrightarrow> as_uchar n = n"
  by (simp add: as_uchar_def take_bit_int_eq_self)

section \<open>Days and dates\<close>

record ymd =
  y_year :: int
  y_month :: int
  y_day :: int

text \<open>A date from three numbers: \<open>year\<close>, \<open>month\<close> and \<open>day\<close> narrow what they are given.\<close>

definition make_ymd :: "int \<Rightarrow> int \<Rightarrow> int \<Rightarrow> ymd" where
  "make_ymd y m d = \<lparr>y_year = as_short y, y_month = as_uchar m, y_day = as_uchar d\<rparr>"

text \<open>Division of C++: towards zero.\<close>

definition cdiv :: "int \<Rightarrow> int \<Rightarrow> int" where
  "cdiv a b = (if a \<ge> 0 then a div b else - ((- a) div b))"

definition to_days :: "ymd \<Rightarrow> int" where
  "to_days t =
     (let y = y_year t - (if y_month t \<le> 2 then 1 else 0);
          m = y_month t;
          d = y_day t;
          era = cdiv (if y \<ge> 0 then y else y - 399) 400;
          yoe = y - era * 400;
          doy = cdiv (153 * (if m > 2 then m - 3 else m + 9) + 2) 5 + d - 1;
          doe = yoe * 365 + cdiv yoe 4 - cdiv yoe 100 + doy
      in era * 146097 + doe - 719468)"

text \<open>The year, month and day that \<open>from_days\<close> computes, and the date made of them.\<close>

definition civil_date :: "int \<Rightarrow> ymd" where
  "civil_date dp =
     (let z = dp + 719468;
          era = cdiv (if z \<ge> 0 then z else z - 146096) 146097;
          doe = z - era * 146097;
          yoe = cdiv (doe - cdiv doe 1460 + cdiv doe 36524 - cdiv doe 146096) 365;
          y = yoe + era * 400;
          doy = doe - (365 * yoe + cdiv yoe 4 - cdiv yoe 100);
          mp = cdiv (5 * doy + 2) 153;
          d = doy - cdiv (153 * mp + 2) 5 + 1;
          m = (if mp < 10 then mp + 3 else mp - 9)
      in \<lparr>y_year = y + (if m \<le> 2 then 1 else 0), y_month = m, y_day = d\<rparr>)"

definition from_days :: "int \<Rightarrow> ymd" where
  "from_days dp = (let t = civil_date dp in make_ymd (y_year t) (y_month t) (y_day t))"

lemma cdiv_nonneg [simp]: "0 \<le> a \<Longrightarrow> cdiv a b = a div b"
  by (simp add: cdiv_def)

text \<open>The adjusted truncating division is the division of the integers.\<close>

lemma era_floor: "0 < b \<Longrightarrow> k = b - 1 \<Longrightarrow> cdiv (if z \<ge> 0 then z else z - k) b = z div b"
proof (cases "z \<ge> 0")
  case False
  assume b: "0 < b" and k: "k = b - 1"
  have "- (z - (b - 1)) = (- z - 1) + b" by simp
  then have "(- (z - (b - 1))) div b = (- z - 1) div b + 1" using b by (simp only: div_add_self2)
  moreover have "(- z - 1) div b = - (z div b) - 1"
  proof -
    have "z = b * (z div b) + z mod b" by simp
    moreover have "0 \<le> z mod b" "z mod b < b" using b by simp_all
    ultimately have "- z - 1 = (- (z div b) - 1) * b + (b - 1 - z mod b)" "0 \<le> b - 1 - z mod b" "b - 1 - z mod b < b"
      by (simp_all add: algebra_simps)
    then show ?thesis by (metis div_mult_self3 div_pos_pos_trivial add.commute add.right_neutral less_irrefl b)
  qed
  ultimately show ?thesis using False b k by (simp add: cdiv_def)
qed simp

text \<open>
  A day of an era of 400 years: century, group of four years, year and day of the year, where the
  last day of a leap year is the only one with number 365.
\<close>

lemma era_split:
  assumes "0 \<le> doe" and "doe \<le> (146096 :: int)"
  obtains c q s r where "doe = 36524 * c + 1461 * q + 365 * s + r"
    and "0 \<le> c" "c \<le> 3" "0 \<le> q" "q \<le> 24" "0 \<le> s" "s \<le> 3" "0 \<le> r" "r \<le> 365"
    and "r = 365 \<longrightarrow> s = 3 \<and> (q < 24 \<or> c = 3)"
proof -
  define c where "c = min 3 (doe div 36524)"
  define r1 where "r1 = doe - 36524 * c"
  have d: "doe = 36524 * (doe div 36524) + doe mod 36524" "0 \<le> doe mod 36524" "doe mod 36524 < 36524" by simp_all
  have c: "0 \<le> c" "c \<le> 3" using assms d by (auto simp: c_def)
  have r1: "0 \<le> r1" "r1 \<le> 36524" "c < 3 \<Longrightarrow> r1 < 36524" using assms d by (auto simp: r1_def c_def min_def split: if_splits)
  define q where "q = r1 div 1461"
  define r2 where "r2 = r1 - 1461 * q"
  have e: "r1 = 1461 * (r1 div 1461) + r1 mod 1461" "0 \<le> r1 mod 1461" "r1 mod 1461 < 1461" by simp_all
  have q: "0 \<le> q" "q \<le> 24" using r1 e by (auto simp: q_def)
  have r2: "0 \<le> r2" "r2 \<le> 1460" "q = 24 \<Longrightarrow> c < 3 \<Longrightarrow> r2 < 1460" using r1 e by (auto simp: r2_def q_def)
  define s where "s = min 3 (r2 div 365)"
  define r where "r = r2 - 365 * s"
  have f: "r2 = 365 * (r2 div 365) + r2 mod 365" "0 \<le> r2 mod 365" "r2 mod 365 < 365" by simp_all
  have s: "0 \<le> s" "s \<le> 3" using r2 f by (auto simp: s_def)
  have r: "0 \<le> r" "r \<le> 365" "r = 365 \<Longrightarrow> s = 3 \<and> r2 = 1460" using r2 f by (auto simp: r_def s_def min_def split: if_splits)
  show ?thesis
  proof (rule that [of c q s r])
    show "doe = 36524 * c + 1461 * q + 365 * s + r" by (simp add: r_def r2_def r1_def)
    show "r = 365 \<longrightarrow> s = 3 \<and> (q < 24 \<or> c = 3)"
      using r(3) r2(3) q c by (cases "q = 24"; cases "c = 3") auto
  qed (use c q s r in auto)
qed

lemma div_eqI: "b * k \<le> a \<Longrightarrow> a < b * k + b \<Longrightarrow> a div b = (k :: int)"
  by (rule int_div_pos_eq [of a b k "a - b * k"]) auto

lemma yoe_split:
  assumes doe: "doe = 36524 * c + 1461 * q + 365 * s + r"
    and c: "0 \<le> c" "c \<le> 3" and q: "0 \<le> q" "q \<le> 24" and s: "0 \<le> s" "s \<le> (3 :: int)"
    and r: "0 \<le> r" "r \<le> 365" "r = 365 \<longrightarrow> s = 3 \<and> (q < 24 \<or> c = 3)"
  shows "(doe - doe div 1460 + doe div 36524 - doe div 146096) div 365 = 100 * c + 4 * q + s"
    and "365 * (100 * c + 4 * q + s) + (100 * c + 4 * q + s) div 4 - (100 * c + 4 * q + s) div 100 + r = doe"
proof -
  have K: "doe div 36524 - doe div 146096 = c"
  proof (cases "q = 24 \<and> s = 3 \<and> r = 365")
    case True
    then have "c = 3" using r(3) by auto
    with True show ?thesis by (simp add: doe)
  next
    case False
    have "1461 * q + 365 * s + r < 36524"
    proof (cases "q = 24")
      case True
      have "r < 365 \<or> s < 3" using False True r s by auto
      then show ?thesis using True s r by auto
    qed (use q s r in auto)
    then have "doe div 36524 = c" "doe div 146096 = 0" using doe c q s r by (auto intro!: div_eqI div_pos_pos_trivial)
    then show ?thesis by simp
  qed
  define t where "t = (if 24 * c + q + 365 * s + r \<ge> 1460 then 1 else 0 :: int)"
  have T: "doe div 1460 = 25 * c + q + t"
    using doe c q s r by (intro div_eqI) (auto simp: t_def)
  have "0 \<le> r - t" "r - t \<le> 364"
    using c q s r by (cases "r = 365"; auto simp: t_def)+
  then have "(doe - doe div 1460 + doe div 36524 - doe div 146096) = 365 * (100 * c + 4 * q + s) + (r - t)"
    using K T doe by simp
  then show "(doe - doe div 1460 + doe div 36524 - doe div 146096) div 365 = 100 * c + 4 * q + s"
    using \<open>0 \<le> r - t\<close> \<open>r - t \<le> 364\<close> by (intro div_eqI) auto
  have "(100 * c + 4 * q + s) div 4 = 25 * c + q" "(100 * c + 4 * q + s) div 100 = c"
    using q s by (auto intro!: div_eqI)
  then show "365 * (100 * c + 4 * q + s) + (100 * c + 4 * q + s) div 4 - (100 * c + 4 * q + s) div 100 + r = doe"
    by (simp add: doe)
qed

text \<open>The month of a day of a year that begins in March.\<close>

lemma month_split:
  assumes "0 \<le> doy" "doy \<le> (365 :: int)"
  defines "mp \<equiv> (5 * doy + 2) div 153"
  shows "0 \<le> mp" "mp \<le> 11" "1 \<le> doy - (153 * mp + 2) div 5 + 1" "doy - (153 * mp + 2) div 5 + 1 \<le> 31"
proof -
  have m: "153 * mp \<le> 5 * doy + 2" "5 * doy + 2 < 153 * mp + 153" by (simp_all add: mp_def)
  then show "0 \<le> mp" "mp \<le> 11" using assms(1,2) by linarith+
  then have "mp \<in> {0, 1, 2, 3, 4, 5, 6, 7, 8, 9, 10, 11}" by simp presburger
  then show "1 \<le> doy - (153 * mp + 2) div 5 + 1" "doy - (153 * mp + 2) div 5 + 1 \<le> 31"
    using m by auto
qed

lemma month_bounds:
  assumes "0 \<le> mp" "mp \<le> (11 :: int)"
  shows "1 \<le> (if mp < 10 then mp + 3 else mp - 9)" "(if mp < 10 then mp + 3 else mp - 9) \<le> 12"
  using assms by auto

lemma era_sum:
  "365 * y + a - b + r = doe \<Longrightarrow> doe = z + 719468 - e * 146097
    \<Longrightarrow> e * 146097 + (y * 365 + a - b + (k + (r - k + 1) - 1)) - 719468 = (z :: int)"
  by linarith

text \<open>The date of a day by its era, century, group of four years, year and day of the year.\<close>

lemma civil_at:
  assumes z: "z + 719468 - era * 146097 = 36524 * c + 1461 * q + 365 * s + r"
    and b: "0 \<le> c" "c \<le> 3" "0 \<le> q" "q \<le> 24" "0 \<le> s" "s \<le> 3" "0 \<le> r" "r \<le> 365"
    "r = 365 \<longrightarrow> s = 3 \<and> (q < 24 \<or> c = 3)"
  shows "civil_date z = \<lparr>y_year = 100 * c + 4 * q + s + era * 400 + (if (if (5 * r + 2) div 153 < 10 then (5 * r + 2) div 153 + 3 else (5 * r + 2) div 153 - 9) \<le> 2 then 1 else 0),
      y_month = (if (5 * r + 2) div 153 < 10 then (5 * r + 2) div 153 + 3 else (5 * r + 2) div 153 - 9),
      y_day = r - (153 * ((5 * r + 2) div 153) + 2) div 5 + 1\<rparr>"
proof -
  let ?z = "z + 719468"
  define doe where "doe = ?z - era * 146097"
  have d: "doe = 36524 * c + 1461 * q + 365 * s + r" using z by (simp add: doe_def)
  have doe: "0 \<le> doe" "doe < 146097" using b by (simp_all add: d)
  have era: "?z div 146097 = era" using doe by (intro div_eqI) (simp_all add: doe_def)
  let ?y = "100 * c + 4 * q + s" and ?mp = "(5 * r + 2) div 153"
  note y = yoe_split [OF d b]
  have y0: "0 \<le> ?y" "?y \<le> 399" using b by auto
  note mp = month_split [OF b(7,8)]
  have num: "0 \<le> doe - doe div 1460 + doe div 36524 - doe div 146096"
    using doe by linarith
  have e: "cdiv (if ?z \<ge> 0 then ?z else ?z - 146096) 146097 = era"
    unfolding era [symmetric] by (rule era_floor) simp_all
  have yo: "cdiv (doe - cdiv doe 1460 + cdiv doe 36524 - cdiv doe 146096) 365 = ?y"
    by (simp only: cdiv_nonneg [OF doe(1)] cdiv_nonneg [OF num] y(1))
  have dy: "doe - (365 * ?y + cdiv ?y 4 - cdiv ?y 100) = r"
    using y(2) by (simp only: cdiv_nonneg [OF y0(1)])
  have mo: "cdiv (5 * r + 2) 153 = ?mp" "cdiv (153 * ?mp + 2) 5 = (153 * ?mp + 2) div 5"
    using b(7) mp(1) by (simp_all only: cdiv_nonneg)
  show ?thesis
    unfolding civil_date_def Let_def e doe_def [symmetric] yo dy mo by (rule refl)
qed

lemma civil_shape:
  obtains era c q s r where "z + 719468 - era * 146097 = 36524 * c + 1461 * q + 365 * s + r"
    and "0 \<le> c" "c \<le> 3" "0 \<le> q" "q \<le> 24" "0 \<le> s" "s \<le> 3" "0 \<le> r" "r \<le> 365"
    "r = 365 \<longrightarrow> s = 3 \<and> (q < 24 \<or> c = 3)"
    and "civil_date z = \<lparr>y_year = 100 * c + 4 * q + s + era * 400 + (if (if (5 * r + 2) div 153 < 10 then (5 * r + 2) div 153 + 3 else (5 * r + 2) div 153 - 9) \<le> 2 then 1 else 0),
      y_month = (if (5 * r + 2) div 153 < 10 then (5 * r + 2) div 153 + 3 else (5 * r + 2) div 153 - 9),
      y_day = r - (153 * ((5 * r + 2) div 153) + 2) div 5 + 1\<rparr>"
proof -
  define era where "era = (z + 719468) div 146097"
  have doe: "0 \<le> z + 719468 - era * 146097" "z + 719468 - era * 146097 \<le> 146096"
    using pos_mod_sign [of 146097 "z + 719468"] pos_mod_bound [of 146097 "z + 719468"]
    by (simp_all add: era_def minus_div_mult_eq_mod)
  obtain c q s r where d: "z + 719468 - era * 146097 = 36524 * c + 1461 * q + 365 * s + r"
    and b: "0 \<le> c" "c \<le> 3" "0 \<le> q" "q \<le> 24" "0 \<le> s" "s \<le> 3" "0 \<le> r" "r \<le> 365"
    "r = 365 \<longrightarrow> s = 3 \<and> (q < 24 \<or> c = 3)" by (rule era_split [OF doe])
  show ?thesis by (rule that [OF d b civil_at [OF d b]])
qed

text \<open>
  Every day has a date with a month from 1 to 12 and a day from 1 to 31, and the date gives the day
  back.
\<close>

lemma civil_months:
  "to_days (civil_date z) = z \<and> 1 \<le> y_month (civil_date z) \<and> y_month (civil_date z) \<le> 12
    \<and> 1 \<le> y_day (civil_date z) \<and> y_day (civil_date z) \<le> 31"
proof -
  obtain era c q s r where d: "z + 719468 - era * 146097 = 36524 * c + 1461 * q + 365 * s + r"
    and b: "0 \<le> c" "c \<le> 3" "0 \<le> q" "q \<le> 24" "0 \<le> s" "s \<le> 3" "0 \<le> r" "r \<le> 365"
    "r = 365 \<longrightarrow> s = 3 \<and> (q < 24 \<or> c = 3)"
    and fd: "civil_date z = \<lparr>y_year = 100 * c + 4 * q + s + era * 400 + (if (if (5 * r + 2) div 153 < 10 then (5 * r + 2) div 153 + 3 else (5 * r + 2) div 153 - 9) \<le> 2 then 1 else 0),
      y_month = (if (5 * r + 2) div 153 < 10 then (5 * r + 2) div 153 + 3 else (5 * r + 2) div 153 - 9),
      y_day = r - (153 * ((5 * r + 2) div 153) + 2) div 5 + 1\<rparr>"
    by (rule civil_shape)
  let ?y = "100 * c + 4 * q + s" and ?mp = "(5 * r + 2) div 153"
  note y = yoe_split [OF d b]
  have y0: "0 \<le> ?y" "?y \<le> 399" using b by auto
  note mp = month_split [OF b(7,8)]
  have td: "to_days \<lparr>y_year = ?y + era * 400 + (if m \<le> 2 then 1 else 0), y_month = m, y_day = r - (153 * ?mp + 2) div 5 + 1\<rparr> = z"
    if m: "m = (if ?mp < 10 then ?mp + 3 else ?mp - 9)" for m
  proof -
    have e: "cdiv (if ?y + era * 400 \<ge> 0 then ?y + era * 400 else ?y + era * 400 - 399) 400 = era"
      by (rule trans [OF era_floor]) (use y0 in simp_all)
    have mm: "(if m > 2 then m - 3 else m + 9) = ?mp" using m mp by auto
    have y1: "?y + era * 400 + i - i = ?y + era * 400" "?y + era * 400 - era * 400 = ?y" for i :: int by simp_all
    have mo: "cdiv (153 * ?mp + 2) 5 = (153 * ?mp + 2) div 5" "cdiv ?y 4 = ?y div 4" "cdiv ?y 100 = ?y div 100"
      using y0(1) mp(1) by (simp_all only: cdiv_nonneg)
    show ?thesis
      unfolding to_days_def Let_def ymd.simps y1(1) e mm y1(2) mo
      by (rule era_sum [OF y(2) refl])
  qed
  show ?thesis
    unfolding fd ymd.simps
    by (intro conjI td [OF refl] month_bounds(1) month_bounds(2) mp)
qed

text \<open>A year that fits its \<open>short\<close> is stored as it is.\<close>

lemma from_days_civil: "- 32768 \<le> y_year (civil_date z) \<Longrightarrow> y_year (civil_date z) \<le> 32767 \<Longrightarrow> from_days z = civil_date z"
  using civil_months [of z] by (simp add: from_days_def make_ymd_def Let_def as_short_id as_uchar_id)

section \<open>Valid dates\<close>

definition is_leap :: "int \<Rightarrow> bool" where
  "is_leap y \<longleftrightarrow> y mod 4 = 0 \<and> (y mod 100 \<noteq> 0 \<or> y mod 400 = 0)"

definition last_day :: "int \<Rightarrow> int \<Rightarrow> int" where
  "last_day y m =
     (if m \<noteq> 2 \<or> \<not> is_leap y then [31, 28, 31, 30, 31, 30, 31, 31, 30, 31, 30, 31] ! nat (m - 1) else 29)"

definition ymd_ok :: "ymd \<Rightarrow> bool" where
  "ymd_ok t \<longleftrightarrow>
     (if \<not> (- 32767 \<le> y_year t \<and> y_year t \<le> 32767 \<and> 1 \<le> y_month t \<and> y_month t \<le> 12) then False
      else 1 \<le> y_day t \<and> y_day t \<le> last_day (y_year t) (y_month t))"

lemma last_day_cases:
  "1 \<le> m \<Longrightarrow> m \<le> 12 \<Longrightarrow> last_day y m = (if m = 2 then if is_leap y then 29 else 28
     else if m = 4 \<or> m = 6 \<or> m = 9 \<or> m = 11 then 30 else 31)"
proof -
  assume "1 \<le> m" "m \<le> 12"
  then have "m \<in> {1, 2, 3, 4, 5, 6, 7, 8, 9, 10, 11, 12}" by simp presburger
  then show ?thesis by (auto simp: last_day_def)
qed

text \<open>The 29th of February and the leap years: the last day of an era year is in a leap year.\<close>

lemma leap_era_year:
  "s = 3 \<Longrightarrow> q < 24 \<or> c = 3 \<Longrightarrow> 0 \<le> q \<Longrightarrow> q \<le> 24 \<Longrightarrow> 0 \<le> c \<Longrightarrow> c \<le> 3 \<Longrightarrow> is_leap (100 * c + 4 * q + s + era * 400 + 1)"
proof -
  assume a: "s = 3" "q < 24 \<or> c = 3" "0 \<le> q" "q \<le> 24" "0 \<le> c" "c \<le> 3"
  have "(100 * c + 4 * q + s + era * 400 + 1) = 4 * (25 * c + q + 1 + era * 100)" using a(1) by simp
  then have 4: "(100 * c + 4 * q + s + era * 400 + 1) mod 4 = 0" by (metis mod_mult_self1_is_0)
  show ?thesis
  proof (cases "q = 24")
    case True
    then have "(100 * c + 4 * q + s + era * 400 + 1) = 400 * (era + 1)" using a by simp
    then have "(100 * c + 4 * q + s + era * 400 + 1) mod 400 = 0" by (metis mod_mult_self1_is_0)
    with 4 show ?thesis by (simp add: is_leap_def)
  next
    case False
    then have q: "0 \<le> q" "q \<le> 23" using a by auto
    have "(100 * c + 4 * q + s + era * 400 + 1) = 4 * q + 4 + 100 * (c + 4 * era)" using a(1) by simp
    then have "(100 * c + 4 * q + s + era * 400 + 1) mod 100 = (4 * q + 4) mod 100"
      by (simp only: mod_mult_self2)
    also have "\<dots> = 4 * q + 4" using q by simp
    finally have "(100 * c + 4 * q + s + era * 400 + 1) mod 100 = 4 * q + 4" .
    with 4 q show ?thesis by (simp add: is_leap_def)
  qed
qed

end
