(* ===== verification/Calendar.thy ===== *)
theory Calendar
  imports Dates
begin

text \<open>
  The conversion of days to dates of the date library (\<open>year_month_day::from_days\<close> of
  \<open>external/date/include/date/date.h\<close>), which computes with eras of 400 years, against a calendar that
  counts days.
\<close>

text \<open>
  The calendar as a counting of days: the next day is the next in the month, or the first of the next
  month, or the first of January.
\<close>

definition next_day :: "ymd \<Rightarrow> ymd" where
  "next_day t =
     (if y_day t < last_day (y_year t) (y_month t) then t\<lparr>y_day := y_day t + 1\<rparr>
      else if y_month t < 12 then \<lparr>y_year = y_year t, y_month = y_month t + 1, y_day = 1\<rparr>
      else \<lparr>y_year = y_year t + 1, y_month = 1, y_day = 1\<rparr>)"

text \<open>Day \<open>r\<close> of the year \<open>y\<close> that begins in March.\<close>

definition era_date :: "int \<Rightarrow> int \<Rightarrow> ymd" where
  "era_date y r =
     (let mp = (5 * r + 2) div 153; m = (if mp < 10 then mp + 3 else mp - 9)
      in \<lparr>y_year = y + (if m \<le> 2 then 1 else 0), y_month = m, y_day = r - (153 * mp + 2) div 5 + 1\<rparr>)"

lemma era_date_within:
  assumes m: "mp \<in> {0, 1, 2, 3, 4, 5, 6, 7, 8, 9, 10, 11 :: int}" and b: "153 * mp \<le> 5 * r + 2" "5 * r + 7 < 153 * mp + 153"
    and l: "r < 364 \<or> is_leap (y + 1)" "r \<le> 364"
  shows "r - (153 * mp + 2) div 5 + 1 < last_day (y + (if (if mp < 10 then mp + 3 else mp - 9) \<le> 2 then 1 else 0)) (if mp < 10 then mp + 3 else mp - 9)"
  using m by (elim insertE emptyE; use b l in \<open>auto simp: last_day_cases\<close>)

lemma era_date_across:
  assumes m: "mp \<in> {0, 1, 2, 3, 4, 5, 6, 7, 8, 9, 10 :: int}" and b: "5 * r + 2 < 153 * mp + 153" "153 * (mp + 1) \<le> 5 * r + 7"
  shows "last_day y (if mp < 10 then mp + 3 else mp - 9) = r - (153 * mp + 2) div 5 + 1"
    "r + 1 - (153 * (mp + 1) + 2) div 5 + 1 = 1"
  using m by (elim insertE emptyE; use b in \<open>simp add: last_day_cases\<close>)+

lemma era_date_step:
  assumes "0 \<le> r" "r \<le> 364" "r < 364 \<or> is_leap (y + 1)"
  shows "next_day (era_date y r) = era_date y (r + 1)"
proof -
  define mp where "mp = (5 * r + 2) div 153"
  have b: "153 * mp \<le> 5 * r + 2" "5 * r + 2 < 153 * mp + 153" by (simp_all add: mp_def)
  have e: "5 * (r + 1) + 2 = 5 * r + 7" by simp
  have d: "era_date y r = \<lparr>y_year = y + (if (if mp < 10 then mp + 3 else mp - 9) \<le> 2 then 1 else 0),
      y_month = (if mp < 10 then mp + 3 else mp - 9), y_day = r - (153 * mp + 2) div 5 + 1\<rparr>"
    unfolding era_date_def Let_def mp_def by (rule refl)
  have m: "0 \<le> mp" "mp \<le> 11" using b assms(1,2) by linarith+
  show ?thesis
  proof (cases "5 * r + 7 < 153 * mp + 153")
    case True
    have "mp \<in> {0, 1, 2, 3, 4, 5, 6, 7, 8, 9, 10, 11}" using m by simp presburger
    note w = era_date_within [OF this b(1) True assms(3,2)]
    have "(5 * (r + 1) + 2) div 153 = mp" unfolding e using b True by (intro div_eqI) linarith+
    then have "era_date y (r + 1) = \<lparr>y_year = y + (if (if mp < 10 then mp + 3 else mp - 9) \<le> 2 then 1 else 0),
      y_month = (if mp < 10 then mp + 3 else mp - 9), y_day = r + 1 - (153 * mp + 2) div 5 + 1\<rparr>"
      unfolding era_date_def Let_def by (simp only:)
    then show ?thesis unfolding d next_day_def ymd.simps using w by (simp only: if_True ymd.simps) simp
  next
    case False
    then have a: "153 * (mp + 1) \<le> 5 * r + 7" by simp
    from False have "mp \<le> 10" using assms(2) by linarith
    then have "mp \<in> {0, 1, 2, 3, 4, 5, 6, 7, 8, 9, 10}" using m by simp presburger
    note w = era_date_across [OF this b(2) a]
    have "(5 * (r + 1) + 2) div 153 = mp + 1" unfolding e using b False by (intro div_eqI) simp_all
    then have "era_date y (r + 1) = \<lparr>y_year = y + (if (if mp + 1 < 10 then mp + 1 + 3 else mp + 1 - 9) \<le> 2 then 1 else 0),
      y_month = (if mp + 1 < 10 then mp + 1 + 3 else mp + 1 - 9), y_day = 1\<rparr>"
      unfolding era_date_def Let_def using w(2) by (simp only:)
    then show ?thesis unfolding d next_day_def ymd.simps w(1) using m \<open>mp \<le> 10\<close> by auto
  qed
qed

text \<open>The last day of such a year is followed by the first of March.\<close>

lemma era_date_turn:
  assumes "r = (if is_leap (y + 1) then 365 else 364)"
  shows "next_day (era_date y r) = era_date (y + 1) 0"
proof (cases "is_leap (y + 1)")
  case True
  then have "r = 365" using assms by simp
  with True show ?thesis by (simp add: era_date_def next_day_def last_day_cases)
next
  case False
  then have "r = 364" using assms by simp
  with False show ?thesis by (simp add: era_date_def next_day_def last_day_cases)
qed

lemma not_leap_era_year:
  assumes "0 \<le> c" "c \<le> 3" "0 \<le> q" "q \<le> 24" "0 \<le> s" "s \<le> 3" and "\<not> (s = 3 \<and> (q < 24 \<or> c = 3))"
  shows "\<not> is_leap (100 * c + 4 * q + s + era * 400 + 1)"
proof (cases "s = 3")
  case False
  have "(100 * c + 4 * q + s + era * 400 + 1) = (s + 1) + 4 * (25 * c + q + era * 100)" by simp
  then have "(100 * c + 4 * q + s + era * 400 + 1) mod 4 = (s + 1) mod 4" by (simp only: mod_mult_self2)
  also have "\<dots> = s + 1" using False assms(5,6) by simp
  finally show ?thesis using assms(5) by (simp add: is_leap_def)
next
  case True
  then have q: "q = 24" "c \<le> 2" using assms by auto
  have h: "(100 * c + 4 * q + s + era * 400 + 1) = 100 * (c + 1 + 4 * era)" using True q by simp
  have "(100 * c + 4 * q + s + era * 400 + 1) = 100 * (c + 1) + 400 * era" using True q by simp
  then have "(100 * c + 4 * q + s + era * 400 + 1) mod 400 = (100 * (c + 1)) mod 400" by (simp only: mod_mult_self2)
  also have "\<dots> = 100 * (c + 1)" using q assms(1) by simp
  finally have "(100 * c + 4 * q + s + era * 400 + 1) mod 400 \<noteq> 0" using assms(1) by simp
  moreover have "(100 * c + 4 * q + s + era * 400 + 1) mod 100 = 0" unfolding h by simp
  ultimately show ?thesis by (simp only: is_leap_def) blast
qed

lemma civil_next: "civil_date (z + 1) = next_day (civil_date z)"
proof -
  obtain era c q s r where d: "z + 719468 - era * 146097 = 36524 * c + 1461 * q + 365 * s + r"
    and b: "0 \<le> c" "c \<le> 3" "0 \<le> q" "q \<le> 24" "0 \<le> s" "s \<le> 3" "0 \<le> r" "r \<le> 365"
    "r = 365 \<longrightarrow> s = 3 \<and> (q < 24 \<or> c = 3)"
    by (rule civil_shape)
  note at = civil_at [folded era_date_def [unfolded Let_def]]
  let ?Y = "100 * c + 4 * q + s + era * 400" and ?leap = "s = 3 \<and> (q < 24 \<or> c = 3)"
  have leap: "is_leap (?Y + 1) \<longleftrightarrow> ?leap"
    using leap_era_year [of s q c era] not_leap_era_year [OF b(1-6), of era] b by blast
  have z: "civil_date z = era_date ?Y r" by (rule at [OF d b])
  show ?thesis
  proof (cases "r < 364 \<or> (r = 364 \<and> ?leap)")
    case True
    have "civil_date (z + 1) = era_date ?Y (r + 1)"
      by (rule at) (use d b True in auto)
    then show ?thesis using era_date_step [of r ?Y] True b(7) leap unfolding z by auto
  next
    case False
    then have r: "r = (if is_leap (?Y + 1) then 365 else 364)" using b leap by auto
    have "civil_date (z + 1) = era_date (?Y + 1) 0"
    proof -
      consider "s < 3" | "s = 3" "q < 24" | "s = 3" "q = 24" "c < 3" | "s = 3" "q = 24" "c = 3" using b by linarith
      then show ?thesis
      proof cases
        case 1
        then have "r = 364" using r leap by simp
        then have "civil_date (z + 1) = era_date (100 * c + 4 * q + (s + 1) + era * 400) 0"
          by (intro at) (use d b 1 in auto)
        also have "100 * c + 4 * q + (s + 1) + era * 400 = ?Y + 1" using 1 by simp
        finally show ?thesis .
      next
        case 2
        then have "r = 365" using r leap by simp
        then have "civil_date (z + 1) = era_date (100 * c + 4 * (q + 1) + 0 + era * 400) 0"
          by (intro at) (use d b 2 in auto)
        also have "100 * c + 4 * (q + 1) + 0 + era * 400 = ?Y + 1" using 2 by simp
        finally show ?thesis .
      next
        case 3
        then have "r = 364" using r leap by simp
        then have "civil_date (z + 1) = era_date (100 * (c + 1) + 4 * 0 + 0 + era * 400) 0"
          by (intro at) (use d b 3 in auto)
        also have "100 * (c + 1) + 4 * 0 + 0 + era * 400 = ?Y + 1" using 3 by simp
        finally show ?thesis .
      next
        case 4
        then have "r = 365" using r leap by simp
        then have "civil_date (z + 1) = era_date (100 * 0 + 4 * 0 + 0 + (era + 1) * 400) 0"
          by (intro at) (use d b 4 in auto)
        also have "100 * 0 + 4 * 0 + 0 + (era + 1) * 400 = ?Y + 1" using 4 by simp
        finally show ?thesis .
      qed
    qed
    then show ?thesis unfolding z era_date_turn [OF r] .
  qed
qed

lemma civil_nexts: "civil_date (z + int n) = (next_day ^^ n) (civil_date z)"
proof (induction n)
  case (Suc n)
  have "z + int (Suc n) = z + int n + 1" by simp
  then show ?case using Suc.IH by (simp only: civil_next funpow.simps o_apply)
qed simp

section \<open>The days a date can hold\<close>

lemma year_mono: "z \<le> z' \<Longrightarrow> y_year (civil_date z) \<le> y_year (civil_date z')"
proof -
  have "y_year (civil_date z) \<le> y_year (civil_date (z + int n))" for n
  proof (induction n)
    case (Suc n)
    have "y_year t \<le> y_year (next_day t)" for t by (simp add: next_day_def)
    from order_trans [OF Suc.IH this] show ?case by (simp only: civil_nexts funpow.simps o_apply)
  qed simp
  from this [of "nat (z' - z)"] show "z \<le> z' \<Longrightarrow> ?thesis" by simp
qed

text \<open>The first day of the year -32767 and the last one of the year 32767.\<close>

definition first_day :: int where
  "first_day = - 12687428"

definition final_day :: int where
  "final_day = 11248737"

lemma days_of_years:
  "civil_date first_day = \<lparr>y_year = - 32767, y_month = 1, y_day = 1\<rparr>"
  "civil_date final_day = \<lparr>y_year = 32767, y_month = 12, y_day = 31\<rparr>"
  "civil_date (- 719528) = \<lparr>y_year = 0, y_month = 1, y_day = 1\<rparr>"
  "civil_date 2932896 = \<lparr>y_year = 9999, y_month = 12, y_day = 31\<rparr>"
  by code_simp+

lemma year_fits:
  assumes "first_day \<le> z" and "z \<le> final_day"
  shows "- 32767 \<le> y_year (civil_date z)" and "y_year (civil_date z) \<le> 32767"
  using year_mono [OF assms(1)] year_mono [OF assms(2)] by (simp_all add: days_of_years)

lemma from_days_fits: "first_day \<le> z \<Longrightarrow> z \<le> final_day \<Longrightarrow> from_days z = civil_date z"
  using year_fits [of z] by (intro from_days_civil) simp_all

text \<open>
  Property C20. For every day of the years -32767 to 32767, which are those the library calls valid, its arithmetic
  is the calendar: day 0 is the first of January 1970, and the date of any later day is reached by
  counting days, with 30 days in April, June, September and November, 29 in February of a leap year
  and 28 in that of another. The day after these years is given the year -32768.
\<close>

theorem days_count_the_calendar:
  assumes "first_day \<le> z" and "z + int n \<le> final_day"
  shows "from_days 0 = \<lparr>y_year = 1970, y_month = 1, y_day = 1\<rparr>
    \<and> from_days (z + int n) = (next_day ^^ n) (from_days z)
    \<and> from_days (final_day + 1) = \<lparr>y_year = - 32768, y_month = 1, y_day = 1\<rparr>"
proof (intro conjI)
  show "from_days 0 = \<lparr>y_year = 1970, y_month = 1, y_day = 1\<rparr>"
    "from_days (final_day + 1) = \<lparr>y_year = - 32768, y_month = 1, y_day = 1\<rparr>" by code_simp+
  show "from_days (z + int n) = (next_day ^^ n) (from_days z)"
    using assms by (simp add: from_days_fits civil_nexts)
qed

theorem days_count_the_calendar_witness:
  "from_days (20000 + int 91) = (next_day ^^ 91) (from_days 20000)
    \<and> from_days 20000 = \<lparr>y_year = 2024, y_month = 10, y_day = 4\<rparr> \<and> from_days 20091 = \<lparr>y_year = 2025, y_month = 1, y_day = 3\<rparr>"
proof (intro conjI)
  show "from_days (20000 + int 91) = (next_day ^^ 91) (from_days 20000)"
    by (rule days_count_the_calendar [THEN conjunct2, THEN conjunct1]) (simp_all add: first_day_def final_day_def)
qed (code_simp+)

end
