(* ===== verification/Events.thy ===== *)
theory Events
  imports Utils
begin

text \<open>
  The events of \<open>lib/core/event.h\<close>. The C++ \<open>Event\<close> holds a type tag and a \<open>shared_ptr<void>\<close>;
  every handler casts the pointer to the type it expects without a check. The model keeps what the
  pointer points to as a sum, and the cast as a function that fails where the cast of the program
  would be undefined: so that no handler ever casts wrongly is something to prove.
\<close>

section \<open>Payloads\<close>

text \<open>The position update of \<open>lib/algo/algo_engine.h\<close>, the only payload that is ever modified.\<close>

record pos_update =
  pu_symbol :: string
  pu_pos :: double
  pu_timestamp :: int
  pu_retry :: bool

datatype payload =
    No_data
  | P_tick tick_data
  | P_order order_data
  | P_err err_msg
  | P_bar hist_bar
  | P_bar_end hist_bar_end
  | P_timer timer
  | P_pos pos_update
  | P_algo_pnl algo_pnl_rec
  | P_total_pnl total_pnl_rec

record event =
  e_type :: event_type
  e_data :: payload

definition mk_event :: "event_type \<Rightarrow> payload \<Rightarrow> event" where
  "mk_event t d = \<lparr>e_type = t, e_data = d\<rparr>"

lemma mk_event_simps [simp]: "e_type (mk_event t d) = t" "e_data (mk_event t d) = d"
  by (simp_all add: mk_event_def)

section \<open>Casts\<close>

fun cast_tick :: "payload \<Rightarrow> fault + tick_data" where
  "cast_tick (P_tick t) = Inr t"
| "cast_tick No_data = Inl Null_deref"
| "cast_tick _ = Inl Bad_cast"

fun cast_order :: "payload \<Rightarrow> fault + order_data" where
  "cast_order (P_order d) = Inr d"
| "cast_order No_data = Inl Null_deref"
| "cast_order _ = Inl Bad_cast"

fun cast_err :: "payload \<Rightarrow> fault + err_msg" where
  "cast_err (P_err m) = Inr m"
| "cast_err No_data = Inl Null_deref"
| "cast_err _ = Inl Bad_cast"

fun cast_bar :: "payload \<Rightarrow> fault + hist_bar" where
  "cast_bar (P_bar b) = Inr b"
| "cast_bar No_data = Inl Null_deref"
| "cast_bar _ = Inl Bad_cast"

fun cast_bar_end :: "payload \<Rightarrow> fault + hist_bar_end" where
  "cast_bar_end (P_bar_end b) = Inr b"
| "cast_bar_end No_data = Inl Null_deref"
| "cast_bar_end _ = Inl Bad_cast"

fun cast_timer :: "payload \<Rightarrow> fault + timer" where
  "cast_timer (P_timer t) = Inr t"
| "cast_timer No_data = Inl Null_deref"
| "cast_timer _ = Inl Bad_cast"

fun cast_pos :: "payload \<Rightarrow> fault + pos_update" where
  "cast_pos (P_pos p) = Inr p"
| "cast_pos No_data = Inl Null_deref"
| "cast_pos _ = Inl Bad_cast"

text \<open>Run the rest of a handler on the cast pointer.\<close>

definition with_cast :: "fault + 'a \<Rightarrow> ('a \<Rightarrow> ('b, 's) outcome) \<Rightarrow> ('b, 's) outcome" where
  "with_cast c f = (case c of Inl e \<Rightarrow> Crash e | Inr a \<Rightarrow> f a)"

lemma with_cast_simps [simp]: "with_cast (Inr a) f = f a" "with_cast (Inl e) f = Crash e"
  by (simp_all add: with_cast_def)

section \<open>Well-typed events\<close>

text \<open>The payload each type tag announces.\<close>

fun payload_ok :: "event_type \<Rightarrow> payload \<Rightarrow> bool" where
  "payload_ok ET_tick_data p = (\<exists>t. p = P_tick t)"
| "payload_ok ET_order_data p = (\<exists>d. p = P_order d)"
| "payload_ok ET_ib_err_msg p = (\<exists>m. p = P_err m)"
| "payload_ok ET_hist_bar p = (\<exists>b. p = P_bar b)"
| "payload_ok ET_hist_bar_end p = (\<exists>b. p = P_bar_end b)"
| "payload_ok ET_timer p = (\<exists>t. p = P_timer t)"
| "payload_ok ET_algo_pos_update p = (\<exists>u. p = P_pos u)"
| "payload_ok ET_algo_pnl p = (\<exists>r. p = P_algo_pnl r)"
| "payload_ok ET_total_pnl p = (\<exists>r. p = P_total_pnl r)"
| "payload_ok _ p = True"

definition event_ok :: "event \<Rightarrow> bool" where
  "event_ok ev \<longleftrightarrow> payload_ok (e_type ev) (e_data ev)"

lemma event_ok_mk [simp]: "event_ok (mk_event t d) \<longleftrightarrow> payload_ok t d"
  by (simp add: event_ok_def)

text \<open>On a well-typed event the cast of the matching handler succeeds.\<close>

lemma event_ok_casts:
  "event_ok ev \<Longrightarrow> e_type ev = ET_tick_data \<Longrightarrow> \<exists>t. cast_tick (e_data ev) = Inr t"
  "event_ok ev \<Longrightarrow> e_type ev = ET_order_data \<Longrightarrow> \<exists>d. cast_order (e_data ev) = Inr d"
  "event_ok ev \<Longrightarrow> e_type ev = ET_ib_err_msg \<Longrightarrow> \<exists>m. cast_err (e_data ev) = Inr m"
  "event_ok ev \<Longrightarrow> e_type ev = ET_hist_bar \<Longrightarrow> \<exists>b. cast_bar (e_data ev) = Inr b"
  "event_ok ev \<Longrightarrow> e_type ev = ET_hist_bar_end \<Longrightarrow> \<exists>b. cast_bar_end (e_data ev) = Inr b"
  "event_ok ev \<Longrightarrow> e_type ev = ET_timer \<Longrightarrow> \<exists>t. cast_timer (e_data ev) = Inr t"
  "event_ok ev \<Longrightarrow> e_type ev = ET_algo_pos_update \<Longrightarrow> \<exists>u. cast_pos (e_data ev) = Inr u"
  by (auto simp: event_ok_def)

end
