(* ===== verification/LBQueue.thy ===== *)
theory LBQueue
  imports Events
begin

text \<open>
  The lock-based queue of \<open>lib/utils/lock_based_queue.h\<close>. Every operation takes the mutex for its
  whole body, so each is one atomic step on the items; the timed wait of \<open>try_pop\<close> ends with the
  items as they are when it wakes, and the blocking \<open>wait_pop\<close> has no result while there are none.
\<close>

record 'a lbqueue =
  lbq_items :: "'a list"

definition lbq_empty :: "'a lbqueue" where
  "lbq_empty = \<lparr>lbq_items = []\<rparr>"

definition wait_push :: "'a \<Rightarrow> 'a lbqueue \<Rightarrow> 'a lbqueue" where
  "wait_push item q = q\<lparr>lbq_items := lbq_items q @ [item]\<rparr>"

definition wait_pop :: "'a lbqueue \<Rightarrow> ('a \<times> 'a lbqueue) option" where
  "wait_pop q = (case lbq_items q of [] \<Rightarrow> None | x # xs \<Rightarrow> Some (x, q\<lparr>lbq_items := xs\<rparr>))"

text \<open>\<open>try_pop(item, us)\<close>: the success flag, the item (unchanged on a timeout) and the queue.\<close>

definition try_pop :: "'a \<Rightarrow> 'a lbqueue \<Rightarrow> bool \<times> 'a \<times> 'a lbqueue" where
  "try_pop item q =
     (case lbq_items q of [] \<Rightarrow> (False, item, q) | x # xs \<Rightarrow> (True, x, q\<lparr>lbq_items := xs\<rparr>))"

lemma lbq_items_simps [simp]:
  "lbq_items lbq_empty = []"
  "lbq_items (wait_push x q) = lbq_items q @ [x]"
  by (simp_all add: lbq_empty_def wait_push_def)

lemma try_pop_cases:
  obtains (timeout) "lbq_items q = []" "try_pop d q = (False, d, q)"
  | (item) x xs where "lbq_items q = x # xs" "try_pop d q = (True, x, q\<lparr>lbq_items := xs\<rparr>)"
  by (cases "lbq_items q") (auto simp: try_pop_def)

section \<open>The interface of a queue\<close>

datatype 'a qop = Push 'a | Pop

text \<open>
  A run of queue operations, in the order the mutex lets the threads in: the items taken, in
  order, and the queue left. A pop that finds nothing takes nothing.
\<close>

fun run_qops :: "('a \<Rightarrow> 'q \<Rightarrow> 'q) \<Rightarrow> ('q \<Rightarrow> ('a \<times> 'q) option) \<Rightarrow> 'a qop list \<Rightarrow> 'q \<Rightarrow> 'a list \<times> 'q" where
  "run_qops push pop [] q = ([], q)"
| "run_qops push pop (Push x # ops) q = run_qops push pop ops (push x q)"
| "run_qops push pop (Pop # ops) q =
     (case pop q of
        None \<Rightarrow> run_qops push pop ops q
      | Some (x, q') \<Rightarrow> (case run_qops push pop ops q' of (ys, q'') \<Rightarrow> (x # ys, q'')))"

fun pushed :: "'a qop list \<Rightarrow> 'a list" where
  "pushed [] = []"
| "pushed (Push x # ops) = x # pushed ops"
| "pushed (Pop # ops) = pushed ops"

locale fifo_queue =
  fixes push :: "'a \<Rightarrow> 'q \<Rightarrow> 'q"
    and pop :: "'q \<Rightarrow> ('a \<times> 'q) option"
    and items :: "'q \<Rightarrow> 'a list"
  assumes items_push: "items (push x q) = items q @ [x]"
    and pop_None: "pop q = None \<longleftrightarrow> items q = []"
    and pop_Some: "pop q = Some (x, q') \<Longrightarrow> items q = x # items q'"
begin

text \<open>Nothing is lost, nothing is made up, and the order is kept.\<close>

lemma fifo_conservation:
  "run_qops push pop ops q = (taken, q') \<Longrightarrow> items q @ pushed ops = taken @ items q'"
proof (induction ops arbitrary: q taken)
  case Nil
  then show ?case by simp
next
  case (Cons op ops)
  then show ?case
    by (cases op) (fastforce simp: items_push dest: pop_Some split: option.splits prod.splits)+
qed

text \<open>A run that pops as often as the queue can serve takes exactly what was there.\<close>

lemma drain:
  "length (items q) \<le> n \<Longrightarrow> fst (run_qops push pop (replicate n Pop) q) = items q"
proof (induction n arbitrary: q)
  case 0
  then show ?case by simp
next
  case (Suc n)
  show ?case
  proof (cases "pop q")
    case None
    then show ?thesis using Suc.IH [of q] pop_None [of q] by simp
  next
    case (Some r)
    obtain x q' where r: "r = (x, q')" by (cases r)
    then show ?thesis
      using Suc.IH [of q'] Suc.prems pop_Some [of q x q'] Some by (auto split: prod.splits)
  qed
qed

end

section \<open>The queue of the program\<close>

text \<open>\<open>try_pop\<close> seen as a pop: its flag says whether there is an item.\<close>

definition lbq_pop :: "'a \<Rightarrow> 'a lbqueue \<Rightarrow> ('a \<times> 'a lbqueue) option" where
  "lbq_pop item q = (case try_pop item q of (ok, x, q') \<Rightarrow> if ok then Some (x, q') else None)"

interpretation lbq_try: fifo_queue wait_push "lbq_pop d" lbq_items for d
  by unfold_locales (auto simp: lbq_pop_def try_pop_def split: list.splits)

interpretation lbq_wait: fifo_queue wait_push wait_pop lbq_items
  by unfold_locales (auto simp: wait_pop_def split: list.splits)

text \<open>
  However pushes and pops of any number of threads interleave, the items popped followed by the
  items left are the items there at the start followed by the items pushed, in the order of the
  pushes.
\<close>

theorem lbqueue_fifo:
  assumes "run_qops wait_push (lbq_pop d) ops q = (taken, q')"
  shows "lbq_items q @ pushed ops = taken @ lbq_items q'"
  using assms by (rule lbq_try.fifo_conservation)

theorem lbqueue_fifo_witness:
  "lbq_items lbq_empty @ pushed [Push 1, Push (2::nat), Pop, Push 3, Pop]
     = [1, 2] @ lbq_items \<lparr>lbq_items = [3]\<rparr>"
  by (rule lbqueue_fifo [where d = 0])
    (simp add: lbq_pop_def try_pop_def wait_push_def lbq_empty_def)

end
