(* ===== verification/EventEngine.thy ===== *)
theory EventEngine
  imports LBQueue
begin

text \<open>
  The event engine of \<open>lib/core/event.h\<close> and \<open>event.cpp\<close>: a queue of events, a table of named
  callbacks per event type, and one thread that takes the events and runs the callbacks. A
  callback is a \<open>std::function\<close>; the table keeps a value \<open>'cb\<close> for it and the functions that run
  callbacks take what such a value does as the argument \<open>invoke\<close>. Its state is the engine itself
  (a callback may send events) and whatever else the program has.
\<close>

record 'cb event_engine =
  ee_running :: bool
  ee_q :: "event lbqueue"
  ee_cbs :: "event_type \<rightharpoonup> (string, 'cb) umap"
  ee_joinable :: bool

definition ee_init :: "'cb event_engine" where
  "ee_init = \<lparr>ee_running = False, ee_q = lbq_empty, ee_cbs = Map.empty, ee_joinable = False\<rparr>"

section \<open>Operations\<close>

text \<open>Assigning a new thread to \<open>cb_thread\<close> while it is joinable ends the process.\<close>

definition ee_start :: "'cb event_engine \<Rightarrow> (unit, 'cb event_engine) outcome" where
  "ee_start ee =
     (let ee1 = (if \<not> ee_running ee then ee\<lparr>ee_running := True\<rparr> else ee) in
      if ee_joinable ee1 then Crash Terminate else Ret () (ee1\<lparr>ee_joinable := True\<rparr>))"

text \<open>The effect of \<open>stop\<close>, once its join has returned.\<close>

definition ee_stop :: "'cb event_engine \<Rightarrow> 'cb event_engine" where
  "ee_stop ee =
     (let ee1 = (if ee_running ee then ee\<lparr>ee_running := False\<rparr> else ee) in
      if ee_joinable ee1 then ee1\<lparr>ee_joinable := False\<rparr> else ee1)"

definition ee_send :: "event \<Rightarrow> 'cb event_engine \<Rightarrow> 'cb event_engine" where
  "ee_send ev ee = ee\<lparr>ee_q := wait_push ev (ee_q ee)\<rparr>"

text \<open>The inner map of an event type, made by \<open>operator[]\<close> when it is not there.\<close>

definition ee_cbs_of :: "'cb event_engine \<Rightarrow> event_type \<Rightarrow> (string, 'cb) umap" where
  "ee_cbs_of ee t = (case ee_cbs ee t of None \<Rightarrow> um_empty | Some m \<Rightarrow> m)"

definition ee_register_cb ::
  "event_type \<Rightarrow> string \<Rightarrow> 'cb \<Rightarrow> 'cb event_engine \<Rightarrow> bool \<times> 'cb event_engine" where
  "ee_register_cb t cb_name cb ee =
     (if ee_running ee then (False, ee)
      else (True, ee\<lparr>ee_cbs := (ee_cbs ee)(t \<mapsto> um_put cb_name cb (ee_cbs_of ee t))\<rparr>))"

lemma ee_cbs_of_upd [simp]:
  "ee_cbs_of (ee\<lparr>ee_q := q\<rparr>) = ee_cbs_of ee"
  "ee_cbs_of (ee\<lparr>ee_running := b\<rparr>) = ee_cbs_of ee"
  by (simp_all add: ee_cbs_of_def fun_eq_iff)

section \<open>Dispatch\<close>

text \<open>
  One event to the callbacks of its type. An exception of a callback is caught and logged under
  the callback's name, with the effects it had before; the loop goes on with the next one.
\<close>

fun run_cbs :: "('cb \<Rightarrow> event \<Rightarrow> 's \<Rightarrow> (unit, 's) outcome) \<Rightarrow> (string, 'cb) umap \<Rightarrow> event \<Rightarrow> 's
    \<Rightarrow> ((string \<times> exn) list, 's) outcome" where
  "run_cbs invoke [] ev s = Ret [] s"
| "run_cbs invoke ((cb_name, cb) # cbs) ev s =
     (case invoke cb ev s of
        Ret _ s' \<Rightarrow> run_cbs invoke cbs ev s'
      | Throw e s' \<Rightarrow> bind_o (run_cbs invoke cbs ev s') (\<lambda>errs s''. Ret ((cb_name, e) # errs) s'')
      | Crash c \<Rightarrow> Crash c)"

type_synonym ('cb, 'w) invoker =
  "'cb \<Rightarrow> event \<Rightarrow> 'cb event_engine \<times> 'w \<Rightarrow> (unit, 'cb event_engine \<times> 'w) outcome"

definition ee_handle :: "('cb, 'w) invoker \<Rightarrow> event \<Rightarrow> 'cb event_engine \<times> 'w
    \<Rightarrow> ((string \<times> exn) list, 'cb event_engine \<times> 'w) outcome" where
  "ee_handle invoke ev s =
     (case s of (ee, w) \<Rightarrow>
        if e_type ev = ET_event_engine_stop then Ret [] (ee\<lparr>ee_running := False\<rparr>, w)
        else (case ee_cbs ee (e_type ev) of
                None \<Rightarrow> Ret [] (ee, w)
              | Some cbs \<Rightarrow> run_cbs invoke cbs ev (ee, w)))"

text \<open>One round of the loop of \<open>run\<close>: a pop, and the event's callbacks if there was one.\<close>

definition ee_round :: "('cb, 'w) invoker \<Rightarrow> 'cb event_engine \<times> 'w
    \<Rightarrow> ((string \<times> exn) list, 'cb event_engine \<times> 'w) outcome" where
  "ee_round invoke s =
     (case s of (ee, w) \<Rightarrow>
        case lbq_pop (mk_event ET_event_engine_stop No_data) (ee_q ee) of
          None \<Rightarrow> Ret [] (ee, w)
        | Some (ev, q') \<Rightarrow> ee_handle invoke ev (ee\<lparr>ee_q := q'\<rparr>, w))"

text \<open>The first \<open>n\<close> rounds of the loop, fewer when \<open>running\<close> is found false.\<close>

fun ee_run :: "('cb, 'w) invoker \<Rightarrow> nat \<Rightarrow> 'cb event_engine \<times> 'w
    \<Rightarrow> ((string \<times> exn) list, 'cb event_engine \<times> 'w) outcome" where
  "ee_run invoke 0 s = Ret [] s"
| "ee_run invoke (Suc n) s =
     (if ee_running (fst s)
      then bind_o (ee_round invoke s)
             (\<lambda>errs s'. bind_o (ee_run invoke n s') (\<lambda>errs' s''. Ret (errs @ errs') s''))
      else Ret [] s)"

section \<open>Registration\<close>

lemma ee_cbs_of_register:
  "ee_cbs_of (snd (ee_register_cb t n cb ee)) t' =
     (if \<not> ee_running ee \<and> t' = t then um_put n cb (ee_cbs_of ee t) else ee_cbs_of ee t')"
  by (simp add: ee_register_cb_def ee_cbs_of_def)

text \<open>The table keeps one callback per name, and only lookups and iteration see it.\<close>

definition ee_wf :: "'cb event_engine \<Rightarrow> bool" where
  "ee_wf ee \<longleftrightarrow> (\<forall>t. um_wf (ee_cbs_of ee t))"

lemma ee_wf_init [inv_intros]: "ee_wf ee_init"
  by (simp add: ee_wf_def ee_init_def ee_cbs_of_def)

lemma ee_wf_register [inv_intros]: "ee_wf ee \<Longrightarrow> ee_wf (snd (ee_register_cb t n cb ee))"
  by (simp add: ee_wf_def ee_cbs_of_register um_wf_put)

lemma ee_wf_send [inv_intros, simp]: "ee_wf (ee_send ev ee) \<longleftrightarrow> ee_wf ee"
  by (simp add: ee_wf_def ee_send_def ee_cbs_of_def)

text \<open>A registration that is refused changes nothing; one that is accepted replaces or adds.\<close>

lemma register_cb_running:
  assumes "ee_running ee"
  shows "ee_register_cb t n cb ee = (False, ee)"
  using assms by (simp add: ee_register_cb_def)

section \<open>Dispatch runs every callback once, whatever the others do\<close>

lemma run_cbs_append:
  "run_cbs invoke (xs @ ys) ev s =
     bind_o (run_cbs invoke xs ev s)
       (\<lambda>e1 s1. bind_o (run_cbs invoke ys ev s1) (\<lambda>e2 s2. Ret (e1 @ e2) s2))"
  by (induction invoke xs ev s rule: run_cbs.induct)
    (auto simp: bind_o_assoc split: outcome.splits)

lemma run_cbs_no_throw: "run_cbs invoke cbs ev s \<noteq> Throw e s'"
proof (induction cbs arbitrary: s)
  case Nil
  then show ?case by simp
next
  case (Cons c cbs)
  then show ?case
    by (cases c) (auto split: outcome.splits elim: bind_o.elims)
qed

text \<open>
  To observe the calls: callbacks that append themselves and the event to a trace, and throw
  afterwards when \<open>bad\<close> says so.
\<close>

definition record_call :: "('cb \<Rightarrow> exn option) \<Rightarrow> 'cb \<Rightarrow> event
    \<Rightarrow> 'cb event_engine \<times> ('cb \<times> event) list \<Rightarrow> (unit, 'cb event_engine \<times> ('cb \<times> event) list) outcome" where
  "record_call bad cb ev s =
     (case bad cb of
        None \<Rightarrow> Ret () (fst s, snd s @ [(cb, ev)])
      | Some e \<Rightarrow> Throw e (fst s, snd s @ [(cb, ev)]))"

definition thrown :: "('cb \<Rightarrow> exn option) \<Rightarrow> (string, 'cb) umap \<Rightarrow> (string \<times> exn) list" where
  "thrown bad cbs = List.map_filter (\<lambda>(n, cb). map_option (Pair n) (bad cb)) cbs"

lemma run_cbs_record:
  "run_cbs (record_call bad) cbs ev (ee, tr) =
     Ret (thrown bad cbs) (ee, tr @ map (\<lambda>(n, cb). (cb, ev)) cbs)"
  by (induction cbs arbitrary: tr)
    (auto simp: record_call_def thrown_def map_filter_simps split: option.splits)

text \<open>The calls an event makes, by the table of the engine.\<close>

definition calls_of :: "'cb event_engine \<Rightarrow> event \<Rightarrow> ('cb \<times> event) list" where
  "calls_of ee ev = map (\<lambda>(n, cb). (cb, ev)) (ee_cbs_of ee (e_type ev))"

lemma calls_of_upd [simp]: "calls_of (ee\<lparr>ee_q := q\<rparr>) = calls_of ee"
  by (simp add: calls_of_def fun_eq_iff)

lemma ee_handle_record:
  assumes "e_type ev \<noteq> ET_event_engine_stop"
  shows "ee_handle (record_call bad) ev (ee, tr) =
    Ret (thrown bad (ee_cbs_of ee (e_type ev))) (ee, tr @ calls_of ee ev)"
  using assms
  by (simp add: ee_handle_def run_cbs_record calls_of_def ee_cbs_of_def thrown_def map_filter_simps
      split: option.splits)

lemma ee_run_stopped: "\<not> ee_running (fst s) \<Longrightarrow> ee_run invoke n s = Ret [] s"
  by (cases n) simp_all

lemma ee_run_record:
  assumes "ee_running ee" and "\<forall>ev \<in> set evs. e_type ev \<noteq> ET_event_engine_stop"
    and "lbq_items (ee_q ee) = evs @ rest" and "n = length evs"
  shows "ee_run (record_call bad) n (ee, tr) =
    Ret (concat (map (\<lambda>ev. thrown bad (ee_cbs_of ee (e_type ev))) evs))
      (ee\<lparr>ee_q := (ee_q ee)\<lparr>lbq_items := rest\<rparr>\<rparr>, tr @ concat (map (calls_of ee) evs))"
  using assms
proof (induction evs arbitrary: ee tr n)
  case Nil
  then show ?case by simp
next
  case (Cons ev evs)
  let ?ee = "ee\<lparr>ee_q := (ee_q ee)\<lparr>lbq_items := evs @ rest\<rparr>\<rparr>"
  have "ee_round (record_call bad) (ee, tr) =
      Ret (thrown bad (ee_cbs_of ?ee (e_type ev))) (?ee, tr @ calls_of ?ee ev)"
    using Cons.prems by (simp add: ee_round_def lbq_pop_def try_pop_def ee_handle_record)
  then show ?case
    using Cons.prems Cons.IH [of ?ee "length evs" "tr @ calls_of ee ev"] by simp
qed

text \<open>
  Property C22. A running engine whose queue holds \<open>evs\<close>, none a stop event, delivers in its next
  \<open>length evs\<close> rounds each event to each callback registered for its type exactly once: events in
  the order they were sent, callbacks in the order of the table, and no exception of one callback
  keeps another callback or event from running. It logs exactly the exceptions thrown.
\<close>

theorem engine_delivers_in_order:
  assumes "ee_running ee" and "\<forall>ev \<in> set evs. e_type ev \<noteq> ET_event_engine_stop"
    and "lbq_items (ee_q ee) = []"
  shows "ee_run (record_call bad) (length evs) (fold ee_send evs ee, []) =
    Ret (concat (map (\<lambda>ev. thrown bad (ee_cbs_of ee (e_type ev))) evs))
      (ee, concat (map (calls_of ee) evs))"
proof -
  have f: "fold ee_send evs ee = ee\<lparr>ee_q := (ee_q ee)\<lparr>lbq_items := lbq_items (ee_q ee) @ evs\<rparr>\<rparr>"
    for evs :: "event list"
    by (induction evs rule: rev_induct) (simp_all add: ee_send_def wait_push_def)
  let ?ee = "fold ee_send evs ee"
  have restored: "?ee\<lparr>ee_q := (ee_q ?ee)\<lparr>lbq_items := []\<rparr>\<rparr> = ee"
    using assms(3) by (simp add: f)
  have "lbq_items (ee_q ?ee) = evs @ []" using assms(3) by (simp add: f)
  then show ?thesis
    using ee_run_record [of ?ee evs "[]" "length evs" bad "[]"] assms(1,2)
    by (simp add: restored f [of evs])
qed

text \<open>
  A stop event ends the loop where it is; the events behind it stay in the queue.\<close>

theorem engine_stop_event:
  assumes "ee_running ee" and "e_type stop = ET_event_engine_stop"
    and "lbq_items (ee_q ee) = stop # rest"
  shows "ee_run invoke (Suc n) (ee, w) =
    Ret [] (ee\<lparr>ee_q := (ee_q ee)\<lparr>lbq_items := rest\<rparr>, ee_running := False\<rparr>, w)"
  using assms
  by (simp add: ee_round_def lbq_pop_def try_pop_def ee_handle_def ee_run_stopped)

text \<open>Two callbacks for the timer, the first of which throws.\<close>

definition demo_engine :: "string event_engine" where
  "demo_engine = ee_init\<lparr>ee_running := True, ee_cbs := [ET_timer \<mapsto> [(''a'', ''cb_a''), (''b'', ''cb_b'')]]\<rparr>"

theorem engine_delivers_in_order_witness:
  "ee_run (record_call (\<lambda>cb. if cb = ''cb_a'' then Some Out_of_range else None)) 1
     (fold ee_send [mk_event ET_timer No_data] demo_engine, []) =
   Ret [(''a'', Out_of_range)]
     (demo_engine, [(''cb_a'', mk_event ET_timer No_data), (''cb_b'', mk_event ET_timer No_data)])"
  using engine_delivers_in_order [of demo_engine "[mk_event ET_timer No_data]"
      "\<lambda>cb. if cb = ''cb_a'' then Some Out_of_range else None"]
  by (simp add: demo_engine_def ee_init_def ee_cbs_of_def thrown_def calls_of_def map_filter_simps
      mk_event_def)

theorem engine_stop_event_witness:
  "ee_run (record_call (\<lambda>_. None)) 5 (ee_send (mk_event ET_timer No_data)
      (ee_send (mk_event ET_event_engine_stop No_data) demo_engine), []) =
   Ret [] (demo_engine\<lparr>ee_running := False, ee_q := \<lparr>lbq_items = [mk_event ET_timer No_data]\<rparr>\<rparr>, [])"
  using engine_stop_event [of "ee_send (mk_event ET_timer No_data)
      (ee_send (mk_event ET_event_engine_stop No_data) demo_engine)"
      "mk_event ET_event_engine_stop No_data" "[mk_event ET_timer No_data]" "record_call (\<lambda>_. None)" 4 "[]"]
  by (simp add: demo_engine_def ee_init_def ee_send_def wait_push_def lbq_empty_def)

end
