(* ===== verification/EngineStop.thy ===== *)
theory EngineStop
  imports EventEngine
begin

text \<open>
  The two threads of the event engine at shutdown, lock by lock: \<open>EventEngine::stop\<close> takes the
  mutex \<open>m\<close>, clears \<open>running\<close> and joins the callback thread before it releases the mutex;
  \<open>EventEngine::run\<close> takes the same mutex when it meets an \<open>event_engine_stop\<close> event. Dispatch of
  an ordinary event is one step here, as it takes no lock of the engine.
\<close>

section \<open>States and steps\<close>

datatype thread_id = Runner | Stopper

datatype run_pc = R_check | R_pop | R_lock | R_done

datatype stop_pc = S_start | S_joining | S_done

record stop_sys =
  ss_holder :: "thread_id option"
  ss_running :: bool
  ss_items :: "event list"
  ss_run :: run_pc
  ss_stop :: stop_pc

definition stop_init :: "event list \<Rightarrow> stop_sys" where
  "stop_init evs = \<lparr>ss_holder = None, ss_running = True, ss_items = evs, ss_run = R_check, ss_stop = S_start\<rparr>"

inductive stop_step :: "stop_sys \<Rightarrow> stop_sys \<Rightarrow> bool" where
  run_go: "ss_run s = R_check \<Longrightarrow> ss_running s \<Longrightarrow> stop_step s (s\<lparr>ss_run := R_pop\<rparr>)"
| run_exit: "ss_run s = R_check \<Longrightarrow> \<not> ss_running s \<Longrightarrow> stop_step s (s\<lparr>ss_run := R_done\<rparr>)"
| run_timeout: "ss_run s = R_pop \<Longrightarrow> ss_items s = [] \<Longrightarrow> stop_step s (s\<lparr>ss_run := R_check\<rparr>)"
| run_dispatch: "ss_run s = R_pop \<Longrightarrow> ss_items s = ev # evs \<Longrightarrow> e_type ev \<noteq> ET_event_engine_stop \<Longrightarrow>
    stop_step s (s\<lparr>ss_items := evs, ss_run := R_check\<rparr>)"
| run_stop_event: "ss_run s = R_pop \<Longrightarrow> ss_items s = ev # evs \<Longrightarrow> e_type ev = ET_event_engine_stop \<Longrightarrow>
    stop_step s (s\<lparr>ss_items := evs, ss_run := R_lock\<rparr>)"
| run_lock: "ss_run s = R_lock \<Longrightarrow> ss_holder s = None \<Longrightarrow>
    stop_step s (s\<lparr>ss_running := False, ss_run := R_check\<rparr>)"
| stop_lock: "ss_stop s = S_start \<Longrightarrow> ss_holder s = None \<Longrightarrow>
    stop_step s (s\<lparr>ss_holder := Some Stopper, ss_running := False, ss_stop := S_joining\<rparr>)"
| stop_join: "ss_stop s = S_joining \<Longrightarrow> ss_run s = R_done \<Longrightarrow>
    stop_step s (s\<lparr>ss_holder := None, ss_stop := S_done\<rparr>)"

inductive stop_reach :: "event list \<Rightarrow> stop_sys \<Rightarrow> bool" for evs where
  reach_init: "stop_reach evs (stop_init evs)"
| reach_step: "stop_reach evs s \<Longrightarrow> stop_step s t \<Longrightarrow> stop_reach evs t"

text \<open>Whatever the scheduler does from here, \<open>stop\<close> returns.\<close>

inductive stop_returns :: "stop_sys \<Rightarrow> bool" where
  returned: "ss_stop s = S_done \<Longrightarrow> stop_returns s"
| inevitable: "stop_step s t \<Longrightarrow> (\<And>u. stop_step s u \<Longrightarrow> stop_returns u) \<Longrightarrow> stop_returns s"

definition stop_deadlock :: "stop_sys \<Rightarrow> bool" where
  "stop_deadlock s \<longleftrightarrow> ss_stop s = S_joining \<and> (\<forall>t. \<not> stop_step s t)"

inductive_cases stop_stepE: "stop_step s t"

section \<open>Shutdown without a stop event\<close>

text \<open>
  The invariant of a run whose queue holds no stop event: the runner never asks for the lock, only
  the stopper holds it, exactly while it joins, and it has cleared \<open>running\<close> by then.
\<close>

definition stop_inv :: "stop_sys \<Rightarrow> bool" where
  "stop_inv s \<longleftrightarrow>
     (\<forall>ev \<in> set (ss_items s). e_type ev \<noteq> ET_event_engine_stop) \<and> ss_run s \<noteq> R_lock \<and>
     (ss_stop s \<noteq> S_start \<longrightarrow> \<not> ss_running s) \<and>
     ss_holder s = (if ss_stop s = S_joining then Some Stopper else None)"

lemma stop_inv_init:
  "\<forall>ev \<in> set evs. e_type ev \<noteq> ET_event_engine_stop \<Longrightarrow> stop_inv (stop_init evs)"
  by (simp add: stop_inv_def stop_init_def)

lemma stop_inv_step: "stop_step s t \<Longrightarrow> stop_inv s \<Longrightarrow> stop_inv t"
  by (induction rule: stop_step.induct) (auto simp: stop_inv_def split: if_splits)

lemma stop_inv_reach:
  "stop_reach evs s \<Longrightarrow> \<forall>ev \<in> set evs. e_type ev \<noteq> ET_event_engine_stop \<Longrightarrow> stop_inv s"
  by (induction rule: stop_reach.induct) (auto intro: stop_inv_init stop_inv_step)

text \<open>While \<open>stop\<close> joins, the runner has at most two steps left.\<close>

fun run_left :: "run_pc \<Rightarrow> nat" where
  "run_left R_pop = 2"
| "run_left R_check = 1"
| "run_left _ = 0"

lemma stop_step_joining:
  assumes "stop_step s t" and "stop_inv s" and "ss_stop s = S_joining"
  shows "ss_stop t = S_done \<or> (ss_stop t = S_joining \<and> run_left (ss_run t) < run_left (ss_run s))"
  using assms by (cases rule: stop_step.cases) (auto simp: stop_inv_def)

lemma stop_progress:
  assumes "stop_inv s" and "ss_stop s = S_joining"
  shows "\<exists>t. stop_step s t"
proof (cases "ss_run s")
  case R_check
  then show ?thesis using assms by (auto simp: stop_inv_def intro: stop_step.run_exit)
next
  case R_pop
  then show ?thesis using assms
    by (cases "ss_items s") (auto simp: stop_inv_def intro: stop_step.run_timeout stop_step.run_dispatch)
next
  case R_lock
  then show ?thesis using assms by (simp add: stop_inv_def)
next
  case R_done
  then show ?thesis using assms by (auto intro: stop_step.stop_join)
qed

lemma stop_returns_joining:
  "stop_inv s \<Longrightarrow> ss_stop s = S_joining \<Longrightarrow> stop_returns s"
proof (induction "run_left (ss_run s)" arbitrary: s rule: less_induct)
  case less
  obtain t where t: "stop_step s t" using stop_progress less.prems by blast
  show ?case
  proof (rule stop_returns.inevitable [OF t])
    fix u assume u: "stop_step s u"
    from stop_step_joining [OF u less.prems] show "stop_returns u"
      using less.hyps stop_inv_step [OF u less.prems(1)] by (auto intro: stop_returns.returned)
  qed
qed

text \<open>
  Property C30. With no stop event in the queue, a call of \<open>stop\<close> that has taken the lock returns, however the
  two threads are scheduled.
\<close>

theorem engine_stop_returns:
  assumes "\<forall>ev \<in> set evs. e_type ev \<noteq> ET_event_engine_stop"
    and "stop_reach evs s" and "ss_stop s = S_joining"
  shows "stop_returns s"
  using stop_inv_reach [OF assms(2,1)] assms(3) by (rule stop_returns_joining)

theorem engine_stop_returns_witness:
  "stop_returns ((stop_init [mk_event ET_timer (P_timer \<lparr>tm_sec = 0, tm_timestamp = 0\<rparr>)])
     \<lparr>ss_holder := Some Stopper, ss_running := False, ss_stop := S_joining\<rparr>)"
proof (rule engine_stop_returns)
  show "stop_reach [mk_event ET_timer (P_timer \<lparr>tm_sec = 0, tm_timestamp = 0\<rparr>)]
      ((stop_init [mk_event ET_timer (P_timer \<lparr>tm_sec = 0, tm_timestamp = 0\<rparr>)])
         \<lparr>ss_holder := Some Stopper, ss_running := False, ss_stop := S_joining\<rparr>)"
    by (rule reach_step [OF reach_init], rule stop_step.stop_lock) (simp_all add: stop_init_def)
qed simp_all

section \<open>Shutdown that meets a stop event\<close>

text \<open>
  Property C31. With a stop event at the head of the queue there is a schedule after which neither thread can
  move: the stopper holds the mutex and joins, the runner waits for the mutex.
\<close>

theorem engine_stop_can_deadlock:
  assumes "e_type ev = ET_event_engine_stop"
  shows "\<exists>s. stop_reach (ev # evs) s \<and> stop_deadlock s"
proof -
  let ?s1 = "(stop_init (ev # evs))\<lparr>ss_run := R_pop\<rparr>"
  let ?s2 = "?s1\<lparr>ss_items := evs, ss_run := R_lock\<rparr>"
  let ?s3 = "?s2\<lparr>ss_holder := Some Stopper, ss_running := False, ss_stop := S_joining\<rparr>"
  have "stop_reach (ev # evs) ?s1"
    by (rule reach_step [OF reach_init], rule stop_step.run_go) (simp_all add: stop_init_def)
  then have "stop_reach (ev # evs) ?s2"
    by (rule reach_step, intro stop_step.run_stop_event [where ev = ev])
      (simp_all add: stop_init_def assms)
  then have "stop_reach (ev # evs) ?s3"
    by (rule reach_step, intro stop_step.stop_lock) (simp_all add: stop_init_def)
  moreover have "stop_deadlock ?s3"
    by (auto simp: stop_deadlock_def stop_init_def elim: stop_step.cases)
  ultimately show ?thesis by blast
qed

theorem engine_stop_can_deadlock_witness:
  "\<exists>s. stop_reach [mk_event ET_event_engine_stop No_data] s \<and> stop_deadlock s"
  by (rule engine_stop_can_deadlock) simp

end
