(* ===== verification/DateFormat.thy ===== *)
theory DateFormat
  imports Calendar
begin

text \<open>
  Times of the date library (\<open>external/date/include/date/date.h\<close>) as the historical data uses
  them: the time of day, the output of the formats \<open>%F %T\<close>, \<open>%Y%m%d-%T\<close> and
  \<open>%Y%m%d %T\<close>, and the input of \<open>%F %T\<close> from a stream, with the end-of-file and failure bits
  that decide whether a time was read. Only these conversions of the two big format interpreters
  are here. Times are in seconds, so that a time of day has no fractional digits.
\<close>

section \<open>Time of day\<close>

record hh_mm_ss =
  h_hours :: int
  h_minutes :: int
  h_seconds :: int
  h_neg :: bool

definition hms :: "int \<Rightarrow> hh_mm_ss" where
  "hms d = (let h = \<bar>d\<bar> div 3600; m = (\<bar>d\<bar> div 60) - h * 60 in
     \<lparr>h_hours = h, h_minutes = m, h_seconds = \<bar>d\<bar> - h * 3600 - m * 60, h_neg = d < 0\<rparr>)"

definition hms_seconds :: "hh_mm_ss \<Rightarrow> int" where
  "hms_seconds tod = (h_seconds tod + h_minutes tod * 60 + h_hours tod * 3600) * (1 - 2 * of_bool (h_neg tod))"

definition in_conventional_range :: "hh_mm_ss \<Rightarrow> bool" where
  "in_conventional_range tod \<longleftrightarrow> \<not> h_neg tod \<and> h_hours tod < 24 \<and> h_minutes tod < 60 \<and> h_seconds tod < 60"

section \<open>Output\<close>

definition digit :: "nat \<Rightarrow> char" where
  "digit n = char_of (48 + n)"

fun dec :: "nat \<Rightarrow> string" where
  "dec n = (if n < 10 then [digit n] else dec (n div 10) @ [digit (n mod 10)])"

declare dec.simps [simp del]

text \<open>An integer as \<open>os << n\<close> writes it.\<close>

definition int_str :: "int \<Rightarrow> string" where
  "int_str n = (if n < 0 then CHR ''-'' # dec (nat (- n)) else dec (nat n))"

text \<open>\<open>os << n\<close> with fill \<open>0\<close> and a width.\<close>

definition dec_width :: "nat \<Rightarrow> int \<Rightarrow> string" where
  "dec_width w n = (let s = (if n < 0 then ''-'' @ dec (nat (- n)) else dec (nat n))
     in replicate (w - length s) CHR ''0'' @ s)"

definition out_year :: "int \<Rightarrow> string" where
  "out_year y = (if y < 0 then CHR ''-'' # dec_width 4 (- y) else dec_width 4 y)"

definition out_month :: "int \<Rightarrow> string" where
  "out_month m = (if m < 10 then ''0'' else []) @ dec (nat m)"

definition out_day :: "int \<Rightarrow> string" where
  "out_day d = dec_width 2 d"

definition out_F :: "ymd \<Rightarrow> string" where
  "out_F t = dec_width 4 (y_year t) @ ''-'' @ dec_width 2 (y_month t) @ ''-'' @ dec_width 2 (y_day t)"

definition out_T :: "hh_mm_ss \<Rightarrow> string" where
  "out_T tod =
     (if h_neg tod then ''-'' else []) @ (if h_hours tod < 10 then ''0'' else []) @ dec (nat (h_hours tod)) @ '':''
     @ (if h_minutes tod < 10 then ''0'' else []) @ dec (nat (h_minutes tod)) @ '':'' @ dec_width 2 (h_seconds tod)"

text \<open>The date and the time of day of a local time; the cast to days truncates, and their number is an \<open>int\<close>.\<close>

definition time_fields :: "int \<Rightarrow> ymd \<times> hh_mm_ss" where
  "time_fields tp = (let ld = as_int (cdiv tp 86400) in
     if ld * 86400 \<le> tp then (from_days ld, hms (tp - ld * 86400))
     else (from_days (ld - 1), hms (86400 - (ld * 86400 - tp))))"

text \<open>\<open>format\<close> throws when the date is not valid.\<close>

definition format_with :: "(ymd \<Rightarrow> hh_mm_ss \<Rightarrow> string) \<Rightarrow> int \<Rightarrow> string option" where
  "format_with out tp = (case time_fields tp of (d, tod) \<Rightarrow> if ymd_ok d then Some (out d tod) else None)"

definition format_F_T :: "int \<Rightarrow> string option" where
  "format_F_T = format_with (\<lambda>d tod. out_F d @ '' '' @ out_T tod)"

definition format_Ymd_T :: "string \<Rightarrow> int \<Rightarrow> string option" where
  "format_Ymd_T sep = format_with (\<lambda>d tod. out_year (y_year d) @ out_month (y_month d) @ out_day (y_day d) @ sep @ out_T tod)"

section \<open>Input\<close>

record istream =
  is_rest :: string
  is_eof :: bool
  is_fail :: bool

definition istream_of :: "string \<Rightarrow> istream" where
  "istream_of s = \<lparr>is_rest = s, is_eof = False, is_fail = False\<rparr>"

text \<open>
  \<open>peek\<close>: the sentry of a stream that is not good sets the failure bit; at the end the end-of-file
  bit is set.
\<close>

definition peek :: "istream \<Rightarrow> char option \<times> istream" where
  "peek st = (if is_eof st \<or> is_fail st then (None, st\<lparr>is_fail := True\<rparr>)
     else case is_rest st of [] \<Rightarrow> (None, st\<lparr>is_eof := True\<rparr>) | c # _ \<Rightarrow> (Some c, st))"

definition is_get :: "istream \<Rightarrow> istream" where
  "is_get st = st\<lparr>is_rest := tl (is_rest st)\<rparr>"

definition is_dig :: "char \<Rightarrow> bool" where
  "is_dig c \<longleftrightarrow> 48 \<le> (of_char c :: nat) \<and> (of_char c :: nat) \<le> 57"

definition dig_val :: "char \<Rightarrow> nat" where
  "dig_val c = of_char c - 48"

text \<open>The loop of \<open>read_unsigned\<close>: at most \<open>M\<close> digits; the value is a 32-bit unsigned.\<close>

function read_digits :: "nat \<Rightarrow> nat \<Rightarrow> nat \<Rightarrow> istream \<Rightarrow> nat \<times> nat \<times> istream" where
  "read_digits M x count st =
     (case peek st of
        (None, st1) \<Rightarrow> (x, count, st1)
      | (Some c, st1) \<Rightarrow>
          if \<not> is_dig c then (x, count, st1)
          else let st2 = is_get st1; count1 = count + 1; x1 = (10 * x + dig_val c) mod 2 ^ 32
               in if count1 = M then (x1, count1, st2) else read_digits M x1 count1 st2)"
  by auto
termination
  by (relation "measure (\<lambda>(_, _, _, st). length (is_rest st))")
    (auto simp: peek_def is_get_def split: if_splits list.splits)

declare read_digits.simps [simp del]

definition read_unsigned :: "nat \<Rightarrow> nat \<Rightarrow> istream \<Rightarrow> nat \<times> istream" where
  "read_unsigned m M st = (case read_digits M 0 0 st of (x, count, st1) \<Rightarrow>
     (x, if count < m then st1\<lparr>is_fail := True\<rparr> else st1))"

definition read_signed :: "nat \<Rightarrow> nat \<Rightarrow> istream \<Rightarrow> int \<times> istream" where
  "read_signed m M st =
     (let none = (\<lambda>st. (0, if m > 0 then st\<lparr>is_fail := True\<rparr> else st)) in
      case peek st of
        (None, st1) \<Rightarrow> none st1
      | (Some c, st1) \<Rightarrow>
          if is_dig c \<or> c = CHR ''-'' \<or> c = CHR ''+'' then
            (let (st2, M1) = (if c = CHR ''-'' \<or> c = CHR ''+'' then (is_get st1, M - 1) else (st1, M))
             in case read_unsigned (max m 1) M1 st2 of (x, st3) \<Rightarrow>
                  if \<not> is_fail st3 then (if c = CHR ''-'' then - int x else int x, st3) else none st3)
          else none st1)"

text \<open>
  The loop of \<open>read_long_double\<close>: the whole part, the fraction, the number of its digits, and
  whether the decimal point was seen; the point is accepted once.
\<close>

function read_ld :: "nat \<Rightarrow> nat \<Rightarrow> nat \<Rightarrow> nat \<Rightarrow> bool \<Rightarrow> nat \<Rightarrow> istream \<Rightarrow> (nat \<times> nat \<times> nat) \<times> nat \<times> istream" where
  "read_ld M i f fcount fraction count st =
     (case peek st of
        (None, st1) \<Rightarrow> ((i, f, fcount), count, st1)
      | (Some c, st1) \<Rightarrow>
          (let continue = (\<lambda>i f fcount fraction.
                 let st2 = is_get st1; count1 = count + 1
                 in if count1 = M then ((i, f, fcount), count1, st2) else read_ld M i f fcount fraction count1 st2)
           in if c = CHR ''.'' \<and> \<not> fraction then continue i f fcount True
              else if \<not> is_dig c then ((i, f, fcount), count, st1)
              else if \<not> fraction then continue ((10 * i + dig_val c) mod 2 ^ 64) f fcount fraction
              else continue i ((10 * f + dig_val c) mod 2 ^ 64) (fcount + 1) fraction))"
  by auto
termination
  by (relation "measure (\<lambda>(_, _, _, _, _, _, st). length (is_rest st))")
    (auto simp: peek_def is_get_def split: if_splits list.splits)

declare read_ld.simps [simp del]

definition read_long_double :: "nat \<Rightarrow> nat \<Rightarrow> istream \<Rightarrow> rat \<times> istream" where
  "read_long_double m M st = (case read_ld M 0 0 0 False 0 st of ((i, f, fcount), count, st1) \<Rightarrow>
     if count < m then (0, st1\<lparr>is_fail := True\<rparr>) else (of_nat i + of_nat f / 10 ^ fcount, st1))"

text \<open>Rounding to the nearest second, to even on a tie.\<close>

definition round_i :: "rat \<Rightarrow> int" where
  "round_i d = (let t0 = \<lfloor>d\<rfloor>; t1 = t0 + 1; diff0 = d - of_int t0; diff1 = of_int t1 - d
     in if diff0 = diff1 then (if t0 mod 2 = 0 then t0 else t1) else if diff0 < diff1 then t0 else t1)"

text \<open>\<open>read(is, c)\<close> of a character.\<close>

definition read_char :: "char \<Rightarrow> istream \<Rightarrow> istream" where
  "read_char a0 st = (case peek st of
       (None, st1) \<Rightarrow> st1\<lparr>is_fail := True, is_eof := True\<rparr>
     | (Some c, st1) \<Rightarrow> if c \<noteq> a0 then st1\<lparr>is_fail := True\<rparr> else is_get st1)"

text \<open>\<open>%F\<close>: year, month and day, when all of them were read.\<close>

definition read_F :: "istream \<Rightarrow> (int \<times> int \<times> int) option \<times> istream" where
  "read_F st =
     (case read_signed 1 4 st of (tY, st1) \<Rightarrow> if is_fail st1 then (None, st1) else
      let st2 = read_char CHR ''-'' st1 in if is_fail st2 then (None, st2) else
      case read_unsigned 1 2 st2 of (tn, st3) \<Rightarrow> if is_fail st3 then (None, st3) else
      let st4 = read_char CHR ''-'' st3 in if is_fail st4 then (None, st4) else
      case read_unsigned 1 2 st4 of (td, st5) \<Rightarrow> if is_fail st5 then (None, st5) else
      (Some (tY, int tn, int td), st5))"

definition read_T :: "istream \<Rightarrow> (int \<times> int \<times> int) option \<times> istream" where
  "read_T st =
     (case read_unsigned 1 2 st of (tH, st1) \<Rightarrow> if is_fail st1 then (None, st1) else
      let st2 = read_char CHR '':'' st1 in if is_fail st2 then (None, st2) else
      case read_unsigned 1 2 st2 of (tM, st3) \<Rightarrow> if is_fail st3 then (None, st3) else
      let st4 = read_char CHR '':'' st3 in if is_fail st4 then (None, st4) else
      case read_long_double 1 2 st4 of (S, st5) \<Rightarrow> if is_fail st5 then (None, st5) else
      (Some (int tH, int tM, round_i S), st5))"

text \<open>A space of the format skips white space, if the stream is good.\<close>

definition is_white :: "char \<Rightarrow> bool" where
  "is_white c \<longleftrightarrow> c = CHR '' '' \<or> (9 \<le> (of_char c :: nat) \<and> (of_char c :: nat) \<le> 13)"

definition skip_ws :: "istream \<Rightarrow> istream" where
  "skip_ws st = (if is_eof st \<or> is_fail st then st
     else let r = dropWhile is_white (is_rest st) in st\<lparr>is_rest := r, is_eof := r = []\<rparr>)"

text \<open>
  \<open>is >> parse("%F %T", tp)\<close>: the time read, or nothing when the stream fails and \<open>tp\<close> keeps its
  value.
\<close>

definition parse_F_T :: "string \<Rightarrow> int option" where
  "parse_F_T s =
     (case read_F (istream_of s) of
        (None, _) \<Rightarrow> None
      | (Some (Y, m, d), st) \<Rightarrow>
         (case read_T (skip_ws st) of
            (None, _) \<Rightarrow> None
          | (Some (H, M, sec), _) \<Rightarrow>
             (let date = make_ymd Y m d;
                  tod = \<lparr>h_hours = H, h_minutes = M, h_seconds = sec, h_neg = False\<rparr>
              in if \<not> ymd_ok date \<or> \<not> in_conventional_range tod then None
                 else Some (to_days date * 86400 + hms_seconds tod))))"

section \<open>Dates of days are valid\<close>

text \<open>The days of the months of a year that begins in March.\<close>

lemma month_days:
  assumes "0 \<le> doy" "doy \<le> (365 :: int)"
  defines "mp \<equiv> (5 * doy + 2) div 153"
  defines "m \<equiv> (if mp < 10 then mp + 3 else mp - 9)"
  shows "m \<noteq> 2 \<Longrightarrow> doy - (153 * mp + 2) div 5 + 1 \<le> last_day y m"
    and "m = 2 \<Longrightarrow> doy - (153 * mp + 2) div 5 + 1 \<le> 29"
    and "m = 2 \<Longrightarrow> doy < 365 \<Longrightarrow> doy - (153 * mp + 2) div 5 + 1 \<le> 28"
proof -
  have b: "153 * mp \<le> 5 * doy + 2" "5 * doy + 2 < 153 * mp + 153" by (simp_all add: mp_def)
  then have "0 \<le> mp" "mp \<le> 11" using assms(1,2) by linarith+
  then have c: "mp \<in> {0, 1, 2, 3, 4, 5, 6, 7, 8, 9, 10, 11}" by simp presburger
  show "m \<noteq> 2 \<Longrightarrow> doy - (153 * mp + 2) div 5 + 1 \<le> last_day y m"
    using c b by (auto simp: m_def last_day_cases)
  show "m = 2 \<Longrightarrow> doy - (153 * mp + 2) div 5 + 1 \<le> 29" "m = 2 \<Longrightarrow> doy < 365 \<Longrightarrow> doy - (153 * mp + 2) div 5 + 1 \<le> 28"
    using c b assms(2) by (auto simp: m_def)
qed

lemma civil_last_day: "y_day (civil_date z) \<le> last_day (y_year (civil_date z)) (y_month (civil_date z))"
proof -
  obtain era c q s r where b: "0 \<le> c" "c \<le> 3" "0 \<le> q" "q \<le> 24" "0 \<le> s" "s \<le> 3" "0 \<le> r" "r \<le> 365"
    "r = 365 \<longrightarrow> s = 3 \<and> (q < 24 \<or> c = 3)"
    and fd: "civil_date z = \<lparr>y_year = 100 * c + 4 * q + s + era * 400 + (if (if (5 * r + 2) div 153 < 10 then (5 * r + 2) div 153 + 3 else (5 * r + 2) div 153 - 9) \<le> 2 then 1 else 0),
      y_month = (if (5 * r + 2) div 153 < 10 then (5 * r + 2) div 153 + 3 else (5 * r + 2) div 153 - 9),
      y_day = r - (153 * ((5 * r + 2) div 153) + 2) div 5 + 1\<rparr>"
    by (rule civil_shape)
  let ?m = "if (5 * r + 2) div 153 < 10 then (5 * r + 2) div 153 + 3 else (5 * r + 2) div 153 - 9"
  note md = month_days [OF b(7,8)]
  show ?thesis
  proof (cases "?m = 2")
    case False
    with md(1) show ?thesis unfolding fd by simp
  next
    case True
    note y = True
    show ?thesis
    proof (cases "r = 365")
      case True
      with b(9) have "is_leap (100 * c + 4 * q + s + era * 400 + 1)" using b by (intro leap_era_year) auto
      then have "last_day (100 * c + 4 * q + s + era * 400 + 1) 2 = 29" by (simp add: last_day_def)
      with md(2) [OF \<open>?m = 2\<close>] \<open>?m = 2\<close> show ?thesis unfolding fd ymd.simps by (simp only: y if_True order_refl)
    next
      case False
      then have "r < 365" using b(8) by simp
      have "28 \<le> last_day (100 * c + 4 * q + s + era * 400 + 1) 2" by (simp add: last_day_def)
      from order_trans [OF md(3) [OF \<open>?m = 2\<close> \<open>r < 365\<close>] this] \<open>?m = 2\<close>
      show ?thesis unfolding fd ymd.simps by (simp only: y if_True order_refl)
    qed
  qed
qed

lemma civil_ok:
  "- 32767 \<le> y_year (civil_date z) \<Longrightarrow> y_year (civil_date z) \<le> 32767 \<Longrightarrow> ymd_ok (civil_date z)"
  using civil_months [of z] civil_last_day [of z] by (simp add: ymd_ok_def)

lemma from_days_ok:
  assumes "first_day \<le> z" and "z \<le> final_day"
  shows "ymd_ok (from_days z)"
  using civil_ok [OF year_fits [OF assms]] from_days_fits [OF assms] by simp

section \<open>What is written is read back\<close>

lemma digit_simps [simp]: "n < 10 \<Longrightarrow> is_dig (digit n)" "n < 10 \<Longrightarrow> dig_val (digit n) = n"
  by (simp_all add: is_dig_def dig_val_def digit_def)

lemma digit_neq [simp]: "n < 10 \<Longrightarrow> digit n \<noteq> CHR ''.''" "n < 10 \<Longrightarrow> digit n \<noteq> CHR ''-''" "n < 10 \<Longrightarrow> digit n \<noteq> CHR ''+''"
  using digit_simps(1) [of n] by (auto simp: is_dig_def)

lemma zero_digit: "CHR ''0'' = digit 0"
  by code_simp

lemma dec_small [simp]: "n < 10 \<Longrightarrow> dec n = [digit n]"
  by (simp add: dec.simps)

lemma dec_step: "10 \<le> n \<Longrightarrow> dec n = dec (n div 10) @ [digit (n mod 10)]"
  by (subst dec.simps) simp

lemma dec_snoc: "0 < x \<Longrightarrow> d < 10 \<Longrightarrow> dec (10 * x + d) = dec x @ [digit d]"
  by (subst dec_step) simp_all

lemma digits_sum: "k = 10 * x + d \<Longrightarrow> x = 10 * y + c \<Longrightarrow> y = 10 * z + b \<Longrightarrow> k = 1000 * z + 100 * b + 10 * c + (d :: nat)"
  by simp

lemma dec_digits:
  assumes "a < 10" "b < 10" "c < 10" "d < 10"
  shows "0 < a \<Longrightarrow> dec (10 * a + b) = [digit a, digit b]"
    and "0 < a \<Longrightarrow> dec (100 * a + 10 * b + c) = [digit a, digit b, digit c]"
    and "0 < a \<Longrightarrow> dec (1000 * a + 100 * b + 10 * c + d) = [digit a, digit b, digit c, digit d]"
  using assms dec_snoc [of "100 * a + 10 * b + c" d] dec_snoc [of "10 * a + b" c] dec_snoc [of a b]
  by (simp_all add: algebra_simps)

lemma out_2:
  assumes "0 \<le> n" "n < 100"
  obtains a b where "a < 10" "b < 10" "dec_width 2 n = [digit a, digit b]" "n = int (10 * a + b)"
    "(if n < 10 then ''0'' else []) @ dec (nat n) = [digit a, digit b]"
proof (rule that)
  let ?a = "nat n div 10" and ?b = "nat n mod 10"
  show a: "?a < 10" using assms by (auto simp: less_mult_imp_div_less)
  show b: "?b < 10" by simp
  have n: "nat n = 10 * ?a + ?b" by simp
  then show "n = int (10 * ?a + ?b)" using assms by simp
  show "(if n < 10 then ''0'' else []) @ dec (nat n) = [digit ?a, digit ?b]"
  proof (cases "n < 10")
    case False
    then have "0 < ?a" using assms by (simp add: div_greater_zero_iff)
    with dec_digits(1) [OF a b a b] n False show ?thesis by simp
  qed (use assms in \<open>simp add: zero_digit\<close>)
  then show "dec_width 2 n = [digit ?a, digit ?b]"
    using assms by (auto simp: dec_width_def Let_def numeral_2_eq_2 split: if_splits)
qed

lemma out_4:
  assumes "0 \<le> n" "n < 10000"
  obtains a b c d where "a < 10" "b < 10" "c < 10" "d < 10" "dec_width 4 n = [digit a, digit b, digit c, digit d]"
    "n = int (1000 * a + 100 * b + 10 * c + d)"
proof (rule that)
  let ?k = "nat n"
  let ?a = "?k div 10 div 10 div 10" and ?b = "?k div 10 div 10 mod 10" and ?c = "?k div 10 mod 10" and ?d = "?k mod 10"
  show a: "?a < 10" using assms by (auto simp: less_mult_imp_div_less)
  show b: "?b < 10" "?c < 10" "?d < 10" by simp_all
  have e: "?k = 1000 * ?a + 100 * ?b + 10 * ?c + ?d"
    by (intro digits_sum [of _ "?k div 10" _ "?k div 10 div 10"]) simp_all
  then show "n = int (1000 * ?a + 100 * ?b + 10 * ?c + ?d)" using assms by simp
  have *: "replicate (4 - length (dec (1000 * a + 100 * b + 10 * c + d))) CHR ''0'' @ dec (1000 * a + 100 * b + 10 * c + d)
      = [digit a, digit b, digit c, digit d]" if l: "a < 10" "b < 10" "c < 10" "d < 10" for a b c d
  proof -
    consider "0 < a" | "a = 0" "0 < b" | "a = 0" "b = 0" "0 < c" | "a = 0" "b = 0" "c = 0" by blast
    then show ?thesis
    proof cases
      case 1 then show ?thesis using dec_digits(3) [OF l] by simp
    next
      case 2 then show ?thesis using dec_digits(2) [OF l(2,3,4,4)] by (simp add: zero_digit)
    next
      case 3 then show ?thesis using dec_digits(1) [OF l(3,4,4,4)] by (simp add: zero_digit eval_nat_numeral)
    next
      case 4 then show ?thesis using l by (simp add: zero_digit eval_nat_numeral)
    qed
  qed
  show "dec_width 4 n = [digit ?a, digit ?b, digit ?c, digit ?d]"
  proof -
    have "dec_width 4 n = replicate (4 - length (dec ?k)) CHR ''0'' @ dec ?k"
      using assms(1) by (simp only: dec_width_def Let_def not_less [symmetric] if_False)
    with * [OF a b] show ?thesis by (simp only: e [symmetric])
  qed
qed

abbreviation good :: "string \<Rightarrow> istream" where
  "good s \<equiv> \<lparr>is_rest = s, is_eof = False, is_fail = False\<rparr>"

lemma peek_good [simp]: "peek (good (c # s)) = (Some c, good (c # s))"
  by (simp add: peek_def)

lemma get_good [simp]: "is_get (good (c # s)) = good s"
  by (simp add: is_get_def)

lemma read_char_good [simp]: "read_char c (good (c # s)) = good s"
  by (simp add: read_char_def)

lemma read_unsigned_2: "a < 10 \<Longrightarrow> b < 10 \<Longrightarrow> read_unsigned (Suc 0) 2 (good (digit a # digit b # s)) = (10 * a + b, good s)"
  by (simp add: read_unsigned_def read_digits.simps Let_def)

lemma read_unsigned_4: "a < 10 \<Longrightarrow> b < 10 \<Longrightarrow> c < 10 \<Longrightarrow> d < 10
    \<Longrightarrow> read_unsigned (Suc 0) 4 (good (digit a # digit b # digit c # digit d # s)) = (1000 * a + 100 * b + 10 * c + d, good s)"
  by (simp add: read_unsigned_def read_digits.simps Let_def)

lemma read_signed_4: "a < 10 \<Longrightarrow> b < 10 \<Longrightarrow> c < 10 \<Longrightarrow> d < 10
    \<Longrightarrow> read_signed (Suc 0) 4 (good (digit a # digit b # digit c # digit d # s)) = (int (1000 * a + 100 * b + 10 * c + d), good s)"
  by (simp add: read_signed_def read_unsigned_4 Let_def)

lemma round_int: "round_i (of_nat n) = int n"
  by (simp add: round_i_def Let_def)

lemma read_long_double_2: "a < 10 \<Longrightarrow> b < 10
    \<Longrightarrow> read_long_double (Suc 0) 2 (good (digit a # digit b # s)) = (of_nat (10 * a + b), good s)"
  by (simp add: read_long_double_def read_ld.simps Let_def)

lemma year_lt: "y \<le> 9999 \<Longrightarrow> y < (10000 :: int)"
  by simp

lemma read_F_out:
  assumes "0 \<le> y_year t" "y_year t \<le> 9999" "0 \<le> y_month t" "y_month t < 100" "0 \<le> y_day t" "y_day t < 100"
  shows "read_F (good (out_F t @ s)) = (Some (y_year t, y_month t, y_day t), good s)"
proof -
  obtain a b c d where y: "a < 10" "b < 10" "c < 10" "d < 10" "dec_width 4 (y_year t) = [digit a, digit b, digit c, digit d]"
    "y_year t = int (1000 * a + 100 * b + 10 * c + d)" using assms(1) assms(2) [THEN year_lt] by (rule out_4)
  obtain e f where m: "e < 10" "f < 10" "dec_width 2 (y_month t) = [digit e, digit f]" "y_month t = int (10 * e + f)"
    using out_2 [of "y_month t"] assms by metis
  obtain g h where d: "g < 10" "h < 10" "dec_width 2 (y_day t) = [digit g, digit h]" "y_day t = int (10 * g + h)"
    using out_2 [of "y_day t"] assms by metis
  show ?thesis
    unfolding read_F_def out_F_def y(5) m(3) d(3) unfolding y(6) m(4) d(4)
    using y(1-4) m(1,2) d(1,2) by (simp add: read_signed_4 read_unsigned_2)
qed

lemma read_T_out:
  assumes "\<not> h_neg tod" "0 \<le> h_hours tod" "h_hours tod < 100" "0 \<le> h_minutes tod" "h_minutes tod < 100"
    "0 \<le> h_seconds tod" "h_seconds tod < 100"
  shows "read_T (good (out_T tod @ s)) = (Some (h_hours tod, h_minutes tod, h_seconds tod), good s)"
proof -
  obtain a b where y: "a < 10" "b < 10" "(if h_hours tod < 10 then ''0'' else []) @ dec (nat (h_hours tod)) = [digit a, digit b]"
    "h_hours tod = int (10 * a + b)" using out_2 [of "h_hours tod"] assms by metis
  obtain e f where m: "e < 10" "f < 10" "(if h_minutes tod < 10 then ''0'' else []) @ dec (nat (h_minutes tod)) = [digit e, digit f]"
    "h_minutes tod = int (10 * e + f)"
    using out_2 [of "h_minutes tod"] assms by metis
  obtain g h where d: "g < 10" "h < 10" "dec_width 2 (h_seconds tod) = [digit g, digit h]" "h_seconds tod = int (10 * g + h)"
    using out_2 [of "h_seconds tod"] assms by metis
  have "out_T tod = [digit a, digit b] @ '':'' @ [digit e, digit f] @ '':'' @ [digit g, digit h]"
    unfolding y(3) [symmetric] m(3) [symmetric] d(3) [symmetric] using assms(1) by (simp add: out_T_def)
  then show ?thesis
    unfolding read_T_def y(4) m(4) d(4)
    using y(1,2) m(1,2) d(1,2) by (simp add: read_long_double_2 read_unsigned_2 round_int del: of_nat_add of_nat_mult)
qed

lemma hms_sum: "d = 60 * x + s \<Longrightarrow> x = 60 * h + m \<Longrightarrow> d - h * 3600 - m * 60 = (s :: int)"
  by simp

lemma hms_bounds:
  assumes "0 \<le> d" "d < 86400"
  shows "\<not> h_neg (hms d)" "0 \<le> h_hours (hms d)" "h_hours (hms d) < 24" "0 \<le> h_minutes (hms d)" "h_minutes (hms d) < 60"
    "0 \<le> h_seconds (hms d)" "h_seconds (hms d) < 60" "hms_seconds (hms d) = d"
proof -
  have e: "d div 60 - d div 3600 * 60 = d div 60 mod 60" "d - d div 3600 * 3600 - d div 60 mod 60 * 60 = d mod 60"
    using hms_sum [of d "d div 60" "d mod 60" "d div 3600" "d div 60 mod 60"] div_mult_mod_eq [of "d div 60" 60]
    by (simp_all add: zdiv_zmult2_eq [symmetric])
  show "\<not> h_neg (hms d)" "0 \<le> h_hours (hms d)" "h_hours (hms d) < 24" "0 \<le> h_minutes (hms d)" "h_minutes (hms d) < 60"
    "0 \<le> h_seconds (hms d)" "h_seconds (hms d) < 60"
    using assms by (simp_all add: hms_def Let_def e)
  show "hms_seconds (hms d) = d" using assms by (simp add: hms_def hms_seconds_def Let_def)
qed

lemma out_T_head:
  assumes "\<not> h_neg tod" "0 \<le> h_hours tod" "h_hours tod < 100"
  obtains a r where "a < 10" "out_T tod = digit a # r"
proof -
  obtain a b where "a < 10" "(if h_hours tod < 10 then ''0'' else []) @ dec (nat (h_hours tod)) = [digit a, digit b]"
    using out_2 [of "h_hours tod"] assms by metis
  then have "a < 10" "out_T tod = digit a # digit b # drop 2 (out_T tod)"
    using assms(1) by (auto simp: out_T_def append_eq_Cons_conv split: if_splits)
  then show ?thesis by (rule that)
qed

lemma ceil_bounds: "- tp = 86400 * k + r \<Longrightarrow> r < 86400 \<Longrightarrow> \<not> - k * 86400 \<le> tp
    \<Longrightarrow> 86400 * (- k - 1) \<le> tp \<and> tp < 86400 * (- k - 1) + (86400 :: int)"
  by simp

lemma digit_not_white [simp]: "n < 10 \<Longrightarrow> \<not> is_white (digit n)"
  using digit_simps(1) [of n] by (auto simp: is_white_def is_dig_def)

lemma days_fit: "- 10000000000000 \<le> tp \<Longrightarrow> tp \<le> 10000000000000 \<Longrightarrow> as_int (cdiv tp 86400) = cdiv tp 86400"
  by (rule as_int_id; simp add: cdiv_def; linarith)

lemma time_fields_floor:
  assumes "- 10000000000000 \<le> tp" and "tp \<le> 10000000000000"
  shows "time_fields tp = (from_days (tp div 86400), hms (tp mod 86400))"
proof (cases "0 \<le> tp")
  case True
  have "tp div 86400 * 86400 \<le> tp" "tp - tp div 86400 * 86400 = tp mod 86400" by (simp_all add: minus_div_mult_eq_mod)
  then show ?thesis using True days_fit [OF assms] by (simp add: time_fields_def Let_def)
next
  case False
  let ?c = "- ((- tp) div 86400)"
  have c: "as_int (cdiv tp 86400) = ?c" using False days_fit [OF assms] by (simp add: cdiv_def)
  have n: "- tp = 86400 * ((- tp) div 86400) + (- tp) mod 86400" by simp
  show ?thesis
  proof (cases "?c * 86400 \<le> tp")
    case True
    then have "(- tp) mod 86400 = 0" using n pos_mod_sign [of 86400 "- tp"] by linarith
    then have "tp = 86400 * ?c" using n by linarith
    then have "tp div 86400 = ?c" "tp mod 86400 = 0" by (metis nonzero_mult_div_cancel_left zero_neq_numeral) (simp add: \<open>(- tp) mod 86400 = 0\<close> zmod_zminus1_eq_if [of "- tp" 86400, simplified])
    moreover have "tp + (- tp) div 86400 * 86400 = 0" using \<open>tp = 86400 * ?c\<close> by linarith
    ultimately show ?thesis using True by (simp add: time_fields_def Let_def c)
  next
    case False
    have "tp div 86400 = ?c - 1"
      using ceil_bounds [OF n _ False] by (intro div_eqI) simp_all
    moreover then have "86400 - (?c * 86400 - tp) = tp mod 86400"
      using minus_div_mult_eq_mod [of tp 86400] by simp
    ultimately show ?thesis using False by (simp add: time_fields_def Let_def c)
  qed
qed

text \<open>The times of the years 0 to 9999.\<close>

lemma parse_format:
  assumes "- 62167219200 \<le> tp" and "tp < 253402300800"
  shows "\<exists>s. format_F_T tp = Some s \<and> parse_F_T s = Some tp"
proof -
  let ?d = "from_days (tp div 86400)" and ?tod = "hms (tp mod 86400)"
  have z: "- 719528 \<le> tp div 86400" "tp div 86400 \<le> 2932896" using assms by linarith+
  have fit: "first_day \<le> tp div 86400" "tp div 86400 \<le> final_day" using z by (simp_all add: first_day_def final_day_def)
  have d: "?d = civil_date (tp div 86400)" by (rule from_days_fits [OF fit])
  have y: "0 \<le> y_year ?d" "y_year ?d \<le> 9999"
    using year_mono [OF z(1)] year_mono [OF z(2)] by (simp_all add: d days_of_years)
  have ok: "ymd_ok ?d" by (rule from_days_ok [OF fit])
  have md: "0 \<le> y_month ?d" "y_month ?d < 100" "0 \<le> y_day ?d" "y_day ?d < 100"
    using civil_months [of "tp div 86400"] by (simp_all add: d)
  have tf: "time_fields tp = (?d, ?tod)" using assms by (intro time_fields_floor) simp_all
  have h: "0 \<le> tp mod 86400" "tp mod 86400 < 86400" by simp_all
  note hb = hms_bounds [OF h]
  have F: "read_F (good (out_F ?d @ '' '' @ out_T ?tod)) = (Some (y_year ?d, y_month ?d, y_day ?d), good ('' '' @ out_T ?tod))"
    by (rule read_F_out [OF y md])
  obtain a r where a: "a < 10" "out_T ?tod = digit a # r"
    by (rule out_T_head [OF hb(1,2)]) (use hb in simp)
  then have ws: "skip_ws (good ('' '' @ out_T ?tod)) = good (out_T ?tod)"
    by (simp add: skip_ws_def) (simp add: is_white_def)
  have T: "read_T (good (out_T ?tod)) = (Some (h_hours ?tod, h_minutes ?tod, h_seconds ?tod), good [])"
    using read_T_out [of ?tod "[]"] hb by simp
  have "make_ymd (y_year ?d) (y_month ?d) (y_day ?d) = ?d"
    using y md by (simp add: make_ymd_def as_short_id as_uchar_id)
  moreover have "\<lparr>h_hours = h_hours ?tod, h_minutes = h_minutes ?tod, h_seconds = h_seconds ?tod, h_neg = False\<rparr> = ?tod"
    using hb(1) by simp
  moreover have "in_conventional_range ?tod" using hb by (simp add: in_conventional_range_def)
  moreover have "to_days ?d * 86400 + hms_seconds ?tod = tp"
    using civil_months [of "tp div 86400"] hb(8) by (simp add: d)
  ultimately have "parse_F_T (out_F ?d @ '' '' @ out_T ?tod) = Some tp"
    unfolding parse_F_T_def istream_of_def F by (simp only: prod.case option.case ws T Let_def ok simp_thms if_False)
  with ok show ?thesis by (simp add: format_F_T_def format_with_def tf)
qed

text \<open>
  Property C36. A time of the years 0 to 9999, from 0000-01-01 00:00:00 to 9999-12-31 23:59:59, is written by the format
  \<open>%F %T\<close>, and reading what was written gives the time back to the second.
\<close>

theorem time_format_roundtrip:
  assumes "- 62167219200 \<le> tp" and "tp < 253402300800"
  shows "\<exists>s. format_F_T tp = Some s \<and> parse_F_T s = Some tp"
  by (rule parse_format [OF assms])

theorem time_format_roundtrip_witness:
  "time_fields 1735862465 = (\<lparr>y_year = 2025, y_month = 1, y_day = 3\<rparr>, \<lparr>h_hours = 0, h_minutes = 1, h_seconds = 5, h_neg = False\<rparr>)
    \<and> (\<exists>s. format_F_T 1735862465 = Some s \<and> parse_F_T s = Some 1735862465)"
proof -
  have "time_fields 1735862465 = (\<lparr>y_year = 2025, y_month = 1, y_day = 3\<rparr>, \<lparr>h_hours = 0, h_minutes = 1, h_seconds = 5, h_neg = False\<rparr>)"
    by code_simp
  then show ?thesis using time_format_roundtrip [of 1735862465] by simp
qed

end
