(* ===== verification/Contracts.thy ===== *)
theory Contracts
  imports EngineStop "HOL-Library.Word"
begin

text \<open>
  What the gateway sends to Interactive Brokers: contracts and orders
  (\<open>external/tws/client/Contract.h\<close>, \<open>Order.h\<close>), how \<open>IBApi::generate_contract\<close> reads a contract
  off a symbol such as \<open>6758-STK-JPY.TSEJ\<close>, and how \<open>IBApi::generate_ib_order\<close> makes an order.
  The order record has the members of the first two groups of \<open>Order.h\<close> up to the time in force;
  the program sets no other member, so the rest keep their initialisers.
\<close>

section \<open>Contracts\<close>

record combo_leg =
  l_conId :: int
  l_ratio :: int
  l_action :: string
  l_exchange :: string
  l_openClose :: int
  l_shortSaleSlot :: int
  l_designatedLocation :: string
  l_exemptCode :: int

record dn_contract =
  n_conId :: int
  n_delta :: double
  n_price :: double

text \<open>
  A contract without combination legs has a null pointer where the code counts none, so the legs are
  a list here; the contract of a delta-neutral order may be missing.
\<close>

record contract =
  c_conId :: int
  c_symbol :: string
  c_secType :: string
  c_lastTradeDateOrContractMonth :: string
  c_strike :: double
  c_right :: string
  c_multiplier :: string
  c_exchange :: string
  c_primaryExchange :: string
  c_currency :: string
  c_localSymbol :: string
  c_tradingClass :: string
  c_includeExpired :: bool
  c_secIdType :: string
  c_secId :: string
  c_description :: string
  c_issuerId :: string
  c_comboLegsDescrip :: string
  c_comboLegs :: "combo_leg list"
  c_deltaNeutralContract :: "dn_contract option"

definition new_contract :: contract where
  "new_contract = \<lparr>c_conId = 0, c_symbol = [], c_secType = [], c_lastTradeDateOrContractMonth = [],
     c_strike = 0, c_right = [], c_multiplier = [], c_exchange = [], c_primaryExchange = [],
     c_currency = [], c_localSymbol = [], c_tradingClass = [], c_includeExpired = False,
     c_secIdType = [], c_secId = [], c_description = [], c_issuerId = [], c_comboLegsDescrip = [],
     c_comboLegs = [], c_deltaNeutralContract = None\<rparr>"

text \<open>\<open>operator[]\<close> of a vector, undefined past the end.\<close>

definition vec_at :: "'a list \<Rightarrow> nat \<Rightarrow> fault + 'a" where
  "vec_at xs i = (if i < length xs then Inr (xs ! i) else Inl Index_out_of_bounds)"

definition generate_contract :: "string \<Rightarrow> 's \<Rightarrow> (contract, 's) outcome" where
  "generate_contract symb s =
     (case split symb ''.'' of
        Inl e \<Rightarrow> Throw e s
      | Inr sym_ex \<Rightarrow>
          with_cast (vec_at sym_ex 0) (\<lambda>fields'.
          with_cast (vec_at sym_ex 1) (\<lambda>exchange.
            case split fields' ''-'' of
              Inl e \<Rightarrow> Throw e s
            | Inr flds \<Rightarrow>
                with_cast (vec_at flds 0) (\<lambda>symbol'.
                with_cast (vec_at flds 1) (\<lambda>sec_type.
                with_cast (vec_at flds 2) (\<lambda>ccy.
                  Ret (new_contract\<lparr>c_symbol := symbol', c_secType := sec_type,
                         c_currency := ccy, c_exchange := exchange\<rparr>) s))))))"

text \<open>The symbols a contract can be read off: a dot, and two dashes before the first dot.\<close>

definition symbol_wf :: "string \<Rightarrow> bool" where
  "symbol_wf symb \<longleftrightarrow>
     (let parts = split_char (CHR ''.'') symb in
      2 \<le> length parts \<and> 3 \<le> length (split_char (CHR ''-'') (hd parts)))"

definition contract_of :: "string \<Rightarrow> contract" where
  "contract_of symb =
     (let parts = split_char (CHR ''.'') symb; flds = split_char (CHR ''-'') (hd parts) in
      new_contract\<lparr>c_symbol := flds ! 0, c_secType := flds ! 1, c_currency := flds ! 2,
        c_exchange := parts ! 1\<rparr>)"

lemma generate_contract_eq:
  "generate_contract symb s =
     (if symbol_wf symb then Ret (contract_of symb) s else Crash Index_out_of_bounds)"
proof -
  obtain p ps where parts: "split_char (CHR ''.'') symb = p # ps"
    by (cases "split_char (CHR ''.'') symb") simp_all
  obtain f fs where fields: "split_char (CHR ''-'') p = f # fs"
    by (cases "split_char (CHR ''-'') p") simp_all
  show ?thesis
    by (auto simp: generate_contract_def split_eq_split_char parts fields symbol_wf_def
        contract_of_def vec_at_def Let_def Suc_le_eq)
qed

text \<open>
  A symbol put together from a ticker, a security type, a currency and an exchange is read back
  into exactly these, provided no separator occurs in them.
\<close>

theorem contract_symbol_roundtrip:
  assumes "\<forall>x \<in> {CHR ''.'', CHR ''-''}. x \<notin> set ticker \<and> x \<notin> set sec_type \<and> x \<notin> set ccy"
    and "CHR ''.'' \<notin> set exchange"
  shows "generate_contract
      (join (CHR ''.'') [join (CHR ''-'') [ticker, sec_type, ccy], exchange]) s =
    Ret (new_contract\<lparr>c_symbol := ticker, c_secType := sec_type, c_currency := ccy,
           c_exchange := exchange\<rparr>) s"
proof -
  let ?f = "join (CHR ''-'') [ticker, sec_type, ccy]"
  have "split_char (CHR ''.'') (join (CHR ''.'') [?f, exchange]) = [?f, exchange]"
    using assms by (intro split_char_join) auto
  moreover have "split_char (CHR ''-'') ?f = [ticker, sec_type, ccy]"
    using assms by (intro split_char_join) auto
  ultimately show ?thesis
    by (simp add: generate_contract_eq symbol_wf_def contract_of_def)
qed

theorem contract_symbol_roundtrip_witness:
  "generate_contract ''6758-STK-JPY.TSEJ'' () =
    Ret (new_contract\<lparr>c_symbol := ''6758'', c_secType := ''STK'', c_currency := ''JPY'',
           c_exchange := ''TSEJ''\<rparr>) ()"
  using contract_symbol_roundtrip [of "''6758''" "''STK''" "''JPY''" "''TSEJ''" "()"] by simp

section \<open>Orders\<close>

type_synonym decimal = "64 word"

definition UNSET_DECIMAL :: decimal where
  "UNSET_DECIMAL = - 1"

record ib_order =
  o_orderId :: int
  o_clientId :: int
  o_permId :: int
  o_action :: string
  o_totalQuantity :: decimal
  o_orderType :: string
  o_lmtPrice :: double
  o_auxPrice :: double
  o_tif :: string

definition new_order :: ib_order where
  "new_order = \<lparr>o_orderId = 0, o_clientId = 0, o_permId = 0, o_action = [],
     o_totalQuantity = UNSET_DECIMAL, o_orderType = [], o_lmtPrice = UnsetDouble,
     o_auxPrice = UnsetDouble, o_tif = []\<rparr>"

text \<open>
  The conversion of a double to the decimal format of Intel's library, which is not part of the
  sources, is the argument \<open>to_decimal\<close>.
\<close>

definition generate_ib_order :: "(double \<Rightarrow> decimal) \<Rightarrow> order_req \<Rightarrow> 's \<Rightarrow> (ib_order, 's) outcome" where
  "generate_ib_order to_decimal req s =
     (case um_at action_to_ib (r_action req) of
        Inl e \<Rightarrow> Throw e s
      | Inr act \<Rightarrow>
          (case um_at order_type_to_ib (r_order_type req) of
             Inl e \<Rightarrow> Throw e s
           | Inr typ \<Rightarrow>
               (let ord = new_order\<lparr>o_action := act,
                      o_totalQuantity := to_decimal (r_quantity req), o_orderType := typ\<rparr>;
                    ord = (if r_order_type req = OT_limit then ord\<lparr>o_lmtPrice := r_price req\<rparr> else ord)
                in Ret (ord\<lparr>o_tif := ''DAY''\<rparr>) s)))"

definition ib_order_of :: "(double \<Rightarrow> decimal) \<Rightarrow> order_req \<Rightarrow> ib_order" where
  "ib_order_of to_decimal req = new_order\<lparr>
     o_action := (case r_action req of A_buy \<Rightarrow> ''BUY'' | A_sell \<Rightarrow> ''SELL''),
     o_totalQuantity := to_decimal (r_quantity req),
     o_orderType := (case r_order_type req of OT_limit \<Rightarrow> ''LMT'' | OT_market \<Rightarrow> ''MKT''),
     o_lmtPrice := (case r_order_type req of OT_limit \<Rightarrow> r_price req | OT_market \<Rightarrow> UnsetDouble),
     o_tif := ''DAY''\<rparr>"

lemma generate_ib_order_eq:
  "generate_ib_order to_decimal req s = Ret (ib_order_of to_decimal req) s"
  by (cases "r_action req"; cases "r_order_type req")
    (simp_all add: generate_ib_order_def ib_order_of_def um_at_def action_to_ib_def
      order_type_to_ib_def um_find_def new_order_def)

end
