(* ===== verification/Gateway.thy ===== *)
theory Gateway
  imports Contracts
begin

text \<open>
  \<open>IBApi\<close> and \<open>IBGateway\<close> of \<open>lib/gateway/gateway.h\<close> and \<open>gateway.cpp\<close>: the table of
  subscriptions and their request ids, the ticks and the orders it keeps, and the callbacks the
  TWS client makes into it. The calls to \<open>m_pClient\<close> are the boundary of the model: they are
  recorded in order in \<open>ib_calls\<close>. Every operation also returns the events it hands to
  \<open>gateway.on_tick\<close>, \<open>on_order\<close>, \<open>on_error\<close>, \<open>on_hist_bar\<close> and \<open>on_hist_bar_end\<close>, in order,
  which \<open>IBGateway\<close> sends to the event engine one by one. The conversions between doubles and the
  decimal format of Intel's library are the arguments \<open>to_double\<close> and \<open>to_decimal\<close>.
\<close>

section \<open>State\<close>

datatype client_call =
    C_reqMarketDataType int
  | C_reqTickByTickData int contract string int bool
  | C_placeOrder order_id contract ib_order
  | C_cancelOrder order_id string
  | C_reqGlobalCancel
  | C_reqContractDetails int contract
  | C_reqHistoricalData int contract string string string string int int bool
  | C_eDisconnect

record ib_api =
  ib_running :: bool
  ib_req_id :: int
  ib_ticks :: "string \<rightharpoonup> tick_data"
  ib_sym2req_ids :: "string \<rightharpoonup> int \<times> int"
  ib_req_id2sym :: "int \<rightharpoonup> string"
  ib_order_id :: order_id
  ib_orders :: "order_id \<rightharpoonup> order_data"
  ib_calls :: "client_call list"

definition ib_init :: ib_api where
  "ib_init = \<lparr>ib_running = False, ib_req_id = 10000000, ib_ticks = Map.empty,
     ib_sym2req_ids = Map.empty, ib_req_id2sym = Map.empty, ib_order_id = - 1,
     ib_orders = Map.empty, ib_calls = []\<rparr>"

definition ib_call :: "client_call \<Rightarrow> ib_api \<Rightarrow> ib_api" where
  "ib_call c ib = ib\<lparr>ib_calls := ib_calls ib @ [c]\<rparr>"

section \<open>The events of IBGateway\<close>

definition on_order :: "order_data \<Rightarrow> event" where
  "on_order d = mk_event ET_order_data (P_order d)"

definition on_tick :: "tick_data \<Rightarrow> event" where
  "on_tick t = mk_event ET_tick_data (P_tick t)"

definition on_error :: "err_msg \<Rightarrow> event" where
  "on_error m = mk_event ET_ib_err_msg (P_err m)"

definition on_hist_bar :: "hist_bar \<Rightarrow> event" where
  "on_hist_bar b = mk_event ET_hist_bar (P_bar b)"

definition on_hist_bar_end :: "hist_bar_end \<Rightarrow> event" where
  "on_hist_bar_end b = mk_event ET_hist_bar_end (P_bar_end b)"

text \<open>\<open>IBGateway::on_event\<close> for each of the events of an operation.\<close>

definition gw_post :: "event list \<Rightarrow> 'cb event_engine \<Rightarrow> 'cb event_engine" where
  "gw_post evs ee = fold ee_send evs ee"

section \<open>Connection\<close>

text \<open>
  \<open>start\<close>, given whether the socket connects. It then waits until \<open>nextValidId\<close> has set a
  non-negative order id, which the message thread does.
\<close>

definition ib_start :: "bool \<Rightarrow> ib_api \<Rightarrow> ib_api" where
  "ib_start bRes ib =
     (if ib_running ib then ib else if bRes then ib\<lparr>ib_running := True\<rparr> else ib)"

definition ib_start_returned :: "ib_api \<Rightarrow> bool" where
  "ib_start_returned ib \<longleftrightarrow> \<not> ib_order_id ib < 0"

definition ib_stop :: "ib_api \<Rightarrow> ib_api" where
  "ib_stop ib =
     (if \<not> ib_running ib then ib else ib_call C_eDisconnect (ib\<lparr>ib_running := False\<rparr>))"

definition ib_nextValidId :: "order_id \<Rightarrow> ib_api \<Rightarrow> ib_api" where
  "ib_nextValidId oid ib = ib\<lparr>ib_order_id := oid\<rparr>"

section \<open>Market data\<close>

definition ib_subscribe :: "string \<Rightarrow> bool \<Rightarrow> ib_api \<Rightarrow> (event list, ib_api) outcome" where
  "ib_subscribe symb delayed ib =
     (if \<not> ib_running ib then Ret [] ib
      else if ib_sym2req_ids ib symb \<noteq> None then Ret [] ib
      else bind_o
        (generate_contract symb (ib_call (C_reqMarketDataType (if delayed then 4 else 1)) ib))
        (\<lambda>contr ib1.
          let m_req_id = ib_req_id ib1;
              ib2 = ib1\<lparr>ib_sym2req_ids := (ib_sym2req_ids ib1)(symb \<mapsto> (m_req_id, m_req_id + 1)),
                        ib_req_id2sym := (ib_req_id2sym ib1)(m_req_id \<mapsto> symb, m_req_id + 1 \<mapsto> symb)\<rparr>;
              ib3 = ib2\<lparr>ib_ticks := (ib_ticks ib2)(symb \<mapsto> new_tick symb)\<rparr>;
              ib4 = ib_call (C_reqTickByTickData m_req_id contr ''Last'' 10 False)
                      (ib3\<lparr>ib_req_id := m_req_id + 1\<rparr>);
              ib5 = ib_call (C_reqTickByTickData (m_req_id + 1) contr ''BidAsk'' 10 False)
                      (ib4\<lparr>ib_req_id := m_req_id + 2\<rparr>)
          in Ret [] ib5))"

text \<open>\<open>ticks[symbol]\<close>, made with an empty symbol when it is not there.\<close>

definition tick_ref :: "ib_api \<Rightarrow> string \<Rightarrow> tick_data" where
  "tick_ref ib symb = (case ib_ticks ib symb of None \<Rightarrow> new_tick [] | Some t \<Rightarrow> t)"

definition ib_tickByTickBidAsk :: "(decimal \<Rightarrow> double) \<Rightarrow> int \<Rightarrow> time_t \<Rightarrow> double \<Rightarrow> double \<Rightarrow> decimal
    \<Rightarrow> decimal \<Rightarrow> ib_api \<Rightarrow> event list \<times> ib_api" where
  "ib_tickByTickBidAsk to_double req_id time bid_price ask_price bid_size ask_size ib =
     (case ib_req_id2sym ib req_id of
        None \<Rightarrow> ([], ib)
      | Some symb \<Rightarrow>
          let tick = (tick_ref ib symb)\<lparr>t_ask_price := ask_price,
                t_ask_size := to_double ask_size, t_bid_price := bid_price,
                t_bid_size := to_double bid_size, t_timestamp := time\<rparr>
          in ([on_tick tick], ib\<lparr>ib_ticks := (ib_ticks ib)(symb \<mapsto> tick)\<rparr>))"

definition ib_tickByTickAllLast :: "(decimal \<Rightarrow> double) \<Rightarrow> int \<Rightarrow> int \<Rightarrow> time_t \<Rightarrow> double \<Rightarrow> decimal
    \<Rightarrow> ib_api \<Rightarrow> event list \<times> ib_api" where
  "ib_tickByTickAllLast to_double req_id tick_type time price size' ib =
     (case ib_req_id2sym ib req_id of
        None \<Rightarrow> ([], ib)
      | Some symb \<Rightarrow>
          let tick = (tick_ref ib symb)\<lparr>t_last_price := price, t_last_size := to_double size',
                t_timestamp := time\<rparr>
          in ([on_tick tick], ib\<lparr>ib_ticks := (ib_ticks ib)(symb \<mapsto> tick)\<rparr>))"

section \<open>Errors and orders\<close>

definition ib_error :: "int \<Rightarrow> int \<Rightarrow> string \<Rightarrow> string \<Rightarrow> ib_api \<Rightarrow> event list \<times> ib_api" where
  "ib_error id' errorCode errorString advancedOrderRejectJson ib =
     (let msg = \<lparr>em_id = id', em_error_code = errorCode, em_message = errorString,
                 em_order_rejection_json = advancedOrderRejectJson\<rparr>
      in case ib_orders ib id' of
           None \<Rightarrow> ([on_error msg], ib)
         | Some d \<Rightarrow>
             let d' = d\<lparr>d_error_code := errorCode\<rparr>
             in ([on_error msg, on_order d'], ib\<lparr>ib_orders := (ib_orders ib)(id' \<mapsto> d')\<rparr>))"

text \<open>\<open>OrderData\<close> from its first seven members; the others have their initialisers.\<close>

definition new_order_data :: "order_id \<Rightarrow> order_req \<Rightarrow> order_data" where
  "new_order_data i req = \<lparr>d_order_id = i, d_symbol = r_symbol req, d_exchange = r_exchange req,
     d_source = r_source req, d_order_type = r_order_type req, d_action = r_action req,
     d_total_quantity = r_quantity req, d_traded_quantity = 0, d_avg_trade_price = 0,
     d_commission = 0, d_status = OS_pending_submit, d_error_code = 0\<rparr>"

definition ib_send_order :: "(double \<Rightarrow> decimal) \<Rightarrow> order_req \<Rightarrow> ib_api
    \<Rightarrow> (order_id \<times> event list, ib_api) outcome" where
  "ib_send_order to_decimal req ib =
     bind_o (generate_contract (r_symbol req) ib) (\<lambda>contr0 ib0.
       let contr = (if r_exchange req \<noteq> [] then contr0\<lparr>c_exchange := r_exchange req\<rparr> else contr0);
           oid = (if is_unset_llong (r_order_id req) then ib_order_id ib0 else r_order_id req);
           ib1 = (if is_unset_llong (r_order_id req)
                  then ib0\<lparr>ib_order_id := ib_order_id ib0 + 1\<rparr> else ib0)
       in bind_o (generate_ib_order to_decimal req ib1) (\<lambda>ord ib2.
         let order_data = new_order_data oid req;
             order_flag = (ib_orders ib2 oid = None);
             ib3 = (if order_flag then ib2\<lparr>ib_orders := (ib_orders ib2)(oid \<mapsto> order_data)\<rparr>
                    else ib2);
             evs = (if order_flag then [on_order order_data] else [])
         in Ret (oid, evs) (ib_call (C_placeOrder oid contr ord) ib3)))"

text \<open>Of the arguments of \<open>openOrder\<close> only the id and \<open>order_state.commission\<close> are used, apart from the log.\<close>

definition ib_openOrder :: "order_id \<Rightarrow> double \<Rightarrow> ib_api \<Rightarrow> event list \<times> ib_api" where
  "ib_openOrder oid commission ib =
     (if is_unset_double commission then ([], ib)
      else case ib_orders ib oid of
             None \<Rightarrow> ([], ib)
           | Some d \<Rightarrow>
               let d' = d\<lparr>d_commission := commission\<rparr>
               in ([on_order d'], ib\<lparr>ib_orders := (ib_orders ib)(oid \<mapsto> d')\<rparr>))"

definition ib_orderStatus :: "(decimal \<Rightarrow> double) \<Rightarrow> order_id \<Rightarrow> string \<Rightarrow> decimal \<Rightarrow> double \<Rightarrow> ib_api
    \<Rightarrow> (event list, ib_api) outcome" where
  "ib_orderStatus to_double orderId status filled avgFillPrice ib =
     (case um_at order_status_to_calm status of
        Inl e \<Rightarrow> Throw e ib
      | Inr status' \<Rightarrow>
          (case ib_orders ib orderId of
             None \<Rightarrow> Ret [] ib
           | Some d \<Rightarrow>
               let d' = d\<lparr>d_status := status', d_traded_quantity := to_double filled,
                          d_avg_trade_price := avgFillPrice\<rparr>
               in Ret [on_order d'] (ib\<lparr>ib_orders := (ib_orders ib)(orderId \<mapsto> d')\<rparr>)))"

definition ib_cancel_order :: "order_id \<Rightarrow> ib_api \<Rightarrow> ib_api" where
  "ib_cancel_order oid ib = ib_call (C_cancelOrder oid []) ib"

definition ib_cancel_all_orders :: "ib_api \<Rightarrow> ib_api" where
  "ib_cancel_all_orders ib = ib_call C_reqGlobalCancel ib"

section \<open>Contract details and historical data\<close>

definition ib_req_contract_details :: "string \<Rightarrow> ib_api \<Rightarrow> (unit, ib_api) outcome" where
  "ib_req_contract_details symb ib =
     bind_o (generate_contract symb ib) (\<lambda>contr ib1.
       Ret () (ib_call (C_reqContractDetails (ib_req_id ib1) contr)
                 (ib1\<lparr>ib_req_id := ib_req_id ib1 + 1\<rparr>)))"

definition ib_req_historical_bar :: "string \<Rightarrow> string \<Rightarrow> string \<Rightarrow> string \<Rightarrow> string \<Rightarrow> int \<Rightarrow> int \<Rightarrow> ib_api
    \<Rightarrow> (int, ib_api) outcome" where
  "ib_req_historical_bar symb end_time duration bar_size wts use_rth format ib =
     bind_o (generate_contract symb ib) (\<lambda>contr ib1.
       let ib2 = ib_call (C_reqHistoricalData (ib_req_id ib1) contr end_time duration bar_size wts
                   use_rth format False) (ib1\<lparr>ib_req_id := ib_req_id ib1 + 1\<rparr>)
       in Ret (ib_req_id ib2 - 1) ib2)"

text \<open>The bar of the TWS client (\<open>external/tws/client/bar.h\<close>).\<close>

record bar =
  b_time :: string
  b_high :: double
  b_low :: double
  b_open :: double
  b_close :: double
  b_wap :: decimal
  b_volume :: decimal
  b_count :: int

definition ib_historicalData :: "(decimal \<Rightarrow> double) \<Rightarrow> ticker_id \<Rightarrow> bar \<Rightarrow> event list" where
  "ib_historicalData to_double req_id b =
     [on_hist_bar \<lparr>hb_id = req_id, hb_time = b_time b, hb_high = b_high b, hb_low = b_low b,
        hb_open = b_open b, hb_close = b_close b, hb_wap = to_double (b_wap b),
        hb_volume = to_double (b_volume b), hb_count = b_count b\<rparr>]"

definition ib_historicalDataEnd :: "int \<Rightarrow> string \<Rightarrow> string \<Rightarrow> event list" where
  "ib_historicalDataEnd req_id start_str end_str =
     [on_hist_bar_end \<lparr>he_id = req_id, he_start = start_str, he_end = end_str\<rparr>]"

section \<open>All operations as one step function\<close>

datatype ib_op =
    Op_start bool
  | Op_stop
  | Op_nextValidId order_id
  | Op_subscribe string bool
  | Op_bid_ask int time_t double double decimal decimal
  | Op_all_last int int time_t double decimal
  | Op_error int int string string
  | Op_send_order order_req
  | Op_open_order order_id double
  | Op_order_status order_id string decimal double
  | Op_cancel_order order_id
  | Op_cancel_all
  | Op_contract_details string
  | Op_req_hist string string string string string int int
  | Op_hist_data ticker_id bar
  | Op_hist_data_end int string string

definition lift_o :: "event list \<times> ib_api \<Rightarrow> (event list, ib_api) outcome" where
  "lift_o r = Ret (fst r) (snd r)"

fun ib_exec :: "(decimal \<Rightarrow> double) \<Rightarrow> (double \<Rightarrow> decimal) \<Rightarrow> ib_op \<Rightarrow> ib_api
    \<Rightarrow> (event list, ib_api) outcome" where
  "ib_exec dd td (Op_start c) ib = Ret [] (ib_start c ib)"
| "ib_exec dd td Op_stop ib = Ret [] (ib_stop ib)"
| "ib_exec dd td (Op_nextValidId i) ib = Ret [] (ib_nextValidId i ib)"
| "ib_exec dd td (Op_subscribe s d) ib = ib_subscribe s d ib"
| "ib_exec dd td (Op_bid_ask r t b a bs as) ib = lift_o (ib_tickByTickBidAsk dd r t b a bs as ib)"
| "ib_exec dd td (Op_all_last r k t p s) ib = lift_o (ib_tickByTickAllLast dd r k t p s ib)"
| "ib_exec dd td (Op_error i c m j) ib = lift_o (ib_error i c m j ib)"
| "ib_exec dd td (Op_send_order req) ib =
     bind_o (ib_send_order td req ib) (\<lambda>r ib'. Ret (snd r) ib')"
| "ib_exec dd td (Op_open_order i c) ib = lift_o (ib_openOrder i c ib)"
| "ib_exec dd td (Op_order_status i s f p) ib = ib_orderStatus dd i s f p ib"
| "ib_exec dd td (Op_cancel_order i) ib = Ret [] (ib_cancel_order i ib)"
| "ib_exec dd td Op_cancel_all ib = Ret [] (ib_cancel_all_orders ib)"
| "ib_exec dd td (Op_contract_details s) ib =
     bind_o (ib_req_contract_details s ib) (\<lambda>_ ib'. Ret [] ib')"
| "ib_exec dd td (Op_req_hist s e d b w u f) ib =
     bind_o (ib_req_historical_bar s e d b w u f ib) (\<lambda>_ ib'. Ret [] ib')"
| "ib_exec dd td (Op_hist_data r b) ib = Ret (ib_historicalData dd r b) ib"
| "ib_exec dd td (Op_hist_data_end r s e) ib = Ret (ib_historicalDataEnd r s e) ib"

fun ib_run :: "(decimal \<Rightarrow> double) \<Rightarrow> (double \<Rightarrow> decimal) \<Rightarrow> ib_op list \<Rightarrow> ib_api
    \<Rightarrow> (event list, ib_api) outcome" where
  "ib_run dd td [] ib = Ret [] ib"
| "ib_run dd td (op # ops) ib =
     bind_o (ib_exec dd td op ib)
       (\<lambda>evs ib'. bind_o (ib_run dd td ops ib') (\<lambda>evs' ib''. Ret (evs @ evs') ib''))"

section \<open>The invariant of the subscription and order tables\<close>

text \<open>
  Request ids come in pairs \<open>(a, a + 1)\<close>, one pair per subscribed symbol, and the two maps agree
  on them; every subscribed symbol has a tick under its own name; an order is stored under its id.
\<close>

definition subs_inv :: "ib_api \<Rightarrow> bool" where
  "subs_inv ib \<longleftrightarrow>
     10000000 \<le> ib_req_id ib \<and>
     (\<forall>s a b. ib_sym2req_ids ib s = Some (a, b) \<longrightarrow>
        b = a + 1 \<and> 10000000 \<le> a \<and> b < ib_req_id ib \<and>
        ib_req_id2sym ib a = Some s \<and> ib_req_id2sym ib b = Some s) \<and>
     (\<forall>r s. ib_req_id2sym ib r = Some s \<longrightarrow>
        (\<exists>a. ib_sym2req_ids ib s = Some (a, a + 1) \<and> (r = a \<or> r = a + 1)))"

definition ticks_inv :: "ib_api \<Rightarrow> bool" where
  "ticks_inv ib \<longleftrightarrow>
     (\<forall>s. ib_sym2req_ids ib s \<noteq> None \<longleftrightarrow> ib_ticks ib s \<noteq> None) \<and>
     (\<forall>s t. ib_ticks ib s = Some t \<longrightarrow> t_symbol t = s)"

definition orders_inv :: "ib_api \<Rightarrow> bool" where
  "orders_inv ib \<longleftrightarrow> (\<forall>i d. ib_orders ib i = Some d \<longrightarrow> d_order_id d = i)"

definition ib_inv :: "ib_api \<Rightarrow> bool" where
  "ib_inv ib \<longleftrightarrow> subs_inv ib \<and> ticks_inv ib \<and> orders_inv ib"

lemmas ib_inv_defs = ib_inv_def subs_inv_def ticks_inv_def orders_inv_def

lemma ib_inv_init: "ib_inv ib_init"
  by (simp add: ib_inv_defs ib_init_def)

lemma ib_inv_frame:
  "ib_inv ib \<Longrightarrow> ib_sym2req_ids ib' = ib_sym2req_ids ib \<Longrightarrow> ib_req_id2sym ib' = ib_req_id2sym ib \<Longrightarrow>
   ib_req_id ib \<le> ib_req_id ib' \<Longrightarrow> ib_ticks ib' = ib_ticks ib \<Longrightarrow> ib_orders ib' = ib_orders ib \<Longrightarrow>
   ib_inv ib'"
  unfolding ib_inv_defs by (auto, force+)

lemma subs_invD:
  assumes "subs_inv ib"
  shows "ib_sym2req_ids ib s = Some (a, b) \<Longrightarrow>
      b = a + 1 \<and> 10000000 \<le> a \<and> b < ib_req_id ib \<and>
      ib_req_id2sym ib a = Some s \<and> ib_req_id2sym ib b = Some s"
    and "ib_req_id2sym ib r = Some s \<Longrightarrow>
      \<exists>a. ib_sym2req_ids ib s = Some (a, a + 1) \<and> (r = a \<or> r = a + 1)"
    and "10000000 \<le> ib_req_id ib"
  using assms unfolding subs_inv_def by blast+

lemma subs_inv_req_lt:
  assumes "subs_inv ib" and "ib_req_id2sym ib r = Some s"
  shows "r < ib_req_id ib" and "10000000 \<le> r"
proof -
  obtain a where a: "ib_sym2req_ids ib s = Some (a, a + 1)" "r = a \<or> r = a + 1"
    using subs_invD(2) [OF assms] by blast
  from subs_invD(1) [OF assms(1) a(1)] a(2) show "r < ib_req_id ib" "10000000 \<le> r" by auto
qed

lemma ib_inv_tick_ref:
  assumes "ib_inv ib" and "ib_req_id2sym ib r = Some s"
  shows "ib_ticks ib s = Some (tick_ref ib s)" and "t_symbol (tick_ref ib s) = s"
proof -
  have "ib_sym2req_ids ib s \<noteq> None"
    using assms subs_invD(2) [of ib r s] by (auto simp: ib_inv_def)
  then obtain t where t: "ib_ticks ib s = Some t"
    using assms(1) by (fastforce simp: ib_inv_def ticks_inv_def)
  then show "ib_ticks ib s = Some (tick_ref ib s)" by (simp add: tick_ref_def)
  show "t_symbol (tick_ref ib s) = s"
    using assms(1) t by (simp add: tick_ref_def ib_inv_def ticks_inv_def)
qed

lemma ib_inv_tick:
  assumes "ib_inv ib" and "ib_req_id2sym ib r = Some s" and "t_symbol t = s"
  shows "ib_inv (ib\<lparr>ib_ticks := (ib_ticks ib)(s \<mapsto> t)\<rparr>)"
  using assms ib_inv_tick_ref(1) [OF assms(1,2)]
  by (auto simp: ib_inv_def subs_inv_def ticks_inv_def orders_inv_def)

lemma ib_inv_order:
  "ib_inv ib \<Longrightarrow> d_order_id d = i \<Longrightarrow> ib_inv (ib\<lparr>ib_orders := (ib_orders ib)(i \<mapsto> d)\<rparr>)"
  by (auto simp: ib_inv_defs)

lemma ib_inv_call [simp]: "ib_inv (ib_call c ib) = ib_inv ib"
  by (simp add: ib_inv_defs ib_call_def)

text \<open>A subscription that goes through, as one state.\<close>

definition subscribed :: "string \<Rightarrow> bool \<Rightarrow> ib_api \<Rightarrow> ib_api" where
  "subscribed symb delayed ib = ib\<lparr>
     ib_req_id := ib_req_id ib + 2,
     ib_ticks := (ib_ticks ib)(symb \<mapsto> new_tick symb),
     ib_sym2req_ids := (ib_sym2req_ids ib)(symb \<mapsto> (ib_req_id ib, ib_req_id ib + 1)),
     ib_req_id2sym := (ib_req_id2sym ib)(ib_req_id ib \<mapsto> symb, ib_req_id ib + 1 \<mapsto> symb),
     ib_calls := ib_calls ib @
       [C_reqMarketDataType (if delayed then 4 else 1),
        C_reqTickByTickData (ib_req_id ib) (contract_of symb) ''Last'' 10 False,
        C_reqTickByTickData (ib_req_id ib + 1) (contract_of symb) ''BidAsk'' 10 False]\<rparr>"

lemma ib_subscribe_eq:
  "ib_subscribe symb delayed ib =
     (if ib_running ib \<and> ib_sym2req_ids ib symb = None
      then if symbol_wf symb then Ret [] (subscribed symb delayed ib) else Crash Index_out_of_bounds
      else Ret [] ib)"
  by (auto simp: ib_subscribe_def generate_contract_eq subscribed_def Let_def ib_call_def)

lemma subs_inv_subscribed:
  assumes inv: "subs_inv ib" and new: "ib_sym2req_ids ib symb = None"
  shows "subs_inv (subscribed symb delayed ib)"
proof -
  let ?n = "ib_req_id ib" and ?ib = "subscribed symb delayed ib"
  have fresh: "ib_req_id2sym ib r \<noteq> Some symb" for r
    using subs_invD(2) [OF inv, of r symb] new by auto
  show ?thesis unfolding subs_inv_def
  proof (intro conjI allI impI)
    show "10000000 \<le> ib_req_id ?ib" using subs_invD(3) [OF inv] by (simp add: subscribed_def)
  next
    fix s a b assume s: "ib_sym2req_ids ?ib s = Some (a, b)"
    show "b = a + 1" "10000000 \<le> a" "b < ib_req_id ?ib" "ib_req_id2sym ?ib a = Some s"
      "ib_req_id2sym ?ib b = Some s"
      using s subs_invD(1) [OF inv, of s a b] subs_invD(3) [OF inv]
      by (auto simp: subscribed_def split: if_splits)
  next
    fix r s assume r: "ib_req_id2sym ?ib r = Some s"
    show "\<exists>a. ib_sym2req_ids ?ib s = Some (a, a + 1) \<and> (r = a \<or> r = a + 1)"
      using r subs_invD(2) [OF inv, of r s] fresh [of r]
      by (auto simp: subscribed_def split: if_splits)
  qed
qed

lemma ib_inv_subscribed:
  assumes "ib_inv ib" and "ib_sym2req_ids ib symb = None"
  shows "ib_inv (subscribed symb delayed ib)"
  using assms subs_inv_subscribed [of ib symb delayed]
  by (auto simp: ib_inv_def ticks_inv_def orders_inv_def subscribed_def new_tick_def)

text \<open>Sending an order, as one state.\<close>

definition sent_id :: "order_req \<Rightarrow> ib_api \<Rightarrow> order_id" where
  "sent_id req ib = (if r_order_id req = UnsetLong then ib_order_id ib else r_order_id req)"

definition sent_contract :: "order_req \<Rightarrow> contract" where
  "sent_contract req =
     (if r_exchange req \<noteq> [] then (contract_of (r_symbol req))\<lparr>c_exchange := r_exchange req\<rparr>
      else contract_of (r_symbol req))"

definition order_sent :: "(double \<Rightarrow> decimal) \<Rightarrow> order_req \<Rightarrow> ib_api \<Rightarrow> ib_api" where
  "order_sent td req ib = ib\<lparr>
     ib_order_id := (if r_order_id req = UnsetLong then ib_order_id ib + 1 else ib_order_id ib),
     ib_orders := (if ib_orders ib (sent_id req ib) = None
       then (ib_orders ib)(sent_id req ib \<mapsto> new_order_data (sent_id req ib) req) else ib_orders ib),
     ib_calls := ib_calls ib @ [C_placeOrder (sent_id req ib) (sent_contract req) (ib_order_of td req)]\<rparr>"

lemma ib_send_order_eq:
  "ib_send_order td req ib =
     (if symbol_wf (r_symbol req)
      then Ret (sent_id req ib,
             if ib_orders ib (sent_id req ib) = None
             then [on_order (new_order_data (sent_id req ib) req)] else [])
           (order_sent td req ib)
      else Crash Index_out_of_bounds)"
  by (simp add: ib_send_order_def generate_contract_eq generate_ib_order_eq Let_def sent_id_def
      order_sent_def sent_contract_def ib_call_def)

lemma ib_inv_order_sent: "ib_inv ib \<Longrightarrow> ib_inv (order_sent td req ib)"
  by (auto simp: ib_inv_def subs_inv_def ticks_inv_def orders_inv_def order_sent_def new_order_data_def)

text \<open>Every operation keeps the invariant.\<close>

lemma ib_inv_frames [inv_intros]:
  "ib_inv ib \<Longrightarrow> ib_inv (ib_start c ib)"
  "ib_inv ib \<Longrightarrow> ib_inv (ib_stop ib)"
  "ib_inv ib \<Longrightarrow> ib_inv (ib_nextValidId i ib)"
  "ib_inv ib \<Longrightarrow> ib_inv (ib_cancel_order i ib)"
  "ib_inv ib \<Longrightarrow> ib_inv (ib_cancel_all_orders ib)"
  "ib_inv ib \<Longrightarrow> ib_inv (ib\<lparr>ib_req_id := ib_req_id ib + 1\<rparr>)"
  by (auto simp: ib_start_def ib_stop_def ib_nextValidId_def ib_cancel_order_def
      ib_cancel_all_orders_def elim!: ib_inv_frame)

lemma ib_inv_ticks:
  "ib_inv ib \<Longrightarrow> ib_inv (snd (ib_tickByTickBidAsk dd r t b a bs as ib))"
  "ib_inv ib \<Longrightarrow> ib_inv (snd (ib_tickByTickAllLast dd r k t p sz ib))"
  by (auto simp: ib_tickByTickBidAsk_def ib_tickByTickAllLast_def Let_def ib_inv_tick_ref(2)
      intro!: ib_inv_tick split: option.splits)

lemma ib_inv_orders:
  "ib_inv ib \<Longrightarrow> ib_inv (snd (ib_error i c m j ib))"
  "ib_inv ib \<Longrightarrow> ib_inv (snd (ib_openOrder i x ib))"
  "ib_inv ib \<Longrightarrow> state_of (ib_orderStatus dd i st f p ib) = Some ib' \<Longrightarrow> ib_inv ib'"
  by (auto simp: ib_error_def ib_openOrder_def ib_orderStatus_def Let_def
      intro!: ib_inv_order split: option.splits sum.splits)
     (auto simp: ib_inv_def orders_inv_def)

lemma ib_inv_exec:
  assumes "ib_inv ib" and "state_of (ib_exec dd td op ib) = Some ib'"
  shows "ib_inv ib'"
  using assms
  by (cases op)
    (auto simp: lift_o_def ib_subscribe_eq ib_send_order_eq ib_req_contract_details_def
      ib_req_historical_bar_def generate_contract_eq Let_def ib_inv_order_sent ib_inv_subscribed
      ib_inv_ticks ib_inv_orders inv_intros split: if_splits intro!: ib_inv_frames(6))

lemma ib_inv_run:
  "ib_inv ib \<Longrightarrow> state_of (ib_run dd td ops ib) = Some ib' \<Longrightarrow> ib_inv ib'"
proof (induction ops arbitrary: ib)
  case Nil
  then show ?case by simp
next
  case (Cons op ops)
  show ?case
  proof (cases "ib_exec dd td op ib")
    case (Ret evs ib1)
    with Cons.prems have "ib_inv ib1" by (auto intro: ib_inv_exec [of ib dd td op])
    moreover have "state_of (ib_run dd td ops ib1) = Some ib'"
      using Cons.prems(2) Ret by (cases "ib_run dd td ops ib1") auto
    ultimately show ?thesis by (rule Cons.IH)
  next
    case (Throw e ib1)
    with Cons.prems show ?thesis by (auto intro: ib_inv_exec [of ib dd td op])
  next
    case (Crash c)
    with Cons.prems show ?thesis by simp
  qed
qed

text \<open>
  Property C6. From the initial state, whatever the program requests and whatever the TWS client calls back, in
  any order: request ids stay paired and unambiguous, every subscribed symbol keeps a tick of its
  own name, and every order is stored under its own id.
\<close>

theorem gateway_invariant:
  assumes "state_of (ib_run dd td ops ib_init) = Some ib"
  shows "ib_inv ib"
  using ib_inv_init assms by (rule ib_inv_run)

theorem gateway_invariant_witness:
  "ib_inv (subscribed ''6758-STK-JPY.TSEJ'' False (ib_nextValidId 1 (ib_start True ib_init)))"
  by (rule gateway_invariant [where dd = "\<lambda>_. 0" and td = "\<lambda>_. 0" and
        ops = "[Op_start True, Op_nextValidId 1, Op_subscribe ''6758-STK-JPY.TSEJ'' False]"])
    (simp add: ib_subscribe_eq ib_start_def ib_nextValidId_def ib_init_def symbol_wf_def)

section \<open>Ticks go to the symbol they were requested for\<close>

definition after_trade :: "tick_data \<Rightarrow> time_t \<Rightarrow> double \<Rightarrow> double \<Rightarrow> tick_data" where
  "after_trade t tm px sz = t\<lparr>t_last_price := px, t_last_size := sz, t_timestamp := tm\<rparr>"

text \<open>
  Property C5. In a gateway that keeps its invariant, a trade and then a quote on the two requests of a
  subscribed symbol publish two ticks of that symbol; the second holds both updates and is the only
  change to the stored ticks. A callback on a request id that belongs to no subscription changes and
  publishes nothing.
\<close>

theorem ticks_routed_and_merged:
  assumes "ib_inv ib" and "ib_sym2req_ids ib s = Some (a, b)"
  shows "ib_tickByTickAllLast dd a k tm px sz ib =
      (let t = after_trade (tick_ref ib s) tm px (dd sz)
       in ([on_tick t], ib\<lparr>ib_ticks := (ib_ticks ib)(s \<mapsto> t)\<rparr>))
    \<and> ib_tickByTickBidAsk dd b tm' bp ap bs as (snd (ib_tickByTickAllLast dd a k tm px sz ib)) =
      (let t = \<lparr>t_symbol = s, t_last_price = px, t_last_size = dd sz, t_bid_price = bp,
          t_bid_size = dd bs, t_ask_price = ap, t_ask_size = dd as, t_timestamp = tm'\<rparr>
       in ([on_tick t], ib\<lparr>ib_ticks := (ib_ticks ib)(s \<mapsto> t)\<rparr>))
    \<and> (ib_req_id2sym ib r = None \<longrightarrow>
      ib_tickByTickAllLast dd r k tm px sz ib = ([], ib) \<and>
      ib_tickByTickBidAsk dd r tm' bp ap bs as ib = ([], ib))"
proof -
  have ids: "ib_req_id2sym ib a = Some s" "ib_req_id2sym ib b = Some s"
    using assms subs_invD(1) [of ib s a b] by (auto simp: ib_inv_def)
  have symb: "t_symbol (tick_ref ib s) = s" by (rule ib_inv_tick_ref(2) [OF assms(1) ids(1)])
  have trade: "ib_tickByTickAllLast dd a k tm px sz ib =
      (let t = after_trade (tick_ref ib s) tm px (dd sz)
       in ([on_tick t], ib\<lparr>ib_ticks := (ib_ticks ib)(s \<mapsto> t)\<rparr>))"
    by (simp add: ib_tickByTickAllLast_def ids Let_def after_trade_def)
  have "tick_ref (snd (ib_tickByTickAllLast dd a k tm px sz ib)) s =
      after_trade (tick_ref ib s) tm px (dd sz)"
    unfolding trade by (simp add: Let_def tick_ref_def [of "ib\<lparr>ib_ticks := f\<rparr>" s for f])
  moreover have "(after_trade (tick_ref ib s) tm px (dd sz))\<lparr>t_ask_price := ap, t_ask_size := dd as,
        t_bid_price := bp, t_bid_size := dd bs, t_timestamp := tm'\<rparr> =
      \<lparr>t_symbol = s, t_last_price = px, t_last_size = dd sz, t_bid_price = bp,
        t_bid_size = dd bs, t_ask_price = ap, t_ask_size = dd as, t_timestamp = tm'\<rparr>"
    using symb by (cases "tick_ref ib s") (simp add: after_trade_def)
  ultimately show ?thesis
    by (simp add: trade ib_tickByTickBidAsk_def ids Let_def)
      (simp add: ib_tickByTickAllLast_def ib_tickByTickBidAsk_def)
qed

definition one_subscription :: ib_api where
  "one_subscription = subscribed ''6758-STK-JPY.TSEJ'' False (ib_nextValidId 1 (ib_start True ib_init))"

lemma one_subscription_inv: "ib_inv one_subscription"
  unfolding one_subscription_def
  by (intro ib_inv_subscribed ib_inv_frames ib_inv_init)
    (simp add: ib_nextValidId_def ib_start_def ib_init_def)

theorem ticks_routed_and_merged_witness:
  "ib_inv one_subscription \<and> snd (ib_tickByTickBidAsk (\<lambda>_. 1) 10000001 7 (Fin 8) (Fin 9) 0 0
      (snd (ib_tickByTickAllLast (\<lambda>_. 1) 10000000 1 6 (Fin 5) 0 one_subscription))) =
    one_subscription\<lparr>ib_ticks := (ib_ticks one_subscription)(''6758-STK-JPY.TSEJ'' \<mapsto>
      \<lparr>t_symbol = ''6758-STK-JPY.TSEJ'', t_last_price = Fin 5, t_last_size = 1, t_bid_price = Fin 8,
        t_bid_size = 1, t_ask_price = Fin 9, t_ask_size = 1, t_timestamp = 7\<rparr>)\<rparr>"
proof -
  have ids: "ib_sym2req_ids one_subscription ''6758-STK-JPY.TSEJ'' = Some (10000000, 10000001)"
    by (simp add: one_subscription_def subscribed_def ib_nextValidId_def ib_start_def ib_init_def)
  show ?thesis
    using one_subscription_inv
      ticks_routed_and_merged [OF one_subscription_inv ids, of "\<lambda>_. 1" 1 6 "Fin 5" 0 7 "Fin 8"
        "Fin 9" 0 0, THEN conjunct2, THEN conjunct1]
    by (simp only: Let_def snd_conv simp_thms)
qed

section \<open>Published events\<close>

lemma ib_exec_events_ok:
  "ib_exec dd td op ib = Ret evs ib' \<Longrightarrow> ev \<in> set evs \<Longrightarrow> event_ok ev"
  by (cases op)
    (auto simp: lift_o_def ib_subscribe_eq ib_send_order_eq ib_req_contract_details_def
      ib_req_historical_bar_def generate_contract_eq Let_def ib_tickByTickBidAsk_def
      ib_tickByTickAllLast_def ib_error_def ib_openOrder_def ib_orderStatus_def
      ib_historicalData_def ib_historicalDataEnd_def on_order_def on_tick_def on_error_def
      on_hist_bar_def on_hist_bar_end_def split: if_splits option.splits sum.splits)

text \<open>What an order is, as opposed to how far it has got.\<close>

definition order_key :: "order_data \<Rightarrow> string \<times> string \<times> string \<times> order_type \<times> action \<times> double" where
  "order_key d = (d_symbol d, d_exchange d, d_source d, d_order_type d, d_action d, d_total_quantity d)"

definition published :: "event list \<Rightarrow> order_data set" where
  "published evs = {d. \<exists>ev \<in> set evs. e_data ev = P_order d}"

lemma published_simps [simp]:
  "published [] = {}"
  "published (evs @ evs') = published evs \<union> published evs'"
  "published (on_order d # evs) = insert d (published evs)"
  "published (on_tick t # evs) = published evs"
  "published (on_error m # evs) = published evs"
  "published (on_hist_bar b # evs) = published evs"
  "published (on_hist_bar_end h # evs) = published evs"
  by (auto simp: published_def on_order_def on_tick_def on_error_def on_hist_bar_def on_hist_bar_end_def)

definition orders_extend :: "ib_api \<Rightarrow> ib_api \<Rightarrow> bool" where
  "orders_extend ib ib' \<longleftrightarrow>
     (\<forall>i d. ib_orders ib i = Some d \<longrightarrow> (\<exists>d'. ib_orders ib' i = Some d' \<and> order_key d' = order_key d))"

definition stored :: "order_data set \<Rightarrow> ib_api \<Rightarrow> bool" where
  "stored ds ib \<longleftrightarrow>
     (\<forall>d \<in> ds. \<exists>d'. ib_orders ib (d_order_id d) = Some d' \<and> order_key d' = order_key d)"

lemma ib_exec_orders:
  assumes "ib_exec dd td op ib = Ret evs ib'" and "ib_inv ib"
  shows "orders_extend ib ib' \<and> stored (published evs) ib'"
  using assms
  by (cases op)
    (auto simp: lift_o_def ib_subscribe_eq ib_send_order_eq ib_req_contract_details_def
      ib_req_historical_bar_def generate_contract_eq Let_def ib_tickByTickBidAsk_def
      ib_tickByTickAllLast_def ib_error_def ib_openOrder_def ib_orderStatus_def
      ib_historicalData_def ib_historicalDataEnd_def orders_extend_def stored_def order_key_def
      ib_start_def ib_stop_def ib_nextValidId_def ib_cancel_order_def ib_cancel_all_orders_def
      ib_call_def subscribed_def order_sent_def new_order_data_def ib_inv_def orders_inv_def
      split: if_splits option.splits sum.splits)

lemma stored_extend: "stored ds ib \<Longrightarrow> orders_extend ib ib' \<Longrightarrow> stored ds ib'"
  by (fastforce simp: stored_def orders_extend_def)

lemma orders_extend_trans:
  "orders_extend ib ib1 \<Longrightarrow> orders_extend ib1 ib2 \<Longrightarrow> orders_extend ib ib2"
  by (fastforce simp: orders_extend_def)

lemma ib_run_orders:
  "ib_run dd td ops ib = Ret evs ib' \<Longrightarrow> ib_inv ib \<Longrightarrow>
     orders_extend ib ib' \<and> stored (published evs) ib'"
proof (induction ops arbitrary: ib evs)
  case Nil
  then show ?case by (simp add: orders_extend_def stored_def)
next
  case (Cons op ops)
  then obtain evs1 ib1 evs2 where e: "ib_exec dd td op ib = Ret evs1 ib1"
    "ib_run dd td ops ib1 = Ret evs2 ib'" "evs = evs1 @ evs2"
    by (auto simp: bind_o_eq_Ret)
  have "ib_inv ib1" using ib_inv_exec [OF Cons.prems(2), of dd td op ib1] e(1) by simp
  then have "orders_extend ib1 ib'" "stored (published evs2) ib'"
    using Cons.IH [OF e(2)] by simp_all
  moreover have "orders_extend ib ib1" "stored (published evs1) ib1"
    using ib_exec_orders [OF e(1) Cons.prems(2)] by simp_all
  ultimately show ?case
    using stored_extend [of "published evs1" ib1 ib'] orders_extend_trans [of ib ib1 ib'] e(3)
    by (auto simp: stored_def)
qed

text \<open>
  Property C24. In any run from the initial state that ends without an exception all order events with
  one id describe the same order: symbol, exchange, source, type, side and total quantity never change
  between two events of an order.
\<close>

theorem order_identity_stable:
  assumes "ib_run dd td ops ib_init = Ret evs ib"
    and "d \<in> published evs" and "d' \<in> published evs" and "d_order_id d = d_order_id d'"
  shows "order_key d = order_key d'"
proof -
  have "stored (published evs) ib" using ib_run_orders [OF assms(1) ib_inv_init] by simp
  then obtain x y where "ib_orders ib (d_order_id d) = Some x" "order_key x = order_key d"
      "ib_orders ib (d_order_id d') = Some y" "order_key y = order_key d'"
    using assms(2,3) unfolding stored_def by blast
  then show ?thesis using assms(4) by simp
qed

theorem order_identity_stable_witness:
  "order_key (new_order_data 1 \<lparr>r_symbol = ''6758-STK-JPY.TSEJ'', r_exchange = [], r_source = ''algo'',
      r_action = A_buy, r_order_type = OT_market, r_quantity = 1, r_price = UnsetDouble,
      r_order_id = UnsetLong\<rparr>) =
   order_key ((new_order_data 1 \<lparr>r_symbol = ''6758-STK-JPY.TSEJ'', r_exchange = [], r_source = ''algo'',
      r_action = A_buy, r_order_type = OT_market, r_quantity = 1, r_price = UnsetDouble,
      r_order_id = UnsetLong\<rparr>)\<lparr>d_error_code := 201\<rparr>)"
proof -
  let ?r = "\<lparr>r_symbol = ''6758-STK-JPY.TSEJ'', r_exchange = [], r_source = ''algo'',
      r_action = A_buy, r_order_type = OT_market, r_quantity = 1, r_price = UnsetDouble,
      r_order_id = UnsetLong\<rparr>"
  let ?d = "new_order_data 1 ?r" and ?m = "\<lparr>em_id = 1, em_error_code = 201, em_message = [],
      em_order_rejection_json = []\<rparr>"
  have run: "ib_run (\<lambda>_. 0) (\<lambda>_. 0) [Op_nextValidId 1, Op_send_order ?r, Op_error 1 201 [] []] ib_init =
      Ret [on_order ?d, on_error ?m, on_order (?d\<lparr>d_error_code := 201\<rparr>)]
        ((order_sent (\<lambda>_. 0) ?r (ib_nextValidId 1 ib_init))\<lparr>ib_orders := [1 \<mapsto> ?d\<lparr>d_error_code := 201\<rparr>]\<rparr>)"
    by (simp add: ib_send_order_eq symbol_wf_def ib_nextValidId_def sent_id_def ib_init_def lift_o_def
        ib_error_def order_sent_def Let_def)
  show ?thesis by (rule order_identity_stable [OF run]) simp_all
qed

section \<open>New orders\<close>

definition ids_from :: "order_id \<Rightarrow> nat \<Rightarrow> order_id list" where
  "ids_from k n = map (\<lambda>j. k + int j) [0 ..< n]"

lemma ids_from_Suc: "ids_from k (Suc n) = k # ids_from (k + 1) n"
  by (simp add: ids_from_def upt_conv_Cons map_Suc_upt [symmetric] del: upt_Suc)

lemma ids_from_0 [simp]: "ids_from k 0 = []"
  by (simp add: ids_from_def)

lemma ids_from_distinct: "distinct (ids_from k n)"
  by (simp add: ids_from_def distinct_map inj_on_def)

text \<open>
  Property C23. A sequence of requests for new orders with well-formed symbols gets consecutive, hence
  distinct, order ids from the one the server announced, when no order has one of these ids yet; each is
  announced once as a pending order that carries its id and the data of its request, and each is placed
  with TWS once, in order.
\<close>

theorem new_orders_numbered:
  assumes "\<forall>req \<in> set reqs. r_order_id req = UnsetLong \<and> symbol_wf (r_symbol req)"
    and "\<forall>i \<ge> ib_order_id ib. ib_orders ib i = None"
  shows "\<exists>ib'. ib_run dd td (map Op_send_order reqs) ib =
      Ret (map (\<lambda>(i, req). on_order (new_order_data i req))
             (zip (ids_from (ib_order_id ib) (length reqs)) reqs)) ib'
    \<and> ib_order_id ib' = ib_order_id ib + int (length reqs)
    \<and> ib_calls ib' = ib_calls ib @
        map (\<lambda>(i, req). C_placeOrder i (sent_contract req) (ib_order_of td req))
          (zip (ids_from (ib_order_id ib) (length reqs)) reqs)"
  using assms
proof (induction reqs arbitrary: ib)
  case Nil
  then show ?case by simp
next
  case (Cons req reqs)
  let ?ib = "order_sent td req ib"
  have sid: "sent_id req ib = ib_order_id ib" "ib_order_id ?ib = ib_order_id ib + 1"
    and none: "ib_orders ib (ib_order_id ib) = None"
    using Cons.prems by (simp_all add: sent_id_def order_sent_def)
  have "\<forall>i \<ge> ib_order_id ?ib. ib_orders ?ib i = None"
    using Cons.prems(2) unfolding sid(2) by (simp add: order_sent_def sid(1))
  from Cons.IH [OF _ this] Cons.prems(1) show ?case
    using none Cons.prems(1)
    by (auto simp: ib_send_order_eq sid(1) ids_from_Suc, simp_all add: sid(2))
      (simp_all add: order_sent_def sid(1))
qed

theorem new_orders_numbered_witness:
  "\<exists>ib'. ib_run (\<lambda>_. 0) (\<lambda>_. 0) (map Op_send_order
      (replicate 2 \<lparr>r_symbol = ''6758-STK-JPY.TSEJ'', r_exchange = [], r_source = ''algo'',
        r_action = A_buy, r_order_type = OT_market, r_quantity = 1, r_price = UnsetDouble,
        r_order_id = UnsetLong\<rparr>)) (ib_nextValidId 7 ib_init) =
      Ret (map (\<lambda>i. on_order (new_order_data i
        \<lparr>r_symbol = ''6758-STK-JPY.TSEJ'', r_exchange = [], r_source = ''algo'',
        r_action = A_buy, r_order_type = OT_market, r_quantity = 1, r_price = UnsetDouble,
        r_order_id = UnsetLong\<rparr>)) [7, 8]) ib'"
  using new_orders_numbered [of "replicate 2 \<lparr>r_symbol = ''6758-STK-JPY.TSEJ'', r_exchange = [],
        r_source = ''algo'', r_action = A_buy, r_order_type = OT_market, r_quantity = 1,
        r_price = UnsetDouble, r_order_id = UnsetLong\<rparr>" "ib_nextValidId 7 ib_init" "\<lambda>_. 0" "\<lambda>_. 0"]
  by (auto simp: symbol_wf_def ib_nextValidId_def ib_init_def ids_from_def numeral_2_eq_2)

text \<open>
  A request that names an order already sent (the way to modify an order) is placed with TWS under
  that id, with the new quantity and price, but the stored order keeps the old ones and no event
  is published.
\<close>

theorem modify_order_keeps_record:
  assumes "r_order_id req = i" and "i \<noteq> UnsetLong" and "ib_orders ib i = Some d"
    and "symbol_wf (r_symbol req)"
  shows "ib_send_order td req ib = Ret (i, [])
    (ib_call (C_placeOrder i (sent_contract req) (ib_order_of td req)) ib)"
  using assms by (simp add: ib_send_order_eq sent_id_def order_sent_def ib_call_def)

definition demo_new_req :: "order_id \<Rightarrow> order_req" where
  "demo_new_req oid = \<lparr>r_symbol = ''6758-STK-JPY.TSEJ'', r_exchange = [], r_source = ''algo'',
      r_action = A_buy, r_order_type = OT_market, r_quantity = 1, r_price = UnsetDouble,
      r_order_id = oid\<rparr>"

theorem modify_order_keeps_record_witness:
  "\<exists>ib'. ib_send_order (\<lambda>_. 0) (demo_new_req UnsetLong) (ib_nextValidId 1 ib_init)
        = Ret (1, [on_order (new_order_data 1 (demo_new_req UnsetLong))]) ib'
    \<and> ib_send_order (\<lambda>_. 0) (demo_new_req 1) ib' = Ret (1, [])
        (ib_call (C_placeOrder 1 (sent_contract (demo_new_req 1)) (ib_order_of (\<lambda>_. 0) (demo_new_req 1))) ib')"
proof -
  let ?ib = "order_sent (\<lambda>_. 0) (demo_new_req UnsetLong) (ib_nextValidId 1 ib_init)"
  have wf: "symbol_wf (r_symbol (demo_new_req oid))" for oid
    by (simp add: demo_new_req_def symbol_wf_def)
  have "ib_orders ?ib 1 = Some (new_order_data 1 (demo_new_req UnsetLong))"
    by (simp add: order_sent_def sent_id_def demo_new_req_def ib_nextValidId_def ib_init_def)
  from modify_order_keeps_record [OF _ _ this, of "demo_new_req 1" "\<lambda>_. 0"] wf
  have "ib_send_order (\<lambda>_. 0) (demo_new_req 1) ?ib = Ret (1, [])
      (ib_call (C_placeOrder 1 (sent_contract (demo_new_req 1)) (ib_order_of (\<lambda>_. 0) (demo_new_req 1))) ?ib)"
    by (simp add: demo_new_req_def UnsetLong_def)
  moreover have "ib_send_order (\<lambda>_. 0) (demo_new_req UnsetLong) (ib_nextValidId 1 ib_init)
        = Ret (1, [on_order (new_order_data 1 (demo_new_req UnsetLong))]) ?ib"
    using wf by (simp add: ib_send_order_eq sent_id_def demo_new_req_def ib_nextValidId_def ib_init_def)
  ultimately show ?thesis by blast
qed

end
