(* ===== verification/HistRequests.thy ===== *)
theory HistRequests
  imports DateFormat Gateway
begin

text \<open>
  The requests of the historical data download (\<open>lib/data/historical_data.cpp\<close>): a request for a
  span of time is cut into requests of at most a number of days each, which TWS can answer one at a
  time. A request names its end and its duration.
\<close>

section \<open>Requests\<close>

record hist_bar_req =
  hr_symbol :: string
  hr_start :: string
  hr_end :: string
  hr_tz :: string
  hr_wts :: string
  hr_save_path :: string

record ib_hist_bar_req =
  hq_symbol :: string
  hq_end :: string
  hq_dur :: string
  hq_bar_size :: string
  hq_wts :: string

text \<open>One turn of the loop of \<open>generate_ib_reqs\<close>: the end of the window and its duration.\<close>

definition hist_window :: "int \<Rightarrow> int \<Rightarrow> int \<Rightarrow> int \<times> string" where
  "hist_window days st tp_end =
     (let en = st + days * 86400 in
      if en < tp_end then (en, int_str days @ '' D'')
      else if tp_end - st \<ge> 86400 then
        (let secs = tp_end - st; d = cdiv secs 86400 in (st + d * 86400, int_str d @ '' D''))
      else (tp_end, int_str (tp_end - st) @ '' S''))"

text \<open>The end as TWS reads it; formatting a time without a valid date throws.\<close>

definition hist_end_str :: "hist_bar_req \<Rightarrow> int \<Rightarrow> string option" where
  "hist_end_str bar_req en =
     (if hr_tz bar_req = ''UTC'' \<or> hr_tz bar_req = ''utc'' then format_Ymd_T ''-'' en
      else map_option (\<lambda>s. s @ '' '' @ hr_tz bar_req) (format_Ymd_T '' '' en))"

definition ib_hist_req :: "hist_bar_req \<Rightarrow> string \<Rightarrow> string \<Rightarrow> ib_hist_bar_req" where
  "ib_hist_req bar_req end_str dur =
     \<lparr>hq_symbol = hr_symbol bar_req, hq_end = end_str, hq_dur = dur, hq_bar_size = ''5 secs'', hq_wts = hr_wts bar_req\<rparr>"

text \<open>The loop; not returning is \<open>None\<close>.\<close>

partial_function (option) ib_reqs_from :: "hist_bar_req \<Rightarrow> int \<Rightarrow> int \<Rightarrow> int \<Rightarrow> ib_hist_bar_req list
    \<Rightarrow> (exn + ib_hist_bar_req list) option" where
  "ib_reqs_from bar_req days tp_end st reqs =
     (if st < tp_end then
        (case hist_window days st tp_end of (en, dur) \<Rightarrow>
           case hist_end_str bar_req en of
             None \<Rightarrow> Some (Inl (Library_error ''format''))
           | Some end_str \<Rightarrow> ib_reqs_from bar_req days tp_end en (reqs @ [ib_hist_req bar_req end_str dur]))
      else Some (Inr reqs))"

text \<open>A time that cannot be read leaves the time point at its initial value, the epoch.\<close>

definition time_of :: "string \<Rightarrow> int" where
  "time_of s = (case parse_F_T s of None \<Rightarrow> 0 | Some tp \<Rightarrow> tp)"

definition generate_ib_reqs :: "hist_bar_req \<Rightarrow> int \<Rightarrow> (exn + ib_hist_bar_req list) option" where
  "generate_ib_reqs bar_req days = ib_reqs_from bar_req days (time_of (hr_end bar_req)) (time_of (hr_start bar_req)) []"

section \<open>The requests tile the span\<close>

text \<open>
  Specification: the request for the span from \<open>a\<close> to \<open>b\<close>, in days when it is at least a day and in
  seconds otherwise, and the requests between consecutive cuts.
\<close>

definition span_dur :: "int \<Rightarrow> string" where
  "span_dur n = (if n \<ge> 86400 then int_str (n div 86400) @ '' D'' else int_str n @ '' S'')"

fun span_reqs :: "hist_bar_req \<Rightarrow> int \<Rightarrow> int list \<Rightarrow> ib_hist_bar_req list" where
  "span_reqs r a [] = []"
| "span_reqs r a (b # bs) =
     ib_hist_req r (case hist_end_str r b of Some s \<Rightarrow> s | None \<Rightarrow> []) (span_dur (b - a)) # span_reqs r b bs"

text \<open>The cuts increase up to the end, by whole days or by less than one, and by at most \<open>days\<close> days.\<close>

fun cuts :: "int \<Rightarrow> int \<Rightarrow> int \<Rightarrow> int list \<Rightarrow> bool" where
  "cuts days a tp_end [] \<longleftrightarrow> a = tp_end"
| "cuts days a tp_end (b # bs) \<longleftrightarrow>
     a < b \<and> b - a \<le> days * 86400 \<and> ((b - a) mod 86400 = 0 \<or> b - a < 86400) \<and> cuts days b tp_end bs"

lemma hist_window_spec:
  assumes "1 \<le> days" "st < tp_end" and "hist_window days st tp_end = (en, dur)"
  shows "st < en" "en \<le> tp_end" "en - st \<le> days * 86400" "(en - st) mod 86400 = 0 \<or> en - st < 86400"
    "dur = span_dur (en - st)"
proof -
  consider (whole) "st + days * 86400 < tp_end" "en = st + days * 86400" "dur = int_str days @ '' D''"
    | (most) "tp_end \<le> st + days * 86400" "86400 \<le> tp_end - st" "en = st + (tp_end - st) div 86400 * 86400"
        "dur = int_str ((tp_end - st) div 86400) @ '' D''"
    | (rest) "tp_end \<le> st + days * 86400" "tp_end - st < 86400" "en = tp_end" "dur = int_str (tp_end - st) @ '' S''"
    using assms(3) by (auto simp: hist_window_def Let_def split: if_splits)
  then have "st < en \<and> en \<le> tp_end \<and> en - st \<le> days * 86400 \<and> ((en - st) mod 86400 = 0 \<or> en - st < 86400) \<and> dur = span_dur (en - st)"
  proof cases
    case whole
    with assms show ?thesis by (simp add: span_dur_def)
  next
    case most
    let ?d = "(tp_end - st) div 86400"
    have "1 \<le> ?d" using most(2) by simp
    moreover have "?d * 86400 \<le> tp_end - st" by simp
    ultimately show ?thesis using most by (simp add: span_dur_def)
  next
    case rest
    with assms show ?thesis by (simp add: span_dur_def)
  qed
  then show "st < en" "en \<le> tp_end" "en - st \<le> days * 86400" "(en - st) mod 86400 = 0 \<or> en - st < 86400"
    "dur = span_dur (en - st)" by simp_all
qed

lemma hist_end_str_Some: "format_Ymd_T ''-'' en \<noteq> None \<Longrightarrow> \<exists>s. hist_end_str r en = Some s"
  by (auto simp: hist_end_str_def format_Ymd_T_def format_with_def split: prod.splits if_splits)

lemma ib_reqs_from_tiles:
  assumes "1 \<le> days" and "\<And>t. t \<le> tp_end \<Longrightarrow> lo \<le> t \<Longrightarrow> format_Ymd_T ''-'' t \<noteq> None" and "st \<le> tp_end" "lo \<le> st"
  shows "\<exists>ts. cuts days st tp_end ts \<and> (\<forall>reqs. ib_reqs_from r days tp_end st reqs = Some (Inr (reqs @ span_reqs r st ts)))"
  using assms(3,4)
proof (induction "nat (tp_end - st)" arbitrary: st rule: less_induct)
  case less
  show ?case
  proof (cases "st < tp_end")
    case False
    then have "cuts days st tp_end []" using less.prems by simp
    moreover have "\<forall>reqs. ib_reqs_from r days tp_end st reqs = Some (Inr (reqs @ span_reqs r st []))"
      using False by (subst ib_reqs_from.simps) simp
    ultimately show ?thesis by blast
  next
    case True
    obtain en dur where w: "hist_window days st tp_end = (en, dur)" by (cases "hist_window days st tp_end")
    note s = hist_window_spec [OF assms(1) True w]
    have "format_Ymd_T ''-'' en \<noteq> None" using s less.prems by (intro assms(2)) simp_all
    then obtain es where e: "hist_end_str r en = Some es" using hist_end_str_Some by blast
    have "nat (tp_end - en) < nat (tp_end - st)" using s True by simp
    moreover have "lo \<le> en" using s(1) less.prems(2) by simp
    ultimately obtain ts where ts: "cuts days en tp_end ts"
      "\<forall>reqs. ib_reqs_from r days tp_end en reqs = Some (Inr (reqs @ span_reqs r en ts))"
      using less.hyps [of en] s(2) by blast
    have "ib_reqs_from r days tp_end st reqs = Some (Inr (reqs @ span_reqs r st (en # ts)))" for reqs
      using True w e ts(2) s(5) by (subst ib_reqs_from.simps) simp
    moreover have "cuts days st tp_end (en # ts)" using s ts(1) by simp
    ultimately show ?thesis by blast
  qed
qed

lemma format_range: "- 950400000000 \<le> t \<Longrightarrow> t \<le> 950400000000 \<Longrightarrow> format_Ymd_T sep t \<noteq> None"
  using from_days_ok [of "t div 86400"]
  by (simp add: format_Ymd_T_def format_with_def time_fields_floor first_day_def final_day_def)

text \<open>
  Property C26. A request for a span of the years -28000 to 32000, roughly, whose start is not after its
  end, with a window of at least one day, is cut into requests that tile it: the loop ends, each request
  ends where the next begins, the first begins at the start and the last ends at the end, none is longer
  than the window, and each has a whole number of days or is shorter than one day.
\<close>

theorem requests_tile_span:
  assumes "1 \<le> days" and "- 950400000000 \<le> time_of (hr_start r)" and "time_of (hr_start r) \<le> time_of (hr_end r)"
    and "time_of (hr_end r) \<le> 950400000000"
  shows "\<exists>ts. cuts days (time_of (hr_start r)) (time_of (hr_end r)) ts
    \<and> generate_ib_reqs r days = Some (Inr (span_reqs r (time_of (hr_start r)) ts))"
  using ib_reqs_from_tiles [OF assms(1) format_range assms(3,2), of r] assms(4)
  by (auto simp: generate_ib_reqs_def)

definition demo_hist_req :: hist_bar_req where
  "demo_hist_req = \<lparr>hr_symbol = ''7203-STK-JPY.TSEJ'', hr_start = ''2025-01-03 00:00:00'',
     hr_end = ''2025-01-10 00:01:05'', hr_tz = ''UTC'', hr_wts = ''TRADES'', hr_save_path = ''./toyota.csv''\<rparr>"

lemma demo_hist_times:
  "time_of (hr_start demo_hist_req) = 1735862400" "time_of (hr_end demo_hist_req) = 1736467265"
proof -
  have "format_F_T 1735862400 = Some ''2025-01-03 00:00:00''" "format_F_T 1736467265 = Some ''2025-01-10 00:01:05''"
    by code_simp+
  with parse_format [of 1735862400] parse_format [of 1736467265]
  show "time_of (hr_start demo_hist_req) = 1735862400" "time_of (hr_end demo_hist_req) = 1736467265"
    by (simp_all add: time_of_def demo_hist_req_def)
qed

theorem requests_tile_span_witness:
  "\<exists>ts. cuts 5 1735862400 1736467265 ts
    \<and> generate_ib_reqs demo_hist_req 5 = Some (Inr (span_reqs demo_hist_req 1735862400 ts))"
  by (rule requests_tile_span [of 5 demo_hist_req, unfolded demo_hist_times]) simp_all

lemma short_window_no_result:
  assumes "ib_reqs_from r days tp_end st reqs = Some res" "days \<le> 0" "st < tp_end"
  shows "\<exists>e. res = Inl e \<and> (days = 0 \<longrightarrow> hist_end_str r st = None)"
  using assms
proof (induction rule: ib_reqs_from.raw_induct [rotated 1, consumes 1])
  case (1 f bar_req days tp_end st reqs y)
  then have w: "hist_window days st tp_end = (st + days * 86400, int_str days @ '' D'')" "st + days * 86400 < tp_end"
    by (auto simp: hist_window_def)
  show ?case
  proof (cases "hist_end_str bar_req (st + days * 86400)")
    case None
    with 1 w show ?thesis by auto
  next
    case (Some es)
    with 1(2,4) w(1) have "f bar_req days tp_end (st + days * 86400) (reqs @ [ib_hist_req bar_req es (int_str days @ '' D'')]) = Some y"
      by simp
    from 1(1) [OF this 1(3) w(2)] Some show ?thesis by auto
  qed
qed

text \<open>
  A window of no days, or of a negative number of them, gives no requests at all for a span that is
  not empty: with zero days the loop adds the same request for ever, and with a negative number it
  moves away from the end until a time cannot be formatted.
\<close>

theorem short_window_never_returns:
  assumes "days \<le> 0" and "time_of (hr_start r) < time_of (hr_end r)"
  shows "generate_ib_reqs r days \<noteq> Some (Inr reqs)
    \<and> (days = 0 \<and> hist_end_str r (time_of (hr_start r)) \<noteq> None \<longrightarrow> generate_ib_reqs r days = None)"
  using short_window_no_result [of r days "time_of (hr_end r)" "time_of (hr_start r)" "[]"] assms
  unfolding generate_ib_reqs_def by (metis Inl_Inr_False not_Some_eq)

theorem short_window_never_returns_witness:
  "generate_ib_reqs demo_hist_req 0 = None"
proof -
  have "hist_end_str demo_hist_req 1735862400 = Some ''20250103-00:00:00''" by code_simp
  with short_window_never_returns [of 0 demo_hist_req "[]"] show ?thesis by (simp add: demo_hist_times)
qed

end
