(* ===== verification/HistGetter.thy ===== *)
theory HistGetter
  imports HistRequests "HOL-Library.List_Lexorder" "HOL-Library.Char_ord"
begin

text \<open>
  The historical data download \<open>HistBarGetter\<close> of \<open>lib/data/historical_data.h\<close> and
  \<open>historical_data.cpp\<close>. \<open>run\<close> sends one request of a symbol at a time; the callbacks, on the thread
  of the event engine, collect the bars and put the next request of the symbol into the queue, or
  save the data after the last one. Sending a request and noting its id are two steps of \<open>run\<close>, as
  callbacks can come in between. \<open>std::sort\<close> is a parameter, and so is the result of writing the file
  with the Arrow library. The pauses of ten seconds between requests are not modelled.
\<close>

section \<open>State\<close>

datatype hist_bar_status = HB_in_prog | HB_success | HB_error

type_synonym csv_row = "string \<times> double list \<times> int"

record hist_getter =
  hg_q :: "ib_hist_bar_req lbqueue"
  hg_sym_req :: "(string, hist_bar_req) umap"
  hg_sym_chunks :: "(string, ib_hist_bar_req list) umap"
  hg_sym_chunk_id :: "(string, 64 word) umap"
  hg_sym_status :: "(string, hist_bar_status) umap"
  hg_req_id_sym :: "(int, string) umap"
  hg_remaining :: "64 word"
  hg_sym_data :: "(string, hist_bar list) umap"
  hg_files :: "(string \<times> csv_row list) list"

definition hg_empty :: hist_getter where
  "hg_empty = \<lparr>hg_q = lbq_empty, hg_sym_req = um_empty, hg_sym_chunks = um_empty, hg_sym_chunk_id = um_empty,
     hg_sym_status = um_empty, hg_req_id_sym = um_empty, hg_remaining = 0, hg_sym_data = um_empty, hg_files = []\<rparr>"

text \<open>The loop of \<open>init\<close> over the requests; not returning is \<open>None\<close>.\<close>

fun hg_add_reqs :: "int \<Rightarrow> hist_bar_req list \<Rightarrow> hist_getter \<Rightarrow> (exn + hist_getter) option" where
  "hg_add_reqs days [] hg = Some (Inr hg)"
| "hg_add_reqs days (bar_req # reqs) hg =
     (let hg1 = hg\<lparr>hg_sym_req := um_put (hr_symbol bar_req) bar_req (hg_sym_req hg)\<rparr> in
      case generate_ib_reqs bar_req days of
        None \<Rightarrow> None
      | Some (Inl e) \<Rightarrow> Some (Inl e)
      | Some (Inr chunks) \<Rightarrow>
          hg_add_reqs days reqs
            (if chunks = [] then hg1
             else hg1\<lparr>hg_sym_chunks := um_put (hr_symbol bar_req) chunks (hg_sym_chunks hg1),
                      hg_sym_chunk_id := um_put (hr_symbol bar_req) 0 (hg_sym_chunk_id hg1)\<rparr>))"

definition hg_init :: "hist_bar_req list \<Rightarrow> int \<Rightarrow> (exn + hist_getter) option" where
  "hg_init reqs days =
     (case hg_add_reqs days reqs hg_empty of
        Some (Inr hg) \<Rightarrow> Some (Inr (hg\<lparr>hg_remaining := of_nat (length (hg_sym_chunk_id hg))\<rparr>))
      | r \<Rightarrow> r)"

section \<open>run\<close>

text \<open>The first request of every symbol; the vectors are not empty.\<close>

fun hg_push_first :: "(string \<times> ib_hist_bar_req list) list \<Rightarrow> hist_getter \<Rightarrow> (unit, hist_getter) outcome" where
  "hg_push_first [] hg = Ret () hg"
| "hg_push_first ((_, v) # rest) hg =
     (case v of [] \<Rightarrow> Crash Index_out_of_bounds
      | c # _ \<Rightarrow> hg_push_first rest (hg\<lparr>hg_q := wait_push c (hg_q hg)\<rparr>))"

definition hg_run_start :: "hist_getter \<Rightarrow> (unit, hist_getter) outcome" where
  "hg_run_start hg = hg_push_first (hg_sym_chunks hg) hg"

text \<open>A turn of the loop up to the answer of the gateway: the id and the symbol to note.\<close>

definition hg_run_send :: "int \<Rightarrow> hist_getter \<times> ib_api \<Rightarrow> ((int \<times> string) option, hist_getter \<times> ib_api) outcome" where
  "hg_run_send time_format s =
     (case s of (hg, ib) \<Rightarrow>
        if hg_remaining hg = 0 then Ret None (hg, ib)
        else case wait_pop (hg_q hg) of
          None \<Rightarrow> Ret None (hg, ib)
        | Some (req, q) \<Rightarrow>
            (case ib_req_historical_bar (hq_symbol req) (hq_end req) (hq_dur req) (hq_bar_size req) (hq_wts req) 1
                    time_format ib of
               Ret req_id ib1 \<Rightarrow> Ret (Some (req_id, hq_symbol req)) (hg\<lparr>hg_q := q\<rparr>, ib1)
             | Throw e ib1 \<Rightarrow> Throw e (hg\<lparr>hg_q := q\<rparr>, ib1)
             | Crash c \<Rightarrow> Crash c))"

definition hg_run_register :: "int \<Rightarrow> string \<Rightarrow> hist_getter \<Rightarrow> hist_getter" where
  "hg_run_register req_id symb hg = hg\<lparr>hg_req_id_sym := um_put req_id symb (hg_req_id_sym hg)\<rparr>"

section \<open>Callbacks\<close>

definition hg_process_hist_bar :: "event \<Rightarrow> hist_getter \<Rightarrow> (unit, hist_getter) outcome" where
  "hg_process_hist_bar ev hg =
     with_cast (cast_bar (e_data ev)) (\<lambda>data.
       case um_find (hg_req_id_sym hg) (hb_id data) of
         None \<Rightarrow> Ret () hg
       | Some symb \<Rightarrow>
           Ret () (hg\<lparr>hg_sym_data := um_put symb (um_get [] (hg_sym_data hg) symb @ [data]) (hg_sym_data hg)\<rparr>))"

text \<open>\<open>std::unique\<close> by the time of the bars: the first of each run of equal times.\<close>

fun std_unique :: "hist_bar list \<Rightarrow> hist_bar list" where
  "std_unique (x # y # xs) = (if hb_time x = hb_time y then std_unique (x # xs) else x # std_unique (y # xs))"
| "std_unique xs = xs"

definition csv_row_of :: "hist_bar \<Rightarrow> csv_row" where
  "csv_row_of d = (hb_time d, [hb_open d, hb_high d, hb_low d, hb_close d, hb_wap d, hb_volume d], hb_count d)"

datatype save_result = Save_ok | Save_error | Save_throws

definition default_hist_req :: hist_bar_req where
  "default_hist_req = \<lparr>hr_symbol = [], hr_start = [], hr_end = [], hr_tz = [], hr_wts = [], hr_save_path = []\<rparr>"

text \<open>Whether the status is ok; creating the folder can throw.\<close>

definition hg_process_data :: "(hist_bar list \<Rightarrow> hist_bar list) \<Rightarrow> (string \<Rightarrow> csv_row list \<Rightarrow> save_result) \<Rightarrow> string
    \<Rightarrow> hist_getter \<Rightarrow> (bool, hist_getter) outcome" where
  "hg_process_data sorter save symb hg =
     (let data = std_unique (sorter (um_get [] (hg_sym_data hg) symb));
          table = map csv_row_of data;
          hg1 = hg\<lparr>hg_sym_data := um_put symb data (hg_sym_data hg),
                   hg_sym_req := um_touch default_hist_req symb (hg_sym_req hg)\<rparr>;
          out_path = hr_save_path (um_get default_hist_req (hg_sym_req hg1) symb)
      in case save out_path table of
           Save_throws \<Rightarrow> Throw (Library_error ''filesystem'') hg1
         | Save_error \<Rightarrow> Ret False hg1
         | Save_ok \<Rightarrow> Ret True (hg1\<lparr>hg_files := hg_files hg1 @ [(out_path, table)]\<rparr>))"

definition hg_process_hist_bar_end :: "(hist_bar list \<Rightarrow> hist_bar list) \<Rightarrow> (string \<Rightarrow> csv_row list \<Rightarrow> save_result)
    \<Rightarrow> event \<Rightarrow> hist_getter \<Rightarrow> (unit, hist_getter) outcome" where
  "hg_process_hist_bar_end sorter save ev hg =
     with_cast (cast_bar_end (e_data ev)) (\<lambda>data.
       case um_find (hg_req_id_sym hg) (he_id data) of
         None \<Rightarrow> Ret () hg
       | Some symb \<Rightarrow>
           (let chunk_id = um_get 0 (hg_sym_chunk_id hg) symb + 1;
                chunks = um_get [] (hg_sym_chunks hg) symb;
                hg1 = hg\<lparr>hg_sym_chunk_id := um_put symb chunk_id (hg_sym_chunk_id hg),
                         hg_sym_chunks := um_touch [] symb (hg_sym_chunks hg)\<rparr>
            in if chunk_id = of_nat (length chunks) then
                 bind_o (hg_process_data sorter save symb hg1) (\<lambda>ok hg2.
                   if \<not> ok then Ret () (hg2\<lparr>hg_sym_status := um_put symb HB_error (hg_sym_status hg2)\<rparr>)
                   else
                     (let hg3 = hg2\<lparr>hg_sym_status := um_touch HB_in_prog symb (hg_sym_status hg2)\<rparr>
                      in if um_get HB_in_prog (hg_sym_status hg3) symb = HB_in_prog
                         then Ret () (hg3\<lparr>hg_sym_status := um_put symb HB_success (hg_sym_status hg3),
                                          hg_remaining := hg_remaining hg3 - 1\<rparr>)
                         else Ret () hg3))
               else if unat chunk_id < length chunks then
                 Ret () (hg1\<lparr>hg_q := wait_push (chunks ! unat chunk_id) (hg_q hg1)\<rparr>)
               else Crash Index_out_of_bounds))"

definition hg_process_err_msg :: "event \<Rightarrow> hist_getter \<Rightarrow> (unit, hist_getter) outcome" where
  "hg_process_err_msg ev hg =
     with_cast (cast_err (e_data ev)) (\<lambda>msg.
       case um_find (hg_req_id_sym hg) (em_id msg) of
         None \<Rightarrow> Ret () hg
       | Some symb \<Rightarrow>
           Ret () (hg\<lparr>hg_sym_status := um_put symb HB_error (hg_sym_status hg),
                      hg_remaining := (if um_get HB_in_prog (hg_sym_status hg) symb = HB_in_prog
                                       then hg_remaining hg - 1 else hg_remaining hg)\<rparr>))"

text \<open>The text of the final status; taking characters off an empty string is undefined.\<close>

definition status_number :: "hist_bar_status \<Rightarrow> int" where
  "status_number v = (case v of HB_in_prog \<Rightarrow> 0 | HB_success \<Rightarrow> 1 | HB_error \<Rightarrow> 2)"

definition pop_back :: "string \<Rightarrow> fault + string" where
  "pop_back s = (if s = [] then Inl Index_out_of_bounds else Inr (butlast s))"

definition hg_log_status :: "hist_getter \<Rightarrow> fault + string" where
  "hg_log_status hg =
     (let status_str = concat (map (\<lambda>(k, v). k @ '':'' @ int_str (status_number v) @ '', '') (hg_sym_status hg))
      in case pop_back status_str of Inl c \<Rightarrow> Inl c | Inr s \<Rightarrow> pop_back s)"

section \<open>Interleavings\<close>

text \<open>
  The steps of \<open>run\<close> and the events the engine hands to the callbacks, in any order; an id that was
  answered and is not noted yet is kept by the thread of \<open>run\<close>.
\<close>

datatype hg_op = HG_send | HG_register | HG_event event

type_synonym hg_world = "hist_getter \<times> (int \<times> string) option \<times> ib_api"

definition hg_callback :: "(hist_bar list \<Rightarrow> hist_bar list) \<Rightarrow> (string \<Rightarrow> csv_row list \<Rightarrow> save_result)
    \<Rightarrow> event \<Rightarrow> hist_getter \<Rightarrow> (unit, hist_getter) outcome" where
  "hg_callback sorter save ev hg =
     (case e_type ev of
        ET_hist_bar \<Rightarrow> hg_process_hist_bar ev hg
      | ET_hist_bar_end \<Rightarrow> hg_process_hist_bar_end sorter save ev hg
      | ET_ib_err_msg \<Rightarrow> hg_process_err_msg ev hg
      | _ \<Rightarrow> Ret () hg)"

text \<open>The event engine logs an exception of a callback and goes on.\<close>

fun hg_exec :: "(hist_bar list \<Rightarrow> hist_bar list) \<Rightarrow> (string \<Rightarrow> csv_row list \<Rightarrow> save_result) \<Rightarrow> int \<Rightarrow> hg_op
    \<Rightarrow> hg_world \<Rightarrow> (unit, hg_world) outcome" where
  "hg_exec sorter save tf HG_send (hg, None, ib) =
     (case hg_run_send tf (hg, ib) of
        Ret r (hg1, ib1) \<Rightarrow> Ret () (hg1, r, ib1)
      | Throw e (hg1, ib1) \<Rightarrow> Throw e (hg1, None, ib1)
      | Crash c \<Rightarrow> Crash c)"
| "hg_exec sorter save tf HG_send (hg, Some p, ib) = Ret () (hg, Some p, ib)"
| "hg_exec sorter save tf HG_register (hg, Some (req_id, symb), ib) = Ret () (hg_run_register req_id symb hg, None, ib)"
| "hg_exec sorter save tf HG_register (hg, None, ib) = Ret () (hg, None, ib)"
| "hg_exec sorter save tf (HG_event ev) (hg, p, ib) =
     (case hg_callback sorter save ev hg of
        Ret _ hg1 \<Rightarrow> Ret () (hg1, p, ib)
      | Throw _ hg1 \<Rightarrow> Ret () (hg1, p, ib)
      | Crash c \<Rightarrow> Crash c)"

fun hg_execs :: "(hist_bar list \<Rightarrow> hist_bar list) \<Rightarrow> (string \<Rightarrow> csv_row list \<Rightarrow> save_result) \<Rightarrow> int \<Rightarrow> hg_op list
    \<Rightarrow> hg_world \<Rightarrow> (unit, hg_world) outcome" where
  "hg_execs sorter save tf [] w = Ret () w"
| "hg_execs sorter save tf (op # ops) w =
     bind_o (hg_exec sorter save tf op w) (\<lambda>_. hg_execs sorter save tf ops)"

end
