(* ===== verification/HistConfig.thy ===== *)
theory HistConfig
  imports HistGetter
begin

text \<open>
  The configuration (\<open>lib/cfg/cfg.h\<close>) and the requests of a download from its YAML file
  (\<open>generate_reqs\<close> of \<open>lib/data/historical_data.cpp\<close>). What the YAML library reads from a file, or the
  exception it throws, is an argument.
\<close>

section \<open>Configuration\<close>

record config =
  cf_hist_default_download :: string
  cf_hist_time_format :: int
  cf_hist_window_sz :: int
  cf_gateway_host :: string
  cf_gateway_port :: int
  cf_gateway_client_id :: int
  cf_algo_config_path :: string
  cf_risk_config_path :: string
  cf_mongodb_conn_str :: string
  cf_mongodb_db_str :: string

definition the_config :: config where
  "the_config = \<lparr>cf_hist_default_download = ''/home/wayne/calm/hist_download.yaml'', cf_hist_time_format = 2, cf_hist_window_sz = 2,
     cf_gateway_host = [], cf_gateway_port = 7497, cf_gateway_client_id = 0,
     cf_algo_config_path = ''/home/wayne/calm/bollinger_band.yaml'', cf_risk_config_path = ''/home/wayne/calm/risk_manager.yaml'',
     cf_mongodb_conn_str = ''mongodb://localhost:27017'', cf_mongodb_db_str = ''calm_live''\<rparr>"

section \<open>The requests of a file\<close>

record download_file =
  df_root_folder :: string
  df_start :: string
  df_end :: string
  df_timezone :: string
  df_type :: string
  df_downloads :: "(string \<times> string) list"

definition str_replace :: "char \<Rightarrow> char \<Rightarrow> string \<Rightarrow> string" where
  "str_replace a b s = map (\<lambda>c. if c = a then b else c) s"

definition clean_time :: "string \<Rightarrow> string" where
  "clean_time s = str_replace CHR '':'' CHR ''_'' (str_replace CHR '' '' CHR ''_'' s)"

definition save_path :: "download_file \<Rightarrow> string \<Rightarrow> string" where
  "save_path df name = df_root_folder df @ ''/'' @ name @ ''-'' @ df_type df @ ''/'' @ clean_time (df_start df) @ ''-''
     @ clean_time (df_end df) @ ''.csv''"

definition generate_reqs :: "download_file \<Rightarrow> hist_bar_req list" where
  "generate_reqs df = map (\<lambda>(name, symb). \<lparr>hr_symbol = symb, hr_start = df_start df, hr_end = df_end df, hr_tz = df_timezone df,
     hr_wts = df_type df, hr_save_path = save_path df name\<rparr>) (df_downloads df)"

text \<open>The constructor with the path of a file, which is the configured one when it is empty.\<close>

definition getter_from_file :: "(string \<Rightarrow> exn + download_file) \<Rightarrow> string \<Rightarrow> (exn + hist_getter) option" where
  "getter_from_file load cfg_path =
     (case load (if cfg_path = [] then cf_hist_default_download the_config else cfg_path) of
        Inl e \<Rightarrow> Some (Inl e)
      | Inr df \<Rightarrow> hg_init (generate_reqs df) (cf_hist_window_sz the_config))"

section \<open>No two downloads share a file\<close>

lemma save_path_eq: "save_path df n = save_path df n' \<longleftrightarrow> n = n'"
  by (simp add: save_path_def)

lemma save_paths_distinct:
  assumes "distinct (map fst (df_downloads df))"
  shows "distinct (map hr_save_path (generate_reqs df))"
proof -
  have "map hr_save_path (generate_reqs df) = map (save_path df) (map fst (df_downloads df))"
    by (simp add: generate_reqs_def comp_def case_prod_unfold)
  then show ?thesis using assms by (simp only: distinct_map) (simp add: inj_on_def save_path_eq)
qed

text \<open>A name of the download is part of the path, and the times are free of blanks and colons.\<close>

lemma clean_time_chars: "CHR '':'' \<notin> set (clean_time s)" "CHR '' '' \<notin> set (clean_time s)"
  by (auto simp: clean_time_def str_replace_def)

lemma clean_time_length: "length (clean_time s) = length s"
  by (simp add: clean_time_def str_replace_def)

end
