(* ===== verification/HistRuns.thy ===== *)
theory HistRuns
  imports HistGetter "HOL-Library.Multiset"
begin

text \<open>
  What the historical data download guarantees: the rows it saves, the count of the symbols that
  remain, which ends the loop of \<open>run\<close>, and the download of a symbol from its first request to the
  saved file.
\<close>

section \<open>The saved rows\<close>

text \<open>What is asked of \<open>std::sort\<close> by the time of the bars: it permutes and sorts.\<close>

definition sorts_by_time :: "(hist_bar list \<Rightarrow> hist_bar list) \<Rightarrow> bool" where
  "sorts_by_time sorter \<longleftrightarrow> (\<forall>xs. mset (sorter xs) = mset xs \<and> sorted (map hb_time (sorter xs)))"

lemma std_unique_sorted:
  "sorted (map hb_time xs) \<Longrightarrow> sorted_wrt (<) (map hb_time (std_unique xs))
    \<and> set (map hb_time (std_unique xs)) = set (map hb_time xs) \<and> set (std_unique xs) \<subseteq> set xs"
proof (induction xs rule: std_unique.induct)
  case (1 x y xs)
  show ?case
  proof (cases "hb_time x = hb_time y")
    case True
    with 1(1) [OF True] 1(3) show ?thesis by auto
  next
    case False
    with 1(3) have "hb_time x < hb_time y" "\<forall>t\<in>set (map hb_time (y # xs)). hb_time y \<le> t" by auto
    moreover note 1(2) [OF False]
    ultimately show ?thesis using False 1(3) by (auto simp: image_iff Ball_def)
  qed
qed auto

section \<open>The symbols that remain\<close>

definition in_progress :: "hist_getter \<Rightarrow> string list" where
  "in_progress hg = filter (\<lambda>s. um_get HB_in_prog (hg_sym_status hg) s = HB_in_prog) (um_keys (hg_sym_chunk_id hg))"

text \<open>
  Every symbol the getter works with is one of those it counts, and \<open>remaining\<close> exceeds the number
  of symbols in progress by \<open>k\<close>.
\<close>

definition hg_inv :: "nat \<Rightarrow> hg_world \<Rightarrow> bool" where
  "hg_inv k w \<longleftrightarrow>
     (case w of (hg, p, ib) \<Rightarrow>
        (let ks = set (um_keys (hg_sym_chunk_id hg)) in
         um_wf (hg_sym_chunk_id hg)
         \<and> (\<forall>c \<in> set (lbq_items (hg_q hg)). hq_symbol c \<in> ks)
         \<and> (\<forall>s. \<forall>c \<in> set (um_get [] (hg_sym_chunks hg) s). hq_symbol c \<in> ks)
         \<and> (\<forall>id s. um_find (hg_req_id_sym hg) id = Some s \<longrightarrow> s \<in> ks)
         \<and> (\<forall>id s. p = Some (id, s) \<longrightarrow> s \<in> ks)
         \<and> unat (hg_remaining hg) = length (in_progress hg) + k))"

lemma filter_delete_one:
  "distinct ks \<Longrightarrow> s \<in> set ks \<Longrightarrow> P s \<Longrightarrow> length (filter P ks) = Suc (length (filter (\<lambda>x. x \<noteq> s \<and> P x) ks))"
proof (induction ks)
  case (Cons a ks)
  then show ?case
    by (cases "a = s") (auto intro!: arg_cong [where f = length] filter_cong)
qed simp

lemma in_progress_put:
  assumes "um_wf (hg_sym_chunk_id hg)" "s \<in> set (um_keys (hg_sym_chunk_id hg))" "v \<noteq> HB_in_prog"
  shows "length (in_progress (hg\<lparr>hg_sym_status := um_put s v (hg_sym_status hg)\<rparr>))
    = (if um_get HB_in_prog (hg_sym_status hg) s = HB_in_prog then length (in_progress hg) - 1 else length (in_progress hg))"
proof -
  let ?P = "\<lambda>x. um_get HB_in_prog (hg_sym_status hg) x = HB_in_prog" and ?ks = "um_keys (hg_sym_chunk_id hg)"
  have e: "in_progress (hg\<lparr>hg_sym_status := um_put s v (hg_sym_status hg)\<rparr>) = filter (\<lambda>x. x \<noteq> s \<and> ?P x) ?ks"
    unfolding in_progress_def using assms(3) by (auto simp: um_get_def intro!: filter_cong)
  show ?thesis
  proof (cases "?P s")
    case True
    with filter_delete_one [of ?ks s ?P] assms(1,2) show ?thesis unfolding e by (simp add: um_wf_def in_progress_def)
  next
    case False
    then have "filter (\<lambda>x. x \<noteq> s \<and> ?P x) ?ks = filter ?P ?ks" by (intro filter_cong) auto
    with False show ?thesis unfolding e by (simp add: in_progress_def)
  qed
qed

lemma in_progress_pos:
  "s \<in> set (um_keys (hg_sym_chunk_id hg)) \<Longrightarrow> um_get HB_in_prog (hg_sym_status hg) s = HB_in_prog \<Longrightarrow> 0 < length (in_progress hg)"
  by (auto simp: in_progress_def filter_empty_conv)


text \<open>The invariant does not depend on the data, the requests, the files or the gateway.\<close>

lemma in_progress_cong:
  "um_keys (hg_sym_chunk_id hg') = um_keys (hg_sym_chunk_id hg)
    \<Longrightarrow> (\<And>s. um_get HB_in_prog (hg_sym_status hg') s = um_get HB_in_prog (hg_sym_status hg) s)
    \<Longrightarrow> in_progress hg' = in_progress hg"
  by (simp add: in_progress_def)

lemma um_get_touch [simp]: "um_get d (um_touch d k m) k' = um_get d m k'"
  by (auto simp: um_get_def um_find_touch)

lemma um_get_put [simp]: "um_get d (um_put k v m) k' = (if k' = k then v else um_get d m k')"
  by (simp add: um_get_def)

lemma hg_inv_data:
  assumes "hg_inv k (hg, p, ib)"
    and "hg_sym_chunk_id hg' = hg_sym_chunk_id hg" "hg_q hg' = hg_q hg" "hg_sym_chunks hg' = hg_sym_chunks hg"
    "hg_req_id_sym hg' = hg_req_id_sym hg" "hg_remaining hg' = hg_remaining hg" "hg_sym_status hg' = hg_sym_status hg"
  shows "hg_inv k (hg', p, ib')"
  using assms by (simp add: hg_inv_def Let_def in_progress_def)

lemma hg_inv_send:
  assumes "hg_inv k (hg, None, ib)" and "hg_run_send tf (hg, ib) = Ret r (hg1, ib1)"
  shows "hg_inv k (hg1, r, ib1)"
  using assms
  by (auto simp: hg_run_send_def wait_pop_def hg_inv_def Let_def in_progress_def
      split: if_splits option.splits list.splits outcome.splits)

lemma hg_inv_register:
  "hg_inv k (hg, Some (req_id, s), ib) \<Longrightarrow> hg_inv k (hg_run_register req_id s hg, None, ib)"
  by (auto simp: hg_run_register_def hg_inv_def Let_def in_progress_def)

lemma hg_inv_bar:
  assumes "hg_inv k (hg, p, ib)" and "hg_process_hist_bar ev hg = Ret u hg1"
  shows "hg_inv k (hg1, p, ib)"
  using assms(2) hg_inv_data [OF assms(1)] assms(1)
  by (auto simp: hg_process_hist_bar_def with_cast_def split: sum.splits option.splits)

text \<open>A symbol that leaves the symbols in progress is taken off the count, once.\<close>

lemma hg_inv_finish:
  assumes "hg_inv k (hg, p, ib)" and "s \<in> set (um_keys (hg_sym_chunk_id hg))" and "v \<noteq> HB_in_prog"
    and "um_get HB_in_prog (hg_sym_status hg) s = HB_in_prog"
  shows "hg_inv k (hg\<lparr>hg_sym_status := um_put s v (hg_sym_status hg), hg_remaining := hg_remaining hg - 1\<rparr>, p, ib)"
proof -
  have wf: "um_wf (hg_sym_chunk_id hg)" and n: "unat (hg_remaining hg) = length (in_progress hg) + k"
    using assms(1) by (simp_all add: hg_inv_def Let_def)
  have pos: "0 < length (in_progress hg)" by (rule in_progress_pos [OF assms(2,4)])
  then have "hg_remaining hg \<noteq> 0" using n by auto
  then have "unat (hg_remaining hg - 1) = length (in_progress hg) - 1 + k"
    using n pos by (cases "in_progress hg") (auto simp: unat_minus_one)
  moreover have "in_progress (hg\<lparr>hg_sym_status := um_put s v (hg_sym_status hg), hg_remaining := x\<rparr>)
      = in_progress (hg\<lparr>hg_sym_status := um_put s v (hg_sym_status hg)\<rparr>)" for x
    by (simp add: in_progress_def)
  ultimately show ?thesis
    using assms(1) in_progress_put [OF wf assms(2,3)] assms(4) by (simp add: hg_inv_def Let_def)
qed

lemma hg_inv_keep:
  assumes "hg_inv k (hg, p, ib)" and "s \<in> set (um_keys (hg_sym_chunk_id hg))" and "v \<noteq> HB_in_prog"
    and "um_get HB_in_prog (hg_sym_status hg) s \<noteq> HB_in_prog"
  shows "hg_inv k (hg\<lparr>hg_sym_status := um_put s v (hg_sym_status hg)\<rparr>, p, ib)"
  using assms in_progress_put [of hg s v] by (simp add: hg_inv_def Let_def)

text \<open>A failed save of a symbol in progress leaves the count where it is.\<close>

lemma hg_inv_fail:
  assumes "hg_inv k (hg, p, ib)" and "s \<in> set (um_keys (hg_sym_chunk_id hg))" and "v \<noteq> HB_in_prog"
    and "um_get HB_in_prog (hg_sym_status hg) s = HB_in_prog"
  shows "hg_inv (Suc k) (hg\<lparr>hg_sym_status := um_put s v (hg_sym_status hg)\<rparr>, p, ib)"
  using assms in_progress_put [of hg s v] in_progress_pos [OF assms(2,4)] by (simp add: hg_inv_def Let_def)

lemma hg_inv_err:
  assumes inv: "hg_inv k (hg, p, ib)" and "hg_process_err_msg ev hg = Ret u hg1"
  shows "hg_inv k (hg1, p, ib)"
proof -
  obtain msg where m: "cast_err (e_data ev) = Inr msg"
    using assms(2) by (cases "cast_err (e_data ev)") (auto simp: hg_process_err_msg_def)
  show ?thesis
  proof (cases "um_find (hg_req_id_sym hg) (em_id msg)")
    case None
    with assms m show ?thesis by (simp add: hg_process_err_msg_def)
  next
    case (Some s)
    with inv have s: "s \<in> set (um_keys (hg_sym_chunk_id hg))" by (auto simp: hg_inv_def Let_def)
    show ?thesis
    proof (cases "um_get HB_in_prog (hg_sym_status hg) s = HB_in_prog")
      case True
      with hg_inv_finish [OF inv s _ True, of HB_error] assms(2) m Some show ?thesis
        by (auto simp: hg_process_err_msg_def)
    next
      case False
      with hg_inv_keep [OF inv s _ False, of HB_error] assms(2) m Some show ?thesis
        by (auto simp: hg_process_err_msg_def)
    qed
  qed
qed

lemma hg_process_data_frame:
  assumes "hg_process_data sorter save s hg = Ret ok hg1 \<or> hg_process_data sorter save s hg = Throw e hg1"
  shows "hg_sym_chunk_id hg1 = hg_sym_chunk_id hg" "hg_q hg1 = hg_q hg" "hg_sym_chunks hg1 = hg_sym_chunks hg"
    "hg_req_id_sym hg1 = hg_req_id_sym hg" "hg_remaining hg1 = hg_remaining hg" "hg_sym_status hg1 = hg_sym_status hg"
  using assms by (auto simp: hg_process_data_def Let_def split: save_result.splits)

lemma hg_process_data_ok:
  assumes "hg_process_data sorter save s hg = Ret ok hg1"
  shows "ok \<longleftrightarrow> save (hr_save_path (um_get default_hist_req (hg_sym_req hg) s))
      (map csv_row_of (std_unique (sorter (um_get [] (hg_sym_data hg) s)))) = Save_ok"
    and "\<not> ok \<Longrightarrow> save (hr_save_path (um_get default_hist_req (hg_sym_req hg) s))
      (map csv_row_of (std_unique (sorter (um_get [] (hg_sym_data hg) s)))) = Save_error"
  using assms by (auto simp: hg_process_data_def Let_def split: save_result.splits)

lemma hg_inv_end:
  assumes inv: "hg_inv k (hg, p, ib)"
    and step: "hg_process_hist_bar_end sorter save ev hg = Ret u hg1 \<or> hg_process_hist_bar_end sorter save ev hg = Throw e hg1"
  shows "hg_inv k (hg1, p, ib) \<or> hg_inv (Suc k) (hg1, p, ib) \<and> (\<exists>path table. save path table = Save_error)"
proof -
  obtain data where d: "cast_bar_end (e_data ev) = Inr data"
    using step by (cases "cast_bar_end (e_data ev)") (auto simp: hg_process_hist_bar_end_def)
  show ?thesis
  proof (cases "um_find (hg_req_id_sym hg) (he_id data)")
    case None
    with inv step d show ?thesis by (auto simp: hg_process_hist_bar_end_def)
  next
    case (Some s)
    with inv have s: "s \<in> set (um_keys (hg_sym_chunk_id hg))" by (auto simp: hg_inv_def Let_def)
    let ?id = "um_get 0 (hg_sym_chunk_id hg) s + 1" and ?cs = "um_get [] (hg_sym_chunks hg) s"
    let ?hg = "hg\<lparr>hg_sym_chunk_id := um_put s ?id (hg_sym_chunk_id hg), hg_sym_chunks := um_touch [] s (hg_sym_chunks hg)\<rparr>"
    have ks: "um_keys (hg_sym_chunk_id ?hg) = um_keys (hg_sym_chunk_id hg)" using s by (simp add: um_keys_put)
    have inv1: "hg_inv k (?hg, p, ib)"
      using inv s by (simp add: hg_inv_def Let_def in_progress_def um_keys_put um_wf_put)
    show ?thesis
    proof (cases "?id = of_nat (length ?cs)")
      case True
      have e: "hg_process_hist_bar_end sorter save ev hg =
          bind_o (hg_process_data sorter save s ?hg) (\<lambda>ok hg2.
            if \<not> ok then Ret () (hg2\<lparr>hg_sym_status := um_put s HB_error (hg_sym_status hg2)\<rparr>)
            else (let hg3 = hg2\<lparr>hg_sym_status := um_touch HB_in_prog s (hg_sym_status hg2)\<rparr>
                  in if um_get HB_in_prog (hg_sym_status hg3) s = HB_in_prog
                     then Ret () (hg3\<lparr>hg_sym_status := um_put s HB_success (hg_sym_status hg3), hg_remaining := hg_remaining hg3 - 1\<rparr>)
                     else Ret () hg3))"
        using d Some True by (simp add: hg_process_hist_bar_end_def Let_def)
      show ?thesis
      proof (cases "hg_process_data sorter save s ?hg")
        case (Crash c)
        with step e show ?thesis by simp
      next
        case (Throw x hg2)
        then have "hg1 = hg2" using step e by simp
        moreover have "hg_inv k (hg2, p, ib)"
          by (rule hg_inv_data [OF inv1]) (simp_all add: hg_process_data_frame [OF disjI2 [OF Throw]])
        ultimately show ?thesis by simp
      next
        case (Ret ok hg2)
        have inv2: "hg_inv k (hg2, p, ib)"
          by (rule hg_inv_data [OF inv1]) (simp_all add: hg_process_data_frame [OF disjI1 [OF Ret]])
        have s2: "s \<in> set (um_keys (hg_sym_chunk_id hg2))"
          using s ks by (simp add: hg_process_data_frame(1) [OF disjI1 [OF Ret]])
        show ?thesis
        proof (cases ok)
          case False
          then have h: "hg1 = hg2\<lparr>hg_sym_status := um_put s HB_error (hg_sym_status hg2)\<rparr>"
            using step e Ret by simp
          show ?thesis
          proof (cases "um_get HB_in_prog (hg_sym_status hg2) s = HB_in_prog")
            case True
            with hg_inv_fail [OF inv2 s2 _ True, of HB_error] h hg_process_data_ok(2) [OF Ret] False show ?thesis by auto
          next
            case False
            with hg_inv_keep [OF inv2 s2 _ False, of HB_error] h show ?thesis by simp
          qed
        next
          case True
          let ?hg3 = "hg2\<lparr>hg_sym_status := um_touch HB_in_prog s (hg_sym_status hg2)\<rparr>"
          have inv3: "hg_inv k (?hg3, p, ib)" using inv2 by (simp add: hg_inv_def Let_def in_progress_def)
          have s3: "s \<in> set (um_keys (hg_sym_chunk_id ?hg3))" using s2 by simp
          show ?thesis
          proof (cases "um_get HB_in_prog (hg_sym_status ?hg3) s = HB_in_prog")
            case in3: True
            then have "hg1 = ?hg3\<lparr>hg_sym_status := um_put s HB_success (hg_sym_status ?hg3), hg_remaining := hg_remaining ?hg3 - 1\<rparr>"
              using step e Ret True by simp
            with hg_inv_finish [OF inv3 s3 _ in3, of HB_success] show ?thesis by simp
          next
            case False
            then have "hg1 = ?hg3" using step e Ret True by simp
            with inv3 show ?thesis by simp
          qed
        qed
      qed
    next
      case False
      then have lt: "unat ?id < length ?cs" and h: "hg1 = ?hg\<lparr>hg_q := wait_push (?cs ! unat ?id) (hg_q hg)\<rparr>"
        using step d Some by (auto simp: hg_process_hist_bar_end_def Let_def split: if_splits)
      have "hq_symbol (?cs ! unat ?id) \<in> set (um_keys (hg_sym_chunk_id hg))"
        using nth_mem [OF lt] inv by (simp add: hg_inv_def Let_def)
      with inv1 ks show ?thesis unfolding h
        by (auto simp: hg_inv_def Let_def in_progress_def wait_push_def)
    qed
  qed
qed

lemma hg_inv_exec:
  assumes "hg_inv k w" and "hg_exec sorter save tf op w = Ret u w' \<or> hg_exec sorter save tf op w = Throw e w'"
  shows "hg_inv k w' \<or> hg_inv (Suc k) w' \<and> (\<exists>path table. save path table = Save_error)"
proof -
  obtain hg p ib where w: "w = (hg, p, ib)" by (cases w)
  show ?thesis
  proof (cases op)
    case HG_send
    show ?thesis
    proof (cases p)
      case None
      show ?thesis
      proof (cases "hg_run_send tf (hg, ib)")
        case (Ret r s1)
        obtain hg1 ib1 where s1: "s1 = (hg1, ib1)" by (cases s1)
        with Ret None HG_send w assms hg_inv_send [of k hg ib tf r hg1 ib1] show ?thesis by auto
      next
        case (Throw x s1)
        obtain hg1 ib1 where s1: "s1 = (hg1, ib1)" by (cases s1)
        have "hg_inv k (hg1, None, ib1)" using Throw s1 assms(1) w None
          by (auto simp: hg_run_send_def wait_pop_def hg_inv_def Let_def in_progress_def
              split: if_splits option.splits list.splits outcome.splits)
        with Throw s1 None HG_send w assms(2) show ?thesis by auto
      next
        case (Crash c)
        with None HG_send w assms(2) show ?thesis by simp
      qed
    next
      case (Some a)
      with HG_send w assms show ?thesis by auto
    qed
  next
    case HG_register
    with w assms hg_inv_register [of k hg] show ?thesis by (cases p) (auto split: prod.splits)
  next
    case (HG_event ev)
    then obtain r hg1 where c: "hg_callback sorter save ev hg = Ret () hg1 \<or> hg_callback sorter save ev hg = Throw r hg1"
      and w': "w' = (hg1, p, ib)"
      using assms(2) w by (cases "hg_callback sorter save ev hg") auto
    show ?thesis
    proof (cases "e_type ev")
      case ET_hist_bar
      with c have "hg_process_hist_bar ev hg = Ret () hg1"
        by (auto simp: hg_callback_def hg_process_hist_bar_def with_cast_def split: sum.splits option.splits)
      with hg_inv_bar assms(1) w w' show ?thesis by blast
    next
      case ET_hist_bar_end
      with c hg_inv_end [of k hg p ib sorter save ev "()" hg1 r] assms(1) w w' show ?thesis
        by (simp add: hg_callback_def)
    next
      case ET_ib_err_msg
      with c have "hg_process_err_msg ev hg = Ret () hg1"
        by (auto simp: hg_callback_def hg_process_err_msg_def with_cast_def split: sum.splits option.splits)
      with hg_inv_err assms(1) w w' show ?thesis by blast
    qed (use c assms(1) w w' in \<open>simp_all add: hg_callback_def\<close>)
  qed
qed

lemma hg_inv_execs:
  "hg_inv k w \<Longrightarrow> hg_execs sorter save tf ops w = Ret u w'
    \<Longrightarrow> \<exists>k'. k \<le> k' \<and> hg_inv k' w' \<and> ((\<forall>path table. save path table \<noteq> Save_error) \<longrightarrow> k' = k)"
proof (induction ops arbitrary: k w)
  case Nil
  then show ?case by auto
next
  case (Cons op ops)
  from Cons.prems(2) obtain u1 w1 where 1: "hg_exec sorter save tf op w = Ret u1 w1" and 2: "hg_execs sorter save tf ops w1 = Ret u w'"
    by (auto simp: bind_o_eq_Ret)
  from hg_inv_exec [OF Cons.prems(1) disjI1 [OF 1]] show ?case
  proof (elim disjE conjE exE)
    assume "hg_inv k w1"
    from Cons.IH [OF this 2] show ?thesis .
  next
    fix path table
    assume "hg_inv (Suc k) w1" "save path table = Save_error"
    with Cons.IH [OF this(1) 2] show ?thesis by (meson Suc_leD)
  qed
qed

section \<open>The initial state\<close>

lemma ib_reqs_symbols:
  "ib_reqs_from r days tp_end st reqs = Some res \<Longrightarrow> \<forall>c \<in> set reqs. hq_symbol c = hr_symbol r
    \<Longrightarrow> res = Inr out \<Longrightarrow> \<forall>c \<in> set out. hq_symbol c = hr_symbol r"
proof (induction arbitrary: out rule: ib_reqs_from.raw_induct [rotated 1, consumes 1])
  case (1 f bar_req days tp_end st reqs y)
  show ?case
  proof (cases "st < tp_end")
    case False
    with 1 show ?thesis by auto
  next
    case True
    obtain en dur where w: "hist_window days st tp_end = (en, dur)" by (cases "hist_window days st tp_end")
    show ?thesis
    proof (cases "hist_end_str bar_req en")
      case None
      with 1(2,4) True w show ?thesis by auto
    next
      case (Some es)
      with 1(2) True w have "f bar_req days tp_end en (reqs @ [ib_hist_req bar_req es dur]) = Some y" by simp
      from 1(1) [OF this _ 1(4)] 1(3) show ?thesis by (auto simp: ib_hist_req_def)
    qed
  qed
qed

lemma generate_symbols:
  "generate_ib_reqs r days = Some (Inr out) \<Longrightarrow> c \<in> set out \<Longrightarrow> hq_symbol c = hr_symbol r"
  using ib_reqs_symbols [of r days _ _ "[]" _ out] by (auto simp: generate_ib_reqs_def)

definition hg_fresh :: "nat \<Rightarrow> hist_getter \<Rightarrow> bool" where
  "hg_fresh n hg \<longleftrightarrow> um_wf (hg_sym_chunks hg) \<and> um_wf (hg_sym_chunk_id hg) \<and> length (hg_sym_chunk_id hg) \<le> n
     \<and> um_keys (hg_sym_chunks hg) = um_keys (hg_sym_chunk_id hg)
     \<and> (\<forall>s cs. um_find (hg_sym_chunks hg) s = Some cs \<longrightarrow> cs \<noteq> [] \<and> (\<forall>c \<in> set cs. hq_symbol c = s))
     \<and> hg_q hg = lbq_empty \<and> hg_req_id_sym hg = um_empty \<and> hg_sym_status hg = um_empty \<and> hg_sym_data hg = um_empty
     \<and> hg_files hg = []"

lemma um_length_put: "length (um_put k v m) \<le> Suc (length m)"
  using um_keys_put [of k v m] length_map [of fst "um_put k v m"] length_map [of fst m]
  by (simp add: um_keys_def split: if_splits)

lemma hg_add_reqs_fresh:
  "hg_fresh n hg \<Longrightarrow> hg_add_reqs days reqs hg = Some (Inr hg') \<Longrightarrow> hg_fresh (n + length reqs) hg'"
proof (induction reqs arbitrary: n hg)
  case Nil
  then show ?case by simp
next
  case (Cons r reqs)
  let ?hg1 = "hg\<lparr>hg_sym_req := um_put (hr_symbol r) r (hg_sym_req hg)\<rparr>"
  obtain chunks where g: "generate_ib_reqs r days = Some (Inr chunks)"
    and next_: "hg_add_reqs days reqs (if chunks = [] then ?hg1
             else ?hg1\<lparr>hg_sym_chunks := um_put (hr_symbol r) chunks (hg_sym_chunks ?hg1),
                      hg_sym_chunk_id := um_put (hr_symbol r) 0 (hg_sym_chunk_id ?hg1)\<rparr>) = Some (Inr hg')"
    using Cons.prems(2) by (auto simp: Let_def split: option.splits sum.splits)
  have "hg_fresh (Suc n) (if chunks = [] then ?hg1
             else ?hg1\<lparr>hg_sym_chunks := um_put (hr_symbol r) chunks (hg_sym_chunks ?hg1),
                      hg_sym_chunk_id := um_put (hr_symbol r) 0 (hg_sym_chunk_id ?hg1)\<rparr>)"
    using Cons.prems(1) generate_symbols [OF g] um_length_put [of "hr_symbol r" 0 "hg_sym_chunk_id hg"]
    by (auto simp: hg_fresh_def um_wf_put um_keys_put)
  from Cons.IH [OF this next_] show ?case by simp
qed

lemma hg_init_fresh:
  assumes "hg_init reqs days = Some (Inr hg)"
  shows "hg_fresh (length reqs) hg" "hg_remaining hg = of_nat (length (hg_sym_chunk_id hg))"
proof -
  obtain hg0 where a: "hg_add_reqs days reqs hg_empty = Some (Inr hg0)" and h: "hg = hg0\<lparr>hg_remaining := of_nat (length (hg_sym_chunk_id hg0))\<rparr>"
    using assms by (auto simp: hg_init_def split: option.splits sum.splits)
  have "hg_fresh 0 hg_empty" by (simp add: hg_fresh_def hg_empty_def um_keys_def)
  from hg_add_reqs_fresh [OF this a] h show "hg_fresh (length reqs) hg" "hg_remaining hg = of_nat (length (hg_sym_chunk_id hg))"
    by (simp_all add: hg_fresh_def)
qed

text \<open>The first requests of all symbols are in the queue; the vectors are never empty.\<close>

lemma hg_push_first_eq:
  "\<forall>(s, cs) \<in> set ps. cs \<noteq> [] \<Longrightarrow> hg_push_first ps hg
    = Ret () (hg\<lparr>hg_q := (hg_q hg)\<lparr>lbq_items := lbq_items (hg_q hg) @ map (hd \<circ> snd) ps\<rparr>\<rparr>)"
  by (induction ps arbitrary: hg) (auto simp: wait_push_def neq_Nil_conv)

lemma hg_run_start_eq:
  assumes "hg_fresh n hg"
  shows "hg_run_start hg = Ret () (hg\<lparr>hg_q := \<lparr>lbq_items = map (hd \<circ> snd) (hg_sym_chunks hg)\<rparr>\<rparr>)"
proof -
  have "\<forall>(s, cs) \<in> set (hg_sym_chunks hg). cs \<noteq> []"
    using assms um_find_entry [of "hg_sym_chunks hg"] by (auto simp: hg_fresh_def)
  from hg_push_first_eq [OF this] assms show ?thesis by (simp add: hg_run_start_def hg_fresh_def lbq_empty_def)
qed

lemma hg_inv_start:
  assumes init: "hg_init reqs days = Some (Inr hg)" and n: "length reqs < 2 ^ 64" and start: "hg_run_start hg = Ret u hg0"
  shows "hg_inv 0 (hg0, None, ib)"
proof -
  note f = hg_init_fresh [OF init]
  have h: "hg0 = hg\<lparr>hg_q := \<lparr>lbq_items = map (hd \<circ> snd) (hg_sym_chunks hg)\<rparr>\<rparr>"
    using start hg_run_start_eq [OF f(1)] by simp
  have find: "um_find (hg_sym_chunks hg) s = Some cs" if "(s, cs) \<in> set (hg_sym_chunks hg)" for s cs
    using that f(1) um_find_entry [of "hg_sym_chunks hg"] by (simp add: hg_fresh_def)
  have sym: "hq_symbol c \<in> set (um_keys (hg_sym_chunk_id hg))"
    if "um_find (hg_sym_chunks hg) s = Some cs" "c \<in> set cs" for s cs c
  proof -
    have "hq_symbol c = s" using f(1) that by (auto simp: hg_fresh_def)
    moreover have "s \<in> set (um_keys (hg_sym_chunks hg))" using that(1) um_find_None_keys [of "hg_sym_chunks hg" s] by auto
    ultimately show ?thesis using f(1) by (simp add: hg_fresh_def)
  qed
  have "length (hg_sym_chunk_id hg) < 2 ^ 64" using f(1) n by (simp add: hg_fresh_def)
  then have "unat (hg_remaining hg0) = length (hg_sym_chunk_id hg)"
    using f(2) h by (simp add: unat_of_nat take_bit_nat_eq_self)
  moreover have "in_progress hg0 = um_keys (hg_sym_chunk_id hg)"
    using f(1) h by (simp add: in_progress_def hg_fresh_def um_get_def)
  moreover have "\<forall>c \<in> set (lbq_items (hg_q hg0)). hq_symbol c \<in> set (um_keys (hg_sym_chunk_id hg))"
  proof
    fix c assume "c \<in> set (lbq_items (hg_q hg0))"
    then obtain s cs where m: "(s, cs) \<in> set (hg_sym_chunks hg)" "c = hd cs" using h by auto
    have "cs \<noteq> []" using find [OF m(1)] f(1) by (auto simp: hg_fresh_def)
    with sym [OF find [OF m(1)]] m(2) show "hq_symbol c \<in> set (um_keys (hg_sym_chunk_id hg))" by simp
  qed
  moreover have "\<forall>s. \<forall>c \<in> set (um_get [] (hg_sym_chunks hg) s). hq_symbol c \<in> set (um_keys (hg_sym_chunk_id hg))"
    using sym by (simp add: um_get_def split: option.splits) metis
  ultimately show ?thesis using f(1) h by (simp add: hg_inv_def Let_def hg_fresh_def um_keys_def)
qed

text \<open>
  Property C25. From any requests, and whatever the order of requests, answers, errors and bars, as long as every
  save gives a result: \<open>remaining\<close> is the number of symbols still in progress, so it never wraps
  around, and the loop of \<open>run\<close> ends exactly when no symbol is in progress.
\<close>

theorem remaining_counts_symbols:
  assumes "hg_init reqs days = Some (Inr hg)" and "length reqs < 2 ^ 64" and "hg_run_start hg = Ret () hg0"
    and "hg_execs sorter save tf ops (hg0, None, ib) = Ret () (hg1, p, ib1)"
    and "\<forall>path table. save path table \<noteq> Save_error"
  shows "unat (hg_remaining hg1) = length (in_progress hg1)"
  using hg_inv_execs [OF hg_inv_start [OF assms(1-3)] assms(4)] assms(5) by (auto simp: hg_inv_def Let_def)

text \<open>A save that fails leaves the symbol out of the count for good: the slack grows by one.\<close>

lemma hg_failed_save:
  assumes inv: "hg_inv k (hg, p, ib)" and s: "um_find (hg_req_id_sym hg) (he_id e) = Some s"
    and in_prog: "um_get HB_in_prog (hg_sym_status hg) s = HB_in_prog"
    and last: "um_get 0 (hg_sym_chunk_id hg) s + 1 = of_nat (length (um_get [] (hg_sym_chunks hg) s))"
    and fail: "\<forall>table. save (hr_save_path (um_get default_hist_req (hg_sym_req hg) s)) table = Save_error"
  shows "\<exists>hg1. hg_exec sorter save tf (HG_event (on_hist_bar_end e)) (hg, p, ib) = Ret () (hg1, p, ib) \<and> hg_inv (Suc k) (hg1, p, ib)"
proof -
  have ks: "s \<in> set (um_keys (hg_sym_chunk_id hg))" using inv s by (auto simp: hg_inv_def Let_def)
  let ?hg = "hg\<lparr>hg_sym_chunk_id := um_put s (of_nat (length (um_get [] (hg_sym_chunks hg) s))) (hg_sym_chunk_id hg),
    hg_sym_chunks := um_touch [] s (hg_sym_chunks hg)\<rparr>"
  have inv1: "hg_inv k (?hg, p, ib)"
    using inv ks by (simp add: hg_inv_def Let_def in_progress_def um_keys_put um_wf_put)
  obtain hg2 where pd: "hg_process_data sorter save s ?hg = Ret False hg2"
    using fail by (simp add: hg_process_data_def Let_def)
  note fr = hg_process_data_frame [OF disjI1 [OF pd]]
  have inv2: "hg_inv k (hg2, p, ib)" by (rule hg_inv_data [OF inv1]) (simp_all add: fr)
  have "hg_exec sorter save tf (HG_event (on_hist_bar_end e)) (hg, p, ib)
      = Ret () (hg2\<lparr>hg_sym_status := um_put s HB_error (hg_sym_status hg2)\<rparr>, p, ib)"
    using pd s last by (simp add: hg_callback_def on_hist_bar_end_def hg_process_hist_bar_end_def Let_def)
  moreover have "s \<in> set (um_keys (hg_sym_chunk_id hg2))" using ks by (simp add: fr um_keys_put)
  ultimately show ?thesis using hg_inv_fail [OF inv2 _ _ _, of s HB_error] in_prog by (simp add: fr)
qed

text \<open>
  Property C38. When the last request of a symbol in progress has ended and writing its file fails, \<open>remaining\<close> stays
  above zero whatever happens afterwards: the loop of \<open>run\<close> never ends.
\<close>

theorem failed_save_never_ends:
  assumes "hg_init reqs days = Some (Inr hg)" and "length reqs < 2 ^ 64" and "hg_run_start hg = Ret () hg0"
    and "hg_execs sorter save tf ops (hg0, None, ib) = Ret () (hg1, p, ib1)"
    and "um_find (hg_req_id_sym hg1) (he_id e) = Some s" and "um_get HB_in_prog (hg_sym_status hg1) s = HB_in_prog"
    and "um_get 0 (hg_sym_chunk_id hg1) s + 1 = of_nat (length (um_get [] (hg_sym_chunks hg1) s))"
    and "\<forall>table. save (hr_save_path (um_get default_hist_req (hg_sym_req hg1) s)) table = Save_error"
    and "hg_execs sorter save tf (HG_event (on_hist_bar_end e) # ops') (hg1, p, ib1) = Ret () (hg2, p2, ib2)"
  shows "hg_remaining hg2 \<noteq> 0"
proof -
  obtain k where "hg_inv k (hg1, p, ib1)" using hg_inv_execs [OF hg_inv_start [OF assms(1-3)] assms(4)] by blast
  from hg_failed_save [OF this assms(5-7), of save sorter tf] assms(8) obtain hg3 where
    "hg_exec sorter save tf (HG_event (on_hist_bar_end e)) (hg1, p, ib1) = Ret () (hg3, p, ib1)" "hg_inv (Suc k) (hg3, p, ib1)" by blast
  moreover from this(1) have "hg_execs sorter save tf ops' (hg3, p, ib1) = Ret () (hg2, p2, ib2)" using assms(9) by simp
  ultimately obtain k' where "Suc k \<le> k'" "hg_inv k' (hg2, p2, ib2)" using hg_inv_execs by blast
  then have "0 < unat (hg_remaining hg2)" by (simp add: hg_inv_def Let_def)
  then show ?thesis by auto
qed

section \<open>The download of a symbol\<close>

text \<open>What the gateway calls and the callbacks do for one request: its id, its bars and its end.\<close>

definition chunk_ops :: "int \<Rightarrow> hist_bar list \<Rightarrow> hg_op list" where
  "chunk_ops rid bars = [HG_send, HG_register]
     @ map (\<lambda>b. HG_event (on_hist_bar (b\<lparr>hb_id := rid\<rparr>))) bars
     @ [HG_event (on_hist_bar_end \<lparr>he_id = rid, he_start = [], he_end = []\<rparr>)]"

fun download_ops :: "int \<Rightarrow> hist_bar list list \<Rightarrow> hg_op list" where
  "download_ops rid [] = []"
| "download_ops rid (bars # barss) = chunk_ops rid bars @ download_ops (rid + 1) barss"

fun with_ids :: "int \<Rightarrow> hist_bar list list \<Rightarrow> hist_bar list" where
  "with_ids rid [] = []"
| "with_ids rid (bars # barss) = map (\<lambda>b. b\<lparr>hb_id := rid\<rparr>) bars @ with_ids (rid + 1) barss"

lemma hg_execs_append:
  "hg_execs sorter save tf (ops1 @ ops2) w = bind_o (hg_execs sorter save tf ops1 w) (\<lambda>_. hg_execs sorter save tf ops2)"
proof (induction ops1 arbitrary: w)
  case (Cons op ops)
  then show ?case by (cases "hg_exec sorter save tf op w") simp_all
qed simp

lemma hg_execs_bars:
  "um_find (hg_req_id_sym hg) rid = Some s
    \<Longrightarrow> \<exists>hg1. hg_execs sorter save tf (map (\<lambda>b. HG_event (on_hist_bar (b\<lparr>hb_id := rid\<rparr>))) bars) (hg, p, ib) = Ret () (hg1, p, ib)
      \<and> um_get [] (hg_sym_data hg1) s = um_get [] (hg_sym_data hg) s @ map (\<lambda>b. b\<lparr>hb_id := rid\<rparr>) bars
      \<and> hg1 = hg\<lparr>hg_sym_data := hg_sym_data hg1\<rparr>"
proof (induction bars arbitrary: hg)
  case Nil
  then show ?case by auto
next
  case (Cons b bars)
  let ?hg = "hg\<lparr>hg_sym_data := um_put s (um_get [] (hg_sym_data hg) s @ [b\<lparr>hb_id := rid\<rparr>]) (hg_sym_data hg)\<rparr>"
  have "hg_exec sorter save tf (HG_event (on_hist_bar (b\<lparr>hb_id := rid\<rparr>))) (hg, p, ib) = Ret () (?hg, p, ib)"
    using Cons.prems by (simp add: hg_callback_def on_hist_bar_def hg_process_hist_bar_def)
  with Cons.IH [of ?hg] Cons.prems show ?case by force
qed

text \<open>One request up to its end: the id is noted and the bars are with the symbol's data.\<close>

lemma hg_execs_request:
  assumes "lbq_items (hg_q hg) = [c]" and "symbol_wf (hq_symbol c)" and "hg_remaining hg \<noteq> 0"
  shows "\<exists>hg1 ib1. hg_execs sorter save tf ([HG_send, HG_register] @ map (\<lambda>b. HG_event (on_hist_bar (b\<lparr>hb_id := ib_req_id ib\<rparr>))) bars)
      (hg, None, ib) = Ret () (hg1, None, ib1)
    \<and> ib_req_id ib1 = ib_req_id ib + 1 \<and> lbq_items (hg_q hg1) = []
    \<and> um_find (hg_req_id_sym hg1) (ib_req_id ib) = Some (hq_symbol c)
    \<and> um_get [] (hg_sym_data hg1) (hq_symbol c) = um_get [] (hg_sym_data hg) (hq_symbol c) @ map (\<lambda>b. b\<lparr>hb_id := ib_req_id ib\<rparr>) bars
    \<and> hg1 = hg\<lparr>hg_q := hg_q hg1, hg_req_id_sym := hg_req_id_sym hg1, hg_sym_data := hg_sym_data hg1\<rparr>"
proof -
  let ?hg = "hg\<lparr>hg_q := (hg_q hg)\<lparr>lbq_items := []\<rparr>, hg_req_id_sym := um_put (ib_req_id ib) (hq_symbol c) (hg_req_id_sym hg)\<rparr>"
  obtain ib1 where "ib_req_historical_bar (hq_symbol c) (hq_end c) (hq_dur c) (hq_bar_size c) (hq_wts c) 1 tf ib = Ret (ib_req_id ib) ib1"
    and i: "ib_req_id ib1 = ib_req_id ib + 1"
    using assms(2) by (simp add: ib_req_historical_bar_def generate_contract_eq ib_call_def Let_def)
  then have "hg_exec sorter save tf HG_send (hg, None, ib)
      = Ret () (hg\<lparr>hg_q := (hg_q hg)\<lparr>lbq_items := []\<rparr>\<rparr>, Some (ib_req_id ib, hq_symbol c), ib1)"
    using assms by (simp add: hg_run_send_def wait_pop_def)
  then have s: "hg_execs sorter save tf [HG_send, HG_register] (hg, None, ib) = Ret () (?hg, None, ib1)"
    by (simp add: hg_run_register_def)
  have "um_find (hg_req_id_sym ?hg) (ib_req_id ib) = Some (hq_symbol c)" by simp
  from hg_execs_bars [OF this, of sorter save tf bars None ib1] obtain hg1 where
    "hg_execs sorter save tf (map (\<lambda>b. HG_event (on_hist_bar (b\<lparr>hb_id := ib_req_id ib\<rparr>))) bars) (?hg, None, ib1) = Ret () (hg1, None, ib1)"
    and d: "um_get [] (hg_sym_data hg1) (hq_symbol c) = um_get [] (hg_sym_data hg) (hq_symbol c) @ map (\<lambda>b. b\<lparr>hb_id := ib_req_id ib\<rparr>) bars"
    and e: "hg1 = ?hg\<lparr>hg_sym_data := hg_sym_data hg1\<rparr>" by auto
  then have "hg_execs sorter save tf ([HG_send, HG_register] @ map (\<lambda>b. HG_event (on_hist_bar (b\<lparr>hb_id := ib_req_id ib\<rparr>))) bars)
      (hg, None, ib) = Ret () (hg1, None, ib1)"
    unfolding hg_execs_append s by simp
  moreover have "hg_q hg1 = (hg_q hg)\<lparr>lbq_items := []\<rparr>" "um_find (hg_req_id_sym hg1) (ib_req_id ib) = Some (hq_symbol c)"
    by (subst e, simp)+
  moreover have "hg1 = hg\<lparr>hg_q := hg_q hg1, hg_req_id_sym := hg_req_id_sym hg1, hg_sym_data := hg_sym_data hg1\<rparr>"
    by (subst e, subst (2) e, subst (3) e) simp
  ultimately show ?thesis using d i by auto
qed

text \<open>
  From the request with number \<open>k\<close> to the last one, for a symbol with the requests \<open>chunks\<close>: the
  file is saved with the data collected before and the bars of all answers.
\<close>

lemma download_from:
  assumes "length barss = length chunks - k" and "k < length chunks" and "length chunks < 2 ^ 64"
    and "\<forall>c \<in> set chunks. hq_symbol c = s" and "symbol_wf s"
    and "lbq_items (hg_q hg) = [chunks ! k]" and "um_get [] (hg_sym_chunks hg) s = chunks" and "um_get 0 (hg_sym_chunk_id hg) s = of_nat k"
    and "hg_remaining hg \<noteq> 0" and "um_get HB_in_prog (hg_sym_status hg) s = HB_in_prog"
    and "um_find (hg_sym_req hg) s = Some r" and "\<forall>table. save (hr_save_path r) table = Save_ok"
  shows "\<exists>hg1 ib1. hg_execs sorter save tf (download_ops (ib_req_id ib) barss) (hg, None, ib) = Ret () (hg1, None, ib1)
    \<and> hg_files hg1 = hg_files hg @ [(hr_save_path r, map csv_row_of (std_unique (sorter
        (um_get [] (hg_sym_data hg) s @ with_ids (ib_req_id ib) barss))))]
    \<and> um_get HB_in_prog (hg_sym_status hg1) s = HB_success \<and> hg_remaining hg1 = hg_remaining hg - 1"
  using assms
proof (induction barss arbitrary: k hg ib)
  case Nil
  then show ?case by simp
next
  case (Cons bars barss)
  let ?c = "chunks ! k" and ?rid = "ib_req_id ib"
  have c: "hq_symbol ?c = s" using Cons.prems(2,4) by simp
  obtain hg1 ib1 where 1: "hg_execs sorter save tf ([HG_send, HG_register] @ map (\<lambda>b. HG_event (on_hist_bar (b\<lparr>hb_id := ?rid\<rparr>))) bars)
      (hg, None, ib) = Ret () (hg1, None, ib1)"
    and i1: "ib_req_id ib1 = ?rid + 1" and q1: "lbq_items (hg_q hg1) = []" and f1: "um_find (hg_req_id_sym hg1) ?rid = Some s"
    and d1: "um_get [] (hg_sym_data hg1) s = um_get [] (hg_sym_data hg) s @ map (\<lambda>b. b\<lparr>hb_id := ?rid\<rparr>) bars"
    and e1: "hg1 = hg\<lparr>hg_q := hg_q hg1, hg_req_id_sym := hg_req_id_sym hg1, hg_sym_data := hg_sym_data hg1\<rparr>"
    using hg_execs_request [OF Cons.prems(6) _ Cons.prems(9), of sorter save tf ib bars] Cons.prems(5) c by auto
  have fr: "hg_sym_chunks hg1 = hg_sym_chunks hg" "hg_sym_chunk_id hg1 = hg_sym_chunk_id hg" "hg_remaining hg1 = hg_remaining hg"
    "hg_sym_status hg1 = hg_sym_status hg" "hg_sym_req hg1 = hg_sym_req hg" "hg_files hg1 = hg_files hg"
    by (subst e1, simp)+
  let ?fin = "HG_event (on_hist_bar_end \<lparr>he_id = ?rid, he_start = [], he_end = []\<rparr>)"
  have k1: "of_nat k + 1 = (of_nat (Suc k) :: 64 word)" by simp
  have u: "unat (of_nat n :: 64 word) = n" if "n < 2 ^ 64" for n
    using that by (simp add: unat_of_nat take_bit_nat_eq_self)
  have lt: "Suc k < 2 ^ 64" using Cons.prems(2,3) by simp
  have eqs: "(of_nat (Suc k) :: 64 word) = of_nat (length chunks) \<longleftrightarrow> Suc k = length chunks"
    "unat (of_nat (Suc k) :: 64 word) = Suc k"
    using u [OF lt] u [OF Cons.prems(3)] by metis+
  have split: "hg_execs sorter save tf (download_ops ?rid (bars # barss)) (hg, None, ib)
      = bind_o (hg_exec sorter save tf ?fin (hg1, None, ib1)) (\<lambda>_. hg_execs sorter save tf (download_ops (?rid + 1) barss))"
  proof -
    have "download_ops ?rid (bars # barss) = ([HG_send, HG_register] @ map (\<lambda>b. HG_event (on_hist_bar (b\<lparr>hb_id := ?rid\<rparr>))) bars)
      @ (?fin # download_ops (?rid + 1) barss)" by (simp add: chunk_ops_def)
    then show ?thesis unfolding hg_execs.simps(2) [symmetric]
      by (simp only: hg_execs_append [of sorter save tf _ "?fin # download_ops (?rid + 1) barss"] 1 bind_o.simps)
  qed
  let ?data = "um_get [] (hg_sym_data hg) s @ with_ids ?rid (bars # barss)"
  show ?case
  proof (cases "Suc k = length chunks")
    case True
    have "length barss = 0" using Cons.prems(1) unfolding True [symmetric] by simp
    then have b: "barss = []" by simp
    have r: "um_get default_hist_req (hg_sym_req hg1) s = r" using Cons.prems(11) fr by (simp add: um_get_def)
    have "\<exists>hg2. hg_exec sorter save tf ?fin (hg1, None, ib1) = Ret () (hg2, None, ib1)
      \<and> hg_files hg2 = hg_files hg1 @ [(hr_save_path r, map csv_row_of (std_unique (sorter (um_get [] (hg_sym_data hg1) s))))]
      \<and> um_get HB_in_prog (hg_sym_status hg2) s = HB_success \<and> hg_remaining hg2 = hg_remaining hg1 - 1"
      using f1 fr(1-4) Cons.prems(7,8,10,12) eqs True r
      by (simp add: hg_callback_def on_hist_bar_end_def hg_process_hist_bar_end_def hg_process_data_def Let_def k1 del: of_nat_Suc)
    then obtain hg2 where 2: "hg_exec sorter save tf ?fin (hg1, None, ib1) = Ret () (hg2, None, ib1)"
      and h: "hg_files hg2 = hg_files hg1 @ [(hr_save_path r, map csv_row_of (std_unique (sorter (um_get [] (hg_sym_data hg1) s))))]"
        "um_get HB_in_prog (hg_sym_status hg2) s = HB_success" "hg_remaining hg2 = hg_remaining hg1 - 1" by blast
    have "hg_execs sorter save tf (download_ops ?rid (bars # barss)) (hg, None, ib) = Ret () (hg2, None, ib1)"
      by (subst split, subst 2) (simp add: b)
    with h d1 fr b show ?thesis by simp
  next
    case False
    then have lt2: "Suc k < length chunks" using Cons.prems(2) by simp
    let ?hg2 = "hg1\<lparr>hg_sym_chunk_id := um_put s (of_nat (Suc k)) (hg_sym_chunk_id hg1),
        hg_sym_chunks := um_touch [] s (hg_sym_chunks hg1), hg_q := wait_push (chunks ! Suc k) (hg_q hg1)\<rparr>"
    have 2: "hg_exec sorter save tf ?fin (hg1, None, ib1) = Ret () (?hg2, None, ib1)"
      using f1 fr Cons.prems(7,8) eqs lt2 False
      by (simp add: hg_callback_def on_hist_bar_end_def hg_process_hist_bar_end_def Let_def k1 del: of_nat_Suc)
    have "\<exists>hg3 ib3. hg_execs sorter save tf (download_ops (ib_req_id ib1) barss) (?hg2, None, ib1) = Ret () (hg3, None, ib3)
      \<and> hg_files hg3 = hg_files ?hg2 @ [(hr_save_path r, map csv_row_of (std_unique (sorter
          (um_get [] (hg_sym_data ?hg2) s @ with_ids (ib_req_id ib1) barss))))]
      \<and> um_get HB_in_prog (hg_sym_status hg3) s = HB_success \<and> hg_remaining hg3 = hg_remaining ?hg2 - 1"
      by (rule Cons.IH [of "Suc k"])
        (use Cons.prems lt2 fr q1 in \<open>simp_all add: wait_push_def del: of_nat_Suc\<close>)
    with 2 split i1 d1 fr show ?thesis by simp
  qed
qed


section \<open>Corner cases\<close>

text \<open>Bars and the end of a request that arrive before its id is noted are dropped.\<close>

lemma early_events_dropped:
  "um_find (hg_req_id_sym hg) (hb_id b) = None \<Longrightarrow> hg_exec sorter save tf (HG_event (on_hist_bar b)) (hg, p, ib) = Ret () (hg, p, ib)"
  "um_find (hg_req_id_sym hg) (he_id e) = None \<Longrightarrow> hg_exec sorter save tf (HG_event (on_hist_bar_end e)) (hg, p, ib) = Ret () (hg, p, ib)"
  by (simp_all add: hg_callback_def on_hist_bar_def on_hist_bar_end_def hg_process_hist_bar_def hg_process_hist_bar_end_def)

text \<open>With no symbol at all, as when no span needs a request, reporting the final status is undefined.\<close>

lemma log_status_of_nothing: "hg_sym_status hg = um_empty \<Longrightarrow> hg_log_status hg = Inl Index_out_of_bounds"
  by (simp add: hg_log_status_def pop_back_def)

section \<open>A download of three requests\<close>

definition demo_chunks :: "ib_hist_bar_req list" where
  "demo_chunks = [ib_hist_req demo_hist_req ''20250108-00:00:00'' ''5 D'', ib_hist_req demo_hist_req ''20250110-00:00:00'' ''2 D'',
     ib_hist_req demo_hist_req ''20250110-00:01:05'' ''65 S'']"

lemma demo_generate: "generate_ib_reqs demo_hist_req 5 = Some (Inr demo_chunks)"
proof -
  have w: "hist_window 5 1735862400 1736467265 = (1736294400, ''5 D'')" "hist_window 5 1736294400 1736467265 = (1736467200, ''2 D'')"
    "hist_window 5 1736467200 1736467265 = (1736467265, ''65 S'')"
    and e: "hist_end_str demo_hist_req 1736294400 = Some ''20250108-00:00:00''"
    "hist_end_str demo_hist_req 1736467200 = Some ''20250110-00:00:00''" "hist_end_str demo_hist_req 1736467265 = Some ''20250110-00:01:05''"
    by code_simp+
  have "ib_reqs_from demo_hist_req 5 1736467265 1736467265 demo_chunks = Some (Inr demo_chunks)"
    by (subst ib_reqs_from.simps) simp
  then have "ib_reqs_from demo_hist_req 5 1736467265 1736467200 (take 2 demo_chunks) = Some (Inr demo_chunks)"
    using w(3) e(3) by (subst ib_reqs_from.simps) (simp add: demo_chunks_def)
  then have "ib_reqs_from demo_hist_req 5 1736467265 1736294400 (take 1 demo_chunks) = Some (Inr demo_chunks)"
    using w(2) e(2) by (subst ib_reqs_from.simps) (simp add: demo_chunks_def)
  then have "ib_reqs_from demo_hist_req 5 1736467265 1735862400 [] = Some (Inr demo_chunks)"
    using w(1) e(1) by (subst ib_reqs_from.simps) (simp add: demo_chunks_def)
  then show ?thesis by (simp add: generate_ib_reqs_def demo_hist_times)
qed

definition demo_hg :: hist_getter where
  "demo_hg = hg_empty\<lparr>hg_sym_req := [(''7203-STK-JPY.TSEJ'', demo_hist_req)], hg_sym_chunks := [(''7203-STK-JPY.TSEJ'', demo_chunks)],
     hg_sym_chunk_id := [(''7203-STK-JPY.TSEJ'', 0)], hg_remaining := 1\<rparr>"

definition demo_hg_started :: hist_getter where
  "demo_hg_started = demo_hg\<lparr>hg_q := \<lparr>lbq_items = [ib_hist_req demo_hist_req ''20250108-00:00:00'' ''5 D'']\<rparr>\<rparr>"

lemma demo_hg_init: "hg_init [demo_hist_req] 5 = Some (Inr demo_hg)"
  by (simp add: hg_init_def demo_generate demo_hg_def hg_empty_def um_put_def)
    (simp add: demo_hist_req_def demo_chunks_def um_put_def)

lemma demo_hg_start: "hg_run_start demo_hg = Ret () demo_hg_started"
  by (simp add: hg_run_start_def demo_hg_started_def demo_hg_def demo_chunks_def hg_empty_def lbq_empty_def wait_push_def)

lemma demo_hist_symbol: "symbol_wf ''7203-STK-JPY.TSEJ''"
  by code_simp

definition demo_bar :: "string \<Rightarrow> double \<Rightarrow> hist_bar" where
  "demo_bar t px = \<lparr>hb_id = 0, hb_time = t, hb_high = px, hb_low = px, hb_open = px, hb_close = px, hb_wap = px, hb_volume = 1, hb_count = 1\<rparr>"

definition demo_answers :: "hist_bar list list" where
  "demo_answers = [[demo_bar ''20250103 00:00:05'' (Fin 7), demo_bar ''20250103 00:00:00'' (Fin 5)], [demo_bar ''20250108 00:00:00'' (Fin 6)], []]"


definition demo_err :: event where
  "demo_err = on_error \<lparr>em_id = ib_req_id ib_init, em_error_code = 162, em_message = ''no data'', em_order_rejection_json = []\<rparr>"

lemma demo_send:
  "\<exists>ib1. hg_execs sorter save tf [HG_send, HG_register] (demo_hg_started, None, ib_init)
    = Ret () (demo_hg_started\<lparr>hg_q := lbq_empty, hg_req_id_sym := [(ib_req_id ib_init, ''7203-STK-JPY.TSEJ'')]\<rparr>, None, ib1)"
  using demo_hist_symbol
  by (simp add: demo_hg_started_def demo_hg_def hg_empty_def hg_run_send_def wait_pop_def ib_hist_req_def demo_hist_req_def
      ib_req_historical_bar_def generate_contract_eq Let_def hg_run_register_def um_put_def lbq_empty_def ib_call_def)

theorem remaining_counts_symbols_witness:
  "\<exists>hg1 ib1. hg_execs (sort_key hb_time) (\<lambda>_ _. Save_ok) 1 [HG_send, HG_register, HG_event demo_err] (demo_hg_started, None, ib_init)
      = Ret () (hg1, None, ib1) \<and> unat (hg_remaining hg1) = length (in_progress hg1)"
proof -
  obtain ib1 where "hg_execs (sort_key hb_time) (\<lambda>_ _. Save_ok) 1 [HG_send, HG_register] (demo_hg_started, None, ib_init)
    = Ret () (demo_hg_started\<lparr>hg_q := lbq_empty, hg_req_id_sym := [(ib_req_id ib_init, ''7203-STK-JPY.TSEJ'')]\<rparr>, None, ib1)"
    using demo_send by blast
  then obtain hg1 where run: "hg_execs (sort_key hb_time) (\<lambda>_ _. Save_ok) 1 ([HG_send, HG_register] @ [HG_event demo_err]) (demo_hg_started, None, ib_init)
      = Ret () (hg1, None, ib1)"
    unfolding hg_execs_append by (simp add: hg_callback_def demo_err_def on_error_def hg_process_err_msg_def)
  from remaining_counts_symbols [OF demo_hg_init _ demo_hg_start this] have "unat (hg_remaining hg1) = length (in_progress hg1)"
    by simp
  with run show ?thesis unfolding append_Cons append_Nil by blast
qed

text \<open>A span of 65 seconds: one request, whose file cannot be written.\<close>

definition demo_short_req :: hist_bar_req where
  "demo_short_req = demo_hist_req\<lparr>hr_start := ''2025-01-10 00:00:00''\<rparr>"

definition demo_short_chunk :: ib_hist_bar_req where
  "demo_short_chunk = ib_hist_req demo_hist_req ''20250110-00:01:05'' ''65 S''"

definition demo_short :: hist_getter where
  "demo_short = hg_empty\<lparr>hg_sym_req := [(''7203-STK-JPY.TSEJ'', demo_short_req)], hg_sym_chunks := [(''7203-STK-JPY.TSEJ'', [demo_short_chunk])],
     hg_sym_chunk_id := [(''7203-STK-JPY.TSEJ'', 0)], hg_remaining := 1\<rparr>"

lemma demo_short_generate: "generate_ib_reqs demo_short_req 5 = Some (Inr [demo_short_chunk])"
proof -
  have w: "hist_window 5 1736467200 1736467265 = (1736467265, ''65 S'')"
    and e: "hist_end_str demo_short_req 1736467265 = Some ''20250110-00:01:05''" by code_simp+
  have "format_F_T 1736467200 = Some ''2025-01-10 00:00:00''" by code_simp
  with parse_format [of 1736467200] have "time_of (hr_start demo_short_req) = 1736467200"
    by (simp add: time_of_def demo_short_req_def)
  moreover have "time_of (hr_end demo_short_req) = 1736467265"
    using demo_hist_times(2) by (simp add: demo_short_req_def)
  moreover have "ib_reqs_from demo_short_req 5 1736467265 1736467265 [demo_short_chunk] = Some (Inr [demo_short_chunk])"
    by (subst ib_reqs_from.simps) simp
  then have "ib_reqs_from demo_short_req 5 1736467265 1736467200 [] = Some (Inr [demo_short_chunk])"
    using w e by (subst ib_reqs_from.simps) (simp add: demo_short_chunk_def demo_short_req_def ib_hist_req_def)
  ultimately show ?thesis by (simp add: generate_ib_reqs_def)
qed

lemma demo_short_init: "hg_init [demo_short_req] 5 = Some (Inr demo_short)"
  by (simp add: hg_init_def demo_short_generate demo_short_def hg_empty_def um_put_def)
    (simp add: demo_short_req_def demo_hist_req_def um_put_def)

lemma demo_short_start: "hg_run_start demo_short = Ret () (demo_short\<lparr>hg_q := \<lparr>lbq_items = [demo_short_chunk]\<rparr>\<rparr>)"
  by (simp add: hg_run_start_def demo_short_def hg_empty_def lbq_empty_def wait_push_def)

theorem failed_save_never_ends_witness:
  "\<exists>hg2 p2 ib2. hg_execs (sort_key hb_time) (\<lambda>_ _. Save_error) 1
      [HG_event (on_hist_bar_end \<lparr>he_id = ib_req_id ib_init, he_start = [], he_end = []\<rparr>), HG_send]
      (demo_short\<lparr>hg_q := lbq_empty, hg_req_id_sym := [(ib_req_id ib_init, ''7203-STK-JPY.TSEJ'')]\<rparr>, None, ib_init) = Ret () (hg2, p2, ib2)
    \<and> hg_remaining hg2 \<noteq> 0"
proof -
  let ?hg1 = "demo_short\<lparr>hg_q := lbq_empty, hg_req_id_sym := [(ib_req_id ib_init, ''7203-STK-JPY.TSEJ'')]\<rparr>"
  let ?e = "\<lparr>he_id = ib_req_id ib_init, he_start = [], he_end = []\<rparr>"
  obtain ib1 where run: "hg_execs (sort_key hb_time) (\<lambda>_ _. Save_error) 1 [HG_send, HG_register]
      (demo_short\<lparr>hg_q := \<lparr>lbq_items = [demo_short_chunk]\<rparr>\<rparr>, None, ib_init) = Ret () (?hg1, None, ib1)"
    using demo_hist_symbol
    by (simp add: demo_short_def demo_short_chunk_def hg_empty_def hg_run_send_def wait_pop_def ib_hist_req_def demo_hist_req_def
      ib_req_historical_bar_def generate_contract_eq Let_def hg_run_register_def um_put_def lbq_empty_def ib_call_def)
  obtain hg2 ib2 where end_: "hg_execs (sort_key hb_time) (\<lambda>_ _. Save_error) 1 [HG_event (on_hist_bar_end ?e), HG_send] (?hg1, None, ib)
      = Ret () (hg2, None, ib)" for ib
    by (simp add: hg_callback_def on_hist_bar_end_def hg_process_hist_bar_end_def hg_process_data_def demo_short_def hg_empty_def
      um_get_def um_put_def lbq_empty_def hg_run_send_def wait_pop_def Let_def)
  have "hg_remaining hg2 \<noteq> 0"
    using failed_save_never_ends [OF demo_short_init _ demo_short_start run, of ?e "''7203-STK-JPY.TSEJ''" "[HG_send]" hg2 None ib1] end_ [of ib1]
    by (simp add: demo_short_def hg_empty_def um_get_def)
  with end_ [of ib_init] show ?thesis by blast
qed

end
