(* ===== verification/Bytes.thy ===== *)
theory Bytes
  imports "HOL-Library.Word" Doubles
begin

text \<open>
  The memory images of the messages the algorithm engine exchanges through Redis: C strings in a
  fixed array, little-endian 64-bit integers, and IEEE 754 bit patterns of doubles, as lists of
  characters (bytes). \<open>TickMsg\<close> and \<open>PosMsg\<close> of \<open>lib/algo/algo_engine.h\<close> have the same layout: an
  array of 32 characters, a double and a \<open>long long\<close>, 48 bytes without padding.
\<close>

section \<open>Little-endian integers\<close>

fun le_bytes :: "nat \<Rightarrow> nat \<Rightarrow> string" where
  "le_bytes 0 n = []"
| "le_bytes (Suc k) n = char_of (n mod 256) # le_bytes k (n div 256)"

fun le_value :: "string \<Rightarrow> nat" where
  "le_value [] = 0"
| "le_value (c # cs) = of_char c + 256 * le_value cs"

lemma length_le_bytes [simp]: "length (le_bytes k n) = k"
  by (induction k arbitrary: n) simp_all

lemma le_value_bytes: "n < 256 ^ k \<Longrightarrow> le_value (le_bytes k n) = n"
proof (induction k arbitrary: n)
  case 0
  then show ?case by simp
next
  case (Suc k)
  then have "n div 256 < 256 ^ k" by (simp add: less_mult_imp_div_less mult.commute)
  with Suc.IH show ?case by simp
qed

definition word_bytes :: "64 word \<Rightarrow> string" where
  "word_bytes w = le_bytes 8 (unat w)"

definition bytes_word :: "string \<Rightarrow> 64 word" where
  "bytes_word bs = of_nat (le_value bs)"

lemma bytes_word_bytes [simp]: "bytes_word (word_bytes w) = w"
proof -
  have "unat w < 256 ^ 8" using unsigned_less [of w, where ?'a = nat] by simp
  then show ?thesis by (simp add: bytes_word_def word_bytes_def le_value_bytes)
qed

lemma length_word_bytes [simp]: "length (word_bytes w) = 8"
  by (simp add: word_bytes_def)

section \<open>Bit patterns of doubles\<close>

definition double_of_bits :: "64 word \<Rightarrow> double" where
  "double_of_bits w =
     (let n = unat w; s = n div 2 ^ 63; e = n div 2 ^ 52 mod 2 ^ 11; m = n mod 2 ^ 52;
          sgn = (if s = 0 then 1 else - 1) in
      if e = 2047 then (if m = 0 then (if s = 0 then PInf else NInf) else NaN)
      else if e = 0 then Fin (sgn * of_nat m * 2 powi (- 1074))
      else Fin (sgn * of_nat (2 ^ 52 + m) * 2 powi (int e - 1075)))"

text \<open>The pattern of a number that a double holds exactly: exponent field and fraction.\<close>

definition bits_of_rat :: "rat \<Rightarrow> nat" where
  "bits_of_rat q =
     (let e = ulp_exponent q; m = nat \<lfloor>\<bar>q\<bar> / 2 powi e\<rfloor> in
      (if q < 0 then 2 ^ 63 else 0)
      + (if m < 2 ^ 52 then m else nat (e + 1075) * 2 ^ 52 + (m - 2 ^ 52)))"

definition bits_of_double :: "double \<Rightarrow> 64 word" where
  "bits_of_double x =
     (case x of
        Fin q \<Rightarrow> (if q = 0 then 0 else of_nat (bits_of_rat q))
      | PInf \<Rightarrow> of_nat (2047 * 2 ^ 52)
      | NInf \<Rightarrow> of_nat (2 ^ 63 + 2047 * 2 ^ 52)
      | NaN \<Rightarrow> of_nat (2047 * 2 ^ 52 + 2 ^ 51))"

lemma double_of_bits_fields:
  assumes "s \<le> 1" and "e < 2 ^ 11" and "m < 2 ^ 52"
  shows "double_of_bits (of_nat (s * 2 ^ 63 + e * 2 ^ 52 + m)) =
    (if e = 2047 then (if m = 0 then (if s = 0 then PInf else NInf) else NaN)
     else if e = 0 then Fin ((if s = 0 then 1 else - 1) * of_nat m * 2 powi (- 1074))
     else Fin ((if s = 0 then 1 else - 1) * of_nat (2 ^ 52 + m) * 2 powi (int e - 1075)))"
proof -
  let ?n = "s * 2 ^ 63 + e * 2 ^ 52 + m"
  have "e * 2 ^ 52 + m < 2 ^ 63" using assms(2,3) by simp
  moreover have "s * 2 ^ 63 \<le> (2 ^ 63 :: nat)" using assms(1) by simp
  ultimately have lt: "?n < 2 ^ 64" by simp
  then have u: "unat (of_nat ?n :: 64 word) = ?n" by (simp only: unat_of_nat take_bit_nat_eq_self_iff) simp
  have s: "?n div 2 ^ 63 = s" using assms by simp
  have n: "?n = (s * 2 ^ 11 + e) * 2 ^ 52 + m" by simp
  have m: "?n mod 2 ^ 52 = m" unfolding n using assms(3) by (simp only: mod_mult_self3 mod_less)
  have e: "?n div 2 ^ 52 mod 2 ^ 11 = e"
  proof -
    from n have "?n div 2 ^ 52 = s * 2 ^ 11 + e" using assms(3) by simp
    then show ?thesis using assms(2) by simp
  qed
  show ?thesis unfolding double_of_bits_def Let_def u s m e by simp
qed

lemma exact_significand:
  assumes "exact q" and "q \<noteq> 0"
  obtains n where "\<bar>q\<bar> = of_nat n * 2 powi ulp_exponent q" and "n < 2 ^ 53"
    and "ulp_exponent q = - 1074 \<or> 2 ^ 52 \<le> n" and "ulp_exponent q \<le> 971"
proof -
  from assms(1) obtain m e where q: "q = of_int m * 2 powi e" and m: "\<bar>m\<bar> < 2 ^ 53"
    and e: "- 1074 \<le> e" "e \<le> 971" by (auto simp: exact_def)
  let ?u = "ulp_exponent q" and ?x = "rat_exponent \<bar>q\<bar>"
  have x: "2 powi ?x \<le> \<bar>q\<bar>" "\<bar>q\<bar> < 2 powi (?x + 1)"
    using rat_exponent_bounds [of "\<bar>q\<bar>"] assms(2) by simp_all
  have "(of_int \<bar>m\<bar> :: rat) < of_int (2 ^ 53)" using m by (simp only: of_int_less_iff)
  then have "\<bar>q\<bar> < 2 ^ 53 * 2 powi e" by (simp add: q abs_mult)
  then have lt: "\<bar>q\<bar> < 2 powi (53 + e)" by (simp add: power_int_add)
  have "(2 powi ?x :: rat) < 2 powi (53 + e)" using x(1) lt by (rule le_less_trans)
  then have xe: "?x < 53 + e" by (meson not_le one_le_numeral power_int_increasing)
  then have le: "?u \<le> e" using e(1) by (simp add: ulp_exponent_def)
  define n where "n = nat (\<bar>m\<bar> * 2 ^ nat (e - ?u))"
  have "\<bar>q\<bar> = of_int (\<bar>m\<bar> * 2 ^ nat (e - ?u)) * 2 powi ?u"
  proof -
    have "(2 powi e :: rat) = 2 ^ nat (e - ?u) * 2 powi ?u"
      using le power_int_add [of "2::rat" "e - ?u" ?u] by (simp add: power_int_def [of _ "e - ?u"])
    then show ?thesis by (simp add: q abs_mult)
  qed
  then have qn: "\<bar>q\<bar> = of_nat n * 2 powi ?u" by (simp add: n_def)
  have pos: "(0::rat) < 2 powi ?u" by simp
  have "\<bar>q\<bar> < 2 powi (?u + 53)"
  proof -
    have "?x + 1 \<le> ?u + 53" by (simp add: ulp_exponent_def)
    then have "(2 powi (?x + 1) :: rat) \<le> 2 powi (?u + 53)" by (rule power_int_increasing) simp
    with x(2) show ?thesis by linarith
  qed
  then have "of_nat n * 2 powi ?u < (2 ^ 53 :: rat) * 2 powi ?u" by (simp add: qn power_int_add)
  then have "(of_nat n :: rat) < 2 ^ 53" using pos by simp
  then have "(of_nat n :: rat) < of_nat (2 ^ 53)" by simp
  then have n: "n < 2 ^ 53" by (simp only: of_nat_less_iff)
  have "?u = - 1074 \<or> 2 ^ 52 \<le> n"
  proof (rule disjCI)
    assume "\<not> 2 ^ 52 \<le> n"
    then have "(of_nat n :: rat) < of_nat (2 ^ 52)" by (simp only: of_nat_less_iff not_le)
    then have "\<bar>q\<bar> < 2 ^ 52 * 2 powi ?u" using pos unfolding qn by simp
    then have "\<bar>q\<bar> < 2 powi (52 + ?u)" by (simp add: power_int_add)
    then have "(2 powi ?x :: rat) < 2 powi (52 + ?u)" using x(1) by linarith
    then have "?x < 52 + ?u" by (meson not_le one_le_numeral power_int_increasing)
    then show "?u = - 1074" by (simp add: ulp_exponent_def split: if_splits)
  qed
  moreover have "?u \<le> 971" using le e by simp
  ultimately show ?thesis using qn n that by blast
qed

text \<open>A double survives the trip through its bit pattern and its bytes.\<close>

lemma double_of_bits_of_double:
  assumes "exact q"
  shows "double_of_bits (bits_of_double (Fin q)) = Fin q"
proof (cases "q = 0")
  case True
  then show ?thesis by (simp add: bits_of_double_def double_of_bits_def)
next
  case False
  let ?u = "ulp_exponent q"
  from exact_significand [OF assms False] obtain n where n: "\<bar>q\<bar> = of_nat n * 2 powi ?u" "n < 2 ^ 53"
    "?u = - 1074 \<or> 2 ^ 52 \<le> n" "?u \<le> 971" .
  have u: "- 1074 \<le> ?u" by (simp add: ulp_exponent_def)
  have m: "nat \<lfloor>\<bar>q\<bar> / 2 powi ?u\<rfloor> = n" by (simp add: n(1))
  define s where "s = (if q < 0 then 1 else 0 :: nat)"
  have s1: "s \<le> 1" by (simp add: s_def)
  have "q = (if s = 0 then 1 else - 1) * \<bar>q\<bar>" by (simp add: s_def)
  then have qs: "(if s = 0 then 1 else - 1) * of_nat n * 2 powi ?u = q"
    by (simp only: n(1) mult.assoc)
  show ?thesis
  proof (cases "n < 2 ^ 52")
    case True
    then have u': "?u = - 1074" using n(3) by simp
    have "bits_of_double (Fin q) = of_nat (s * 2 ^ 63 + 0 * 2 ^ 52 + n)"
      using False True by (simp add: bits_of_double_def bits_of_rat_def m s_def)
    with double_of_bits_fields [of s 0 n] s1 True qs show ?thesis by (simp only: u') simp
  next
    case F: False
    have "bits_of_double (Fin q) = of_nat (s * 2 ^ 63 + nat (?u + 1075) * 2 ^ 52 + (n - 2 ^ 52))"
      using False F by (simp add: bits_of_double_def bits_of_rat_def m s_def)
    moreover have "nat (?u + 1075) < 2 ^ 11" "nat (?u + 1075) \<noteq> 2047" "nat (?u + 1075) \<noteq> 0"
      using u n(4) by auto
    moreover have "2 ^ 52 + (n - 2 ^ 52) = n" "n - 2 ^ 52 < 2 ^ 52" using F n(2) by simp_all
    moreover have "int (nat (?u + 1075)) - 1075 = ?u" using u by simp
    ultimately show ?thesis
      using double_of_bits_fields [of s "nat (?u + 1075)" "n - 2 ^ 52"] s1 qs
      by (simp only: if_False)
  qed
qed

section \<open>C strings and the message layout\<close>

abbreviation NUL :: char where
  "NUL \<equiv> CHR 0x00"

text \<open>\<open>strncpy\<close> into an array of \<open>n\<close> characters: cut off without a terminator, or padded with NUL.\<close>

definition strncpy :: "nat \<Rightarrow> string \<Rightarrow> string" where
  "strncpy n s = (let t = take n (takeWhile (\<lambda>c. c \<noteq> NUL) s) in t @ replicate (n - length t) NUL)"

definition msg_bytes :: "string \<Rightarrow> double \<Rightarrow> int \<Rightarrow> string" where
  "msg_bytes symb x timestamp =
     symb @ word_bytes (bits_of_double x) @ word_bytes (word_of_int timestamp)"

text \<open>Reading a member through a pointer to the first byte.\<close>

definition c_string :: "string \<Rightarrow> string" where
  "c_string buf = takeWhile (\<lambda>c. c \<noteq> NUL) buf"

definition msg_double :: "string \<Rightarrow> double" where
  "msg_double buf = double_of_bits (bytes_word (take 8 (drop 32 buf)))"

definition msg_timestamp :: "string \<Rightarrow> int" where
  "msg_timestamp buf = sint (bytes_word (take 8 (drop 40 buf)))"

lemma length_strncpy [simp]: "length (strncpy n s) = n"
  by (simp add: strncpy_def Let_def)

lemma length_msg_bytes: "length symb = 32 \<Longrightarrow> length (msg_bytes symb x t) = 48"
  by (simp add: msg_bytes_def)

lemma takeWhile_no_NUL: "NUL \<notin> set s \<Longrightarrow> takeWhile (\<lambda>c. c \<noteq> NUL) s = s"
  by (auto simp: takeWhile_eq_all_conv)

lemma strncpy_short: "NUL \<notin> set s \<Longrightarrow> length s \<le> n \<Longrightarrow> strncpy n s = s @ replicate (n - length s) NUL"
  by (simp add: strncpy_def Let_def takeWhile_no_NUL)

lemma strncpy_long: "NUL \<notin> set s \<Longrightarrow> n \<le> length s \<Longrightarrow> strncpy n s = take n s"
  by (simp add: strncpy_def Let_def takeWhile_no_NUL)

text \<open>A symbol of at most 31 characters is read back; a longer one runs into the price.\<close>

lemma c_string_msg_short:
  "NUL \<notin> set s \<Longrightarrow> length s < 32 \<Longrightarrow> c_string (msg_bytes (strncpy 32 s) x t @ rest) = s"
proof -
  assume s: "NUL \<notin> set s" "length s < 32"
  then obtain k where "32 - length s = Suc k" by (metis Suc_diff_Suc)
  with s show ?thesis
    by (simp add: c_string_def msg_bytes_def strncpy_short) (subst takeWhile_append2, auto)
qed

lemma c_string_msg_long:
  "NUL \<notin> set s \<Longrightarrow> 32 \<le> length s \<Longrightarrow>
   c_string (msg_bytes (strncpy 32 s) x t @ rest) =
     take 32 s @ c_string (word_bytes (bits_of_double x) @ word_bytes (word_of_int t) @ rest)"
proof -
  assume s: "NUL \<notin> set s" "32 \<le> length s"
  then have "\<forall>c \<in> set (take 32 s). c \<noteq> NUL" by (auto dest: in_set_takeD)
  then show ?thesis
    using s by (simp add: c_string_def msg_bytes_def strncpy_long takeWhile_append2)
qed

lemma msg_double_bytes:
  "length symb = 32 \<Longrightarrow> exact q \<Longrightarrow> msg_double (msg_bytes symb (Fin q) t @ rest) = Fin q"
  by (simp add: msg_double_def msg_bytes_def double_of_bits_of_double)

lemma msg_timestamp_bytes:
  "length symb = 32 \<Longrightarrow> - (2 ^ 63) \<le> t \<Longrightarrow> t < 2 ^ 63 \<Longrightarrow> msg_timestamp (msg_bytes symb x t @ rest) = t"
  by (simp add: msg_timestamp_def msg_bytes_def signed_of_int signed_take_bit_int_eq_self)

end
