(* ===== verification/WireFormat.thy ===== *)
theory WireFormat
  imports Bytes DateFormat Contracts
begin

text \<open>
  The fields of the messages the TWS client exchanges with TWS: texts that end in a NUL
  (\<open>EClient::EncodeField\<close> of \<open>external/tws/client/EClient.cpp\<close>, \<open>EDecoder::DecodeField\<close> of
  \<open>EDecoder.cpp\<close>), with the functions of the C library they use: \<open>snprintf\<close> with \<open>%.10g\<close>, \<open>atoi\<close>,
  \<open>atoll\<close> and \<open>atof\<close>. The texts of the decimal format of Intel's library are the arguments
  \<open>dec_str\<close> and \<open>str_dec\<close>.
\<close>

section \<open>Numbers as text\<close>

text \<open>The decimal exponent of a positive rational: \<open>10 ^ e \<le> q < 10 ^ (e + 1)\<close>.\<close>

definition dec_exponent :: "rat \<Rightarrow> int" where
  "dec_exponent q =
     (case quotient_of q of (n, d) \<Rightarrow>
        let k = int (length (dec (nat n))) - int (length (dec (nat d))) in if 10 powi k \<le> q then k else k - 1)"

definition strip_zeros :: "string \<Rightarrow> string" where
  "strip_zeros s = rev (dropWhile (\<lambda>c. c = CHR ''0'') (rev s))"

text \<open>
  \<open>%.10g\<close>, and for the precision \<open>p\<close> in general: the \<open>p\<close> significant digits of the exact value, rounded
  to even, in fixed notation when the decimal exponent is at least -4 and less than \<open>p\<close>, without
  trailing zeros.
\<close>

definition fmt_digits :: "nat \<Rightarrow> int \<Rightarrow> string \<Rightarrow> string" where
  "fmt_digits p x ds =
     (if - 4 \<le> x \<and> x < int p then
        (if 0 \<le> x then
           (let i = nat x + 1 in
            take i (ds @ replicate (i - length ds) CHR ''0'') @ (if i < length ds then CHR ''.'' # drop i ds else []))
         else ''0.'' @ replicate (nat (- x) - 1) CHR ''0'' @ ds)
      else hd ds # (if tl ds = [] then [] else CHR ''.'' # tl ds)
        @ ''e'' @ (if x < 0 then ''-'' else ''+'') @ dec_width 2 \<bar>x\<bar>)"

definition fmt_g :: "nat \<Rightarrow> rat \<Rightarrow> string" where
  "fmt_g p q =
     (if q = 0 then ''0''
      else let a = \<bar>q\<bar>; x0 = dec_exponent a; n0 = round_half_even (a * 10 powi (int p - 1 - x0));
               (x, n) = (if n0 = 10 ^ p then (x0 + 1, 10 ^ (p - 1)) else (x0, n0))
           in (if q < 0 then ''-'' else []) @ fmt_digits p x (strip_zeros (dec (nat n))))"

definition INFINITY_STR :: string where
  "INFINITY_STR = ''Infinity''"

definition double_str :: "double \<Rightarrow> string" where
  "double_str x = (case x of Fin q \<Rightarrow> fmt_g 10 q | PInf \<Rightarrow> INFINITY_STR | NInf \<Rightarrow> ''-inf'' | NaN \<Rightarrow> ''nan'')"

text \<open>A double on an output stream with its default precision.\<close>

definition stream_double :: "double \<Rightarrow> string" where
  "stream_double x = (case x of Fin q \<Rightarrow> fmt_g 6 q | PInf \<Rightarrow> ''inf'' | NInf \<Rightarrow> ''-inf'' | NaN \<Rightarrow> ''nan'')"

section \<open>Text as numbers\<close>

definition digits_nat :: "string \<Rightarrow> nat" where
  "digits_nat ds = foldl (\<lambda>n c. 10 * n + dig_val c) 0 ds"

text \<open>The sign and what follows it.\<close>

definition signed :: "string \<Rightarrow> bool \<times> string" where
  "signed s = (case s of [] \<Rightarrow> (False, []) | c # t \<Rightarrow>
     if c = CHR ''-'' then (True, t) else if c = CHR ''+'' then (False, t) else (False, s))"

definition clamp_long :: "int \<Rightarrow> int" where
  "clamp_long n = max (- (2 ^ 63)) (min (2 ^ 63 - 1) n)"

definition strtol :: "string \<Rightarrow> int" where
  "strtol s = (case signed (dropWhile is_white s) of (neg, t) \<Rightarrow>
     let n = int (digits_nat (takeWhile is_dig t)) in clamp_long (if neg then - n else n))"

text \<open>
  \<open>atoi\<close> is \<open>strtol\<close> cast to \<open>int\<close>; \<open>atol\<close> and \<open>atoll\<close> are \<open>strtol\<close>. What C leaves undefined (a number
  out of range) is what the library of the platform does: saturate, then truncate.
\<close>

definition atoi :: "string \<Rightarrow> int" where
  "atoi s = signed_take_bit 31 (strtol s)"

definition lower :: "char \<Rightarrow> char" where
  "lower c = (if 65 \<le> (of_char c :: nat) \<and> (of_char c :: nat) \<le> 90 then char_of (of_char c + 32 :: nat) else c)"

definition has_prefix :: "string \<Rightarrow> string \<Rightarrow> bool" where
  "has_prefix p s \<longleftrightarrow> map lower (take (length p) s) = p"

definition is_hex :: "char \<Rightarrow> bool" where
  "is_hex c \<longleftrightarrow> is_dig c \<or> (97 \<le> (of_char (lower c) :: nat) \<and> (of_char (lower c) :: nat) \<le> 102)"

definition hex_val :: "char \<Rightarrow> nat" where
  "hex_val c = (if is_dig c then dig_val c else of_char (lower c) - 87)"

text \<open>An exponent after the letter \<open>e\<close> counts only when it has a digit.\<close>

definition exponent_part :: "char \<Rightarrow> string \<Rightarrow> int" where
  "exponent_part e s = (case s of [] \<Rightarrow> 0 | c # t \<Rightarrow>
     if lower c \<noteq> e then 0
     else case signed t of (neg, u) \<Rightarrow>
       let n = int (digits_nat (takeWhile is_dig u)) in if neg then - n else n)"

text \<open>Digits, a point and digits, as the text of both and what follows.\<close>

definition mantissa_part :: "(char \<Rightarrow> bool) \<Rightarrow> string \<Rightarrow> string \<times> string \<times> string" where
  "mantissa_part d s =
     (let r = dropWhile d s in
      case r of [] \<Rightarrow> (takeWhile d s, [], [])
      | c # t \<Rightarrow> if c = CHR ''.'' then (takeWhile d s, takeWhile d t, dropWhile d t) else (takeWhile d s, [], r))"

definition unsigned_value :: "string \<Rightarrow> rat" where
  "unsigned_value s = (case mantissa_part is_dig s of (ip, fp, r) \<Rightarrow>
     if ip @ fp = [] then 0
     else of_nat (digits_nat (ip @ fp)) * 10 powi (exponent_part CHR ''e'' r - int (length fp)))"

definition hex_value :: "string \<Rightarrow> rat" where
  "hex_value s = (case mantissa_part is_hex s of (ip, fp, r) \<Rightarrow>
     if ip @ fp = [] then 0
     else of_nat (foldl (\<lambda>n c. 16 * n + hex_val c) 0 (ip @ fp)) * 2 powi (exponent_part CHR ''p'' r - 4 * int (length fp)))"

definition atof :: "string \<Rightarrow> double" where
  "atof s = (case signed (dropWhile is_white s) of (neg, t) \<Rightarrow>
     if has_prefix ''inf'' t then (if neg then NInf else PInf)
     else if has_prefix ''nan'' t then NaN
     else let v = (if has_prefix ''0x'' t then hex_value (drop 2 t) else unsigned_value t)
          in round_double (if neg then - v else v))"

section \<open>Encoding\<close>

text \<open>The calls of \<open>EncodeField\<close> by the type of their argument; \<open>F_chars\<close> is a C string.\<close>

datatype field =
    F_int int
  | F_bool bool
  | F_double double
  | F_decimal decimal
  | F_string string
  | F_chars string

definition isAsciiPrintable :: "string \<Rightarrow> bool" where
  "isAsciiPrintable s \<longleftrightarrow> list_all (\<lambda>c. 32 \<le> (of_char c :: nat) \<and> (of_char c :: nat) < 127) s"

text \<open>The text of a field, or the text of the exception \<open>INVALID_SYMBOL\<close>.\<close>

fun field_text :: "(decimal \<Rightarrow> string) \<Rightarrow> field \<Rightarrow> string + string" where
  "field_text dec_str (F_int n) = Inr (int_str n)"
| "field_text dec_str (F_bool b) = Inr (int_str (if b then 1 else 0))"
| "field_text dec_str (F_double x) = Inr (double_str x)"
| "field_text dec_str (F_decimal d) = Inr (take 127 (dec_str d))"
| "field_text dec_str (F_string s) = (if s \<noteq> [] \<and> \<not> isAsciiPrintable s then Inl s else Inr s)"
| "field_text dec_str (F_chars s) = Inr s"

definition field_max_int :: "int \<Rightarrow> field" where
  "field_max_int n = (if n = UnsetInt then F_chars [] else F_int n)"

definition field_max_double :: "double \<Rightarrow> field" where
  "field_max_double x = (if deq x DBL_MAX then F_chars [] else F_double x)"

definition tag_value_list :: "(string \<times> string) list \<Rightarrow> field" where
  "tag_value_list l = F_string (concat (map (\<lambda>(tag, v). tag @ ''='' @ v @ '';'') l))"

text \<open>A sequence of fields; the first text that cannot be printed ends it with the exception.\<close>

fun encode_fields :: "(decimal \<Rightarrow> string) \<Rightarrow> field list \<Rightarrow> string + string" where
  "encode_fields dec_str [] = Inr []"
| "encode_fields dec_str (f # fs) =
     (case field_text dec_str f of
        Inl t \<Rightarrow> Inl t
      | Inr s \<Rightarrow>
          (case encode_fields dec_str fs of Inl t \<Rightarrow> Inl t | Inr r \<Rightarrow> Inr (s @ NUL # r)))"

section \<open>Decoding\<close>

text \<open>
  The pointer into a message is the text from it to the end. A field is there when the text is not
  empty and has a NUL; \<open>DECODE_FIELD\<close> leaves the function with a null pointer when it is not.
\<close>

definition next_field :: "string \<Rightarrow> (string \<times> string) option" where
  "next_field s = (if s = [] then None else if NUL \<notin> set s then None
     else Some (takeWhile (\<lambda>c. c \<noteq> NUL) s, tl (dropWhile (\<lambda>c. c \<noteq> NUL) s)))"

definition get_text :: "(string \<Rightarrow> string \<Rightarrow> 'r option) \<Rightarrow> string \<Rightarrow> 'r option" where
  "get_text k s = (case next_field s of None \<Rightarrow> None | Some (t, r) \<Rightarrow> k t r)"

definition get_int :: "(int \<Rightarrow> string \<Rightarrow> 'r option) \<Rightarrow> string \<Rightarrow> 'r option" where
  "get_int k s = (case next_field s of None \<Rightarrow> None | Some (t, r) \<Rightarrow> k (atoi t) r)"

definition get_bool :: "(bool \<Rightarrow> string \<Rightarrow> 'r option) \<Rightarrow> string \<Rightarrow> 'r option" where
  "get_bool k = get_int (\<lambda>n. k (n > 0))"

definition get_long :: "(int \<Rightarrow> string \<Rightarrow> 'r option) \<Rightarrow> string \<Rightarrow> 'r option" where
  "get_long k s = (case next_field s of None \<Rightarrow> None | Some (t, r) \<Rightarrow> k (strtol t) r)"

definition get_time :: "(int \<Rightarrow> string \<Rightarrow> 'r option) \<Rightarrow> string \<Rightarrow> 'r option" where
  "get_time k s = (case next_field s of None \<Rightarrow> None | Some (t, r) \<Rightarrow> k (strtol t) r)"

definition get_double :: "(double \<Rightarrow> string \<Rightarrow> 'r option) \<Rightarrow> string \<Rightarrow> 'r option" where
  "get_double k s = (case next_field s of None \<Rightarrow> None
     | Some (t, r) \<Rightarrow> k (if t = INFINITY_STR then PInf else atof t) r)"

definition get_decimal :: "(string \<Rightarrow> decimal) \<Rightarrow> (decimal \<Rightarrow> string \<Rightarrow> 'r option) \<Rightarrow> string \<Rightarrow> 'r option" where
  "get_decimal str_dec k s = (case next_field s of None \<Rightarrow> None
     | Some (t, r) \<Rightarrow> k (str_dec (if t \<in> {''2147483647'', ''9223372036854775807'', ''1.7976931348623157E308''} then [] else t)) r)"

definition get_max_int :: "(int \<Rightarrow> string \<Rightarrow> 'r option) \<Rightarrow> string \<Rightarrow> 'r option" where
  "get_max_int k = get_text (\<lambda>t. k (if t = [] then UnsetInt else atoi t))"

definition get_max_double :: "(double \<Rightarrow> string \<Rightarrow> 'r option) \<Rightarrow> string \<Rightarrow> 'r option" where
  "get_max_double k = get_text (\<lambda>t. k (if t = [] then UnsetDouble else atof t))"

section \<open>What is written is read back\<close>

lemma dec_digits_all: "list_all is_dig (dec n)"
proof (induction n rule: dec.induct)
  case (1 n)
  then show ?case by (cases "n < 10") (simp_all add: dec_step)
qed

lemma digits_nat_append: "digits_nat (s @ t) = digits_nat s * 10 ^ length t + digits_nat t"
proof (induction t rule: rev_induct)
  case (snoc c t)
  then show ?case by (simp add: digits_nat_def algebra_simps flip: append_assoc)
qed (simp add: digits_nat_def)

lemma digits_nat_dec [simp]: "digits_nat (dec n) = n"
proof (induction n rule: dec.induct)
  case (1 n)
  then show ?case
    by (cases "n < 10") (simp_all add: dec_step digits_nat_append, simp_all add: digits_nat_def)
qed

lemma dec_nonempty [simp]: "dec n \<noteq> []"
  by (subst dec.simps) simp

lemma hd_dec_dig: "is_dig (hd (dec n))"
  using dec_digits_all [of n] by (cases "dec n") auto

lemma is_dig_plain: "is_dig c \<Longrightarrow> \<not> is_white c \<and> c \<noteq> CHR ''-'' \<and> c \<noteq> CHR ''+'' \<and> c \<noteq> NUL \<and> c \<noteq> CHR ''.''"
  by (auto simp: is_dig_def is_white_def)

lemma signed_dig: "is_dig c \<Longrightarrow> signed (c # s) = (False, c # s)"
  using is_dig_plain [of c] by (simp add: signed_def)

lemma takeWhile_all: "list_all P s \<Longrightarrow> takeWhile P s = s \<and> dropWhile P s = []"
  by (induction s) auto

lemma takeWhile_dec [simp]: "takeWhile is_dig (dec n) = dec n"
  using takeWhile_all [OF dec_digits_all [of n]] by blast

lemma strtol_int_str:
  assumes "- (2 ^ 63) \<le> n" and "n < 2 ^ 63"
  shows "strtol (int_str n) = n"
proof (cases "n < 0")
  case True
  then show ?thesis
    using assms
    by (simp add: strtol_def int_str_def signed_def is_white_def clamp_long_def)
next
  case False
  obtain c t where s: "dec (nat n) = c # t" by (cases "dec (nat n)") auto
  then have c: "is_dig c" using hd_dec_dig [of "nat n"] by simp
  have d: "digits_nat (c # t) = nat n" using digits_nat_dec [of "nat n"] s by simp
  have tk: "takeWhile is_dig t = t" using takeWhile_dec [of "nat n"] s c by (simp del: takeWhile_eq_all_conv)
  show ?thesis
    using False assms is_dig_plain [OF c] by (simp add: strtol_def int_str_def s signed_dig [OF c] c d tk clamp_long_def)
qed

lemma atoi_int_str:
  assumes "- (2 ^ 31) \<le> n" and "n < 2 ^ 31"
  shows "atoi (int_str n) = n"
proof -
  have "strtol (int_str n) = n" by (rule strtol_int_str) (use assms in simp_all)
  moreover have "signed_take_bit 31 n = n" using assms by (simp add: signed_take_bit_int_eq_self)
  ultimately show ?thesis by (simp add: atoi_def)
qed

lemma next_field_text [simp]: "NUL \<notin> set t \<Longrightarrow> next_field (t @ NUL # r) = Some (t, r)"
  by (auto simp: next_field_def takeWhile_append dropWhile_append)

lemma next_field_none: "NUL \<notin> set t \<Longrightarrow> next_field t = None"
  by (simp add: next_field_def)

lemma next_field_empty [simp]: "next_field [] = None"
  by (simp add: next_field_def)

lemma dec_no_NUL: "NUL \<notin> set (dec n)"
  using dec_digits_all [of n] is_dig_plain by (auto simp: list_all_iff)

lemma int_str_no_NUL [simp]: "NUL \<notin> set (int_str n)"
  by (simp add: int_str_def dec_no_NUL)

text \<open>Texts that end in a NUL, and a message of them.\<close>

definition wire :: "string list \<Rightarrow> string" where
  "wire ts = concat (map (\<lambda>t. t @ [NUL]) ts)"

lemma wire_simps [simp]: "wire [] = []" "wire (t # ts) = t @ NUL # wire ts" "wire (ts @ us) = wire ts @ wire us"
  by (simp_all add: wire_def)

lemma get_text_wire [simp]: "NUL \<notin> set t \<Longrightarrow> get_text k (t @ NUL # r) = k t r"
  by (simp add: get_text_def)

lemma get_int_wire [simp]: "- (2 ^ 31) \<le> n \<Longrightarrow> n < 2 ^ 31 \<Longrightarrow> get_int k (int_str n @ NUL # r) = k n r"
  by (simp add: get_int_def atoi_int_str)

lemma get_time_wire [simp]: "- (2 ^ 63) \<le> n \<Longrightarrow> n < 2 ^ 63 \<Longrightarrow> get_time k (int_str n @ NUL # r) = k n r"
  by (simp add: get_time_def strtol_int_str)

text \<open>The texts of the fields.\<close>

fun field_texts :: "(decimal \<Rightarrow> string) \<Rightarrow> field list \<Rightarrow> string + string list" where
  "field_texts dec_str [] = Inr []"
| "field_texts dec_str (f # fs) =
     (case field_text dec_str f of
        Inl t \<Rightarrow> Inl t
      | Inr s \<Rightarrow> (case field_texts dec_str fs of Inl t \<Rightarrow> Inl t | Inr ss \<Rightarrow> Inr (s # ss)))"

lemma encode_fields_wire: "encode_fields dec_str fs = map_sum id wire (field_texts dec_str fs)"
  by (induction fs) (simp_all split: sum.splits)

text \<open>Reading a message back field by field gives its texts.\<close>

fun split_fields :: "nat \<Rightarrow> string \<Rightarrow> string list option" where
  "split_fields 0 s = (if s = [] then Some [] else None)"
| "split_fields (Suc n) s = get_text (\<lambda>t r. map_option ((#) t) (split_fields n r)) s"

lemma split_fields_wire: "\<forall>t \<in> set ts. NUL \<notin> set t \<Longrightarrow> split_fields (length ts) (wire ts) = Some ts"
  by (induction ts) simp_all

end
