(* ===== verification/WirePrices.thy ===== *)
theory WirePrices
  imports WireFormat
begin

text \<open>
  Prices on the wire: a price with at most four decimals and ten significant digits is written by
  \<open>%.10g\<close> with all its digits, and reading the text gives the same double.
\<close>

section \<open>Decimal exponents\<close>

lemma dec_bounds: "0 < n \<Longrightarrow> 10 ^ (length (dec n) - 1) \<le> n \<and> n < 10 ^ length (dec n)"
proof (induction n rule: dec.induct)
  case (1 n)
  show ?case
  proof (cases "n < 10")
    case False
    then have d: "dec n = dec (n div 10) @ [digit (n mod 10)]" "0 < n div 10" by (simp_all add: dec_step)
    let ?l = "length (dec (n div 10))"
    from 1 False d(2) have b: "10 ^ (?l - 1) \<le> n div 10" "n div 10 < 10 ^ ?l" by blast+
    have l: "0 < ?l" by simp
    then have "10 ^ ?l = 10 * (10 ^ (?l - 1) :: nat)" by (simp flip: power_Suc)
    with b have "10 ^ ?l \<le> n \<and> n < 10 * 10 ^ ?l" by linarith
    then show ?thesis by (simp add: d(1))
  qed (use 1 in simp)
qed

lemma dec_exponent_bounds:
  assumes "q > 0"
  shows "10 powi dec_exponent q \<le> q" and "q < 10 powi (dec_exponent q + 1)"
proof -
  obtain n d where nd: "quotient_of q = (n, d)" by (cases "quotient_of q")
  then have d: "d > 0" and q: "q = of_int n / of_int d"
    by (simp_all add: quotient_of_denom_pos quotient_of_div)
  with assms have n: "n > 0" by (simp add: zero_less_divide_iff)
  have len: "10 powi (int (length (dec (nat m))) - 1) \<le> (of_int m :: rat)" "(of_int m :: rat) < 10 powi int (length (dec (nat m)))"
    if "m > 0" for m
  proof -
    from that dec_bounds [of "nat m"] have b: "10 ^ (length (dec (nat m)) - 1) \<le> nat m" "nat m < 10 ^ length (dec (nat m))" by simp_all
    have l: "0 < length (dec (nat m))" by simp
    from b(1) have "of_nat (10 ^ (length (dec (nat m)) - 1)) \<le> (of_nat (nat m) :: rat)" by (simp only: of_nat_le_iff)
    then show "10 powi (int (length (dec (nat m))) - 1) \<le> (of_int m :: rat)"
      using that l by (simp add: power_int_def nat_diff_distrib')
    from b(2) have "of_nat (nat m) < (of_nat (10 ^ length (dec (nat m))) :: rat)" by (simp only: of_nat_less_iff)
    then show "(of_int m :: rat) < 10 powi int (length (dec (nat m)))" using that by simp
  qed
  define a where "a = int (length (dec (nat n)))"
  define b where "b = int (length (dec (nat d)))"
  note len_n = len [OF n, folded a_def] and len_d = len [OF d, folded b_def]
  let ?k = "a - b"
  have dpos: "(0::rat) < of_int d" using d by simp
  have "10 powi (?k - 1) * of_int d < (10 powi (?k - 1) * 10 powi b :: rat)" using len_d(2) by simp
  also have "\<dots> = 10 powi (a - 1)" by (simp flip: power_int_add)
  also have "\<dots> \<le> of_int n" by (rule len_n(1))
  finally have lo: "10 powi (?k - 1) \<le> q" using dpos by (simp add: q pos_le_divide_eq)
  have "(of_int n :: rat) < 10 powi a" by (rule len_n(2))
  also have "\<dots> = 10 powi (?k + 1) * 10 powi (b - 1)" by (simp flip: power_int_add)
  also have "\<dots> \<le> (10 powi (?k + 1) * of_int d)" using len_d(1) by simp
  finally have hi: "q < 10 powi (?k + 1)" using dpos by (simp add: q pos_divide_less_eq)
  have e: "dec_exponent q = (if 10 powi ?k \<le> q then ?k else ?k - 1)" by (simp add: dec_exponent_def nd a_def b_def)
  show "10 powi dec_exponent q \<le> q" using lo by (simp add: e)
  show "q < 10 powi (dec_exponent q + 1)" using hi by (simp add: e)
qed

lemma powi_less_cancel: "10 powi a < (10 powi b :: rat) \<Longrightarrow> a < b"
  by (meson not_le one_le_numeral power_int_increasing)

lemma dec_exponent_eqI:
  assumes "10 powi e \<le> q" and "q < 10 powi (e + 1)"
  shows "dec_exponent q = e"
proof -
  have "(0 :: rat) < 10 powi e" by simp
  with assms(1) have "0 < q" by linarith
  note b = dec_exponent_bounds [OF this]
  have "10 powi e < (10 powi (dec_exponent q + 1) :: rat)" "10 powi dec_exponent q < (10 powi (e + 1) :: rat)"
    using assms b by linarith+
  then have "e < dec_exponent q + 1" "dec_exponent q < e + 1" by (auto dest: powi_less_cancel)
  then show ?thesis by simp
qed

section \<open>Rounding\<close>

lemma round_half_even_close:
  assumes "\<bar>x - of_int m\<bar> < 1 / 2"
  shows "round_half_even x = m"
proof -
  have "of_int (round_half_even x) < (of_int m + 1 :: rat)" "of_int m < (of_int (round_half_even x) + 1 :: rat)"
    using round_half_even_near [of x] assms unfolding abs_le_iff abs_less_iff by linarith+
  then have "round_half_even x < m + 1" "m < round_half_even x + 1" by linarith+
  then show ?thesis by simp
qed

lemma round_relative:
  assumes "2 powi (- 20) \<le> p" and "p < 2 powi 40"
  obtains q where "round_double p = Fin q" and "\<bar>q - p\<bar> \<le> p / 2 ^ 53"
proof -
  have pos: "0 < p" using assms(1) by (metis less_le_trans zero_less_power_int zero_less_numeral)
  note b = rat_exponent_bounds [OF pos]
  have "2 powi (- 20) < (2 powi (rat_exponent p + 1) :: rat)" using assms(1) b(2) by linarith
  then have "- 20 < rat_exponent p + 1" by (meson not_le one_le_numeral power_int_increasing)
  then have u: "ulp_exponent p = rat_exponent p - 52" using pos by (simp add: ulp_exponent_def)
  let ?u = "2 powi ulp_exponent p :: rat"
  have up: "?u / 2 \<le> p / 2 ^ 53"
  proof -
    have "?u / 2 = 2 powi rat_exponent p / 2 ^ 53" by (simp add: u power_int_diff)
    then show ?thesis using b(1) by (simp add: divide_right_mono)
  qed
  let ?n = "round_half_even (p / ?u)"
  have upos: "0 < ?u" by simp
  have "of_int ?n * ?u - p = (of_int ?n - p / ?u) * ?u" using upos by (simp add: left_diff_distrib)
  then have "\<bar>of_int ?n * ?u - p\<bar> = \<bar>of_int ?n - p / ?u\<bar> * ?u" using upos by (simp add: abs_mult)
  also have "\<dots> \<le> 1 / 2 * ?u" using round_half_even_near [of "p / ?u"] by (intro mult_right_mono) simp_all
  finally have err: "\<bar>of_int ?n * ?u - p\<bar> \<le> p / 2 ^ 53" using up by simp
  have small: "p / 2 ^ 53 \<le> p" using pos by simp
  have "of_int ?n * ?u \<le> 2 * p" "0 \<le> of_int ?n * ?u" using err small by linarith+
  moreover have "2 * p < 2 powi 1024"
  proof -
    have "2 * p < 2 * 2 powi 40" using assms(2) by simp
    also have "\<dots> \<le> 2 powi 1024" by simp
    finally show ?thesis .
  qed
  moreover have "(0 :: rat) < 2 powi 1024" by simp
  ultimately have "round_double p = Fin (of_int ?n * ?u)" using pos by (auto simp: round_double_def Let_def)
  with err show ?thesis using that by blast
qed


section \<open>The ten digits\<close>

text \<open>The digits of a double that lies closer to an integer multiple of \<open>10 powi (e - 9)\<close> than rounding can tell.\<close>

lemma ten_digits:
  assumes p: "p = of_int m * 10 powi (e - 9)" and m: "10 ^ 9 \<le> m" "m < 10 ^ 10" and q: "\<bar>q - p\<bar> \<le> p / 2 ^ 53"
  shows "fmt_g 10 q = fmt_digits 10 e (strip_zeros (dec (nat m)))"
proof -
  define u :: rat where "u = 10 powi (e - 9)"
  have u: "0 < u" by (simp add: u_def)
  define r where "r = q / u"
  have qr: "q = r * u" using u by (simp add: r_def)
  have pu: "p = of_int m * u" by (simp add: p u_def)
  have M: "(10 ^ 9 :: rat) \<le> of_int m" "of_int m \<le> (10 ^ 10 - 1 :: rat)"
  proof -
    have "of_int (10 ^ 9) \<le> (of_int m :: rat)" using m(1) by (simp only: of_int_le_iff)
    then show "(10 ^ 9 :: rat) \<le> of_int m" by simp
    have "of_int m \<le> (of_int (10 ^ 10 - 1) :: rat)" using m(2) by (simp only: of_int_le_iff)
    then show "of_int m \<le> (10 ^ 10 - 1 :: rat)" by simp
  qed
  have "\<bar>r - of_int m\<bar> * u \<le> of_int m / 2 ^ 53 * u" using q u by (simp add: qr pu abs_mult flip: left_diff_distrib)
  then have err: "\<bar>r - of_int m\<bar> \<le> of_int m / 2 ^ 53" using u by (simp only: mult_le_cancel_right_pos)
  have e0: "of_int m / 2 ^ 53 < (1 / 100 :: rat)" using M(2) by (simp add: divide_less_eq)
  then have e1: "\<bar>r - of_int m\<bar> < 1 / 100" using err by linarith
  then have r: "of_int m - 1 / 100 < r" "r < of_int m + 1 / 100" unfolding abs_less_iff by linarith+
  have pos: "0 < r" using r(1) M(1) by simp
  then have qpos: "0 < q" using u by (simp add: qr)
  have pw: "10 powi e = 10 ^ 9 * u" "10 powi (e + 1) = 10 ^ 10 * u" "10 powi (e - 1) = 10 ^ 8 * u"
    by (simp_all add: u_def power_int_add power_int_diff)
  have hi: "q < 10 powi (e + 1)" using r(2) M(2) u by (simp add: qr pw)
  show ?thesis
  proof (cases "10 ^ 9 \<le> r")
    case True
    then have "dec_exponent q = e" using u hi by (intro dec_exponent_eqI) (simp_all add: qr pw)
    moreover have "q * 10 powi (9 - e) = r" using u by (simp add: qr u_def flip: power_int_add)
    moreover have "round_half_even r = m" using e1 by (intro round_half_even_close) simp
    ultimately show ?thesis using qpos m by (simp add: fmt_g_def Let_def)
  next
    case False
    then have "of_int m < (10 ^ 9 + 1 :: rat)" using r(1) by simp
    then have "of_int m < (of_int (10 ^ 9 + 1) :: rat)" by simp
    then have m9: "m = 10 ^ 9" using m(1) by (simp only: of_int_less_iff)
    have "dec_exponent q = e - 1"
    proof (rule dec_exponent_eqI)
      have "(10 ^ 8 :: rat) \<le> r" using r(1) M(1) by simp
      then show "10 powi (e - 1) \<le> q" using u by (simp add: qr pw)
      show "q < 10 powi (e - 1 + 1)" using False u by (simp add: qr pw)
    qed
    moreover have "q * 10 powi (9 - (e - 1)) = 10 * r"
    proof -
      have "u * 10 powi (9 - (e - 1)) = 10 powi 1" unfolding u_def by (subst power_int_add [symmetric]) simp_all
      then show ?thesis by (simp add: qr)
    qed
    moreover have "round_half_even (10 * r) = 10 ^ 10"
    proof (rule round_half_even_close)
      show "\<bar>10 * r - of_int (10 ^ 10)\<bar> < 1 / 2"
        unfolding abs_less_iff using r by (simp add: m9)
    qed
    ultimately show ?thesis using qpos by (simp add: fmt_g_def Let_def m9)
  qed
qed

section \<open>Reading fixed notation\<close>

lemma prefix_plain:
  assumes "list_all (\<lambda>c. is_dig c \<or> c = CHR ''.'') s"
  shows "\<not> has_prefix ''inf'' s" "\<not> has_prefix ''nan'' s" "\<not> has_prefix ''0x'' s"
proof -
  have *: "lower c \<noteq> CHR ''i'' \<and> lower c \<noteq> CHR ''n'' \<and> lower c \<noteq> CHR ''x''" if "is_dig c \<or> c = CHR ''.''" for c
    using that by (auto simp: is_dig_def lower_def)
  obtain "\<not> has_prefix ''inf'' s" "\<not> has_prefix ''nan'' s" "\<not> has_prefix ''0x'' s"
    using assms * by (cases s; cases "tl s") (auto simp: has_prefix_def)
  then show "\<not> has_prefix ''inf'' s" "\<not> has_prefix ''nan'' s" "\<not> has_prefix ''0x'' s" by blast+
qed

definition fixed :: "string \<Rightarrow> string \<Rightarrow> string" where
  "fixed ip fp = ip @ (if fp = [] then [] else CHR ''.'' # fp)"

lemma span_digits: "list_all is_dig ip \<Longrightarrow> \<not> is_dig c \<Longrightarrow> takeWhile is_dig (ip @ c # s) = ip \<and> dropWhile is_dig (ip @ c # s) = c # s"
  by (induction ip) auto

lemma fixed_value:
  assumes "list_all is_dig ip" and "ip \<noteq> []" and "list_all is_dig fp"
  shows "unsigned_value (fixed ip fp) = of_nat (digits_nat (ip @ fp)) * 10 powi (- int (length fp))"
proof (cases "fp = []")
  case True
  note tk = conjunct1 [OF takeWhile_all [OF assms(1)]] conjunct2 [OF takeWhile_all [OF assms(1)]]
  show ?thesis using True assms(2)
    by (simp add: unsigned_value_def mantissa_part_def fixed_def exponent_part_def Let_def tk)
next
  case False
  have "\<not> is_dig CHR ''.''" by (simp add: is_dig_def)
  note s = span_digits [OF assms(1) this, of fp]
  note tk = conjunct1 [OF takeWhile_all [OF assms(3)]] conjunct2 [OF takeWhile_all [OF assms(3)]]
  show ?thesis using False assms(2)
    by (simp add: unsigned_value_def mantissa_part_def fixed_def exponent_part_def Let_def s tk)
qed

lemma atof_fixed:
  assumes "list_all is_dig ip" and "ip \<noteq> []" and "list_all is_dig fp"
  shows "atof (fixed ip fp) = round_double (of_nat (digits_nat (ip @ fp)) * 10 powi (- int (length fp)))"
proof -
  obtain c t where ip: "ip = c # t" using assms(2) by (cases ip) auto
  with assms(1) have c: "is_dig c" by simp
  then have s: "signed (dropWhile is_white (fixed ip fp)) = (False, fixed ip fp)"
    using is_dig_plain [OF c] by (simp add: ip fixed_def signed_def)
  have "list_all (\<lambda>c. is_dig c \<or> c = CHR ''.'') (fixed ip fp)"
    using assms by (auto simp: fixed_def list_all_iff)
  from prefix_plain [OF this] show ?thesis by (simp add: atof_def s fixed_value [OF assms])
qed

lemma digits_nat_zeros [simp]: "digits_nat (replicate n CHR ''0'') = 0"
proof (induction n)
  case (Suc n)
  have "digits_nat (CHR ''0'' # replicate n CHR ''0'') = digits_nat ([CHR ''0''] @ replicate n CHR ''0'')" by simp
  also have "\<dots> = 0" unfolding digits_nat_append using Suc by (simp add: digits_nat_def dig_val_def)
  finally show ?case by simp
qed (simp add: digits_nat_def)

lemma zero_is_dig [simp]: "is_dig CHR ''0''"
  by (simp add: is_dig_def)

text \<open>The fixed notation of digits \<open>ds\<close> with exponent \<open>e\<close> is the number they stand for.\<close>

lemma fmt_digits_fixed:
  assumes "list_all is_dig ds" and "ds \<noteq> []" and "- 4 \<le> e" "e < 10"
  obtains ip fp where "fmt_digits 10 e ds = fixed ip fp" and "list_all is_dig ip" and "ip \<noteq> []" and "list_all is_dig fp"
    and "of_nat (digits_nat (ip @ fp)) * 10 powi (- int (length fp)) = (of_nat (digits_nat ds) * 10 powi (e + 1 - int (length ds)) :: rat)"
proof (cases "0 \<le> e")
  case True
  define i where "i = nat e + 1"
  have i: "int i = e + 1" using True by (simp add: i_def)
  show thesis
  proof (cases "i < length ds")
    case lt: True
    show thesis
    proof (rule that [of "take i ds" "drop i ds"])
      show "fmt_digits 10 e ds = fixed (take i ds) (drop i ds)"
        using assms(3,4) True lt by (simp add: fmt_digits_def fixed_def Let_def i_def)
      show "of_nat (digits_nat (take i ds @ drop i ds)) * 10 powi (- int (length (drop i ds)))
          = (of_nat (digits_nat ds) * 10 powi (e + 1 - int (length ds)) :: rat)"
        using lt i by (simp add: of_nat_diff)
    qed (use assms lt i_def in \<open>auto simp: list_all_iff dest: in_set_takeD in_set_dropD\<close>)
  next
    case ge: False
    show thesis
    proof (rule that [of "ds @ replicate (i - length ds) CHR ''0''" "[]"])
      show "fmt_digits 10 e ds = fixed (ds @ replicate (i - length ds) CHR ''0'') []"
        using assms(3,4) True ge by (simp add: fmt_digits_def fixed_def Let_def i_def)
      have "int (i - length ds) = e + 1 - int (length ds)" using ge i by simp
      then show "of_nat (digits_nat ((ds @ replicate (i - length ds) CHR ''0'') @ [])) * 10 powi (- int (length ([] :: string)))
          = (of_nat (digits_nat ds) * 10 powi (e + 1 - int (length ds)) :: rat)"
        by (simp add: digits_nat_append flip: power_int_of_nat)
    qed (use assms in \<open>auto simp: list_all_iff\<close>)
  qed
next
  case False
  define j where "j = nat (- e) - 1"
  have j: "int j = - e - 1" using False by (simp add: j_def)
  show thesis
  proof (rule that [of "''0''" "replicate j CHR ''0'' @ ds"])
    show "fmt_digits 10 e ds = fixed ''0'' (replicate j CHR ''0'' @ ds)"
      using assms False by (simp add: fmt_digits_def fixed_def j_def)
    have "digits_nat (''0'' @ replicate j CHR ''0'' @ ds) = digits_nat ds"
      using digits_nat_zeros [of "Suc j"] digits_nat_append [of "replicate (Suc j) CHR ''0''" ds] by simp
    moreover have "- int (length (replicate j CHR ''0'' @ ds)) = e + 1 - int (length ds)" using j by simp
    ultimately show "of_nat (digits_nat (''0'' @ replicate j CHR ''0'' @ ds)) * 10 powi (- int (length (replicate j CHR ''0'' @ ds)))
        = (of_nat (digits_nat ds) * 10 powi (e + 1 - int (length ds)) :: rat)" by (simp only:)
  qed (use assms in \<open>auto simp: list_all_iff\<close>)
qed


section \<open>Prices\<close>

lemma strip_zeros_split: "\<exists>j. s = strip_zeros s @ replicate j CHR ''0''"
proof -
  have "rev s = takeWhile (\<lambda>c. c = CHR ''0'') (rev s) @ dropWhile (\<lambda>c. c = CHR ''0'') (rev s)" by simp
  then have s: "s = strip_zeros s @ rev (takeWhile (\<lambda>c. c = CHR ''0'') (rev s))"
    unfolding strip_zeros_def by (metis rev_append rev_rev_ident)
  have "list_all (\<lambda>c. c = CHR ''0'') (takeWhile (\<lambda>c. c = CHR ''0'') (rev s))"
    by (auto simp: list_all_iff dest: set_takeWhileD)
  then have "takeWhile (\<lambda>c. c = CHR ''0'') (rev s) = replicate (length (takeWhile (\<lambda>c. c = CHR ''0'') (rev s))) CHR ''0''"
    by (intro replicate_length_same [symmetric]) (simp add: list_all_iff)
  then have "rev (takeWhile (\<lambda>c. c = CHR ''0'') (rev s)) = replicate (length (takeWhile (\<lambda>c. c = CHR ''0'') (rev s))) CHR ''0''"
    by (metis rev_replicate)
  with s show ?thesis by metis
qed

lemma strip_dec:
  assumes "10 ^ 9 \<le> m" "m < 10 ^ 10"
  shows "list_all is_dig (strip_zeros (dec m))" "strip_zeros (dec m) \<noteq> []"
    and "(of_nat (digits_nat (strip_zeros (dec m))) * 10 powi (e + 1 - int (length (strip_zeros (dec m)))) :: rat) = of_nat m * 10 powi (e - 9)"
proof -
  obtain j where j: "dec m = strip_zeros (dec m) @ replicate j CHR ''0''" using strip_zeros_split by blast
  define ds where "ds = strip_zeros (dec m)"
  note j = j [folded ds_def]
  have m0: "0 < m" using assms(1) by (simp add: Suc_le_lessD)
  note b = dec_bounds [OF m0]
  have "(10 :: nat) ^ 9 < 10 ^ length (dec m)" "(10 :: nat) ^ (length (dec m) - 1) < 10 ^ 10" using b assms by linarith+
  then have "9 < length (dec m)" "length (dec m) - 1 < 10" by (simp_all only: power_strict_increasing_iff one_less_numeral_iff semiring_norm)
  then have len: "length (dec m) = 10" by simp
  have v: "m = digits_nat ds * 10 ^ j" using arg_cong [OF j, of digits_nat] by (simp add: digits_nat_append)
  show "list_all is_dig (strip_zeros (dec m))" using dec_digits_all [of m] j by (metis ds_def list_all_append)
  show "strip_zeros (dec m) \<noteq> []" using v m0 by (auto simp: ds_def digits_nat_def)
  have l: "int (length ds) = 10 - int j" using arg_cong [OF j, of length] len by simp
  have "(of_nat m :: rat) * 10 powi (e - 9) = of_nat (digits_nat ds) * (10 powi int j * 10 powi (e - 9))"
    by (simp add: v)
  also have "10 powi int j * 10 powi (e - 9) = (10 powi (e + 1 - int (length ds)) :: rat)"
    by (subst power_int_add [symmetric]) (simp_all add: l algebra_simps)
  finally show "(of_nat (digits_nat (strip_zeros (dec m))) * 10 powi (e + 1 - int (length (strip_zeros (dec m)))) :: rat) = of_nat m * 10 powi (e - 9)"
    by (simp add: ds_def)
qed

text \<open>Scaling a price to an integer of ten digits.\<close>

lemma scale_price:
  assumes "0 < n" "n < 10 ^ 10" "k \<le> 4"
  obtains m e where "of_nat n / 10 ^ k = (of_nat m * 10 powi (e - 9) :: rat)" and "10 ^ 9 \<le> m" "m < 10 ^ 10" and "- 4 \<le> e" "e < 10"
proof -
  define l where "l = length (dec n)"
  note b = dec_bounds [OF assms(1), folded l_def]
  have l0: "0 < l" by (simp add: l_def)
  have "(10 :: nat) ^ (l - 1) < 10 ^ 10" using b assms(2) by linarith
  then have "l - 1 < 10" by (simp only: power_strict_increasing_iff one_less_numeral_iff semiring_norm)
  then have l10: "l \<le> 10" by simp
  define m where "m = n * 10 ^ (10 - l)"
  define e where "e = int l - 1 - int k"
  have "(of_nat m * 10 powi (e - 9) :: rat) = of_nat n * (10 powi int (10 - l) * 10 powi (e - 9))" by (simp add: m_def)
  also have "10 powi int (10 - l) * 10 powi (e - 9) = (10 powi (- int k) :: rat)"
    using l10 by (subst power_int_add [symmetric]) (simp_all add: e_def of_nat_diff)
  finally have "of_nat n / 10 ^ k = (of_nat m * 10 powi (e - 9) :: rat)" by (simp add: power_int_minus divide_inverse)
  moreover have "10 ^ 9 \<le> m"
  proof -
    have "(10 :: nat) ^ (l - 1) * 10 ^ (10 - l) \<le> m" using b unfolding m_def by (intro mult_right_mono) simp_all
    moreover have "(10 :: nat) ^ (l - 1) * 10 ^ (10 - l) = 10 ^ 9" using l0 l10 by (simp flip: power_add)
    ultimately show ?thesis by simp
  qed
  moreover have "m < 10 ^ 10"
  proof -
    have "m < 10 ^ l * 10 ^ (10 - l)" using b unfolding m_def by simp
    also have "\<dots> = 10 ^ 10" using l10 by (simp flip: power_add)
    finally show ?thesis .
  qed
  moreover have "- 4 \<le> e" "e < 10" using l0 l10 assms(3) by (simp_all add: e_def)
  ultimately show ?thesis using that by blast
qed

lemma price_text:
  assumes "n < 10 ^ 10" and "k \<le> 4"
  shows "atof (double_str (round_double (of_nat n / 10 ^ k))) = round_double (of_nat n / 10 ^ k)
    \<and> list_all (\<lambda>c. is_dig c \<or> c = CHR ''.'') (double_str (round_double (of_nat n / 10 ^ k)))"
proof (cases "n = 0")
  case True
  have "atof ''0'' = Fin 0" using atof_fixed [of "''0''" "[]"] by (simp add: fixed_def round_double_def digits_nat_def dig_val_def)
  then show ?thesis by (simp add: True round_double_def double_str_def fmt_g_def)
next
  case False
  then obtain m e where p: "of_nat n / 10 ^ k = (of_nat m * 10 powi (e - 9) :: rat)"
    and m: "10 ^ 9 \<le> m" "m < 10 ^ 10" and e: "- 4 \<le> e" "e < 10"
    using scale_price [of n k] assms by (metis bot_nat_0.not_eq_extremum)
  let ?p = "of_nat n / 10 ^ k :: rat"
  have lo: "2 powi (- 20) \<le> ?p"
  proof -
    have "(1 / 10 ^ 4 :: rat) \<le> 1 / 10 ^ k" using assms(2) by (intro divide_left_mono power_increasing) simp_all
    also have "\<dots> \<le> ?p" using False by (intro divide_right_mono) simp_all
    finally have b: "1 / 10 ^ 4 \<le> ?p" .
    have "(2 powi (- 20) :: rat) \<le> 1 / 10 ^ 4" by (simp add: power_int_def power_one_over)
    from this b show ?thesis by (rule order_trans)
  qed
  have hi: "?p < 2 powi 40"
  proof -
    have "?p \<le> of_nat n" by (simp add: divide_le_eq mult_le_cancel_left1)
    also have "(of_nat n :: rat) < of_nat (10 ^ 10)" using assms(1) by (simp only: of_nat_less_iff)
    also have "(of_nat (10 ^ 10) :: rat) < 2 powi 40" by simp
    finally show ?thesis .
  qed
  obtain q where q: "round_double ?p = Fin q" "\<bar>q - ?p\<bar> \<le> ?p / 2 ^ 53" using round_relative [OF lo hi] by blast
  let ?ds = "strip_zeros (dec m)"
  have "fmt_g 10 q = fmt_digits 10 e (strip_zeros (dec (nat (int m))))"
    by (rule ten_digits [of ?p]) (use p m q(2) in simp_all)
  then have f: "fmt_g 10 q = fmt_digits 10 e ?ds" by simp
  obtain ip fp where x: "fmt_digits 10 e ?ds = fixed ip fp" "list_all is_dig ip" "ip \<noteq> []" "list_all is_dig fp"
    "of_nat (digits_nat (ip @ fp)) * 10 powi (- int (length fp)) = (of_nat (digits_nat ?ds) * 10 powi (e + 1 - int (length ?ds)) :: rat)"
    using fmt_digits_fixed [OF strip_dec(1,2) [OF m] e] by blast
  have "list_all (\<lambda>c. is_dig c \<or> c = CHR ''.'') (fixed ip fp)" using x(2,4) by (auto simp: fixed_def list_all_iff)
  then show ?thesis
    using q(1) f x(1) atof_fixed [OF x(2-4)] x(5) strip_dec(3) [OF m, of e] p by (simp add: double_str_def)
qed

lemma plain_text: "list_all (\<lambda>c. is_dig c \<or> c = CHR ''.'') t \<Longrightarrow> NUL \<notin> set t \<and> t \<noteq> INFINITY_STR"
  by (auto simp: list_all_iff is_dig_def INFINITY_STR_def)

text \<open>The text of a number whose digits are known.\<close>

lemma fmt_g_digits:
  assumes "10 powi e \<le> a" "a < 10 powi (e + 1)" and "\<bar>a * 10 powi (int p - 1 - e) - of_int n\<bar> < 1 / 2" and "n \<noteq> 10 ^ p"
  shows "fmt_g p a = fmt_digits p e (strip_zeros (dec (nat n)))"
proof -
  have "(0 :: rat) < 10 powi e" by simp
  then have "0 < a" using assms(1) by linarith
  moreover have "dec_exponent a = e" by (rule dec_exponent_eqI [OF assms(1,2)])
  moreover have "round_half_even (a * 10 powi (int p - 1 - e)) = n" by (rule round_half_even_close [OF assms(3)])
  ultimately show ?thesis using assms(4) by (simp add: fmt_g_def)
qed

lemma digit_chars:
  "digit 0 = CHR ''0''" "digit 1 = CHR ''1''" "digit (Suc 0) = CHR ''1''" "digit 2 = CHR ''2''" "digit 3 = CHR ''3''" "digit 4 = CHR ''4''"
  "digit 5 = CHR ''5''" "digit 6 = CHR ''6''" "digit 7 = CHR ''7''" "digit 8 = CHR ''8''" "digit 9 = CHR ''9''"
  by code_simp+

text \<open>The text of a double that is not set.\<close>

lemma close_to:
  assumes "0 < p" "2 * m < (2 * k + 1) * p" "(2 * k - 1) * p < 2 * m"
  shows "\<bar>m * (1 / p) - k\<bar> < (1 / 2 :: rat)"
proof -
  have "m * (1 / p) < k + 1 / 2" "k - 1 / 2 < m * (1 / p)" using assms by (simp_all add: field_simps)
  then show ?thesis by linarith
qed

lemma unset_digits:
  "(10 :: rat) powi 308 \<le> (2 ^ 53 - 1) * 2 ^ 971" "(2 ^ 53 - 1) * 2 ^ 971 < (10 :: rat) powi (308 + 1)"
  "\<bar>(2 ^ 53 - 1) * 2 ^ 971 * 10 powi (int 10 - 1 - 308) - of_int 1797693135\<bar> < (1 / 2 :: rat)"
proof -
  have p: "(10 :: rat) powi 308 = 10 ^ 308" "(10 :: rat) powi (308 + 1) = 10 ^ 309" "(10 :: rat) powi (int 10 - 1 - 308) = 1 / 10 ^ 299"
    using power_int_of_nat [of "10 :: rat" 308] power_int_of_nat [of "10 :: rat" 309] power_int_minus [of "10 :: rat" 299]
      power_int_of_nat [of "10 :: rat" 299] by (simp_all only: of_nat_numeral semiring_norm inverse_eq_divide)
  show "(10 :: rat) powi 308 \<le> (2 ^ 53 - 1) * 2 ^ 971" "(2 ^ 53 - 1) * 2 ^ 971 < (10 :: rat) powi (308 + 1)"
    unfolding p by simp_all
  show "\<bar>(2 ^ 53 - 1) * 2 ^ 971 * 10 powi (int 10 - 1 - 308) - of_int 1797693135\<bar> < (1 / 2 :: rat)"
    unfolding p of_int_numeral by (rule close_to) simp_all
qed

lemma double_str_unset: "double_str UnsetDouble = ''1.797693135e+308''"
proof -
  have n: "(1797693135 :: int) \<noteq> 10 ^ 10" by simp
  have "strip_zeros (dec (nat 1797693135)) = ''1797693135''" by (simp add: dec.simps digit_chars strip_zeros_def)
  moreover have "dec_width 2 308 = ''308''" by code_simp
  ultimately show ?thesis
    unfolding double_str_def UnsetDouble_def DBL_MAX_def double.case fmt_g_digits [OF unset_digits n] by (simp add: fmt_digits_def)
qed

text \<open>
  Property C18. A price with at most four decimals and ten significant digits survives the wire: decoding the field
  it was encoded to gives the same double, although only ten digits are written.
\<close>

theorem price_survives_wire:
  assumes "n < 10 ^ 10" and "k \<le> 4"
  shows "get_double f (double_str (round_double (of_nat n / 10 ^ k)) @ NUL # r) = f (round_double (of_nat n / 10 ^ k)) r"
  using price_text [OF assms] plain_text by (simp add: get_double_def)

theorem price_survives_wire_witness:
  "get_double (\<lambda>x r. Some (x, r)) (double_str (round_double (2345675 / 10 ^ 3)) @ NUL # ''1'')
    = Some (round_double (2345675 / 10 ^ 3), ''1'')"
  using price_survives_wire [of 2345675 3 "\<lambda>x r. Some (x, r)" "''1''"] by simp

end
