(* ===== verification/TwsOrder.thy ===== *)
theory TwsOrder
  imports WirePrices Gateway
begin

text \<open>
  The order of the TWS client with all its members (\<open>external/tws/client/Order.h\<close>), as extensions of
  the record of the members the program sets, and the conditions an order can carry
  (\<open>OrderCondition.h\<close> and its subclasses). Shared pointers to lists are lists: the client reads a
  null pointer and an empty list alike.
\<close>

section \<open>Conditions\<close>

text \<open>A condition: whether it is joined to the next by \<open>and\<close>, and the members of its class.\<close>

datatype order_condition =
    Price_condition bool bool double int string int
  | Time_condition bool bool string
  | Margin_condition bool bool int
  | Execution_condition bool string string string
  | Volume_condition bool bool int int string
  | PercentChange_condition bool bool double int string

fun condition_type :: "order_condition \<Rightarrow> int" where
  "condition_type (Price_condition conn is_more price conId exchange triggerMethod) = 1"
| "condition_type (Time_condition conn is_more time) = 3"
| "condition_type (Margin_condition conn is_more percent) = 4"
| "condition_type (Execution_condition conn secType exchange symb) = 5"
| "condition_type (Volume_condition conn is_more volume conId exchange) = 6"
| "condition_type (PercentChange_condition conn is_more percent conId exchange) = 7"

definition write_condition :: "bool \<Rightarrow> field list" where
  "write_condition conn = [F_string (if conn then ''a'' else ''o'')]"

definition write_operator :: "bool \<Rightarrow> bool \<Rightarrow> string \<Rightarrow> field list" where
  "write_operator conn is_more value_str = write_condition conn @ [F_bool is_more, F_string value_str]"

definition write_contract :: "bool \<Rightarrow> bool \<Rightarrow> string \<Rightarrow> int \<Rightarrow> string \<Rightarrow> field list" where
  "write_contract conn is_more value_str conId exchange = write_operator conn is_more value_str @ [F_int conId, F_string exchange]"

fun writeExternal :: "order_condition \<Rightarrow> field list" where
  "writeExternal (Price_condition conn is_more price conId exchange triggerMethod) =
     write_contract conn is_more (stream_double price) conId exchange @ [F_int triggerMethod]"
| "writeExternal (Time_condition conn is_more time) = write_operator conn is_more time"
| "writeExternal (Margin_condition conn is_more percent) = write_operator conn is_more (int_str percent)"
| "writeExternal (Execution_condition conn secType exchange symb) =
     write_condition conn @ [F_string secType, F_string exchange, F_string symb]"
| "writeExternal (Volume_condition conn is_more volume conId exchange) =
     write_contract conn is_more (int_str volume) conId exchange"
| "writeExternal (PercentChange_condition conn is_more percent conId exchange) =
     write_contract conn is_more (stream_double percent) conId exchange"

section \<open>Orders\<close>

text \<open>The extended members and those of advisors and institutions.\<close>

record tws_order_ext = ib_order +
  o_activeStartTime :: string
  o_activeStopTime :: string
  o_ocaGroup :: string
  o_ocaType :: int
  o_orderRef :: string
  o_transmit :: bool
  o_parentId :: int
  o_blockOrder :: bool
  o_sweepToFill :: bool
  o_displaySize :: int
  o_triggerMethod :: int
  o_outsideRth :: bool
  o_hidden :: bool
  o_goodAfterTime :: string
  o_goodTillDate :: string
  o_rule80A :: string
  o_allOrNone :: bool
  o_minQty :: int
  o_percentOffset :: double
  o_overridePercentageConstraints :: bool
  o_trailStopPrice :: double
  o_trailingPercent :: double
  o_faGroup :: string
  o_faProfile :: string
  o_faMethod :: string
  o_faPercentage :: string
  o_openClose :: string
  o_origin :: int
  o_shortSaleSlot :: int
  o_designatedLocation :: string
  o_exemptCode :: int
  o_discretionaryAmt :: double
  o_optOutSmartRouting :: bool

text \<open>The members of special kinds of orders: box, volatility, combination, scale, hedge, algorithm.\<close>

record tws_order_special = tws_order_ext +
  o_auctionStrategy :: int
  o_startingPrice :: double
  o_stockRefPrice :: double
  o_delta :: double
  o_stockRangeLower :: double
  o_stockRangeUpper :: double
  o_randomizeSize :: bool
  o_randomizePrice :: bool
  o_volatility :: double
  o_volatilityType :: int
  o_deltaNeutralOrderType :: string
  o_deltaNeutralAuxPrice :: double
  o_deltaNeutralConId :: int
  o_deltaNeutralSettlingFirm :: string
  o_deltaNeutralClearingAccount :: string
  o_deltaNeutralClearingIntent :: string
  o_deltaNeutralOpenClose :: string
  o_deltaNeutralShortSale :: bool
  o_deltaNeutralShortSaleSlot :: int
  o_deltaNeutralDesignatedLocation :: string
  o_continuousUpdate :: bool
  o_referencePriceType :: int
  o_basisPoints :: double
  o_basisPointsType :: int
  o_scaleInitLevelSize :: int
  o_scaleSubsLevelSize :: int
  o_scalePriceIncrement :: double
  o_scalePriceAdjustValue :: double
  o_scalePriceAdjustInterval :: int
  o_scaleProfitOffset :: double
  o_scaleAutoReset :: bool
  o_scaleInitPosition :: int
  o_scaleInitFillQty :: int
  o_scaleRandomPercent :: bool
  o_scaleTable :: string
  o_hedgeType :: string
  o_hedgeParam :: string
  o_account :: string
  o_settlingFirm :: string
  o_clearingAccount :: string
  o_clearingIntent :: string
  o_algoStrategy :: string
  o_algoParams :: "(string \<times> string) list"
  o_smartComboRoutingParams :: "(string \<times> string) list"
  o_algoId :: string

record tws_order = tws_order_special +
  o_whatIf :: bool
  o_notHeld :: bool
  o_solicited :: bool
  o_modelCode :: string
  o_orderComboLegs :: "double list"
  o_orderMiscOptions :: "(string \<times> string) list"
  o_referenceContractId :: int
  o_peggedChangeAmount :: double
  o_isPeggedChangeAmountDecrease :: bool
  o_referenceChangeAmount :: double
  o_referenceExchangeId :: string
  o_adjustedOrderType :: string
  o_triggerPrice :: double
  o_adjustedStopPrice :: double
  o_adjustedStopLimitPrice :: double
  o_adjustedTrailingAmount :: double
  o_adjustableTrailingUnit :: int
  o_lmtPriceOffset :: double
  o_conditions :: "order_condition list"
  o_conditionsCancelOrder :: bool
  o_conditionsIgnoreRth :: bool
  o_extOperator :: string
  o_softDollarTier :: "string \<times> string \<times> string"
  o_cashQty :: double
  o_mifid2DecisionMaker :: string
  o_mifid2DecisionAlgo :: string
  o_mifid2ExecutionTrader :: string
  o_mifid2ExecutionAlgo :: string
  o_dontUseAutoPriceForHedge :: bool
  o_isOmsContainer :: bool
  o_discretionaryUpToLimitPrice :: bool
  o_autoCancelDate :: string
  o_filledQuantity :: decimal
  o_refFuturesConId :: int
  o_autoCancelParent :: bool
  o_shareholder :: string
  o_imbalanceOnly :: bool
  o_routeMarketableToBbo :: bool
  o_parentPermId :: int
  o_usePriceMgmtAlgo :: int
  o_duration :: int
  o_postToAts :: int
  o_advancedErrorOverride :: string
  o_manualOrderTime :: string
  o_minTradeQty :: int
  o_minCompeteSize :: int
  o_competeAgainstBestOffset :: double
  o_midOffsetAtWhole :: double
  o_midOffsetAtHalf :: double

text \<open>An order of which only the first members are set; the others have their initialisers.\<close>

definition complete_order :: "ib_order \<Rightarrow> tws_order" where
  "complete_order ord =
     \<lparr>o_orderId = o_orderId ord, o_clientId = o_clientId ord, o_permId = o_permId ord,
      o_action = o_action ord, o_totalQuantity = o_totalQuantity ord, o_orderType = o_orderType ord,
      o_lmtPrice = o_lmtPrice ord, o_auxPrice = o_auxPrice ord, o_tif = o_tif ord, o_activeStartTime = [],
      o_activeStopTime = [], o_ocaGroup = [], o_ocaType = 0, o_orderRef = [], o_transmit = True,
      o_parentId = 0, o_blockOrder = False, o_sweepToFill = False, o_displaySize = 0, o_triggerMethod = 0,
      o_outsideRth = False, o_hidden = False, o_goodAfterTime = [], o_goodTillDate = [], o_rule80A = [],
      o_allOrNone = False, o_minQty = UnsetInt, o_percentOffset = UnsetDouble,
      o_overridePercentageConstraints = False, o_trailStopPrice = UnsetDouble,
      o_trailingPercent = UnsetDouble, o_faGroup = [], o_faProfile = [], o_faMethod = [],
      o_faPercentage = [], o_openClose = [], o_origin = 0, o_shortSaleSlot = 0, o_designatedLocation = [],
      o_exemptCode = - 1, o_discretionaryAmt = 0, o_optOutSmartRouting = False, o_auctionStrategy = 0,
      o_startingPrice = UnsetDouble, o_stockRefPrice = UnsetDouble, o_delta = UnsetDouble,
      o_stockRangeLower = UnsetDouble, o_stockRangeUpper = UnsetDouble, o_randomizeSize = False,
      o_randomizePrice = False, o_volatility = UnsetDouble, o_volatilityType = UnsetInt,
      o_deltaNeutralOrderType = [], o_deltaNeutralAuxPrice = UnsetDouble, o_deltaNeutralConId = 0,
      o_deltaNeutralSettlingFirm = [], o_deltaNeutralClearingAccount = [],
      o_deltaNeutralClearingIntent = [], o_deltaNeutralOpenClose = [], o_deltaNeutralShortSale = False,
      o_deltaNeutralShortSaleSlot = 0, o_deltaNeutralDesignatedLocation = [], o_continuousUpdate = False,
      o_referencePriceType = UnsetInt, o_basisPoints = UnsetDouble, o_basisPointsType = UnsetInt,
      o_scaleInitLevelSize = UnsetInt, o_scaleSubsLevelSize = UnsetInt,
      o_scalePriceIncrement = UnsetDouble, o_scalePriceAdjustValue = UnsetDouble,
      o_scalePriceAdjustInterval = UnsetInt, o_scaleProfitOffset = UnsetDouble, o_scaleAutoReset = False,
      o_scaleInitPosition = UnsetInt, o_scaleInitFillQty = UnsetInt, o_scaleRandomPercent = False,
      o_scaleTable = [], o_hedgeType = [], o_hedgeParam = [], o_account = [], o_settlingFirm = [],
      o_clearingAccount = [], o_clearingIntent = [], o_algoStrategy = [], o_algoParams = [],
      o_smartComboRoutingParams = [], o_algoId = [], o_whatIf = False, o_notHeld = False,
      o_solicited = False, o_modelCode = [], o_orderComboLegs = [], o_orderMiscOptions = [],
      o_referenceContractId = UnsetInt, o_peggedChangeAmount = UnsetDouble,
      o_isPeggedChangeAmountDecrease = False, o_referenceChangeAmount = UnsetDouble,
      o_referenceExchangeId = [], o_adjustedOrderType = [], o_triggerPrice = UnsetDouble,
      o_adjustedStopPrice = UnsetDouble, o_adjustedStopLimitPrice = UnsetDouble,
      o_adjustedTrailingAmount = UnsetDouble, o_adjustableTrailingUnit = UnsetInt,
      o_lmtPriceOffset = UnsetDouble, o_conditions = [], o_conditionsCancelOrder = False,
      o_conditionsIgnoreRth = False, o_extOperator = [], o_softDollarTier = ([], [], []),
      o_cashQty = UnsetDouble, o_mifid2DecisionMaker = [], o_mifid2DecisionAlgo = [],
      o_mifid2ExecutionTrader = [], o_mifid2ExecutionAlgo = [], o_dontUseAutoPriceForHedge = False,
      o_isOmsContainer = False, o_discretionaryUpToLimitPrice = False, o_autoCancelDate = [],
      o_filledQuantity = UNSET_DECIMAL, o_refFuturesConId = UnsetInt, o_autoCancelParent = False,
      o_shareholder = [], o_imbalanceOnly = False, o_routeMarketableToBbo = False,
      o_parentPermId = UnsetLong, o_usePriceMgmtAlgo = UnsetInt, o_duration = UnsetInt,
      o_postToAts = UnsetInt, o_advancedErrorOverride = [], o_manualOrderTime = [],
      o_minTradeQty = UnsetInt, o_minCompeteSize = UnsetInt, o_competeAgainstBestOffset = UnsetDouble,
      o_midOffsetAtWhole = UnsetDouble, o_midOffsetAtHalf = UnsetDouble\<rparr>"

end
