(* ===== verification/TwsData.thy ===== *)
theory TwsData
  imports TwsOrder
begin

text \<open>
  What the TWS client hands to the program: the records of \<open>Contract.h\<close>, \<open>OrderState.h\<close>,
  \<open>Execution.h\<close> and \<open>CommissionReport.h\<close> of \<open>external/tws/client\<close>, and the callbacks of
  \<open>EWrapper_prototypes.h\<close> as one datatype, in groups.
\<close>

section \<open>Records\<close>

record contract_details =
  cd_contract :: contract
  cd_marketName :: string
  cd_minTick :: double
  cd_orderTypes :: string
  cd_validExchanges :: string
  cd_priceMagnifier :: int
  cd_underConId :: int
  cd_longName :: string
  cd_contractMonth :: string
  cd_industry :: string
  cd_category :: string
  cd_subcategory :: string
  cd_timeZoneId :: string
  cd_tradingHours :: string
  cd_liquidHours :: string
  cd_evRule :: string
  cd_evMultiplier :: double
  cd_aggGroup :: int
  cd_underSymbol :: string
  cd_underSecType :: string
  cd_marketRuleIds :: string
  cd_realExpirationDate :: string
  cd_lastTradeTime :: string
  cd_stockType :: string
  cd_minSize :: decimal
  cd_sizeIncrement :: decimal
  cd_suggestedSizeIncrement :: decimal
  cd_secIdList :: "(string \<times> string) list"
  cd_cusip :: string
  cd_ratings :: string
  cd_descAppend :: string
  cd_bondType :: string
  cd_couponType :: string
  cd_callable :: bool
  cd_putable :: bool
  cd_coupon :: double
  cd_convertible :: bool
  cd_maturity :: string
  cd_issueDate :: string
  cd_nextOptionDate :: string
  cd_nextOptionType :: string
  cd_nextOptionPartial :: bool
  cd_notes :: string

text \<open>The constructor leaves the number of the market data group as it is in memory.\<close>

definition new_details :: "int \<Rightarrow> contract_details" where
  "new_details uninit =
     \<lparr>cd_contract = new_contract, cd_marketName = [], cd_minTick = 0, cd_orderTypes = [], cd_validExchanges = [],
      cd_priceMagnifier = 0, cd_underConId = 0, cd_longName = [], cd_contractMonth = [], cd_industry = [], cd_category = [],
      cd_subcategory = [], cd_timeZoneId = [], cd_tradingHours = [], cd_liquidHours = [], cd_evRule = [], cd_evMultiplier = 0,
      cd_aggGroup = uninit, cd_underSymbol = [], cd_underSecType = [], cd_marketRuleIds = [], cd_realExpirationDate = [],
      cd_lastTradeTime = [], cd_stockType = [], cd_minSize = UNSET_DECIMAL, cd_sizeIncrement = UNSET_DECIMAL,
      cd_suggestedSizeIncrement = UNSET_DECIMAL, cd_secIdList = [], cd_cusip = [], cd_ratings = [], cd_descAppend = [],
      cd_bondType = [], cd_couponType = [], cd_callable = False, cd_putable = False, cd_coupon = 0, cd_convertible = False,
      cd_maturity = [], cd_issueDate = [], cd_nextOptionDate = [], cd_nextOptionType = [], cd_nextOptionPartial = False,
      cd_notes = []\<rparr>"

record contract_description =
  cde_contract :: contract
  cde_derivativeSecTypes :: "string list"

record order_state =
  st_status :: string
  st_initMarginBefore :: string
  st_maintMarginBefore :: string
  st_equityWithLoanBefore :: string
  st_initMarginChange :: string
  st_maintMarginChange :: string
  st_equityWithLoanChange :: string
  st_initMarginAfter :: string
  st_maintMarginAfter :: string
  st_equityWithLoanAfter :: string
  st_commission :: double
  st_minCommission :: double
  st_maxCommission :: double
  st_commissionCurrency :: string
  st_warningText :: string
  st_completedTime :: string
  st_completedStatus :: string

definition new_order_state :: order_state where
  "new_order_state =
     \<lparr>st_status = [], st_initMarginBefore = [], st_maintMarginBefore = [], st_equityWithLoanBefore = [],
      st_initMarginChange = [], st_maintMarginChange = [], st_equityWithLoanChange = [], st_initMarginAfter = [],
      st_maintMarginAfter = [], st_equityWithLoanAfter = [], st_commission = UnsetDouble, st_minCommission = UnsetDouble,
      st_maxCommission = UnsetDouble, st_commissionCurrency = [], st_warningText = [], st_completedTime = [],
      st_completedStatus = []\<rparr>"

text \<open>The decimals of an execution start with all bits zero.\<close>

record execution =
  ex_execId :: string
  ex_time :: string
  ex_acctNumber :: string
  ex_exchange :: string
  ex_side :: string
  ex_shares :: decimal
  ex_price :: double
  ex_permId :: int
  ex_clientId :: int
  ex_orderId :: int
  ex_liquidation :: int
  ex_cumQty :: decimal
  ex_avgPrice :: double
  ex_orderRef :: string
  ex_evRule :: string
  ex_evMultiplier :: double
  ex_modelCode :: string
  ex_lastLiquidity :: int

record commission_report =
  cr_execId :: string
  cr_commission :: double
  cr_currency :: string
  cr_realizedPNL :: double
  cr_yield :: double
  cr_yieldRedemptionDate :: int

record depth_description =
  dd_exchange :: string
  dd_secType :: string
  dd_listingExch :: string
  dd_serviceDataType :: string
  dd_aggGroup :: int

text \<open>The comparison \<open>!=\<close> with the unset double.\<close>

definition is_set_double :: "double \<Rightarrow> bool" where
  "is_set_double x \<longleftrightarrow> \<not> deq x UnsetDouble"

section \<open>Callbacks\<close>

text \<open>Market data; a kind of tick is its number in \<open>TickType\<close>, the marks of a price are their bits in order.\<close>

datatype market_call =
    M_tickPrice int int double bool bool bool
  | M_tickSize int int decimal
  | M_tickOptionComputation int int int double double double double double double double double
  | M_tickGeneric int int double
  | M_tickString int int string
  | M_tickEFP int int double string double int string double double
  | M_updateMktDepth int int int int double decimal
  | M_updateMktDepthL2 int int string int int double decimal bool
  | M_realtimeBar int int double double double double decimal decimal int
  | M_tickSnapshotEnd int
  | M_marketDataType int int
  | M_tickReqParams int double string int
  | M_tickNews int time_t string string string string
  | M_rerouteMktDataReq int int string
  | M_rerouteMktDepthReq int int string
  | M_historicalTicks int "(int \<times> double \<times> decimal) list" bool
  | M_historicalTicksBidAsk int "(int \<times> bool \<times> bool \<times> double \<times> double \<times> decimal \<times> decimal) list" bool
  | M_historicalTicksLast int "(int \<times> bool \<times> bool \<times> double \<times> decimal \<times> string \<times> string) list" bool
  | M_histogramData int "(double \<times> decimal) list"
  | M_headTimestamp int string

datatype account_call =
    A_updateAccountValue string string string string
  | A_updatePortfolio contract decimal double double double double double string
  | A_updateAccountTime string
  | A_accountDownloadEnd string
  | A_managedAccounts string
  | A_receiveFA int string
  | A_position string contract decimal double
  | A_positionEnd
  | A_accountSummary int string string string string
  | A_accountSummaryEnd int
  | A_positionMulti int string string contract decimal double
  | A_positionMultiEnd int
  | A_accountUpdateMulti int string string string string string
  | A_accountUpdateMultiEnd int
  | A_pnl int double double double
  | A_pnlSingle int decimal double double double double
  | A_familyCodes "(string \<times> string) list"
  | A_softDollarTiers int "(string \<times> string \<times> string) list"
  | A_replaceFAEnd int string
  | A_userInfo int string

datatype trade_call =
    T_completedOrder contract tws_order order_state
  | T_completedOrdersEnd
  | T_execDetails int contract execution
  | T_execDetailsEnd int
  | T_commissionReport commission_report
  | T_orderBound int int int
  | T_deltaNeutralValidation int dn_contract

datatype info_call =
    I_bondContractDetails int contract_details
  | I_updateNewsBulletin int int string string
  | I_scannerParameters string
  | I_scannerData int int contract_details string string string string
  | I_scannerDataEnd int
  | I_currentTime int
  | I_fundamentalData int string
  | I_verifyMessageAPI string
  | I_verifyCompleted bool string
  | I_displayGroupList int string
  | I_displayGroupUpdated int string
  | I_verifyAndAuthMessageAPI string string
  | I_verifyAndAuthCompleted bool string
  | I_securityDefinitionOptionalParameter int string int string string "string set" "double set"
  | I_securityDefinitionOptionalParameterEnd int
  | I_symbolSamples int "contract_description list"
  | I_mktDepthExchanges "depth_description list"
  | I_smartComponents int "int \<rightharpoonup> string \<times> char"
  | I_newsProviders "(string \<times> string) list"
  | I_newsArticle int int string
  | I_historicalNews int string string string string
  | I_historicalNewsEnd int bool
  | I_marketRule int "(double \<times> double) list"
  | I_wshMetaData int string
  | I_wshEventData int string
  | I_historicalSchedule int string string string "(string \<times> string \<times> string) list"

text \<open>The callbacks the gateway overrides are constructors of their own.\<close>

datatype wrapper_call =
    W_error int int string string
  | W_connectionClosed
  | W_connectAck
  | W_nextValidId int
  | W_orderStatus int string decimal decimal double int int double int string double
  | W_openOrder int contract tws_order order_state
  | W_openOrderEnd
  | W_tickByTickAllLast int int time_t double decimal bool bool string string
  | W_tickByTickBidAsk int time_t double double decimal decimal bool bool
  | W_tickByTickMidPoint int time_t double
  | W_historicalData int bar
  | W_historicalDataUpdate int bar
  | W_historicalDataEnd int string string
  | W_contractDetails int contract_details
  | W_contractDetailsEnd int
  | W_market market_call
  | W_account account_call
  | W_trade trade_call
  | W_info info_call

end
