(* ===== verification/MarketData.thy ===== *)
theory MarketData
  imports Gateway
begin

text \<open>
  The market data manager of \<open>lib/core/market_data.h\<close> and \<open>market_data.cpp\<close>: the last tick of
  every symbol. A \<open>shared_ptr<TickData>\<close> of the map is never null and never written through, so
  the map keeps the ticks themselves.
\<close>

record market_data =
  md_last_ticks :: "string \<rightharpoonup> tick_data"

definition md_init :: market_data where
  "md_init = \<lparr>md_last_ticks = Map.empty\<rparr>"

definition md_update_ticks :: "event \<Rightarrow> market_data \<Rightarrow> (unit, market_data) outcome" where
  "md_update_ticks ev md =
     with_cast (cast_tick (e_data ev)) (\<lambda>data.
       Ret () (md\<lparr>md_last_ticks := (md_last_ticks md)(t_symbol data \<mapsto> data)\<rparr>))"

text \<open>The result \<open>None\<close> is the null pointer.\<close>

definition md_get_last_tick :: "market_data \<Rightarrow> string \<Rightarrow> tick_data option" where
  "md_get_last_tick md symb = md_last_ticks md symb"

text \<open>
  \<open>subscribe\<close> marks the symbol with an empty tick, then asks the gateway, whose state it changes.
\<close>

definition md_subscribe :: "string \<Rightarrow> bool \<Rightarrow> market_data \<times> ib_api
    \<Rightarrow> (event list, market_data \<times> ib_api) outcome" where
  "md_subscribe symb delayed s =
     (case s of (md, ib) \<Rightarrow>
        if md_last_ticks md symb \<noteq> None then Ret [] (md, ib)
        else
          let md1 = md\<lparr>md_last_ticks := (md_last_ticks md)(symb \<mapsto> new_tick [])\<rparr>
          in (case ib_subscribe symb delayed ib of
                Ret evs ib' \<Rightarrow> Ret evs (md1, ib')
              | Throw e ib' \<Rightarrow> Throw e (md1, ib')
              | Crash c \<Rightarrow> Crash c))"

section \<open>Last ticks\<close>

lemma md_update_tick_event:
  "md_update_ticks (on_tick t) md = Ret () (md\<lparr>md_last_ticks := (md_last_ticks md)(t_symbol t \<mapsto> t)\<rparr>)"
  by (simp add: md_update_ticks_def on_tick_def)

fun md_update_all :: "tick_data list \<Rightarrow> market_data \<Rightarrow> (unit, market_data) outcome" where
  "md_update_all [] md = Ret () md"
| "md_update_all (t # ts) md = bind_o (md_update_ticks (on_tick t) md) (\<lambda>_. md_update_all ts)"

lemma md_update_all_eq:
  "md_update_all ts md = Ret () (md\<lparr>md_last_ticks :=
     fold (\<lambda>(k, v) m. m(k \<mapsto> v)) (map (\<lambda>t. (t_symbol t, t)) ts) (md_last_ticks md)\<rparr>)"
  by (induction ts arbitrary: md) (simp_all add: md_update_tick_event)

text \<open>
  After any sequence of tick events the manager answers, for each symbol, the last of its ticks,
  and what it answered before for a symbol without one.
\<close>

theorem last_tick_wins:
  "\<exists>md'. md_update_all ts md = Ret () md' \<and>
     md_get_last_tick md' symb =
       (case find (\<lambda>t. t_symbol t = symb) (rev ts) of
          Some t \<Rightarrow> Some t
        | None \<Rightarrow> md_get_last_tick md symb)"
proof -
  have "map_of (rev (map (\<lambda>t. (t_symbol t, t)) ts)) symb = find (\<lambda>t. t_symbol t = symb) (rev ts)"
    by (induction ts rule: rev_induct) auto
  then show ?thesis
    by (simp add: md_update_all_eq md_get_last_tick_def map_store.lookup_inserts cong: option.case_cong)
qed

text \<open>
  A subscription asks the gateway for a symbol once: from then on the manager holds a tick for it,
  and a second call changes nothing. Before the first tick of the feed that is the tick of an empty
  symbol with price zero; and when the gateway is not running the request is dropped while the
  symbol counts as subscribed.
\<close>

theorem subscribe_once:
  assumes "md_subscribe symb delayed (md, ib) = Ret evs (md', ib')"
  shows "md_get_last_tick md' symb \<noteq> None
    \<and> md_subscribe symb delayed' (md', ib') = Ret [] (md', ib')
    \<and> (md_get_last_tick md symb = None \<longrightarrow> md_get_last_tick md' symb = Some (new_tick []))
    \<and> (md_get_last_tick md symb = None \<and> \<not> ib_running ib \<longrightarrow> ib' = ib)"
  using assms
  by (auto simp: md_subscribe_def md_get_last_tick_def ib_subscribe_eq Let_def
      split: if_splits outcome.splits)

theorem subscribe_once_witness:
  "md_get_last_tick \<lparr>md_last_ticks = [''6758-STK-JPY.TSEJ'' \<mapsto> new_tick []]\<rparr> ''6758-STK-JPY.TSEJ''
     \<noteq> None \<and> md_subscribe ''6758-STK-JPY.TSEJ'' True
       (\<lparr>md_last_ticks = [''6758-STK-JPY.TSEJ'' \<mapsto> new_tick []]\<rparr>, ib_init)
     = Ret [] (\<lparr>md_last_ticks = [''6758-STK-JPY.TSEJ'' \<mapsto> new_tick []]\<rparr>, ib_init)"
proof -
  have "md_subscribe ''6758-STK-JPY.TSEJ'' False (md_init, ib_init) =
      Ret [] (\<lparr>md_last_ticks = [''6758-STK-JPY.TSEJ'' \<mapsto> new_tick []]\<rparr>, ib_init)"
    by (simp add: md_subscribe_def md_init_def ib_subscribe_eq ib_init_def Let_def)
  from subscribe_once [OF this, of True] show ?thesis by simp
qed

section \<open>The interface the portfolio and the strategies use\<close>

text \<open>
  Clients of the market data rely on two laws only: an update is seen by the next lookup of its
  symbol, and by no other.
\<close>

locale last_tick_source =
  fixes update :: "tick_data \<Rightarrow> 'm \<Rightarrow> 'm"
    and last :: "'m \<Rightarrow> string \<Rightarrow> tick_data option"
  assumes last_update: "last (update t m) symb = (if symb = t_symbol t then Some t else last m symb)"
begin

text \<open>A symbol once quoted stays quoted.\<close>

lemma quoted_stays:
  "last m symb \<noteq> None \<Longrightarrow> last (fold update ts m) symb \<noteq> None"
  by (induction ts arbitrary: m) (simp_all add: last_update)

lemma last_fold_other:
  "\<forall>t \<in> set ts. t_symbol t \<noteq> symb \<Longrightarrow> last (fold update ts m) symb = last m symb"
  by (induction ts arbitrary: m) (auto simp: last_update)

end

definition md_put :: "tick_data \<Rightarrow> market_data \<Rightarrow> market_data" where
  "md_put t md = md\<lparr>md_last_ticks := (md_last_ticks md)(t_symbol t \<mapsto> t)\<rparr>"

interpretation md_ticks: last_tick_source md_put md_get_last_tick
  by unfold_locales (simp add: md_put_def md_get_last_tick_def)

lemma md_update_ticks_put:
  "cast_tick (e_data ev) = Inr t \<Longrightarrow> md_update_ticks ev md = Ret () (md_put t md)"
  by (simp add: md_update_ticks_def md_put_def)

end
