(* ===== verification/Portfolio.thy ===== *)
theory Portfolio
  imports MarketData
begin

text \<open>
  The portfolio of \<open>lib/core/portfolio.h\<close> and \<open>portfolio.cpp\<close>: positions and costs per algorithm
  and symbol, kept up to date from the order events, and the profit and loss it computes from the
  last ticks at every timer event. The event engine's thread only pushes events onto the
  portfolio's own queue; a second thread takes them off and handles them. The maps a loop of the
  code walks are lists of entries, the others are partial functions.
\<close>

section \<open>State\<close>

record contract_pos =
  cp_symbol :: string
  cp_pos :: double
  cp_cost :: double

text \<open>A position made by \<open>operator[]\<close> is value-initialised.\<close>

definition new_pos :: contract_pos where
  "new_pos = \<lparr>cp_symbol = [], cp_pos = 0, cp_cost = 0\<rparr>"

record portfolio =
  pf_running :: bool
  pf_q :: "event lbqueue"
  pf_algo_portfolio :: "(string, (string, contract_pos) umap) umap"
  pf_mktd_mapping :: "string \<rightharpoonup> (string \<rightharpoonup> string)"
  pf_algo_pnl :: "(string, double) umap"
  pf_active_orders :: "string \<rightharpoonup> (order_id \<rightharpoonup> order_data)"
  pf_total_pnl :: double

definition pf_init :: portfolio where
  "pf_init = \<lparr>pf_running = False, pf_q = lbq_empty, pf_algo_portfolio = um_empty,
     pf_mktd_mapping = Map.empty, pf_algo_pnl = um_empty, pf_active_orders = Map.empty,
     pf_total_pnl = 0\<rparr>"

section \<open>Set-up and queries\<close>

definition pf_start :: "portfolio \<Rightarrow> portfolio" where
  "pf_start pf = (if \<not> pf_running pf then pf\<lparr>pf_running := True\<rparr> else pf)"

text \<open>The effect of \<open>stop\<close>, after its join.\<close>

definition pf_stop :: "portfolio \<Rightarrow> portfolio" where
  "pf_stop pf = (if pf_running pf then pf\<lparr>pf_running := False\<rparr> else pf)"

definition mapping_of :: "portfolio \<Rightarrow> string \<Rightarrow> (string \<rightharpoonup> string)" where
  "mapping_of pf algo = (case pf_mktd_mapping pf algo of None \<Rightarrow> Map.empty | Some m \<Rightarrow> m)"

definition pf_add_market_data_mapping :: "string \<Rightarrow> string \<Rightarrow> string \<Rightarrow> portfolio \<Rightarrow> portfolio" where
  "pf_add_market_data_mapping algo order_symbol market_symbol pf =
     (if pf_running pf then pf
      else pf\<lparr>pf_mktd_mapping :=
             (pf_mktd_mapping pf)(algo \<mapsto> (mapping_of pf algo)(order_symbol \<mapsto> market_symbol))\<rparr>)"

definition pf_add_to_portfolio :: "string \<Rightarrow> string \<Rightarrow> portfolio \<Rightarrow> portfolio" where
  "pf_add_to_portfolio algo symb pf =
     (if pf_running pf then pf
      else pf\<lparr>pf_algo_portfolio := um_put algo
             (um_touch new_pos symb (um_get um_empty (pf_algo_portfolio pf) algo))
             (pf_algo_portfolio pf)\<rparr>)"

definition pf_get_total_pnl :: "portfolio \<Rightarrow> double" where
  "pf_get_total_pnl pf = pf_total_pnl pf"

text \<open>The lookup with \<open>operator[]\<close> leaves an entry behind.\<close>

definition pf_get_algo_pnl :: "string \<Rightarrow> portfolio \<Rightarrow> double \<times> portfolio" where
  "pf_get_algo_pnl algo pf =
     (um_get 0 (pf_algo_pnl pf) algo, pf\<lparr>pf_algo_pnl := um_touch 0 algo (pf_algo_pnl pf)\<rparr>)"

section \<open>Callbacks on the event engine's thread\<close>

definition pf_event_engine_order_data_cb :: "event \<Rightarrow> portfolio \<Rightarrow> portfolio" where
  "pf_event_engine_order_data_cb ev pf = pf\<lparr>pf_q := wait_push ev (pf_q pf)\<rparr>"

definition pf_event_engine_timer_cb :: "event \<Rightarrow> portfolio \<Rightarrow> portfolio" where
  "pf_event_engine_timer_cb ev pf = pf\<lparr>pf_q := wait_push ev (pf_q pf)\<rparr>"

section \<open>An order event\<close>

definition orders_of :: "portfolio \<Rightarrow> string \<Rightarrow> (order_id \<rightharpoonup> order_data)" where
  "orders_of pf algo = (case pf_active_orders pf algo of None \<Rightarrow> Map.empty | Some m \<Rightarrow> m)"

definition pos_of :: "portfolio \<Rightarrow> string \<Rightarrow> string \<Rightarrow> contract_pos" where
  "pos_of pf algo symb = um_get new_pos (um_get um_empty (pf_algo_portfolio pf) algo) symb"

definition pf_order_data_cb :: "event \<Rightarrow> portfolio \<Rightarrow> (unit, portfolio) outcome" where
  "pf_order_data_cb ev pf =
     with_cast (cast_order (e_data ev)) (\<lambda>data.
       let algo = d_source data;
           symb = d_symbol data;
           order_id = d_order_id data;
           algo_orders = orders_of pf algo;
           change_qty = d_traded_quantity data;
           new_px = d_avg_trade_price data;
           change_comm = d_commission data;
           change_cost = change_qty * new_px;
           (change_qty, change_cost, change_comm) =
             (case algo_orders order_id of
                None \<Rightarrow> (change_qty, change_cost, change_comm)
              | Some old_order \<Rightarrow>
                  let old_qty = d_traded_quantity old_order;
                      old_px = d_avg_trade_price old_order;
                      old_comm = d_commission old_order
                  in (change_qty - old_qty, change_cost - old_qty * old_px, change_comm - old_comm));
           pf1 = pf\<lparr>pf_active_orders := (pf_active_orders pf)(algo \<mapsto> algo_orders(order_id \<mapsto> data))\<rparr>;
           (change_qty, change_cost) =
             (if d_action data = A_sell then (change_qty * (- 1), change_cost * (- 1))
              else (change_qty, change_cost));
           pos = pos_of pf1 algo symb;
           pos1 = pos\<lparr>cp_pos := cp_pos pos + change_qty\<rparr>;
           pos2 = pos1\<lparr>cp_cost := cp_cost pos1 + change_cost\<rparr>;
           pos3 = pos2\<lparr>cp_cost := cp_cost pos2 + change_comm\<rparr>
       in Ret () (pf1\<lparr>pf_algo_portfolio := um_put algo
            (um_put symb pos3 (um_get um_empty (pf_algo_portfolio pf1) algo))
            (pf_algo_portfolio pf1)\<rparr>))"

section \<open>A timer event\<close>

definition fx_rate :: "string \<Rightarrow> double" where
  "fx_rate algo = 1"

definition market_symbol :: "(string \<rightharpoonup> string) \<Rightarrow> string \<Rightarrow> string" where
  "market_symbol m symb = (case m symb of None \<Rightarrow> symb | Some mkt \<Rightarrow> mkt)"

text \<open>The inner loop: the profit and loss of an algorithm, or the unset value if a tick is missing.\<close>

fun algo_loop :: "(string \<Rightarrow> tick_data option) \<Rightarrow> (string \<rightharpoonup> string) \<Rightarrow> (string, contract_pos) umap
    \<Rightarrow> double \<Rightarrow> double" where
  "algo_loop get_tick m [] pnl = pnl"
| "algo_loop get_tick m ((symb, pos) # port) pnl =
     algo_loop get_tick m port
       (case get_tick (market_symbol m symb) of
          None \<Rightarrow> UnsetDouble
        | Some tick \<Rightarrow>
            if is_unset_double pnl then UnsetDouble
            else pnl + (cp_pos pos * t_last_price tick - cp_cost pos))"

text \<open>The outer loop, over the algorithms.\<close>

fun pnl_loop :: "(string \<Rightarrow> tick_data option) \<Rightarrow> (string, (string, contract_pos) umap) umap
    \<Rightarrow> portfolio \<Rightarrow> portfolio" where
  "pnl_loop get_tick [] pf = pf"
| "pnl_loop get_tick ((algo, algo_port) # rest) pf =
     (let m = mapping_of pf algo;
          pnl = algo_loop get_tick m algo_port 0;
          pf1 = pf\<lparr>pf_algo_pnl := um_put algo pnl (pf_algo_pnl pf),
                   pf_active_orders := (pf_active_orders pf)(algo \<mapsto> orders_of pf algo),
                   pf_mktd_mapping := (pf_mktd_mapping pf)(algo \<mapsto> m)\<rparr>;
          pf2 = pf1\<lparr>pf_total_pnl :=
                   (if is_unset_double pnl \<or> is_unset_double (pf_total_pnl pf1) then UnsetDouble
                    else pf_total_pnl pf1 + pnl * fx_rate algo)\<rparr>
      in pnl_loop get_tick rest pf2)"

definition pf_recompute :: "(string \<Rightarrow> tick_data option) \<Rightarrow> portfolio \<Rightarrow> portfolio" where
  "pf_recompute get_tick pf = pnl_loop get_tick (pf_algo_portfolio pf) (pf\<lparr>pf_total_pnl := 0\<rparr>)"

text \<open>The events sent to the engine, one per entry of \<open>algo_pnl\<close> and one for the total.\<close>

definition pnl_events :: "timer \<Rightarrow> portfolio \<Rightarrow> event list" where
  "pnl_events tm pf =
     map (\<lambda>(algo, pnl). mk_event ET_algo_pnl
            (P_algo_pnl \<lparr>ap_algo = algo, ap_pnl = pnl, ap_timestamp = tm_timestamp tm\<rparr>)) (pf_algo_pnl pf)
     @ [mk_event ET_total_pnl
            (P_total_pnl \<lparr>tp_pnl = pf_total_pnl pf, tp_timestamp = tm_timestamp tm\<rparr>)]"

definition pf_timer_cb :: "market_data \<Rightarrow> event \<Rightarrow> portfolio \<Rightarrow> (event list, portfolio) outcome" where
  "pf_timer_cb md ev pf =
     with_cast (cast_timer (e_data ev)) (\<lambda>timer_data.
       let pf1 = pf_recompute (md_get_last_tick md) pf
       in Ret (if tm_sec timer_data = 30 \<or> tm_sec timer_data = 0
               then pnl_events timer_data pf1 else []) pf1)"

section \<open>The portfolio's thread\<close>

text \<open>
  One round of \<open>run_actions\<close>. The local \<open>event\<close> lives across rounds and the result of \<open>try_pop\<close>
  is not looked at, so after a timeout the event of the round before is handled again.
\<close>

definition pf_round :: "market_data \<Rightarrow> event \<Rightarrow> portfolio \<Rightarrow> (event \<times> event list, portfolio) outcome" where
  "pf_round md ev pf =
     (case try_pop ev (pf_q pf) of (_, ev', q') \<Rightarrow>
        let pf1 = pf\<lparr>pf_q := q'\<rparr> in
        case e_type ev' of
          ET_order_data \<Rightarrow> bind_o (pf_order_data_cb ev' pf1) (\<lambda>_ pf2. Ret (ev', []) pf2)
        | ET_timer \<Rightarrow> bind_o (pf_timer_cb md ev' pf1) (\<lambda>evs pf2. Ret (ev', evs) pf2)
        | _ \<Rightarrow> Ret (ev', []) pf1)"

end
