(* ===== verification/Accounting.thy ===== *)
theory Accounting
  imports Portfolio
begin

text \<open>
  The books of the portfolio: what \<open>order_data_cb\<close> of \<open>lib/core/portfolio.cpp\<close> adds up to over any
  stream of order events, in exact numbers.
\<close>

section \<open>Arithmetic on the exact grid\<close>

lemma fin_add:
  "dyadic k p \<Longrightarrow> dyadic k q \<Longrightarrow> \<bar>p + q\<bar> \<le> grid_bound k \<Longrightarrow> k \<le> 1074 \<Longrightarrow> Fin p + Fin q = Fin (p + q)"
  using round_double_dyadic [OF dyadic_add] by (simp add: plus_double_def)

lemma fin_diff:
  "dyadic k p \<Longrightarrow> dyadic k q \<Longrightarrow> \<bar>p - q\<bar> \<le> grid_bound k \<Longrightarrow> k \<le> 1074 \<Longrightarrow> Fin p - Fin q = Fin (p - q)"
  using round_double_dyadic [OF dyadic_diff] by (simp add: minus_double_def dsub_def)

lemma fin_mult:
  "dyadic j p \<Longrightarrow> dyadic k q \<Longrightarrow> \<bar>p * q\<bar> \<le> grid_bound (j + k) \<Longrightarrow> j + k \<le> 1074
     \<Longrightarrow> Fin p * Fin q = Fin (p * q)"
  using round_double_dyadic [OF dyadic_mult] by (simp add: times_double_def)

lemma fin_neg:
  "dyadic k p \<Longrightarrow> \<bar>p\<bar> \<le> grid_bound k \<Longrightarrow> k \<le> 1074 \<Longrightarrow> Fin p * - 1 = Fin (- p)"
  by (simp add: times_double_def uminus_double_def one_double_def round_double_dyadic)

lemma dyadic_sum_list: "\<forall>x \<in> set xs. dyadic k (f x) \<Longrightarrow> dyadic k (\<Sum>x\<leftarrow>xs. f x)"
  by (induction xs) (simp_all add: dyadic_add)

lemma abs_sum_list_le: "\<forall>x \<in> set xs. \<bar>f x\<bar> \<le> (B :: rat) \<Longrightarrow> \<bar>\<Sum>x\<leftarrow>xs. f x\<bar> \<le> of_nat (length xs) * B"
  by (induction xs) (fastforce simp: algebra_simps)+

section \<open>Exact accounting\<close>

text \<open>The exact number behind a finite double.\<close>

fun the_fin :: "double \<Rightarrow> rat" where
  "the_fin (Fin q) = q"
| "the_fin _ = 0"

text \<open>What an order contributes to the position and to the cost of its contract.\<close>

definition side :: "order_data \<Rightarrow> rat" where
  "side d = (if d_action d = A_sell then - 1 else 1)"

definition signed_qty :: "order_data \<Rightarrow> rat" where
  "signed_qty d = side d * the_fin (d_traded_quantity d)"

definition signed_cost :: "order_data \<Rightarrow> rat" where
  "signed_cost d = side d * (the_fin (d_traded_quantity d) * the_fin (d_avg_trade_price d))
     + the_fin (d_commission d)"

text \<open>The last snapshot of every order of a stream.\<close>

definition same_order :: "order_data \<Rightarrow> order_data \<Rightarrow> bool" where
  "same_order d d' \<longleftrightarrow> d_source d = d_source d' \<and> d_order_id d = d_order_id d'"

fun latest :: "order_data list \<Rightarrow> order_data list" where
  "latest [] = []"
| "latest (d # ds) = (if list_ex (same_order d) ds then latest ds else d # latest ds)"

definition ledger :: "string \<Rightarrow> string \<Rightarrow> order_data list \<Rightarrow> order_data list" where
  "ledger algo symb ds = filter (\<lambda>d. d_source d = algo \<and> d_symbol d = symb) (latest ds)"

text \<open>
  Snapshots whose numbers stay on a grid: quantities with \<open>j\<close> and prices with \<open>k\<close> binary digits
  after the point, a quantity at most \<open>B\<close> and a cost with commission at most \<open>C\<close>.
\<close>

definition snapshot_ok :: "nat \<Rightarrow> nat \<Rightarrow> rat \<Rightarrow> rat \<Rightarrow> order_data \<Rightarrow> bool" where
  "snapshot_ok j k B C d \<longleftrightarrow>
     d_traded_quantity d = Fin (the_fin (d_traded_quantity d))
     \<and> d_avg_trade_price d = Fin (the_fin (d_avg_trade_price d))
     \<and> d_commission d = Fin (the_fin (d_commission d))
     \<and> dyadic j (the_fin (d_traded_quantity d)) \<and> dyadic k (the_fin (d_avg_trade_price d))
     \<and> dyadic (j + k) (the_fin (d_commission d))
     \<and> \<bar>the_fin (d_traded_quantity d)\<bar> \<le> B
     \<and> \<bar>the_fin (d_traded_quantity d) * the_fin (d_avg_trade_price d)\<bar> + \<bar>the_fin (d_commission d)\<bar> \<le> C"

text \<open>The part of this that is about quantities: nothing is said of prices and commissions.\<close>

definition qty_ok :: "nat \<Rightarrow> rat \<Rightarrow> order_data \<Rightarrow> bool" where
  "qty_ok j B d \<longleftrightarrow> d_traded_quantity d = Fin (the_fin (d_traded_quantity d))
     \<and> dyadic j (the_fin (d_traded_quantity d)) \<and> \<bar>the_fin (d_traded_quantity d)\<bar> \<le> B"

lemma snapshot_qty: "snapshot_ok j k B C d \<Longrightarrow> qty_ok j B d"
  by (simp add: snapshot_ok_def qty_ok_def)

text \<open>An order keeps its symbol and its side from one snapshot to the next.\<close>

definition stable :: "order_data list \<Rightarrow> bool" where
  "stable ds \<longleftrightarrow> (\<forall>d \<in> set ds. \<forall>d' \<in> set ds. same_order d d' \<longrightarrow>
     d_symbol d = d_symbol d' \<and> d_action d = d_action d')"

fun pf_orders :: "order_data list \<Rightarrow> portfolio \<Rightarrow> (unit, portfolio) outcome" where
  "pf_orders [] pf = Ret () pf"
| "pf_orders (d # ds) pf = bind_o (pf_order_data_cb (on_order d) pf) (\<lambda>_. pf_orders ds)"

lemma pf_orders_append: "pf_orders (ds @ ds') pf = bind_o (pf_orders ds pf) (\<lambda>_. pf_orders ds')"
  by (induction ds arbitrary: pf) (auto simp: bind_o_assoc intro!: arg_cong2 [where f = bind_o])

lemma latest_snoc: "latest (ds @ [d]) = filter (\<lambda>d'. \<not> same_order d' d) (latest ds) @ [d]"
  by (induction ds) auto

lemma set_latest: "set (latest ds) \<subseteq> set ds"
  by (induction ds) auto

lemma length_latest: "length (latest ds) \<le> length ds"
  by (induction ds) auto

lemma same_order_refl [simp]: "same_order d d"
  by (simp add: same_order_def)

lemma find_latest: "find (\<lambda>d'. same_order d' d) (rev ds) = find (\<lambda>d'. same_order d' d) (latest ds)"
proof (induction ds rule: rev_induct)
  case Nil
  then show ?case by simp
next
  case (snoc x ds)
  show ?case
  proof (cases "same_order x d")
    case True
    have "find (\<lambda>d'. same_order d' d) (filter (\<lambda>d'. \<not> same_order d' x) xs) = None" for xs
      using True by (auto simp: find_None_iff same_order_def)
    moreover have "find P (xs @ [x]) = (case find P xs of None \<Rightarrow> find P [x] | Some y \<Rightarrow> Some y)" for P xs
      by (induction xs) simp_all
    ultimately show ?thesis using True by (simp add: latest_snoc)
  next
    case False
    have "find (\<lambda>d'. same_order d' d) (filter (\<lambda>d'. \<not> same_order d' x) xs @ [x])
        = find (\<lambda>d'. same_order d' d) xs" for xs
      using False by (induction xs) (auto simp: same_order_def)
    then show ?thesis using False snoc by (simp add: latest_snoc)
  qed
qed

lemma distinct_latest: "distinct (map (\<lambda>d. (d_source d, d_order_id d)) (latest ds))"
  by (induction ds) (use set_latest in \<open>auto simp: list_ex_iff same_order_def\<close>)

lemma sum_ledger_snoc:
  fixes f :: "order_data \<Rightarrow> rat"
  assumes "stable (ds @ [d])"
  shows "(\<Sum>x\<leftarrow>ledger algo symb (ds @ [d]). f x) =
    (\<Sum>x\<leftarrow>ledger algo symb ds. f x) +
    (if d_source d = algo \<and> d_symbol d = symb
     then f d - (case find (\<lambda>d'. same_order d' d) (rev ds) of None \<Rightarrow> 0 | Some d' \<Rightarrow> f d') else 0)"
proof -
  let ?P = "\<lambda>x. d_source x = algo \<and> d_symbol x = symb"
  have gen: "(\<Sum>x\<leftarrow>filter ?P (filter (\<lambda>d'. \<not> same_order d' d) xs). f x) =
      (\<Sum>x\<leftarrow>filter ?P xs. f x) -
      (if ?P d then (case find (\<lambda>d'. same_order d' d) xs of None \<Rightarrow> 0 | Some d' \<Rightarrow> f d') else 0)"
    if "set xs \<subseteq> set ds" "distinct (map (\<lambda>d. (d_source d, d_order_id d)) xs)" for xs
    using that
  proof (induction xs)
    case Nil
    then show ?case by simp
  next
    case (Cons x xs)
    show ?case
    proof (cases "same_order x d")
      case True
      then have "filter (\<lambda>d'. \<not> same_order d' d) xs = xs"
        using Cons.prems(2) by (intro filter_True) (auto simp: same_order_def image_iff)
      moreover have "?P x \<longleftrightarrow> ?P d"
        using assms True Cons.prems(1) by (auto simp: stable_def same_order_def)
      ultimately show ?thesis using True by simp
    next
      case False
      with Cons show ?thesis by simp
    qed
  qed
  show ?thesis
    unfolding ledger_def latest_snoc find_latest
    using gen [OF set_latest distinct_latest] by simp
qed

text \<open>The books of the portfolio agree with the exact sums over the last snapshots.\<close>

definition books :: "order_data list \<Rightarrow> portfolio \<Rightarrow> bool" where
  "books ds pf \<longleftrightarrow>
     (\<forall>algo oid. orders_of pf algo oid = find (\<lambda>d. d_source d = algo \<and> d_order_id d = oid) (rev ds))
     \<and> (\<forall>algo symb. cp_pos (pos_of pf algo symb) = Fin (\<Sum>d\<leftarrow>ledger algo symb ds. signed_qty d)
          \<and> cp_cost (pos_of pf algo symb) = Fin (\<Sum>d\<leftarrow>ledger algo symb ds. signed_cost d))"

definition in_bounds :: "nat \<Rightarrow> nat \<Rightarrow> rat \<Rightarrow> rat \<Rightarrow> order_data list \<Rightarrow> bool" where
  "in_bounds j k B C ds \<longleftrightarrow> list_all (snapshot_ok j k B C) ds \<and> j + k \<le> 1074
     \<and> of_nat (length ds + 1) * B \<le> grid_bound j \<and> of_nat (length ds + 1) * C \<le> grid_bound (j + k)"

lemma snapshot_signed:
  assumes "snapshot_ok j k B C d"
  shows "dyadic j (signed_qty d)" "\<bar>signed_qty d\<bar> \<le> B"
    "dyadic (j + k) (signed_cost d)" "\<bar>signed_cost d\<bar> \<le> C" "0 \<le> B" "0 \<le> C"
  using assms unfolding snapshot_ok_def signed_qty_def signed_cost_def side_def
  by (auto intro!: dyadic_add dyadic_diff dyadic_mult)

lemma ledger_sums:
  assumes "list_all (snapshot_ok j k B C) ds" and "0 \<le> B" "0 \<le> C"
  shows "dyadic j (\<Sum>d\<leftarrow>ledger algo symb ds. signed_qty d)"
    and "dyadic (j + k) (\<Sum>d\<leftarrow>ledger algo symb ds. signed_cost d)"
    and "\<bar>\<Sum>d\<leftarrow>ledger algo symb ds. signed_qty d\<bar> \<le> of_nat (length ds) * B"
    and "\<bar>\<Sum>d\<leftarrow>ledger algo symb ds. signed_cost d\<bar> \<le> of_nat (length ds) * C"
proof -
  let ?l = "ledger algo symb ds"
  have ok: "\<forall>d \<in> set ?l. snapshot_ok j k B C d"
    using assms(1) set_latest [of ds] by (auto simp: ledger_def list_all_iff)
  have len: "length ?l \<le> length ds"
    using length_latest [of ds] length_filter_le order_trans unfolding ledger_def by blast
  show "dyadic j (\<Sum>d\<leftarrow>?l. signed_qty d)" "dyadic (j + k) (\<Sum>d\<leftarrow>?l. signed_cost d)"
    using ok by (auto intro!: dyadic_sum_list dest: snapshot_signed)
  have "\<bar>\<Sum>d\<leftarrow>?l. signed_qty d\<bar> \<le> of_nat (length ?l) * B"
    and "\<bar>\<Sum>d\<leftarrow>?l. signed_cost d\<bar> \<le> of_nat (length ?l) * C"
    using ok by (auto intro!: abs_sum_list_le dest: snapshot_signed)
  moreover have "of_nat (length ?l) * B \<le> of_nat (length ds) * B"
    and "of_nat (length ?l) * C \<le> of_nat (length ds) * C"
    using len assms(2,3) by (auto intro!: mult_right_mono)
  ultimately show "\<bar>\<Sum>d\<leftarrow>?l. signed_qty d\<bar> \<le> of_nat (length ds) * B"
    and "\<bar>\<Sum>d\<leftarrow>?l. signed_cost d\<bar> \<le> of_nat (length ds) * C" by linarith+
qed

text \<open>One order event, in exact numbers: the old snapshot, if any, is taken back.\<close>

definition old_snapshot :: "order_data \<Rightarrow> portfolio \<Rightarrow> order_data option" where
  "old_snapshot d pf = orders_of pf (d_source d) (d_order_id d)"

definition change_qty :: "order_data \<Rightarrow> portfolio \<Rightarrow> double" where
  "change_qty d pf = (let q = (case old_snapshot d pf of None \<Rightarrow> d_traded_quantity d
        | Some d' \<Rightarrow> d_traded_quantity d - d_traded_quantity d')
     in if d_action d = A_sell then q * - 1 else q)"

definition change_cost :: "order_data \<Rightarrow> portfolio \<Rightarrow> double" where
  "change_cost d pf = (let c = (case old_snapshot d pf of
          None \<Rightarrow> d_traded_quantity d * d_avg_trade_price d
        | Some d' \<Rightarrow> d_traded_quantity d * d_avg_trade_price d
            - d_traded_quantity d' * d_avg_trade_price d')
     in if d_action d = A_sell then c * - 1 else c)"

definition change_comm :: "order_data \<Rightarrow> portfolio \<Rightarrow> double" where
  "change_comm d pf = (case old_snapshot d pf of None \<Rightarrow> d_commission d
     | Some d' \<Rightarrow> d_commission d - d_commission d')"

lemma pf_order_data_cb_eq:
  "\<exists>pf'. pf_order_data_cb (on_order d) pf = Ret () pf'
     \<and> (\<forall>algo oid. orders_of pf' algo oid =
          (if algo = d_source d \<and> oid = d_order_id d then Some d else orders_of pf algo oid))
     \<and> (\<forall>algo symb. pos_of pf' algo symb =
          (if algo = d_source d \<and> symb = d_symbol d
           then (pos_of pf algo symb)\<lparr>cp_pos := cp_pos (pos_of pf algo symb) + change_qty d pf,
                  cp_cost := cp_cost (pos_of pf algo symb) + change_cost d pf + change_comm d pf\<rparr>
           else pos_of pf algo symb))"
  unfolding pf_order_data_cb_def change_qty_def change_cost_def change_comm_def old_snapshot_def
  by (cases "orders_of pf (d_source d) (d_order_id d)")
    (simp_all add: on_order_def Let_def orders_of_def pos_of_def um_get_def)

definition trade_value :: "order_data \<Rightarrow> rat" where
  "trade_value d = the_fin (d_traded_quantity d) * the_fin (d_avg_trade_price d)"

definition prior :: "(order_data \<Rightarrow> rat) \<Rightarrow> order_data \<Rightarrow> portfolio \<Rightarrow> rat" where
  "prior f d pf = (case old_snapshot d pf of None \<Rightarrow> 0 | Some d' \<Rightarrow> f d')"

text \<open>While the two snapshots stay within the bounds the changes are exact.\<close>

definition change_ok :: "nat \<Rightarrow> nat \<Rightarrow> rat \<Rightarrow> rat \<Rightarrow> order_data \<Rightarrow> portfolio \<Rightarrow> bool" where
  "change_ok j k B C d pf \<longleftrightarrow> snapshot_ok j k B C d
     \<and> (\<forall>d'. old_snapshot d pf = Some d' \<longrightarrow> snapshot_ok j k B C d' \<and> d_action d' = d_action d)
     \<and> j + k \<le> 1074 \<and> 2 * B \<le> grid_bound j \<and> 2 * C \<le> grid_bound (j + k)"

lemma snapshot_parts:
  assumes "snapshot_ok j k B C d"
  obtains q p c where "d_traded_quantity d = Fin q" "d_avg_trade_price d = Fin p" "d_commission d = Fin c"
    "dyadic j q" "dyadic k p" "dyadic (j + k) c" "dyadic (j + k) (q * p)" "\<bar>q\<bar> \<le> B" "\<bar>q * p\<bar> + \<bar>c\<bar> \<le> C"
  using assms dyadic_mult by (fastforce simp: snapshot_ok_def)

lemma change_qty_exact:
  assumes ok: "qty_ok j B d" and old: "\<forall>d'. old_snapshot d pf = Some d' \<longrightarrow> qty_ok j B d' \<and> d_action d' = d_action d"
    and jk: "j \<le> 1074" and B: "2 * B \<le> grid_bound j"
  shows "change_qty d pf = Fin (signed_qty d - prior signed_qty d pf)"
proof -
  from ok obtain q where q: "d_traded_quantity d = Fin q" "dyadic j q" "\<bar>q\<bar> \<le> B"
    unfolding qty_ok_def by metis
  show ?thesis
  proof (cases "old_snapshot d pf")
    case None
    with q B jk show ?thesis
      by (simp add: change_qty_def prior_def signed_qty_def side_def fin_neg [of j])
  next
    case (Some d')
    with old have "qty_ok j B d'" and a: "d_action d' = d_action d" by simp_all
    then obtain q' where q': "d_traded_quantity d' = Fin q'" "dyadic j q'" "\<bar>q'\<bar> \<le> B"
      unfolding qty_ok_def by metis
    have b: "\<bar>q - q'\<bar> \<le> grid_bound j" using q(3) q'(3) B by linarith
    have "Fin q - Fin q' = Fin (q - q')"
      by (rule fin_diff) fact+
    moreover have "Fin (q - q') * - 1 = Fin (- (q - q'))"
      by (rule fin_neg) (fact | rule dyadic_diff)+
    ultimately show ?thesis
      using Some q q' a by (simp add: change_qty_def prior_def signed_qty_def side_def)
  qed
qed

lemma change_cost_exact:
  assumes "change_ok j k B C d pf"
  shows "change_cost d pf = Fin (side d * (trade_value d - prior trade_value d pf))"
    and "change_comm d pf = Fin (the_fin (d_commission d) - prior (\<lambda>d. the_fin (d_commission d)) d pf)"
    and "\<bar>side d * (trade_value d - prior trade_value d pf)\<bar> \<le> 2 * C"
    and "dyadic (j + k) (side d * (trade_value d - prior trade_value d pf))"
    and "dyadic (j + k) (the_fin (d_commission d) - prior (\<lambda>d. the_fin (d_commission d)) d pf)"
proof -
  from assms have jk: "j + k \<le> 1074" and C: "2 * C \<le> grid_bound (j + k)" and ok: "snapshot_ok j k B C d"
    by (simp_all add: change_ok_def)
  from ok obtain q p c where q: "d_traded_quantity d = Fin q" "d_avg_trade_price d = Fin p"
      "d_commission d = Fin c" "dyadic j q" "dyadic k p" "dyadic (j + k) c" "dyadic (j + k) (q * p)"
      "\<bar>q * p\<bar> + \<bar>c\<bar> \<le> C"
    by (rule snapshot_parts)
  have C2: "\<bar>q * p\<bar> \<le> grid_bound (j + k)" "\<bar>c\<bar> \<le> grid_bound (j + k)" using q(8) C by linarith+
  have m: "Fin q * Fin p = Fin (q * p)" using q jk C2 by (intro fin_mult)
  have "(change_cost d pf = Fin (side d * (trade_value d - prior trade_value d pf)))
    \<and> (change_comm d pf = Fin (the_fin (d_commission d) - prior (\<lambda>d. the_fin (d_commission d)) d pf))
    \<and> (\<bar>side d * (trade_value d - prior trade_value d pf)\<bar> \<le> 2 * C)
    \<and> (dyadic (j + k) (side d * (trade_value d - prior trade_value d pf)))
    \<and> (dyadic (j + k) (the_fin (d_commission d) - prior (\<lambda>d. the_fin (d_commission d)) d pf))"
  proof (cases "old_snapshot d pf")
    case None
    have "Fin (q * p) * - 1 = Fin (- (q * p))" using q jk C2 by (intro fin_neg)
    moreover have "\<bar>q * p\<bar> \<le> 2 * C" using q(8) by linarith
    ultimately show ?thesis using q m None
      by (simp add: change_cost_def change_comm_def prior_def trade_value_def side_def)
  next
    case (Some d')
    with assms have "snapshot_ok j k B C d'" by (simp add: change_ok_def)
    then obtain q' p' c' where q': "d_traded_quantity d' = Fin q'" "d_avg_trade_price d' = Fin p'"
        "d_commission d' = Fin c'" "dyadic j q'" "dyadic k p'" "dyadic (j + k) c'"
        "dyadic (j + k) (q' * p')" "\<bar>q' * p'\<bar> + \<bar>c'\<bar> \<le> C"
      by (rule snapshot_parts)
    have b: "\<bar>q * p - q' * p'\<bar> \<le> 2 * C" and bc: "\<bar>c - c'\<bar> \<le> grid_bound (j + k)"
      using q(8) q'(8) C by linarith+
    have dd: "dyadic (j + k) (q * p - q' * p')" "dyadic (j + k) (c - c')"
      using q q' by (auto intro: dyadic_diff)
    have gb: "\<bar>q * p - q' * p'\<bar> \<le> grid_bound (j + k)" using b C by linarith
    have m': "Fin q' * Fin p' = Fin (q' * p')"
      using q' jk C by (intro fin_mult) (auto intro: order_trans)
    have "Fin (q * p) - Fin (q' * p') = Fin (q * p - q' * p')" "Fin c - Fin c' = Fin (c - c')"
      using q q' jk gb bc by (auto intro: fin_diff)
    moreover have "Fin (q * p - q' * p') * - 1 = Fin (- (q * p - q' * p'))"
      using dd gb jk by (intro fin_neg)
    moreover have "\<bar>q' * p' - q * p\<bar> \<le> 2 * C" "dyadic (j + k) (q' * p' - q * p)"
      using b q q' by (auto simp: abs_minus_commute intro: dyadic_diff)
    ultimately show ?thesis using q q' m m' b dd Some
      by (simp add: change_cost_def change_comm_def prior_def trade_value_def side_def)
  qed
  then show "change_cost d pf = Fin (side d * (trade_value d - prior trade_value d pf))"
    and "change_comm d pf = Fin (the_fin (d_commission d) - prior (\<lambda>d. the_fin (d_commission d)) d pf)"
    and "\<bar>side d * (trade_value d - prior trade_value d pf)\<bar> \<le> 2 * C"
    and "dyadic (j + k) (side d * (trade_value d - prior trade_value d pf))"
    and "dyadic (j + k) (the_fin (d_commission d) - prior (\<lambda>d. the_fin (d_commission d)) d pf)"
    by simp_all
qed

lemma find_snapshot: "find P (rev ds) = Some d \<Longrightarrow> d \<in> set ds \<and> P d"
  by (auto simp: find_Some_iff) (metis in_set_conv_nth length_rev set_rev)

lemma find_same_order:
  "find (\<lambda>d'. d_source d' = d_source d \<and> d_order_id d' = d_order_id d) xs = find (\<lambda>d'. same_order d' d) xs"
  by (simp add: same_order_def)

lemma books_step:
  assumes books: "books ds pf" and bounds: "in_bounds j k B C (ds @ [d])" and stable: "stable (ds @ [d])"
  obtains pf' where "pf_order_data_cb (on_order d) pf = Ret () pf'" and "books (ds @ [d]) pf'"
proof -
  have old: "old_snapshot d pf = find (\<lambda>d'. same_order d' d) (rev ds)"
    using books by (simp add: books_def old_snapshot_def find_same_order)
  have ok: "list_all (snapshot_ok j k B C) ds" "snapshot_ok j k B C d" and jk: "j + k \<le> 1074"
    and gB: "(of_nat (length ds) + 2) * B \<le> grid_bound j"
    and gC: "(of_nat (length ds) + 2) * C \<le> grid_bound (j + k)"
    using bounds by (simp_all add: in_bounds_def add.commute)
  have pos: "0 \<le> B" "0 \<le> C" using snapshot_signed [OF ok(2)] by simp_all
  have "2 * B \<le> (of_nat (length ds) + 2) * B" "2 * C \<le> (of_nat (length ds) + 2) * C"
    using pos by (simp_all add: mult_right_mono)
  with gB gC have "2 * B \<le> grid_bound j" "2 * C \<le> grid_bound (j + k)" by linarith+
  then have ch: "change_ok j k B C d pf"
    using ok jk stable unfolding change_ok_def old
    by (auto simp: list_all_iff stable_def dest!: find_snapshot)
  from pf_order_data_cb_eq obtain pf' where pf': "pf_order_data_cb (on_order d) pf = Ret () pf'"
    and ord: "\<And>algo oid. orders_of pf' algo oid =
      (if algo = d_source d \<and> oid = d_order_id d then Some d else orders_of pf algo oid)"
    and ps: "\<And>algo symb. pos_of pf' algo symb =
      (if algo = d_source d \<and> symb = d_symbol d
       then (pos_of pf algo symb)\<lparr>cp_pos := cp_pos (pos_of pf algo symb) + change_qty d pf,
              cp_cost := cp_cost (pos_of pf algo symb) + change_cost d pf + change_comm d pf\<rparr>
       else pos_of pf algo symb)" by blast
  let ?q = "\<Sum>x\<leftarrow>ledger (d_source d) (d_symbol d) ds. signed_qty x"
  let ?c = "\<Sum>x\<leftarrow>ledger (d_source d) (d_symbol d) ds. signed_cost x"
  let ?v = "side d * (trade_value d - prior trade_value d pf)"
  let ?m = "the_fin (d_commission d) - prior (\<lambda>d. the_fin (d_commission d)) d pf"
  have all: "list_all (snapshot_ok j k B C) (ds @ [d])" using ok by simp
  note old_sums = ledger_sums [OF ok(1) pos, of "d_source d" "d_symbol d"]
  note new_sums = ledger_sums [OF all pos, of "d_source d" "d_symbol d"]
  have len: "of_nat (length (ds @ [d])) * B \<le> grid_bound j"
    "of_nat (length (ds @ [d])) * C \<le> grid_bound (j + k)"
    using gB gC pos by (simp_all add: algebra_simps)
  let ?q' = "\<Sum>x\<leftarrow>ledger (d_source d) (d_symbol d) (ds @ [d]). signed_qty x"
  let ?c' = "\<Sum>x\<leftarrow>ledger (d_source d) (d_symbol d) (ds @ [d]). signed_cost x"
  have q': "?q' = ?q + (signed_qty d - prior signed_qty d pf)"
    by (simp add: sum_ledger_snoc [OF stable] prior_def old)
  have "dyadic j (?q' - ?q)" using old_sums(1) new_sums(1) by (rule dyadic_diff [rotated])
  then have "Fin ?q + Fin (signed_qty d - prior signed_qty d pf) = Fin ?q'"
    using old_sums(1) new_sums(3) len jk unfolding q' by (intro fin_add [where k = j]) auto
  moreover have "change_qty d pf = Fin (signed_qty d - prior signed_qty d pf)"
    using ch by (intro change_qty_exact [of j B]) (auto simp: change_ok_def intro: snapshot_qty)
  ultimately have q: "Fin ?q + change_qty d pf = Fin ?q'" by simp
  have c': "?c' = ?c + ?v + ?m"
    using ch
    by (simp add: sum_ledger_snoc [OF stable] prior_def signed_cost_def trade_value_def algebra_simps
        old [symmetric] change_ok_def side_def split: option.splits)
  have "\<bar>?c + ?v\<bar> \<le> grid_bound (j + k)"
    using old_sums(4) change_cost_exact(3) [OF ch] gC by (simp add: algebra_simps abs_le_iff)
  then have v: "Fin ?c + Fin ?v = Fin (?c + ?v)"
    using old_sums(2) change_cost_exact(4) [OF ch] jk by (intro fin_add)
  have "Fin (?c + ?v) + Fin ?m = Fin (?c + ?v + ?m)"
    using old_sums(2) change_cost_exact(4,5) [OF ch] new_sums(4) len jk unfolding c'
    by (intro fin_add dyadic_add) auto
  then have c: "Fin ?c + change_cost d pf + change_comm d pf = Fin ?c'"
    by (simp add: change_cost_exact [OF ch] v c')
  have "books (ds @ [d]) pf'"
    using books q c unfolding books_def ord ps
    by (auto simp: sum_ledger_snoc [OF stable])
  with pf' show ?thesis by (rule that)
qed

lemma in_bounds_snocD:
  assumes "in_bounds j k B C (ds @ [d])"
  shows "in_bounds j k B C ds"
proof -
  have "0 \<le> B" "0 \<le> C" and "snapshot_ok j k B C d"
    using assms snapshot_signed(5,6) [of j k B C d] by (simp_all add: in_bounds_def)
  then have "of_nat (length ds + 1) * B \<le> of_nat (length (ds @ [d]) + 1) * B"
    and "of_nat (length ds + 1) * C \<le> of_nat (length (ds @ [d]) + 1) * C"
    by (intro mult_right_mono; simp)+
  from order_trans [OF this(1)] order_trans [OF this(2)] assms show ?thesis
    unfolding in_bounds_def by (intro conjI) (simp_all only: list_all_append)
qed

lemma stable_snocD: "stable (ds @ [d]) \<Longrightarrow> stable ds"
  unfolding stable_def by (metis Un_iff set_append)

lemma books_run:
  assumes "books [] pf" and "in_bounds j k B C ds" and "stable ds"
  shows "\<exists>pf'. pf_orders ds pf = Ret () pf' \<and> books ds pf'"
  using assms(2,3)
proof (induction ds rule: rev_induct)
  case Nil
  then show ?case using assms(1) by simp
next
  case (snoc d ds)
  obtain pf1 where 1: "pf_orders ds pf = Ret () pf1" "books ds pf1"
    using snoc.IH [OF in_bounds_snocD [OF snoc.prems(1)] stable_snocD [OF snoc.prems(2)]] by blast
  from books_step [OF 1(2) snoc.prems] obtain pf2
    where "pf_order_data_cb (on_order d) pf1 = Ret () pf2" "books (ds @ [d]) pf2" .
  with 1 show ?case by (simp add: pf_orders_append)
qed

section \<open>Positions alone\<close>

text \<open>The positions are right whatever the prices and the commissions are.\<close>

definition pos_books :: "order_data list \<Rightarrow> portfolio \<Rightarrow> bool" where
  "pos_books ds pf \<longleftrightarrow>
     (\<forall>algo oid. orders_of pf algo oid = find (\<lambda>d. d_source d = algo \<and> d_order_id d = oid) (rev ds))
     \<and> (\<forall>algo symb. cp_pos (pos_of pf algo symb) = Fin (\<Sum>d\<leftarrow>ledger algo symb ds. signed_qty d))"

definition qty_bounds :: "nat \<Rightarrow> rat \<Rightarrow> order_data list \<Rightarrow> bool" where
  "qty_bounds j B ds \<longleftrightarrow> list_all (qty_ok j B) ds \<and> j \<le> 1074 \<and> of_nat (length ds + 1) * B \<le> grid_bound j"

lemma qty_signed:
  assumes "qty_ok j B d"
  shows "dyadic j (signed_qty d)" "\<bar>signed_qty d\<bar> \<le> B" "0 \<le> B"
  using assms unfolding qty_ok_def signed_qty_def side_def by auto

lemma qty_sums:
  assumes "list_all (qty_ok j B) ds" and "0 \<le> B"
  shows "dyadic j (\<Sum>d\<leftarrow>ledger algo symb ds. signed_qty d)"
    and "\<bar>\<Sum>d\<leftarrow>ledger algo symb ds. signed_qty d\<bar> \<le> of_nat (length ds) * B"
proof -
  let ?l = "ledger algo symb ds"
  have ok: "\<forall>d \<in> set ?l. qty_ok j B d"
    using assms(1) set_latest [of ds] by (auto simp: ledger_def list_all_iff)
  have len: "length ?l \<le> length ds"
    using length_latest [of ds] length_filter_le order_trans unfolding ledger_def by blast
  show "dyadic j (\<Sum>d\<leftarrow>?l. signed_qty d)" using ok by (auto intro!: dyadic_sum_list dest: qty_signed)
  have "\<bar>\<Sum>d\<leftarrow>?l. signed_qty d\<bar> \<le> of_nat (length ?l) * B" using ok by (auto intro!: abs_sum_list_le dest: qty_signed)
  moreover have "of_nat (length ?l) * B \<le> of_nat (length ds) * B" using len assms(2) by (auto intro!: mult_right_mono)
  ultimately show "\<bar>\<Sum>d\<leftarrow>?l. signed_qty d\<bar> \<le> of_nat (length ds) * B" by linarith
qed

lemma positions_step:
  assumes pos: "pos_books ds pf" and bounds: "qty_bounds j B (ds @ [d])" and stable: "stable (ds @ [d])"
  obtains pf' where "pf_order_data_cb (on_order d) pf = Ret () pf'" and "pos_books (ds @ [d]) pf'"
proof -
  have old: "old_snapshot d pf = find (\<lambda>d'. same_order d' d) (rev ds)"
    using pos by (simp add: pos_books_def old_snapshot_def find_same_order)
  have ok: "list_all (qty_ok j B) ds" "qty_ok j B d" and jk: "j \<le> 1074"
    and gB: "(of_nat (length ds) + 2) * B \<le> grid_bound j"
    using bounds by (simp_all add: qty_bounds_def add.commute)
  have B: "0 \<le> B" using qty_signed(3) [OF ok(2)] .
  have "2 * B \<le> (of_nat (length ds) + 2) * B" using B by (simp add: mult_right_mono)
  with gB have "2 * B \<le> grid_bound j" by linarith
  then have ch: "change_qty d pf = Fin (signed_qty d - prior signed_qty d pf)"
    using ok jk stable unfolding old
    by (intro change_qty_exact) (auto simp: old list_all_iff stable_def dest!: find_snapshot)
  from pf_order_data_cb_eq obtain pf' where pf': "pf_order_data_cb (on_order d) pf = Ret () pf'"
    and ord: "\<And>algo oid. orders_of pf' algo oid =
      (if algo = d_source d \<and> oid = d_order_id d then Some d else orders_of pf algo oid)"
    and ps: "\<And>algo symb. pos_of pf' algo symb =
      (if algo = d_source d \<and> symb = d_symbol d
       then (pos_of pf algo symb)\<lparr>cp_pos := cp_pos (pos_of pf algo symb) + change_qty d pf,
              cp_cost := cp_cost (pos_of pf algo symb) + change_cost d pf + change_comm d pf\<rparr>
       else pos_of pf algo symb)" by blast
  let ?q = "\<Sum>x\<leftarrow>ledger (d_source d) (d_symbol d) ds. signed_qty x"
  let ?q' = "\<Sum>x\<leftarrow>ledger (d_source d) (d_symbol d) (ds @ [d]). signed_qty x"
  have all: "list_all (qty_ok j B) (ds @ [d])" using ok by simp
  note old_sums = qty_sums [OF ok(1) B, of "d_source d" "d_symbol d"]
  note new_sums = qty_sums [OF all B, of "d_source d" "d_symbol d"]
  have len: "of_nat (length (ds @ [d])) * B \<le> grid_bound j" using gB B by (simp add: algebra_simps)
  have q': "?q' = ?q + (signed_qty d - prior signed_qty d pf)"
    by (simp add: sum_ledger_snoc [OF stable] prior_def old)
  have "dyadic j (?q' - ?q)" using old_sums(1) new_sums(1) by (rule dyadic_diff [rotated])
  then have "Fin ?q + Fin (signed_qty d - prior signed_qty d pf) = Fin ?q'"
    using old_sums(1) new_sums(2) len jk unfolding q' by (intro fin_add [where k = j]) auto
  then have "pos_books (ds @ [d]) pf'"
    using pos unfolding pos_books_def ord ps
    by (auto simp: sum_ledger_snoc [OF stable] ch)
  with pf' show ?thesis by (rule that)
qed

lemma qty_bounds_snocD:
  assumes "qty_bounds j B (ds @ [d])"
  shows "qty_bounds j B ds"
proof -
  have "0 \<le> B" using assms qty_signed(3) [of j B d] by (simp add: qty_bounds_def)
  then have "of_nat (length ds + 1) * B \<le> of_nat (length (ds @ [d]) + 1) * B"
    by (intro mult_right_mono; simp)
  from order_trans [OF this] assms show ?thesis
    unfolding qty_bounds_def by (intro conjI) (simp_all only: list_all_append)
qed

lemma positions_run:
  assumes "pos_books [] pf" and "qty_bounds j B ds" and "stable ds"
  shows "\<exists>pf'. pf_orders ds pf = Ret () pf' \<and> pos_books ds pf'"
  using assms(2,3)
proof (induction ds rule: rev_induct)
  case Nil
  then show ?case using assms(1) by simp
next
  case (snoc d ds)
  obtain pf1 where 1: "pf_orders ds pf = Ret () pf1" "pos_books ds pf1"
    using snoc.IH [OF qty_bounds_snocD [OF snoc.prems(1)] stable_snocD [OF snoc.prems(2)]] by blast
  from positions_step [OF 1(2) snoc.prems] obtain pf2
    where "pf_order_data_cb (on_order d) pf1 = Ret () pf2" "pos_books (ds @ [d]) pf2" .
  with 1 show ?case by (simp add: pf_orders_append)
qed

section \<open>From the start on\<close>

text \<open>The set-up calls before \<open>start\<close> leave empty books.\<close>

lemma books_setup: "books [] (pf_start (fold (\<lambda>(algo, symb). pf_add_to_portfolio algo symb) ports pf_init))"
proof -
  have "orders_of (pf_add_to_portfolio a s pf) = orders_of pf" for a s pf
    by (auto simp: pf_add_to_portfolio_def orders_of_def fun_eq_iff)
  moreover have "pos_of (pf_add_to_portfolio a s pf) = pos_of pf" for a s pf
    by (intro ext) (auto simp: pf_add_to_portfolio_def pos_of_def um_get_def um_find_touch split: option.splits)
  ultimately have "books [] (fold (\<lambda>(algo, symb). pf_add_to_portfolio algo symb) ports pf)" if "books [] pf" for pf
    using that by (induction ports arbitrary: pf) (auto simp: books_def)
  moreover have "books [] pf_init"
    by (simp add: books_def orders_of_def pos_of_def pf_init_def um_get_def new_pos_def ledger_def zero_double_def)
  moreover have "books [] (pf_start pf)" if "books [] pf" for pf
    using that by (simp add: books_def pf_start_def orders_of_def pos_of_def)
  ultimately show ?thesis by blast
qed

text \<open>
  Property C1. Accounting of a stream of order snapshots, in which an order keeps its symbol and its side. When the
  traded quantities are numbers of one binary grid, such as whole shares, and small enough for their
  sums to be doubles, the portfolio holds for every algorithm and symbol exactly the signed sum of the
  last traded quantities as the position, whatever the prices and commissions are: however many
  partial fills an order reported, it counts once. When the prices and commissions are on such a grid
  too, the cost is exactly the signed sum of the values plus the commissions; with other prices, such
  as most decimal ones, nothing is said of the cost.
\<close>

theorem portfolio_accounting:
  assumes "pf = pf_start (fold (\<lambda>(algo, symb). pf_add_to_portfolio algo symb) ports pf_init)"
    and "qty_bounds j B ds" and "stable ds"
  shows "\<exists>pf'. pf_orders ds pf = Ret () pf'
    \<and> (\<forall>algo symb. cp_pos (pos_of pf' algo symb) = Fin (\<Sum>d\<leftarrow>ledger algo symb ds. signed_qty d))
    \<and> (\<forall>k C. in_bounds j k B C ds \<longrightarrow>
         (\<forall>algo symb. cp_cost (pos_of pf' algo symb) = Fin (\<Sum>d\<leftarrow>ledger algo symb ds. signed_cost d)))"
proof -
  have b: "books [] pf" unfolding assms(1) by (rule books_setup)
  then have "pos_books [] pf" by (simp add: books_def pos_books_def)
  from positions_run [OF this assms(2,3)] obtain pf' where p: "pf_orders ds pf = Ret () pf'" "pos_books ds pf'" by blast
  have "cp_cost (pos_of pf' algo symb) = Fin (\<Sum>d\<leftarrow>ledger algo symb ds. signed_cost d)" if "in_bounds j k B C ds" for k C algo symb
    using books_run [OF b that assms(3)] p(1) by (auto simp: books_def)
  with p show ?thesis by (auto simp: pos_books_def)
qed

definition demo_fill :: "order_id \<Rightarrow> action \<Rightarrow> rat \<Rightarrow> rat \<Rightarrow> order_data" where
  "demo_fill oid act qty px = \<lparr>d_order_id = oid, d_symbol = ''6758-STK-JPY.TSEJ'', d_exchange = ''IB'',
     d_source = ''demo'', d_order_type = OT_limit, d_action = act, d_total_quantity = Fin 300,
     d_traded_quantity = Fin qty, d_avg_trade_price = Fin px, d_commission = Fin 1,
     d_status = OS_submitted, d_error_code = 0\<rparr>"

theorem portfolio_accounting_witness:
  "\<exists>pf'. pf_orders [demo_fill 1 A_buy 100 20, demo_fill 2 A_sell 50 24, demo_fill 1 A_buy 300 22]
      (pf_start (fold (\<lambda>(algo, symb). pf_add_to_portfolio algo symb) [(''demo'', ''6758-STK-JPY.TSEJ'')] pf_init))
      = Ret () pf'
    \<and> cp_pos (pos_of pf' ''demo'' ''6758-STK-JPY.TSEJ'') = Fin 250
    \<and> cp_cost (pos_of pf' ''demo'' ''6758-STK-JPY.TSEJ'') = Fin 5402"
proof -
  let ?ds = "[demo_fill 1 A_buy 100 20, demo_fill 2 A_sell 50 24, demo_fill 1 A_buy 300 22]"
  let ?l = "ledger ''demo'' ''6758-STK-JPY.TSEJ'' ?ds"
  have b: "qty_bounds 0 300 ?ds" "stable ?ds" "in_bounds 0 0 300 6601 ?ds"
    by (simp_all add: qty_bounds_def qty_ok_def in_bounds_def snapshot_ok_def demo_fill_def grid_bound_def stable_def same_order_def)
  have "(\<Sum>d\<leftarrow>?l. signed_qty d) = 250" "(\<Sum>d\<leftarrow>?l. signed_cost d) = 5402"
    by (simp_all add: ledger_def same_order_def demo_fill_def signed_qty_def signed_cost_def side_def)
  with portfolio_accounting [OF refl b(1,2), of "[(''demo'', ''6758-STK-JPY.TSEJ'')]"] b(3) show ?thesis
    by metis
qed

end
