(* ===== verification/Pnl.thy ===== *)
theory Pnl
  imports Accounting
begin

text \<open>
  The profit and loss of the portfolio: what \<open>timer_cb\<close> of \<open>lib/core/portfolio.cpp\<close> computes and
  publishes, and what the thread's loop does when its queue is empty.
\<close>

section \<open>Mark to market\<close>

lemma algo_loop_unset: "algo_loop get_tick m port UnsetDouble = UnsetDouble"
  by (induction port) (auto split: option.splits)

lemma algo_loop_missing:
  "(symb, pos) \<in> set port \<Longrightarrow> get_tick (market_symbol m symb) = None
     \<Longrightarrow> algo_loop get_tick m port pnl = UnsetDouble"
  by (induction port arbitrary: pnl) (auto simp: algo_loop_unset)

text \<open>The total, as a fold over the algorithms.\<close>

definition algo_value :: "(string \<Rightarrow> tick_data option) \<Rightarrow> portfolio \<Rightarrow> string \<times> (string, contract_pos) umap \<Rightarrow> double"
  where "algo_value get_tick pf e = algo_loop get_tick (mapping_of pf (fst e)) (snd e) 0"

definition add_total :: "double \<Rightarrow> double \<Rightarrow> double" where
  "add_total tot pnl = (if pnl = UnsetDouble \<or> tot = UnsetDouble then UnsetDouble else tot + pnl * 1)"

lemma pnl_loop_eq:
  "pf_total_pnl (pnl_loop get_tick port pf) = foldl add_total (pf_total_pnl pf) (map (algo_value get_tick pf) port)
   \<and> pf_algo_pnl (pnl_loop get_tick port pf)
       = fold (\<lambda>(k, v). um_put k v) (map (\<lambda>e. (fst e, algo_value get_tick pf e)) port) (pf_algo_pnl pf)
   \<and> pf_algo_portfolio (pnl_loop get_tick port pf) = pf_algo_portfolio pf
   \<and> mapping_of (pnl_loop get_tick port pf) = mapping_of pf
   \<and> orders_of (pnl_loop get_tick port pf) = orders_of pf
   \<and> pf_running (pnl_loop get_tick port pf) = pf_running pf
   \<and> pf_q (pnl_loop get_tick port pf) = pf_q pf"
proof (induction port arbitrary: pf)
  case Nil
  then show ?case by simp
next
  case (Cons e port)
  obtain algo algo_port where e: "e = (algo, algo_port)" by (cases e)
  have m: "(\<lambda>a. case ((pf_mktd_mapping pf)(algo \<mapsto> mapping_of pf algo)) a of None \<Rightarrow> Map.empty | Some m \<Rightarrow> m)
      = mapping_of pf"
    by (auto simp: mapping_of_def fun_eq_iff)
  have o': "(\<lambda>a. case ((pf_active_orders pf)(algo \<mapsto> orders_of pf algo)) a of None \<Rightarrow> Map.empty | Some m \<Rightarrow> m)
      = orders_of pf"
    by (auto simp: orders_of_def fun_eq_iff)
  define pf1 where "pf1 = pf\<lparr>pf_algo_pnl := um_put algo (algo_value get_tick pf e) (pf_algo_pnl pf),
    pf_active_orders := (pf_active_orders pf)(algo \<mapsto> orders_of pf algo),
    pf_mktd_mapping := (pf_mktd_mapping pf)(algo \<mapsto> mapping_of pf algo),
    pf_total_pnl := add_total (pf_total_pnl pf) (algo_value get_tick pf e)\<rparr>"
  have loop: "pnl_loop get_tick (e # port) pf = pnl_loop get_tick port pf1"
    by (simp add: e pf1_def algo_value_def add_total_def fx_rate_def Let_def)
  have mm: "mapping_of pf1 = mapping_of pf" "orders_of pf1 = orders_of pf"
    using m o' by (simp_all add: pf1_def mapping_of_def [abs_def] orders_of_def [abs_def])
  then have "algo_value get_tick pf1 = algo_value get_tick pf"
    by (intro ext) (simp add: algo_value_def)
  with Cons.IH [of pf1] mm loop show ?case
    by (simp add: pf1_def e)
qed

lemma foldl_add_total_unset: "foldl add_total UnsetDouble xs = UnsetDouble"
  by (induction xs) (simp_all add: add_total_def)

lemma foldl_add_total_missing: "UnsetDouble \<in> set xs \<Longrightarrow> foldl add_total tot xs = UnsetDouble"
proof (induction xs arbitrary: tot)
  case (Cons x xs)
  show ?case
  proof (cases "x = UnsetDouble")
    case True
    then have "add_total tot x = UnsetDouble" by (simp add: add_total_def)
    then show ?thesis by (simp add: foldl_add_total_unset)
  next
    case False
    with Cons show ?thesis by simp
  qed
qed simp

lemma find_fold_put:
  assumes "um_wf m" and "distinct (map fst kvs)" and "(k, v) \<in> set kvs"
  shows "um_find (fold (\<lambda>(k, v). um_put k v) kvs m) k = Some v"
proof -
  have "map_of (rev kvs) k = Some v"
    using assms(2,3) by (simp add: map_of_eq_Some_iff flip: rev_map)
  with assms(1) show ?thesis by (simp add: um_store.lookup_inserts)
qed

definition pf_wf :: "portfolio \<Rightarrow> bool" where
  "pf_wf pf \<longleftrightarrow> um_wf (pf_algo_portfolio pf) \<and> um_wf (pf_algo_pnl pf)
     \<and> (\<forall>(algo, port) \<in> set (pf_algo_portfolio pf). um_wf port)"

definition quoted :: "market_data \<Rightarrow> portfolio \<Rightarrow> string \<Rightarrow> string \<Rightarrow> bool" where
  "quoted md pf algo symb \<longleftrightarrow> md_get_last_tick md (market_symbol (mapping_of pf algo) symb) \<noteq> None"

lemma timer_missing_tick:
  assumes "pf_wf pf" and "um_find (pf_algo_portfolio pf) algo = Some port"
    and "um_contains port symb" and "\<not> quoted md pf algo symb"
  shows "\<exists>evs pf'. pf_timer_cb md (mk_event ET_timer (P_timer tm)) pf = Ret evs pf'
    \<and> pf_get_total_pnl pf' = UnsetDouble \<and> fst (pf_get_algo_pnl algo pf') = UnsetDouble"
proof -
  let ?pf = "pf\<lparr>pf_total_pnl := 0\<rparr>" and ?f = "md_get_last_tick md"
  let ?pf' = "pf_recompute ?f pf"
  have "mapping_of ?pf = mapping_of pf" by (intro ext) (simp add: mapping_of_def)
  moreover obtain pos where "(symb, pos) \<in> set port"
    using assms(3) by (auto simp: um_contains_def dest: um_find_SomeD)
  ultimately have val: "algo_value ?f ?pf (algo, port) = UnsetDouble"
    using assms(4) by (auto simp: algo_value_def quoted_def intro: algo_loop_missing)
  have mem: "(algo, port) \<in> set (pf_algo_portfolio pf)"
    using assms(2) by (rule um_find_SomeD)
  then have "UnsetDouble \<in> set (map (algo_value ?f ?pf) (pf_algo_portfolio pf))"
    using val by force
  then have "pf_total_pnl ?pf' = UnsetDouble"
    by (simp add: pf_recompute_def pnl_loop_eq foldl_add_total_missing)
  moreover have "um_find (pf_algo_pnl ?pf') algo = Some UnsetDouble"
    using assms(1) mem val unfolding pf_recompute_def
    by (simp add: pnl_loop_eq pf_wf_def) (rule find_fold_put, auto simp: um_wf_def um_keys_def comp_def image_iff intro!: bexI [of _ "(algo, port)"])
  ultimately show ?thesis
    by (simp add: pf_timer_cb_def pf_get_total_pnl_def pf_get_algo_pnl_def um_get_def Let_def)
qed

text \<open>
  A contract with a position but no tick: the profit and loss of its algorithm, and the total, are
  the unset value, which switches the checks of the risk manager off.
\<close>

theorem missing_tick_unsets_pnl:
  assumes "pf_wf pf" and "um_find (pf_algo_portfolio pf) algo = Some port"
    and "um_contains port symb" and "\<not> quoted md pf algo symb"
  shows "\<exists>evs pf'. pf_timer_cb md (mk_event ET_timer (P_timer tm)) pf = Ret evs pf'
    \<and> pf_get_total_pnl pf' = UnsetDouble \<and> fst (pf_get_algo_pnl algo pf') = UnsetDouble"
  using assms by (rule timer_missing_tick)

text \<open>The exact value of a position at the last price, over what it cost.\<close>

definition mtm :: "market_data \<Rightarrow> portfolio \<Rightarrow> string \<Rightarrow> string \<times> contract_pos \<Rightarrow> rat" where
  "mtm md pf algo e =
     (case md_get_last_tick md (market_symbol (mapping_of pf algo) (fst e)) of
        None \<Rightarrow> 0
      | Some tick \<Rightarrow> the_fin (cp_pos (snd e)) * the_fin (t_last_price tick) - the_fin (cp_cost (snd e)))"

text \<open>A position with a tick, whose numbers stay on the grid.\<close>

definition mtm_ok :: "nat \<Rightarrow> nat \<Rightarrow> rat \<Rightarrow> market_data \<Rightarrow> portfolio \<Rightarrow> string \<Rightarrow> string \<times> contract_pos \<Rightarrow> bool" where
  "mtm_ok j k C md pf algo e \<longleftrightarrow>
     (case md_get_last_tick md (market_symbol (mapping_of pf algo) (fst e)) of
        None \<Rightarrow> False
      | Some tick \<Rightarrow>
          let q = the_fin (cp_pos (snd e)); p = the_fin (t_last_price tick); c = the_fin (cp_cost (snd e))
          in cp_pos (snd e) = Fin q \<and> t_last_price tick = Fin p \<and> cp_cost (snd e) = Fin c
             \<and> dyadic j q \<and> dyadic k p \<and> dyadic (j + k) c \<and> \<bar>q * p\<bar> + \<bar>c\<bar> \<le> C)"

lemma grid_bound_set: "\<bar>x\<bar> \<le> grid_bound k \<Longrightarrow> Fin x \<noteq> UnsetDouble"
proof
  assume x: "\<bar>x\<bar> \<le> grid_bound k" and eq: "Fin x = UnsetDouble"
  have "grid_bound k \<le> 2 ^ 53"
    by (simp add: grid_bound_def divide_le_eq)
  moreover have "x = (2 ^ 53 - 1) * 2 ^ 971"
    using eq by (simp add: UnsetDouble_def DBL_MAX_def)
  ultimately show False using x by simp
qed

lemma mtm_step:
  assumes "mtm_ok j k C md pf algo (symb, pos)" and "j + k \<le> 1074" and "C \<le> grid_bound (j + k)"
  obtains tick where "md_get_last_tick md (market_symbol (mapping_of pf algo) symb) = Some tick"
    and "cp_pos pos * t_last_price tick - cp_cost pos = Fin (mtm md pf algo (symb, pos))"
    and "dyadic (j + k) (mtm md pf algo (symb, pos))" and "\<bar>mtm md pf algo (symb, pos)\<bar> \<le> C"
proof -
  from assms(1) obtain tick q p c where t: "md_get_last_tick md (market_symbol (mapping_of pf algo) symb) = Some tick"
    and v: "cp_pos pos = Fin q" "t_last_price tick = Fin p" "cp_cost pos = Fin c"
    and d: "dyadic j q" "dyadic k p" "dyadic (j + k) c" and b: "\<bar>q * p\<bar> + \<bar>c\<bar> \<le> C"
    by (auto simp: mtm_ok_def Let_def split: option.splits)
  have "Fin q * Fin p = Fin (q * p)"
    by (rule fin_mult) (use d b assms in auto)
  moreover have "Fin (q * p) - Fin c = Fin (q * p - c)"
    by (rule fin_diff) (use d b assms in \<open>auto intro: dyadic_mult\<close>)
  moreover have "dyadic (j + k) (q * p - c)" "\<bar>q * p - c\<bar> \<le> C"
    using d b by (auto intro: dyadic_diff dyadic_mult)
  ultimately show ?thesis
    using v by (intro that [OF t]) (simp_all add: mtm_def t)
qed

lemma algo_loop_exact:
  assumes "\<forall>e \<in> set port. mtm_ok j k C md pf algo e" and "j + k \<le> 1074" and "dyadic (j + k) acc"
    and "\<bar>acc\<bar> + of_nat (length port + 1) * C \<le> grid_bound (j + k)" and "0 \<le> C"
  shows "algo_loop (md_get_last_tick md) (mapping_of pf algo) port (Fin acc)
    = Fin (acc + (\<Sum>e\<leftarrow>port. mtm md pf algo e))"
  using assms(1,3,4)
proof (induction port arbitrary: acc)
  case Nil
  then show ?case by simp
next
  case (Cons e port)
  obtain symb pos where e: "e = (symb, pos)" by (cases e)
  let ?v = "mtm md pf algo e"
  have n0: "0 \<le> of_nat (length port) * C" using assms(5) by simp
  have len: "\<bar>acc\<bar> + of_nat (length port) * C + 2 * C \<le> grid_bound (j + k)"
    using Cons.prems(3) by (simp add: distrib_right)
  have "C \<le> grid_bound (j + k)" using len n0 assms(5) by linarith
  then obtain tick where t: "md_get_last_tick md (market_symbol (mapping_of pf algo) symb) = Some tick"
    "cp_pos pos * t_last_price tick - cp_cost pos = Fin ?v" "dyadic (j + k) ?v" "\<bar>?v\<bar> \<le> C"
    using mtm_step [of j k C md pf algo symb pos] Cons.prems(1) assms(2) by (auto simp: e)
  have "\<bar>acc\<bar> \<le> grid_bound (j + k)" using len n0 assms(5) by linarith
  then have "Fin acc \<noteq> UnsetDouble" by (rule grid_bound_set)
  moreover have "\<bar>acc + ?v\<bar> \<le> grid_bound (j + k)" using len n0 t(4) assms(5) by linarith
  then have "Fin acc + Fin ?v = Fin (acc + ?v)"
    using Cons.prems(2) t(3) assms(2) by (intro fin_add)
  moreover have "\<bar>acc + ?v\<bar> + of_nat (length port + 1) * C \<le> grid_bound (j + k)"
    using len t(4) by (simp add: distrib_right)
  ultimately show ?case
    using Cons.IH [of "acc + ?v"] Cons.prems t assms(2)
    by (simp add: e dyadic_add add.assoc)
qed

definition port_mtm :: "market_data \<Rightarrow> portfolio \<Rightarrow> string \<times> (string, contract_pos) umap \<Rightarrow> rat" where
  "port_mtm md pf e = (\<Sum>p\<leftarrow>snd e. mtm md pf (fst e) p)"

definition positions :: "(string \<times> (string, contract_pos) umap) list \<Rightarrow> nat" where
  "positions ports = (\<Sum>e\<leftarrow>ports. length (snd e))"

definition ports_ok :: "nat \<Rightarrow> nat \<Rightarrow> rat \<Rightarrow> market_data \<Rightarrow> portfolio \<Rightarrow> bool" where
  "ports_ok j k C md pf \<longleftrightarrow> j + k \<le> 1074 \<and> 0 \<le> C
     \<and> list_all (\<lambda>e. list_all (mtm_ok j k C md pf (fst e)) (snd e)) (pf_algo_portfolio pf)
     \<and> of_nat (positions (pf_algo_portfolio pf) + 1) * C \<le> grid_bound (j + k)"

lemma port_mtm_bounds:
  assumes "\<forall>p \<in> set (snd e). mtm_ok j k C md pf (fst e) p" and "j + k \<le> 1074" and "C \<le> grid_bound (j + k)"
  shows "dyadic (j + k) (port_mtm md pf e)" and "\<bar>port_mtm md pf e\<bar> \<le> of_nat (length (snd e)) * C"
proof -
  have "dyadic (j + k) (mtm md pf (fst e) p) \<and> \<bar>mtm md pf (fst e) p\<bar> \<le> C" if "p \<in> set (snd e)" for p
    using mtm_step [of j k C md pf "fst e" "fst p" "snd p"] assms that by auto
  then show "dyadic (j + k) (port_mtm md pf e)" and "\<bar>port_mtm md pf e\<bar> \<le> of_nat (length (snd e)) * C"
    unfolding port_mtm_def by (auto intro: dyadic_sum_list abs_sum_list_le)
qed

lemma total_exact:
  assumes "list_all (\<lambda>e. list_all (mtm_ok j k C md pf (fst e)) (snd e)) ports"
    and "j + k \<le> 1074" "0 \<le> C" and "dyadic (j + k) acc"
    and "\<bar>acc\<bar> + of_nat (positions ports + 1) * C \<le> grid_bound (j + k)"
  shows "foldl add_total (Fin acc) (map (algo_value (md_get_last_tick md) pf) ports)
      = Fin (acc + (\<Sum>e\<leftarrow>ports. port_mtm md pf e))
    \<and> (\<forall>e \<in> set ports. algo_value (md_get_last_tick md) pf e = Fin (port_mtm md pf e))"
  using assms(1,4,5)
proof (induction ports arbitrary: acc)
  case Nil
  then show ?case by simp
next
  case (Cons e ports)
  let ?m = "port_mtm md pf e" and ?C = "of_nat (length (snd e)) * C"
  have rest: "0 \<le> of_nat (positions ports) * C" and C0: "0 \<le> ?C" using assms(3) by simp_all
  have len: "\<bar>acc\<bar> + ?C + of_nat (positions ports) * C + C \<le> grid_bound (j + k)"
    using Cons.prems(3) by (simp add: positions_def distrib_right)
  have CG: "C \<le> grid_bound (j + k)" using len rest C0 by linarith
  have ok: "\<forall>p \<in> set (snd e). mtm_ok j k C md pf (fst e) p"
    using Cons.prems(1) by (simp add: list_all_iff)
  note mb = port_mtm_bounds [OF ok assms(2) CG]
  have "\<bar>0\<bar> + of_nat (length (snd e) + 1) * C \<le> grid_bound (j + k)"
    using len rest by (simp add: distrib_right)
  then have val: "algo_value (md_get_last_tick md) pf e = Fin ?m"
    using algo_loop_exact [OF ok assms(2) dyadic_zero _ assms(3)]
    by (simp add: algo_value_def port_mtm_def zero_double_def)
  have "\<bar>acc + ?m\<bar> + of_nat (positions ports) * C + C \<le> grid_bound (j + k)"
    "\<bar>?m\<bar> \<le> grid_bound (j + k)" "\<bar>acc\<bar> \<le> grid_bound (j + k)"
    "\<bar>acc + ?m\<bar> \<le> grid_bound (j + k)"
    using len rest mb(2) assms(3) C0 by linarith+
  then have small: "\<bar>?m\<bar> \<le> grid_bound (j + k)" "\<bar>acc\<bar> \<le> grid_bound (j + k)"
    "\<bar>acc + ?m\<bar> + of_nat (positions ports + 1) * C \<le> grid_bound (j + k)"
    "\<bar>acc + ?m\<bar> \<le> grid_bound (j + k)"
    by (simp_all add: distrib_right)
  then have "Fin ?m \<noteq> UnsetDouble" "Fin acc \<noteq> UnsetDouble" by (simp_all add: grid_bound_set)
  moreover have "Fin ?m * 1 = Fin ?m"
    using small(1) mb(1) assms(2) by (simp add: one_double_def times_double_def round_double_dyadic)
  moreover have "Fin acc + Fin ?m = Fin (acc + ?m)"
    using Cons.prems(2) mb(1) assms(2) small(4) by (intro fin_add)
  ultimately have "add_total (Fin acc) (algo_value (md_get_last_tick md) pf e) = Fin (acc + ?m)"
    by (simp add: add_total_def val)
  then show ?case
    using Cons.IH [of "acc + ?m"] Cons.prems small(3) mb(1) val
    by (simp add: dyadic_add add.assoc)
qed

lemma timer_exact:
  assumes "pf_wf pf" and "ports_ok j k C md pf"
  shows "\<exists>evs pf'. pf_timer_cb md (mk_event ET_timer (P_timer tm)) pf = Ret evs pf'
    \<and> pf_get_total_pnl pf' = Fin (\<Sum>e\<leftarrow>pf_algo_portfolio pf. port_mtm md pf e)
    \<and> (\<forall>algo port. um_find (pf_algo_portfolio pf) algo = Some port
         \<longrightarrow> fst (pf_get_algo_pnl algo pf') = Fin (port_mtm md pf (algo, port)))
    \<and> pf_algo_portfolio pf' = pf_algo_portfolio pf"
proof -
  let ?pf = "pf\<lparr>pf_total_pnl := 0\<rparr>" and ?f = "md_get_last_tick md" and ?ports = "pf_algo_portfolio pf"
  let ?pf' = "pf_recompute ?f pf"
  have m: "mapping_of ?pf = mapping_of pf" by (intro ext) (simp add: mapping_of_def)
  then have "mtm md ?pf = mtm md pf" "mtm_ok j k C md ?pf = mtm_ok j k C md pf"
    by (intro ext; simp add: mtm_def mtm_ok_def)+
  then have pm: "port_mtm md ?pf = port_mtm md pf"
    and ok: "list_all (\<lambda>e. list_all (mtm_ok j k C md ?pf (fst e)) (snd e)) ?ports"
    using assms(2) by (simp_all add: port_mtm_def [abs_def] ports_ok_def)
  have "foldl add_total (Fin 0) (map (algo_value ?f ?pf) ?ports) = Fin (\<Sum>e\<leftarrow>?ports. port_mtm md pf e)"
    and val: "\<And>e. e \<in> set ?ports \<Longrightarrow> algo_value ?f ?pf e = Fin (port_mtm md pf e)"
    using total_exact [OF ok, of 0] assms(2) by (simp_all add: ports_ok_def pm)
  then have "pf_total_pnl ?pf' = Fin (\<Sum>e\<leftarrow>?ports. port_mtm md pf e)"
    by (simp add: pf_recompute_def pnl_loop_eq zero_double_def)
  moreover have "um_find (pf_algo_pnl ?pf') algo = Some (Fin (port_mtm md pf (algo, port)))"
    if "um_find ?ports algo = Some port" for algo port
    using assms(1) um_find_SomeD [OF that] val unfolding pf_recompute_def
    by (simp add: pnl_loop_eq pf_wf_def)
      (rule find_fold_put, auto simp: um_wf_def um_keys_def comp_def image_iff
        intro!: bexI [of _ "(algo, port)"])
  moreover have "pf_algo_portfolio ?pf' = ?ports" by (simp add: pf_recompute_def pnl_loop_eq)
  ultimately show ?thesis
    by (simp add: pf_timer_cb_def pf_get_total_pnl_def pf_get_algo_pnl_def um_get_def Let_def)
qed

lemma timer_returns: "\<exists>evs. pf_timer_cb md (mk_event ET_timer (P_timer tm)) pf = Ret evs (pf_recompute (md_get_last_tick md) pf)"
  by (simp add: pf_timer_cb_def Let_def)

text \<open>
  Property C4. Mark to market. A timer event changes no position. When every position has a tick and the numbers
  stay on a binary grid small enough for a double, the profit and loss is exactly the sum of position
  times last price minus cost, for each algorithm and for the total; when some position has no tick,
  the figure of its algorithm and the total are the unset value. Of numbers off the grid, where the
  doubles round, nothing is said.
\<close>

theorem portfolio_mark_to_market:
  assumes "pf_wf pf"
  shows "\<exists>evs pf'. pf_timer_cb md (mk_event ET_timer (P_timer tm)) pf = Ret evs pf'
    \<and> pf_algo_portfolio pf' = pf_algo_portfolio pf
    \<and> (\<forall>j k C. ports_ok j k C md pf \<longrightarrow>
         pf_get_total_pnl pf' = Fin (\<Sum>e\<leftarrow>pf_algo_portfolio pf. port_mtm md pf e)
         \<and> (\<forall>algo port. um_find (pf_algo_portfolio pf) algo = Some port
              \<longrightarrow> fst (pf_get_algo_pnl algo pf') = Fin (port_mtm md pf (algo, port))))
    \<and> (\<forall>algo port symb. um_find (pf_algo_portfolio pf) algo = Some port \<and> um_contains port symb \<and> \<not> quoted md pf algo symb
         \<longrightarrow> pf_get_total_pnl pf' = UnsetDouble \<and> fst (pf_get_algo_pnl algo pf') = UnsetDouble)"
proof -
  obtain evs where r: "pf_timer_cb md (mk_event ET_timer (P_timer tm)) pf = Ret evs (pf_recompute (md_get_last_tick md) pf)"
    using timer_returns by blast
  have e: "pf_get_total_pnl pf' = Fin (\<Sum>e\<leftarrow>pf_algo_portfolio pf. port_mtm md pf e)
      \<and> (\<forall>algo port. um_find (pf_algo_portfolio pf) algo = Some port
           \<longrightarrow> fst (pf_get_algo_pnl algo pf') = Fin (port_mtm md pf (algo, port)))"
    if "ports_ok j k C md pf" and "pf' = pf_recompute (md_get_last_tick md) pf" for j k C pf'
    using timer_exact [OF assms that(1), of tm] r that(2) by auto
  have u: "pf_get_total_pnl pf' = UnsetDouble \<and> fst (pf_get_algo_pnl algo pf') = UnsetDouble"
    if "um_find (pf_algo_portfolio pf) algo = Some port" "um_contains port symb" "\<not> quoted md pf algo symb"
      and "pf' = pf_recompute (md_get_last_tick md) pf" for algo port symb pf'
    using timer_missing_tick [OF assms that(1,2,3), of tm] r that(4) by auto
  have "pf_algo_portfolio (pf_recompute (md_get_last_tick md) pf) = pf_algo_portfolio pf"
    by (simp add: pf_recompute_def pnl_loop_eq)
  with r e u show ?thesis by blast
qed

text \<open>Every call keeps the keys of the maps distinct.\<close>

lemma um_wf_put_all: "um_wf m \<Longrightarrow> um_wf (fold (\<lambda>(k, v). um_put k v) kvs m)"
  by (induction kvs arbitrary: m) (auto intro: um_wf_put)

lemma set_um_put: "set (um_put k v m) \<subseteq> insert (k, v) (set m)"
  by (induction m) (auto simp: um_put_def)

definition ports_wf :: "(string, (string, contract_pos) umap) umap \<Rightarrow> bool" where
  "ports_wf ports \<longleftrightarrow> um_wf ports \<and> (\<forall>(algo, port) \<in> set ports. um_wf port)"

lemma pf_wf_ports: "pf_wf pf \<longleftrightarrow> ports_wf (pf_algo_portfolio pf) \<and> um_wf (pf_algo_pnl pf)"
  by (auto simp: pf_wf_def ports_wf_def)

lemma ports_wf_put: "ports_wf ports \<Longrightarrow> um_wf port \<Longrightarrow> ports_wf (um_put algo port ports)"
  using set_um_put [of algo port ports] by (auto simp: ports_wf_def um_wf_put)

lemma ports_wf_get: "ports_wf ports \<Longrightarrow> um_wf (um_get um_empty ports algo)"
  by (auto simp: ports_wf_def um_get_def split: option.splits dest!: um_find_SomeD)

lemma pf_wf_add [inv_intros]:
  "pf_wf pf \<Longrightarrow> pf_wf (pf_add_to_portfolio algo symb pf)"
  by (simp add: pf_add_to_portfolio_def pf_wf_ports ports_wf_put ports_wf_get um_wf_touch)

lemma pf_wf_steps [inv_intros]:
  "pf_wf pf_init"
  "pf_wf pf \<Longrightarrow> pf_wf (pf_start pf)"
  "pf_wf pf \<Longrightarrow> pf_wf (pf_stop pf)"
  "pf_wf pf \<Longrightarrow> pf_wf (pf_add_market_data_mapping algo s1 s2 pf)"
  "pf_wf pf \<Longrightarrow> pf_wf (snd (pf_get_algo_pnl algo pf))"
  "pf_wf pf \<Longrightarrow> pf_wf (pf\<lparr>pf_q := q\<rparr>)"
  "pf_wf pf \<Longrightarrow> pf_wf (pf_recompute get_tick pf)"
  by (simp_all add: pf_wf_ports pf_init_def ports_wf_def pf_start_def pf_stop_def
      pf_add_market_data_mapping_def pf_get_algo_pnl_def um_wf_touch pf_recompute_def pnl_loop_eq um_wf_put_all)

lemma pf_wf_order [inv_intros]:
  "pf_wf pf \<Longrightarrow> pf_order_data_cb ev pf = Ret u pf' \<Longrightarrow> pf_wf pf'"
  by (cases "cast_order (e_data ev)")
    (auto simp: pf_order_data_cb_def Let_def pf_wf_ports ports_wf_put ports_wf_get um_wf_put split: prod.splits)

section \<open>Publishing and timeouts\<close>

text \<open>
  The profit and loss goes out at seconds 0 and 30 only: one well-typed event per algorithm the
  portfolio knows a number for, in the order of the map, then the total, all with the timestamp of
  the timer.
\<close>

theorem pnl_published_twice_a_minute:
  assumes "pf_wf pf"
  shows "\<exists>evs pf'. pf_timer_cb md (mk_event ET_timer (P_timer tm)) pf = Ret evs pf'
    \<and> list_all event_ok evs
    \<and> map e_data evs =
        (if tm_sec tm = 0 \<or> tm_sec tm = 30
         then map (\<lambda>algo. P_algo_pnl \<lparr>ap_algo = algo, ap_pnl = fst (pf_get_algo_pnl algo pf'),
                ap_timestamp = tm_timestamp tm\<rparr>) (um_keys (pf_algo_pnl pf'))
              @ [P_total_pnl \<lparr>tp_pnl = pf_get_total_pnl pf', tp_timestamp = tm_timestamp tm\<rparr>]
         else [])"
proof -
  let ?pf = "pf_recompute (md_get_last_tick md) pf"
  have "um_wf (pf_algo_pnl ?pf)" using pf_wf_steps(7) [OF assms] by (simp add: pf_wf_def)
  then have "um_get 0 (pf_algo_pnl ?pf) algo = ap" if "(algo, ap) \<in> set (pf_algo_pnl ?pf)" for algo ap
    using that by (simp add: um_get_def um_find_entry)
  then show ?thesis
    by (auto simp: pf_timer_cb_def Let_def pnl_events_def list_all_iff pf_get_algo_pnl_def
        pf_get_total_pnl_def um_keys_def)
qed

lemma ledger_replay: "ledger algo symb (ds @ [d, d]) = ledger algo symb (ds @ [d])"
proof -
  have "latest ((ds @ [d]) @ [d]) = latest (ds @ [d])"
    by (simp only: latest_snoc [of "ds @ [d]"]) (simp add: latest_snoc)
  then show ?thesis by (simp add: ledger_def)
qed

text \<open>
  A timeout of the queue handles the last event again. For an order event that is harmless: the
  snapshot it takes back is the one it adds, and the books stay what the stream of orders made them.
\<close>

theorem order_replay_harmless:
  assumes "lbq_items (pf_q pf) = []"
    and "pf_orders (ds @ [d]) (pf_start (fold (\<lambda>(algo, symb). pf_add_to_portfolio algo symb) ports pf_init)) = Ret () pf"
    and "in_bounds j k B C (ds @ [d, d])" and "stable (ds @ [d])"
  shows "\<exists>pf'. pf_round md (on_order d) pf = Ret (on_order d, []) pf'
    \<and> (\<forall>algo symb. cp_pos (pos_of pf' algo symb) = cp_pos (pos_of pf algo symb)
         \<and> cp_cost (pos_of pf' algo symb) = cp_cost (pos_of pf algo symb))"
proof -
  let ?pf0 = "pf_start (fold (\<lambda>(algo, symb). pf_add_to_portfolio algo symb) ports pf_init)"
  have st: "stable ((ds @ [d]) @ [d])"
    using assms(4) by (simp only: stable_def set_append) (simp only: Un_absorb Un_assoc)
  have bd: "in_bounds j k B C ((ds @ [d]) @ [d])" using assms(3) by simp
  have 1: "books (ds @ [d]) pf"
    using books_run [OF books_setup [of ports] in_bounds_snocD [OF bd] assms(4)] assms(2) by auto
  from books_step [OF 1 bd st] obtain pf' where 2: "pf_order_data_cb (on_order d) pf = Ret () pf'"
    and 3: "books (ds @ [d, d]) pf'" by auto
  have "pf_round md (on_order d) pf = Ret (on_order d, []) pf'"
    using assms(1) 2 by (simp add: pf_round_def try_pop_def) (simp add: on_order_def)
  with 1 3 show ?thesis
    by (auto simp: books_def ledger_replay)
qed

lemma fold_put_same:
  "\<forall>(k, v) \<in> set kvs. um_find m k = Some v \<Longrightarrow> fold (\<lambda>(k, v). um_put k v) kvs m = m"
  by (induction kvs) (auto simp: um_put_def um_find_def update_triv)

lemma pf_recompute_idem:
  assumes "pf_wf pf"
  shows "pnl_events tm (pf_recompute get_tick (pf_recompute get_tick pf)) = pnl_events tm (pf_recompute get_tick pf)"
proof -
  let ?r = "pf_recompute get_tick"
  have m: "mapping_of (?r pf) = mapping_of pf" for pf
    by (simp add: pf_recompute_def pnl_loop_eq) (simp add: mapping_of_def [abs_def])
  have ports: "pf_algo_portfolio (?r pf) = pf_algo_portfolio pf" for pf
    by (simp add: pf_recompute_def pnl_loop_eq)
  have val: "algo_value get_tick (pf\<lparr>pf_total_pnl := 0\<rparr>) = algo_value get_tick pf" for pf
    by (intro ext) (simp add: algo_value_def mapping_of_def)
  have vr: "algo_value get_tick (?r pf) = algo_value get_tick pf"
    by (intro ext) (simp add: algo_value_def m)
  let ?kvs = "map (\<lambda>e. (fst e, algo_value get_tick pf e)) (pf_algo_portfolio pf)"
  have pnl: "pf_algo_pnl (?r pf) = fold (\<lambda>(k, v). um_put k v) ?kvs (pf_algo_pnl pf)"
    by (simp add: pf_recompute_def pnl_loop_eq val)
  have "\<forall>(k, v) \<in> set ?kvs. um_find (pf_algo_pnl (?r pf)) k = Some v"
  proof clarsimp
    fix a b assume "(a, b) \<in> set (pf_algo_portfolio pf)"
    with assms show "um_find (pf_algo_pnl (?r pf)) a = Some (algo_value get_tick pf (a, b))"
      unfolding pnl by (intro find_fold_put)
        (auto simp: pf_wf_def um_wf_def um_keys_def comp_def intro!: image_eqI [of _ _ "(a, b)"])
  qed
  then have "pf_algo_pnl (?r (?r pf)) = pf_algo_pnl (?r pf)"
    using fold_put_same [of ?kvs "pf_algo_pnl (?r pf)"]
    by (simp add: pf_recompute_def [of _ "?r pf"] pnl_loop_eq val vr ports)
  moreover have "pf_total_pnl (?r (?r pf)) = pf_total_pnl (?r pf)"
    by (simp add: pf_recompute_def [of _ "?r pf"] pnl_loop_eq val vr ports)
      (simp add: pf_recompute_def pnl_loop_eq val)
  ultimately show ?thesis by (simp add: pnl_events_def)
qed

text \<open>
  For a timer event it is not: at seconds 0 and 30 the same figures are published once more for
  every timeout until the next event arrives.
\<close>

theorem timer_replay_publishes_again:
  assumes "pf_wf pf" and "lbq_items (pf_q pf) = [mk_event ET_timer (P_timer tm)]"
    and "tm_sec tm = 0 \<or> tm_sec tm = 30"
  shows "\<exists>evs pf1 pf2. evs \<noteq> []
    \<and> pf_round md ev pf = Ret (mk_event ET_timer (P_timer tm), evs) pf1
    \<and> pf_round md (mk_event ET_timer (P_timer tm)) pf1 = Ret (mk_event ET_timer (P_timer tm), evs) pf2"
proof -
  let ?f = "md_get_last_tick md" and ?ev = "mk_event ET_timer (P_timer tm)"
  define pf0 where "pf0 = pf\<lparr>pf_q := (pf_q pf)\<lparr>lbq_items := []\<rparr>\<rparr>"
  define pf1 where "pf1 = pf_recompute ?f pf0"
  have q: "lbq_items (pf_q pf1) = []"
    by (simp add: pf1_def pf0_def pf_recompute_def pnl_loop_eq)
  have "pf_round md ev pf = Ret (?ev, pnl_events tm pf1) pf1"
    unfolding pf1_def pf0_def using assms(2,3) by (auto simp: pf_round_def try_pop_def pf_timer_cb_def Let_def)
  moreover have "pf_round md ?ev pf1 = Ret (?ev, pnl_events tm (pf_recompute ?f pf1)) (pf_recompute ?f pf1)"
    using q assms(3) by (auto simp: pf_round_def try_pop_def pf_timer_cb_def Let_def)
  moreover have "pf_wf pf0" unfolding pf0_def by (rule pf_wf_steps(6) [OF assms(1)])
  then have "pnl_events tm (pf_recompute ?f pf1) = pnl_events tm pf1"
    unfolding pf1_def by (rule pf_recompute_idem)
  moreover have "pnl_events tm pf1 \<noteq> []" by (simp add: pnl_events_def)
  ultimately show ?thesis by metis
qed

section \<open>Witnesses\<close>

definition demo_tick :: "rat \<Rightarrow> tick_data" where
  "demo_tick px = (new_tick ''6758-STK-JPY.TSEJ'')\<lparr>t_last_price := Fin px\<rparr>"

definition demo_md :: "rat \<Rightarrow> market_data" where
  "demo_md px = md_put (demo_tick px) md_init"

definition demo_pf :: "rat \<Rightarrow> rat \<Rightarrow> portfolio" where
  "demo_pf qty cost = pf_init\<lparr>pf_algo_portfolio := [(''demo'', [(''6758-STK-JPY.TSEJ'',
     \<lparr>cp_symbol = [], cp_pos = Fin qty, cp_cost = Fin cost\<rparr>)])],
     pf_q := \<lparr>lbq_items = [mk_event ET_timer (P_timer \<lparr>tm_sec = 30, tm_timestamp = 1700000000\<rparr>)]\<rparr>\<rparr>"

lemma demo_pf_wf: "pf_wf (demo_pf qty cost)"
  by (simp add: pf_wf_def demo_pf_def pf_init_def um_wf_def um_keys_def)

theorem missing_tick_unsets_pnl_witness:
  "\<exists>evs pf'. pf_timer_cb md_init (mk_event ET_timer (P_timer \<lparr>tm_sec = 1, tm_timestamp = 0\<rparr>)) (demo_pf 100 2000) = Ret evs pf'
    \<and> pf_get_total_pnl pf' = UnsetDouble \<and> fst (pf_get_algo_pnl ''demo'' pf') = UnsetDouble"
proof (rule missing_tick_unsets_pnl [OF demo_pf_wf])
  show "um_find (pf_algo_portfolio (demo_pf 100 2000)) ''demo'' = Some [(''6758-STK-JPY.TSEJ'',
     \<lparr>cp_symbol = [], cp_pos = Fin 100, cp_cost = Fin 2000\<rparr>)]" by (simp add: demo_pf_def)
  show "um_contains [(''6758-STK-JPY.TSEJ'', \<lparr>cp_symbol = [], cp_pos = Fin 100, cp_cost = Fin 2000\<rparr>)] ''6758-STK-JPY.TSEJ''"
    by (simp add: um_contains_def)
  show "\<not> quoted md_init (demo_pf 100 2000) ''demo'' ''6758-STK-JPY.TSEJ''"
    by (simp add: quoted_def md_init_def md_get_last_tick_def)
qed

theorem portfolio_mark_to_market_witness:
  "\<exists>evs pf'. pf_timer_cb (demo_md (43 / 2)) (mk_event ET_timer (P_timer \<lparr>tm_sec = 1, tm_timestamp = 0\<rparr>)) (demo_pf 100 2000) = Ret evs pf'
    \<and> pf_get_total_pnl pf' = Fin 150"
proof -
  have "ports_ok 0 1 4150 (demo_md (43 / 2)) (demo_pf 100 2000)"
    by (simp add: ports_ok_def demo_pf_def pf_init_def mtm_ok_def demo_md_def md_put_def md_init_def
        md_get_last_tick_def market_symbol_def mapping_of_def demo_tick_def new_tick_def positions_def
        grid_bound_def dyadic_def Let_def)
  with portfolio_mark_to_market [OF demo_pf_wf, of "demo_md (43 / 2)" "\<lparr>tm_sec = 1, tm_timestamp = 0\<rparr>" 100 2000]
  have "\<exists>evs pf'. pf_timer_cb (demo_md (43 / 2)) (mk_event ET_timer (P_timer \<lparr>tm_sec = 1, tm_timestamp = 0\<rparr>)) (demo_pf 100 2000) = Ret evs pf'
      \<and> pf_get_total_pnl pf' = Fin (\<Sum>e\<leftarrow>pf_algo_portfolio (demo_pf 100 2000). port_mtm (demo_md (43 / 2)) (demo_pf 100 2000) e)" by blast
  then show ?thesis
    by (simp add: port_mtm_def demo_pf_def pf_init_def mtm_def demo_md_def md_put_def md_init_def
        md_get_last_tick_def market_symbol_def mapping_of_def demo_tick_def new_tick_def)
qed

theorem pnl_published_twice_a_minute_witness:
  "\<exists>evs pf'. pf_timer_cb (demo_md 21) (mk_event ET_timer (P_timer \<lparr>tm_sec = 30, tm_timestamp = 7\<rparr>)) (demo_pf 100 2000) = Ret evs pf'
    \<and> length evs = length (um_keys (pf_algo_pnl pf')) + 1"
proof -
  obtain evs pf' where 1: "pf_timer_cb (demo_md 21) (mk_event ET_timer (P_timer \<lparr>tm_sec = 30, tm_timestamp = 7\<rparr>)) (demo_pf 100 2000) = Ret evs pf'"
    and 2: "map e_data evs = map (\<lambda>algo. P_algo_pnl \<lparr>ap_algo = algo, ap_pnl = fst (pf_get_algo_pnl algo pf'),
          ap_timestamp = 7\<rparr>) (um_keys (pf_algo_pnl pf')) @ [P_total_pnl \<lparr>tp_pnl = pf_get_total_pnl pf', tp_timestamp = 7\<rparr>]"
    using pnl_published_twice_a_minute [OF demo_pf_wf, of "demo_md 21" "\<lparr>tm_sec = 30, tm_timestamp = 7\<rparr>" 100 2000]
    by auto
  from arg_cong [OF 2, of length] 1 show ?thesis by auto
qed

theorem order_replay_harmless_witness:
  "\<exists>pf pf'. pf_orders [demo_fill 1 A_buy 100 20] (pf_start (fold (\<lambda>(algo, symb). pf_add_to_portfolio algo symb) [] pf_init)) = Ret () pf
    \<and> pf_round md_init (on_order (demo_fill 1 A_buy 100 20)) pf = Ret (on_order (demo_fill 1 A_buy 100 20), []) pf'
    \<and> cp_pos (pos_of pf' ''demo'' ''6758-STK-JPY.TSEJ'') = cp_pos (pos_of pf ''demo'' ''6758-STK-JPY.TSEJ'')"
proof -
  let ?d = "demo_fill 1 A_buy 100 20"
  obtain pf where 1: "pf_orders ([] @ [?d]) (pf_start (fold (\<lambda>(algo, symb). pf_add_to_portfolio algo symb) [] pf_init)) = Ret () pf"
    and q: "lbq_items (pf_q pf) = []"
    by (auto simp: pf_order_data_cb_def Let_def on_order_def orders_of_def pf_start_def pf_init_def lbq_empty_def
        demo_fill_def)
  have 2: "in_bounds 0 0 100 2001 ([] @ [?d, ?d])" "stable ([] @ [?d])"
    by (simp_all add: in_bounds_def snapshot_ok_def demo_fill_def grid_bound_def stable_def)
  obtain pf' where "pf_round md_init (on_order ?d) pf = Ret (on_order ?d, []) pf'"
    and "\<forall>algo symb. cp_pos (pos_of pf' algo symb) = cp_pos (pos_of pf algo symb)
         \<and> cp_cost (pos_of pf' algo symb) = cp_cost (pos_of pf algo symb)"
    using order_replay_harmless [OF q 1 2, of md_init] by blast
  with 1 show ?thesis by auto
qed

theorem timer_replay_publishes_again_witness:
  "\<exists>evs pf1 pf2. evs \<noteq> []
    \<and> pf_round (demo_md 21) (mk_event ET_event_engine_test No_data) (demo_pf 100 2000)
        = Ret (mk_event ET_timer (P_timer \<lparr>tm_sec = 30, tm_timestamp = 1700000000\<rparr>), evs) pf1
    \<and> pf_round (demo_md 21) (mk_event ET_timer (P_timer \<lparr>tm_sec = 30, tm_timestamp = 1700000000\<rparr>)) pf1
        = Ret (mk_event ET_timer (P_timer \<lparr>tm_sec = 30, tm_timestamp = 1700000000\<rparr>), evs) pf2"
  by (rule timer_replay_publishes_again [OF demo_pf_wf]) (simp_all add: demo_pf_def)

end
