(* ===== verification/Risk.thy ===== *)
theory Risk
  imports Pnl
begin

text \<open>
  The risk manager of \<open>lib/core/risk.h\<close> and \<open>risk.cpp\<close>: the check an order request passes before
  it reaches the gateway, and the set of order ids the flow limit counts. The check reads the
  portfolio, and its lookup of an algorithm's profit and loss may leave an entry in it.
\<close>

record risk_manager =
  rk_algo_pnl_lmt :: "(string, double) umap"
  rk_total_pnl_lmt :: double
  rk_order_flow_lmt :: nat
  rk_active_orders :: "order_id set"

text \<open>The limits as the configuration file has them; a repeated algorithm keeps its last limit.\<close>

definition rk_init :: "(string \<times> double) list \<Rightarrow> double \<Rightarrow> nat \<Rightarrow> risk_manager" where
  "rk_init algo_pnl_lmt total_pnl_lmt order_flow_lmt =
     \<lparr>rk_algo_pnl_lmt = fold (\<lambda>(algo_name, algo_pnl). um_put algo_name algo_pnl) algo_pnl_lmt um_empty,
      rk_total_pnl_lmt = total_pnl_lmt, rk_order_flow_lmt = order_flow_lmt, rk_active_orders = {}\<rparr>"

definition rk_check_flow :: "order_id \<Rightarrow> risk_manager \<Rightarrow> bool \<times> risk_manager" where
  "rk_check_flow order_id rk =
     (if card (rk_active_orders rk) \<ge> rk_order_flow_lmt rk then (False, rk)
      else (True, rk\<lparr>rk_active_orders := insert order_id (rk_active_orders rk)\<rparr>))"

definition rk_check_risk :: "order_req \<Rightarrow> risk_manager \<times> portfolio \<Rightarrow> bool \<times> risk_manager \<times> portfolio" where
  "rk_check_risk req s =
     (case s of (rk, pf) \<Rightarrow>
        let algo = r_source req; order_id = r_order_id req in
        if pf_get_total_pnl pf < rk_total_pnl_lmt rk then (False, rk, pf)
        else
          (case um_find (rk_algo_pnl_lmt rk) algo of
             None \<Rightarrow> (case rk_check_flow order_id rk of (ok, rk') \<Rightarrow> (ok, rk', pf))
           | Some lmt \<Rightarrow>
               (case pf_get_algo_pnl algo pf of
                  (pnl, pf') \<Rightarrow>
                    if pnl < lmt then (False, rk, pf')
                    else (case rk_check_flow order_id rk of (ok, rk') \<Rightarrow> (ok, rk', pf')))))"

definition rk_event_engine_order_cb :: "event \<Rightarrow> risk_manager \<Rightarrow> (unit, risk_manager) outcome" where
  "rk_event_engine_order_cb ev rk =
     with_cast (cast_order (e_data ev)) (\<lambda>order_data.
       if \<not> is_active_order (d_status order_data)
       then Ret () (rk\<lparr>rk_active_orders := rk_active_orders rk - {d_order_id order_data}\<rparr>)
       else Ret () rk)"

section \<open>The decision\<close>

text \<open>The three limits, as a predicate on the state before the check.\<close>

definition within_pnl_limits :: "risk_manager \<Rightarrow> portfolio \<Rightarrow> string \<Rightarrow> bool" where
  "within_pnl_limits rk pf algo \<longleftrightarrow>
     \<not> pf_get_total_pnl pf < rk_total_pnl_lmt rk
     \<and> (\<forall>lmt. um_find (rk_algo_pnl_lmt rk) algo = Some lmt \<longrightarrow> \<not> fst (pf_get_algo_pnl algo pf) < lmt)"

lemma rk_check_cases:
  "\<exists>ok rk' pf'. rk_check_risk req (rk, pf) = (ok, rk', pf')
    \<and> (ok \<longleftrightarrow> within_pnl_limits rk pf (r_source req)
          \<and> card (rk_active_orders rk) < rk_order_flow_lmt rk)
    \<and> rk' = (if ok then rk\<lparr>rk_active_orders := insert (r_order_id req) (rk_active_orders rk)\<rparr> else rk)
    \<and> pf_get_total_pnl pf' = pf_get_total_pnl pf
    \<and> fst (pf_get_algo_pnl algo pf') = fst (pf_get_algo_pnl algo pf)
    \<and> pf_algo_portfolio pf' = pf_algo_portfolio pf"
  unfolding rk_check_risk_def within_pnl_limits_def rk_check_flow_def
  by (cases "um_find (rk_algo_pnl_lmt rk) (r_source req)")
    (auto simp: Let_def pf_get_algo_pnl_def pf_get_total_pnl_def um_get_def um_find_touch
      split: option.splits)

text \<open>
  The whole decision: a request passes exactly when the total and the algorithm's own profit and
  loss are not below their limits and fewer orders than the flow limit are active; a request that
  passes enters its id, one that fails leaves the risk manager as it was; and the portfolio's
  figures are the same after the check.
\<close>

theorem risk_decision:
  "\<exists>ok rk' pf'. rk_check_risk req (rk, pf) = (ok, rk', pf')
    \<and> (ok \<longleftrightarrow> within_pnl_limits rk pf (r_source req)
          \<and> card (rk_active_orders rk) < rk_order_flow_lmt rk)
    \<and> rk' = (if ok then rk\<lparr>rk_active_orders := insert (r_order_id req) (rk_active_orders rk)\<rparr> else rk)
    \<and> pf_get_total_pnl pf' = pf_get_total_pnl pf
    \<and> fst (pf_get_algo_pnl algo pf') = fst (pf_get_algo_pnl algo pf)
    \<and> pf_algo_portfolio pf' = pf_algo_portfolio pf"
  by (rule rk_check_cases)

section \<open>The flow limit\<close>

datatype rk_op = Rk_check order_req | Rk_order order_data

text \<open>A run of checks and order events; the portfolio may change in between.\<close>

fun rk_run :: "(rk_op \<times> portfolio) list \<Rightarrow> risk_manager \<Rightarrow> (bool list, risk_manager) outcome" where
  "rk_run [] rk = Ret [] rk"
| "rk_run ((Rk_check req, pf) # ops) rk =
     (case rk_check_risk req (rk, pf) of
        (ok, rk', _) \<Rightarrow> bind_o (rk_run ops rk') (\<lambda>oks rk''. Ret (ok # oks) rk''))"
| "rk_run ((Rk_order d, pf) # ops) rk =
     bind_o (rk_event_engine_order_cb (on_order d) rk) (\<lambda>_. rk_run ops)"

definition flow_inv :: "risk_manager \<Rightarrow> bool" where
  "flow_inv rk \<longleftrightarrow> finite (rk_active_orders rk) \<and> card (rk_active_orders rk) \<le> rk_order_flow_lmt rk"

lemma rk_order_cb_eq:
  "rk_event_engine_order_cb (on_order d) rk = Ret () (if is_active_order (d_status d) then rk
     else rk\<lparr>rk_active_orders := rk_active_orders rk - {d_order_id d}\<rparr>)"
  by (simp add: rk_event_engine_order_cb_def on_order_def)

lemma flow_inv_check [inv_intros]:
  assumes "flow_inv rk" and "rk_check_risk req (rk, pf) = (ok, rk', pf')"
  shows "flow_inv rk' \<and> rk_order_flow_lmt rk' = rk_order_flow_lmt rk"
  using rk_check_cases [of req rk pf] assms by (auto simp: flow_inv_def card_insert_if)

lemma flow_inv_order [inv_intros]:
  "flow_inv rk \<Longrightarrow> rk_event_engine_order_cb (on_order d) rk = Ret u rk'
     \<Longrightarrow> flow_inv rk' \<and> rk_order_flow_lmt rk' = rk_order_flow_lmt rk"
  using card_Diff1_le [of "rk_active_orders rk" "d_order_id d"]
  by (auto simp: rk_order_cb_eq flow_inv_def simp del: card_Diff1_le split: if_splits)

text \<open>
  The set of active ids never outgrows the flow limit, whatever checks and order events arrive in
  whatever order, and no order event makes the handler fail.
\<close>

theorem flow_limit_bound:
  assumes "flow_inv rk"
  shows "\<exists>oks rk'. rk_run ops rk = Ret oks rk' \<and> flow_inv rk'
    \<and> card (rk_active_orders rk') \<le> rk_order_flow_lmt rk"
proof -
  have "\<exists>oks rk'. rk_run ops rk = Ret oks rk' \<and> flow_inv rk' \<and> rk_order_flow_lmt rk' = rk_order_flow_lmt rk"
    if "flow_inv rk" for rk
    using that
  proof (induction ops rk rule: rk_run.induct)
    case (1 rk)
    then show ?case by simp
  next
    case (2 req pf ops rk)
    obtain ok rk' pf' where c: "rk_check_risk req (rk, pf) = (ok, rk', pf')"
      by (cases "rk_check_risk req (rk, pf)")
    with flow_inv_check [OF "2.prems" c] "2.IH" [OF c [symmetric] refl] show ?case by force
  next
    case (3 d pf ops rk)
    obtain rk' where o': "rk_event_engine_order_cb (on_order d) rk = Ret () rk'"
      by (simp add: rk_order_cb_eq)
    with flow_inv_order [OF "3.prems" o'] "3.IH" [of rk'] show ?case by (auto simp: o')
  qed
  from this [OF assms] show ?thesis by (auto simp: flow_inv_def)
qed

definition is_new_req :: "rk_op \<times> portfolio \<Rightarrow> bool" where
  "is_new_req op = (case fst op of Rk_check req \<Rightarrow> r_order_id req = UnsetLong | Rk_order d \<Rightarrow> True)"

text \<open>The answer a check would give if no order at all were active.\<close>

definition unhindered :: "risk_manager \<Rightarrow> rk_op \<times> portfolio \<Rightarrow> bool list" where
  "unhindered rk op = (case fst op of
       Rk_check req \<Rightarrow> [fst (rk_check_risk req (rk\<lparr>rk_active_orders := {}\<rparr>, snd op))]
     | Rk_order d \<Rightarrow> [])"

lemma within_pnl_limits_upd [simp]:
  "within_pnl_limits (rk\<lparr>rk_active_orders := a\<rparr>) pf algo = within_pnl_limits rk pf algo"
  by (simp add: within_pnl_limits_def)

lemma unhindered_upd [simp]: "unhindered (rk\<lparr>rk_active_orders := a\<rparr>) = unhindered rk"
  by (rule ext) (simp add: unhindered_def split: rk_op.split)

lemma fst_check:
  "fst (rk_check_risk req (rk, pf)) \<longleftrightarrow> within_pnl_limits rk pf (r_source req) \<and> card (rk_active_orders rk) < rk_order_flow_lmt rk"
  using rk_check_cases [of req rk pf "[]"] by (elim exE conjE) simp

text \<open>With fewer active ids than the limit a check answers as if there were none.\<close>

lemma check_unhindered:
  assumes "card (rk_active_orders rk) < rk_order_flow_lmt rk"
  shows "\<exists>pf'. rk_check_risk req (rk, pf) = (hd (unhindered rk (Rk_check req, pf)),
    if hd (unhindered rk (Rk_check req, pf)) then rk\<lparr>rk_active_orders := insert (r_order_id req) (rk_active_orders rk)\<rparr> else rk, pf')"
proof -
  obtain ok rk' pf' where c: "rk_check_risk req (rk, pf) = (ok, rk', pf')" by (cases "rk_check_risk req (rk, pf)")
  from rk_check_cases [of req rk pf "[]"] c have r: "ok \<longleftrightarrow> within_pnl_limits rk pf (r_source req) \<and> card (rk_active_orders rk) < rk_order_flow_lmt rk"
    "rk' = (if ok then rk\<lparr>rk_active_orders := insert (r_order_id req) (rk_active_orders rk)\<rparr> else rk)" by auto
  have "hd (unhindered rk (Rk_check req, pf)) = ok" using r(1) assms by (simp add: unhindered_def fst_check)
  then show ?thesis using c r(2) by simp
qed

text \<open>
  Property C28. A new order has no id yet when it is checked: its request carries the unset value, and that is
  what the set of active orders holds. So when only new orders are checked, from a set that holds no
  other id, and the flow limit is two or more, the flow check stops none of them, whatever order
  events come in between: every check answers as it would if no order at all were active.
\<close>

theorem flow_limit_misses_new_orders:
  assumes "list_all is_new_req ops"
    and "rk_active_orders rk \<subseteq> {UnsetLong}" and "2 \<le> rk_order_flow_lmt rk"
  shows "\<exists>rk'. rk_run ops rk = Ret (concat (map (unhindered rk) ops)) rk' \<and> rk_active_orders rk' \<subseteq> {UnsetLong}"
  using assms
proof (induction ops rk rule: rk_run.induct)
  case (1 rk)
  then show ?case by simp
next
  case (2 req pf ops rk)
  define ok where "ok = hd (unhindered rk (Rk_check req, pf))"
  define rk1 where "rk1 = (if ok then rk\<lparr>rk_active_orders := insert UnsetLong (rk_active_orders rk)\<rparr> else rk)"
  have "card (rk_active_orders rk) \<le> 1"
    using card_mono [of "{UnsetLong}" "rk_active_orders rk"] "2.prems"(2) by simp
  then obtain pf' where c: "rk_check_risk req (rk, pf) = (ok, rk1, pf')"
    using check_unhindered [of rk req pf] "2.prems" by (auto simp: is_new_req_def ok_def rk1_def)
  have u: "unhindered rk (Rk_check req, pf) = [ok]" by (simp add: unhindered_def ok_def)
  have same: "unhindered rk1 = unhindered rk" by (simp add: rk1_def)
  have "list_all is_new_req ops" "rk_active_orders rk1 \<subseteq> {UnsetLong}" "2 \<le> rk_order_flow_lmt rk1"
    using "2.prems" by (auto simp: rk1_def)
  from "2.IH" [OF c [symmetric] refl this] obtain rk' where
    r: "rk_run ops rk1 = Ret (concat (map (unhindered rk) ops)) rk'" "rk_active_orders rk' \<subseteq> {UnsetLong}"
    unfolding same by blast
  then show ?case by (simp add: c u)
next
  case (3 d pf ops rk)
  let ?rk = "if is_active_order (d_status d) then rk
    else rk\<lparr>rk_active_orders := rk_active_orders rk - {d_order_id d}\<rparr>"
  have "rk_active_orders ?rk \<subseteq> {UnsetLong}" "2 \<le> rk_order_flow_lmt ?rk" "unhindered ?rk = unhindered rk"
    using "3.prems" by auto
  note s = this
  have "list_all is_new_req ops" using "3.prems"(1) by simp
  from "3.IH" [OF this s(1,2)] obtain rk' where "rk_run ops ?rk = Ret (concat (map (unhindered rk) ops)) rk'" "rk_active_orders rk' \<subseteq> {UnsetLong}"
    unfolding s(3) by blast
  moreover have "rk_run ((Rk_order d, pf) # ops) rk = rk_run ops ?rk" by (simp only: rk_run.simps rk_order_cb_eq bind_o.simps)
  moreover have "unhindered rk (Rk_order d, pf) = []" by (simp add: unhindered_def)
  ultimately show ?case by simp
qed

text \<open>
  Property C29. A limit that is a number of type \<open>double\<close> is never above the unset value. So when a timer event finds
  one contract with a position but no tick, the check lets every request of that contract's
  algorithm through that the flow limit does not stop, however large the losses are.
\<close>

theorem missing_tick_disables_limits:
  assumes "pf_wf pf" and "um_find (pf_algo_portfolio pf) (r_source req) = Some port"
    and "um_contains port symb" and "\<not> quoted md pf (r_source req) symb"
    and "\<not> UnsetDouble < rk_total_pnl_lmt rk"
    and "\<forall>lmt. um_find (rk_algo_pnl_lmt rk) (r_source req) = Some lmt \<longrightarrow> \<not> UnsetDouble < lmt"
  shows "\<exists>evs pf'. pf_timer_cb md (mk_event ET_timer (P_timer tm)) pf = Ret evs pf'
    \<and> fst (rk_check_risk req (rk, pf')) = (card (rk_active_orders rk) < rk_order_flow_lmt rk)"
  using timer_missing_tick [OF assms(1-4), of tm] assms(5,6) by (auto simp: fst_check within_pnl_limits_def)

section \<open>Witnesses\<close>

definition demo_req :: order_req where
  "demo_req = \<lparr>r_symbol = ''6758-STK-JPY.TSEJ'', r_exchange = [], r_source = ''demo'', r_action = A_buy,
     r_order_type = OT_market, r_quantity = Fin 100, r_price = UnsetDouble, r_order_id = UnsetLong\<rparr>"

definition demo_rk :: risk_manager where
  "demo_rk = rk_init [(''demo'', Fin (- 1000))] (Fin (- 5000)) 2"

theorem flow_limit_bound_witness:
  "\<exists>oks rk'. rk_run [(Rk_check demo_req, pf_init), (Rk_check demo_req, pf_init)] demo_rk = Ret oks rk'
    \<and> card (rk_active_orders rk') \<le> 2"
proof -
  have "flow_inv demo_rk" by (simp add: flow_inv_def demo_rk_def rk_init_def)
  from flow_limit_bound [OF this, of "[(Rk_check demo_req, pf_init), (Rk_check demo_req, pf_init)]"]
  show ?thesis by (elim exE conjE) (simp add: demo_rk_def rk_init_def)
qed

lemma demo_check: "fst (rk_check_risk demo_req (demo_rk, pf_init))"
  by (simp add: fst_check within_pnl_limits_def demo_req_def demo_rk_def rk_init_def pf_get_total_pnl_def pf_init_def
        pf_get_algo_pnl_def um_get_def less_double_def zero_double_def um_put_def)

theorem flow_limit_misses_new_orders_witness:
  "\<exists>rk'. rk_run [(Rk_check demo_req, pf_init), (Rk_check demo_req, pf_init), (Rk_check demo_req, pf_init)] demo_rk
      = Ret [True, True, True] rk' \<and> rk_active_orders rk' \<subseteq> {UnsetLong}"
proof -
  have "list_all is_new_req [(Rk_check demo_req, pf_init), (Rk_check demo_req, pf_init), (Rk_check demo_req, pf_init)]"
    by (simp add: is_new_req_def demo_req_def)
  moreover have "rk_active_orders demo_rk \<subseteq> {UnsetLong}" "2 \<le> rk_order_flow_lmt demo_rk" "demo_rk\<lparr>rk_active_orders := {}\<rparr> = demo_rk"
    by (simp_all add: demo_rk_def rk_init_def)
  moreover from this(3) have "unhindered demo_rk (Rk_check demo_req, pf_init) = [True]"
    using demo_check by (simp add: unhindered_def)
  ultimately show ?thesis using flow_limit_misses_new_orders [of "[(Rk_check demo_req, pf_init), (Rk_check demo_req, pf_init), (Rk_check demo_req, pf_init)]" demo_rk]
    by simp
qed

text \<open>The algorithm holds 100 shares that have cost 200000, without a tick and with limits of 1000 and 5000.\<close>

theorem missing_tick_disables_limits_witness:
  "\<exists>evs pf'. pf_timer_cb md_init (mk_event ET_timer (P_timer \<lparr>tm_sec = 1, tm_timestamp = 0\<rparr>)) (demo_pf 100 200000) = Ret evs pf'
    \<and> fst (rk_check_risk demo_req (demo_rk, pf')) = (card (rk_active_orders demo_rk) < rk_order_flow_lmt demo_rk)"
proof (rule missing_tick_disables_limits [OF demo_pf_wf])
  show "um_find (pf_algo_portfolio (demo_pf 100 200000)) (r_source demo_req) = Some [(''6758-STK-JPY.TSEJ'',
     \<lparr>cp_symbol = [], cp_pos = Fin 100, cp_cost = Fin 200000\<rparr>)]" by (simp add: demo_pf_def demo_req_def)
qed (simp_all add: um_contains_def quoted_def md_init_def md_get_last_tick_def demo_req_def demo_rk_def rk_init_def
    less_double_def UnsetDouble_def DBL_MAX_def um_put_def)

end
