(* ===== verification/TradingEngine.thy ===== *)
theory TradingEngine
  imports Risk
begin

text \<open>
  The trading engine of \<open>lib/core/trading_engine.h\<close> and \<open>trading_engine.cpp\<close>: what a strategy sees
  of the market data manager, the risk manager, the gateway and the event engine. It holds only
  references, so its operations act on the states of those components; the events the gateway
  raises are the values of the outcomes.
\<close>

section \<open>Orders that pass a check\<close>

text \<open>
  A check in front of a gateway: a rejected request answers \<open>- 1\<close> and does not reach it.
\<close>

definition guarded_send :: "('r \<Rightarrow> 'k \<Rightarrow> bool \<times> 'k) \<Rightarrow> ('r \<Rightarrow> 'g \<Rightarrow> (order_id \<times> event list, 'g) outcome)
    \<Rightarrow> 'r \<Rightarrow> 'k \<times> 'g \<Rightarrow> (order_id \<times> event list, 'k \<times> 'g) outcome" where
  "guarded_send check send req s =
     (case s of (k, g) \<Rightarrow>
        case check req k of
          (False, k') \<Rightarrow> Ret (- 1, []) (k', g)
        | (True, k') \<Rightarrow>
            (case send req g of
               Ret r g' \<Rightarrow> Ret r (k', g')
             | Throw e g' \<Rightarrow> Throw e (k', g')
             | Crash c \<Rightarrow> Crash c))"

text \<open>A sequence of requests, with the ids answered.\<close>

fun guarded_sends :: "('r \<Rightarrow> 'k \<Rightarrow> bool \<times> 'k) \<Rightarrow> ('r \<Rightarrow> 'g \<Rightarrow> (order_id \<times> event list, 'g) outcome)
    \<Rightarrow> 'r list \<Rightarrow> 'k \<times> 'g \<Rightarrow> (order_id list, 'k \<times> 'g) outcome" where
  "guarded_sends check send [] s = Ret [] s"
| "guarded_sends check send (req # reqs) s =
     bind_o (guarded_send check send req s) (\<lambda>r s'.
       bind_o (guarded_sends check send reqs s') (\<lambda>oids s''. Ret (fst r # oids) s''))"

text \<open>The verdicts of a check on a sequence of requests, and the state it ends in.\<close>

fun verdicts :: "('r \<Rightarrow> 'k \<Rightarrow> bool \<times> 'k) \<Rightarrow> 'r list \<Rightarrow> 'k \<Rightarrow> bool list \<times> 'k" where
  "verdicts check [] k = ([], k)"
| "verdicts check (req # reqs) k =
     (case check req k of (ok, k') \<Rightarrow>
        case verdicts check reqs k' of (oks, k'') \<Rightarrow> (ok # oks, k''))"

text \<open>
  What is asked of a gateway: a request that returns has placed exactly one order, under the id it
  answers, and it can always be sent when it is well-formed.
\<close>

locale order_gateway =
  fixes send :: "'r \<Rightarrow> 'g \<Rightarrow> (order_id \<times> event list, 'g) outcome"
    and placed :: "'g \<Rightarrow> (order_id \<times> 'o) list"
    and place :: "'r \<Rightarrow> 'o"
    and good_req :: "'r \<Rightarrow> bool"
  assumes send_places: "send req g = Ret (oid, evs) g' \<Longrightarrow> placed g' = placed g @ [(oid, place req)]"
    and send_returns: "good_req req \<Longrightarrow> \<exists>r g'. send req g = Ret r g'"
begin

lemma guarded_send_cases:
  assumes "good_req req" and "check req k = (ok, k')"
  obtains (rejected) "\<not> ok" "guarded_send check send req (k, g) = Ret (- 1, []) (k', g)"
  | (sent) oid evs g' where "ok" "guarded_send check send req (k, g) = Ret (oid, evs) (k', g')"
      "placed g' = placed g @ [(oid, place req)]"
proof (cases ok)
  case True
  from send_returns [OF assms(1)] obtain oid evs g' where "send req g = Ret (oid, evs) g'" by force
  with True assms(2) send_places show ?thesis by (intro sent) (simp_all add: guarded_send_def)
next
  case False
  with assms(2) show ?thesis by (intro rejected) (simp_all add: guarded_send_def)
qed

text \<open>
  The orders placed by a sequence of requests are those the check let through, in order, each
  under the id its caller was answered.
\<close>

lemma placed_are_accepted:
  assumes "\<forall>req \<in> set reqs. good_req req"
  shows "\<exists>oids k' g'. guarded_sends check send reqs (k, g) = Ret oids (k', g')
    \<and> snd (verdicts check reqs k) = k'
    \<and> length oids = length reqs
    \<and> placed g' = placed g @ map (\<lambda>(oid, req, ok). (oid, place req))
        (filter (\<lambda>(oid, req, ok). ok) (zip oids (zip reqs (fst (verdicts check reqs k)))))"
  using assms
proof (induction reqs arbitrary: k g)
  case Nil
  then show ?case by simp
next
  case (Cons req reqs)
  obtain ok k1 where ck: "check req k = (ok, k1)" by (cases "check req k")
  have "good_req req" using Cons.prems by simp
  from this ck show ?case
  proof (cases rule: guarded_send_cases [where g = g])
    case rejected
    obtain oids k' g' where "guarded_sends check send reqs (k1, g) = Ret oids (k', g')"
      "length oids = length reqs"
      "snd (verdicts check reqs k1) = k'"
      "placed g' = placed g @ map (\<lambda>(oid, req, ok). (oid, place req))
        (filter (\<lambda>(oid, req, ok). ok) (zip oids (zip reqs (fst (verdicts check reqs k1)))))"
      using Cons.IH [of k1 g] Cons.prems by auto
    then show ?thesis using rejected ck
      by (cases "verdicts check reqs k1") simp
  next
    case (sent oid evs g1)
    obtain oids k' g' where "guarded_sends check send reqs (k1, g1) = Ret oids (k', g')"
      "length oids = length reqs"
      "snd (verdicts check reqs k1) = k'"
      "placed g' = placed g1 @ map (\<lambda>(oid, req, ok). (oid, place req))
        (filter (\<lambda>(oid, req, ok). ok) (zip oids (zip reqs (fst (verdicts check reqs k1)))))"
      using Cons.IH [of k1 g1] Cons.prems by auto
    then show ?thesis using sent ck
      by (cases "verdicts check reqs k1") simp
  qed
qed

end

section \<open>The trading engine\<close>

record trading_engine =
  te_risk_manager :: risk_manager
  te_portfolio :: portfolio
  te_gateway :: ib_api
  te_mktd_mgr :: market_data

definition te_subscribe :: "string \<Rightarrow> bool \<Rightarrow> trading_engine \<Rightarrow> (event list, trading_engine) outcome" where
  "te_subscribe symb delayed te =
     (case md_subscribe symb delayed (te_mktd_mgr te, te_gateway te) of
        Ret evs (md, ib) \<Rightarrow> Ret evs (te\<lparr>te_mktd_mgr := md, te_gateway := ib\<rparr>)
      | Throw e (md, ib) \<Rightarrow> Throw e (te\<lparr>te_mktd_mgr := md, te_gateway := ib\<rparr>)
      | Crash c \<Rightarrow> Crash c)"

definition te_get_last_tick :: "string \<Rightarrow> trading_engine \<Rightarrow> tick_data option" where
  "te_get_last_tick symb te = md_get_last_tick (te_mktd_mgr te) symb"

definition te_send_order :: "(double \<Rightarrow> decimal) \<Rightarrow> order_req \<Rightarrow> trading_engine
    \<Rightarrow> (order_id \<times> event list, trading_engine) outcome" where
  "te_send_order to_decimal req te =
     (case rk_check_risk req (te_risk_manager te, te_portfolio te) of (ok, rk, pf) \<Rightarrow>
        let te1 = te\<lparr>te_risk_manager := rk, te_portfolio := pf\<rparr> in
        if \<not> ok then Ret (- 1, []) te1
        else (case ib_send_order to_decimal req (te_gateway te1) of
                Ret r ib \<Rightarrow> Ret r (te1\<lparr>te_gateway := ib\<rparr>)
              | Throw e ib \<Rightarrow> Throw e (te1\<lparr>te_gateway := ib\<rparr>)
              | Crash c \<Rightarrow> Crash c))"

definition te_cancel_order :: "order_id \<Rightarrow> trading_engine \<Rightarrow> trading_engine" where
  "te_cancel_order oid te = te\<lparr>te_gateway := ib_cancel_order oid (te_gateway te)\<rparr>"

definition te_send_event :: "event \<Rightarrow> 'cb event_engine \<Rightarrow> 'cb event_engine" where
  "te_send_event ev ee = ee_send ev ee"

definition te_register_cb :: "event_type \<Rightarrow> string \<Rightarrow> 'cb \<Rightarrow> 'cb event_engine \<Rightarrow> bool \<times> 'cb event_engine" where
  "te_register_cb t cb_name cb ee = ee_register_cb t cb_name cb ee"

definition te_update_ticks :: "event \<Rightarrow> trading_engine \<Rightarrow> (unit, trading_engine) outcome" where
  "te_update_ticks ev te =
     (case md_update_ticks ev (te_mktd_mgr te) of
        Ret u md \<Rightarrow> Ret u (te\<lparr>te_mktd_mgr := md\<rparr>)
      | Throw e md \<Rightarrow> Throw e (te\<lparr>te_mktd_mgr := md\<rparr>)
      | Crash c \<Rightarrow> Crash c)"

section \<open>The gateway as an order gateway\<close>

text \<open>The orders handed to TWS, in order.\<close>

fun placed_calls :: "client_call list \<Rightarrow> (order_id \<times> contract \<times> ib_order) list" where
  "placed_calls [] = []"
| "placed_calls (C_placeOrder oid c ord # calls) = (oid, c, ord) # placed_calls calls"
| "placed_calls (_ # calls) = placed_calls calls"

definition placed_orders :: "ib_api \<Rightarrow> (order_id \<times> contract \<times> ib_order) list" where
  "placed_orders ib = placed_calls (ib_calls ib)"

definition tws_order :: "(double \<Rightarrow> decimal) \<Rightarrow> order_req \<Rightarrow> contract \<times> ib_order" where
  "tws_order td req = (sent_contract req, ib_order_of td req)"

lemma placed_calls_append: "placed_calls (xs @ ys) = placed_calls xs @ placed_calls ys"
  by (induction xs rule: placed_calls.induct) simp_all

lemma ib_send_order_places:
  "ib_send_order td req ib = Ret (oid, evs) ib' \<Longrightarrow> placed_orders ib' = placed_orders ib @ [(oid, tws_order td req)]"
  by (auto simp: ib_send_order_eq placed_orders_def order_sent_def placed_calls_append ib_call_def
      tws_order_def Let_def split: if_splits)

interpretation ib_orders_gw: order_gateway "ib_send_order td" placed_orders "tws_order td" "\<lambda>req. symbol_wf (r_symbol req)"
  by unfold_locales (rule ib_send_order_places, assumption, simp add: ib_send_order_eq)

section \<open>Requests of a strategy\<close>

fun te_send_orders :: "(double \<Rightarrow> decimal) \<Rightarrow> order_req list \<Rightarrow> trading_engine
    \<Rightarrow> (order_id list, trading_engine) outcome" where
  "te_send_orders td [] te = Ret [] te"
| "te_send_orders td (req # reqs) te =
     bind_o (te_send_order td req te) (\<lambda>r te'.
       bind_o (te_send_orders td reqs te') (\<lambda>oids te''. Ret (fst r # oids) te''))"

definition te_parts :: "trading_engine \<Rightarrow> (risk_manager \<times> portfolio) \<times> ib_api" where
  "te_parts te = ((te_risk_manager te, te_portfolio te), te_gateway te)"

definition te_put :: "trading_engine \<Rightarrow> (risk_manager \<times> portfolio) \<times> ib_api \<Rightarrow> trading_engine" where
  "te_put te s = (case s of ((rk, pf), ib) \<Rightarrow>
     te\<lparr>te_risk_manager := rk, te_portfolio := pf, te_gateway := ib\<rparr>)"

fun map_state :: "('s \<Rightarrow> 't) \<Rightarrow> ('a, 's) outcome \<Rightarrow> ('a, 't) outcome" where
  "map_state f (Ret a s) = Ret a (f s)"
| "map_state f (Throw e s) = Throw e (f s)"
| "map_state f (Crash c) = Crash c"

lemma te_put_simps [simp]:
  "te_parts (te_put te s) = s" "te_put (te_put te s) s' = te_put te s'"
  "te_mktd_mgr (te_put te s) = te_mktd_mgr te" "te_put te (te_parts te) = te"
  by (auto simp: te_put_def te_parts_def split: prod.splits)

text \<open>A request to the trading engine is a guarded request to the gateway.\<close>

lemma te_send_order_guarded:
  "te_send_order td req te =
     map_state (te_put te) (guarded_send rk_check_risk (ib_send_order td) req (te_parts te))"
proof -
  obtain ok rk pf where c: "rk_check_risk req (te_risk_manager te, te_portfolio te) = (ok, rk, pf)"
    by (cases "rk_check_risk req (te_risk_manager te, te_portfolio te)")
  show ?thesis
    by (cases ok; cases "ib_send_order td req (te_gateway te)")
      (simp_all add: te_send_order_def guarded_send_def te_parts_def te_put_def c Let_def)
qed

lemma te_send_orders_guarded:
  "te_send_orders td reqs te =
     map_state (te_put te) (guarded_sends rk_check_risk (ib_send_order td) reqs (te_parts te))"
proof (induction reqs arbitrary: te)
  case Nil
  then show ?case by simp
next
  case (Cons req reqs)
  show ?case
  proof (cases "guarded_send rk_check_risk (ib_send_order td) req (te_parts te)")
    case (Ret r s)
    then show ?thesis
      by (cases "guarded_sends rk_check_risk (ib_send_order td) reqs s")
        (simp_all add: te_send_order_guarded Cons.IH)
  qed (simp_all add: te_send_order_guarded)
qed

text \<open>
  Property C2. Whatever requests with well-formed symbols the strategies send, the orders placed with
  the broker are exactly those the risk check let through, in order, each with the contract and the
  order built from its request and under the id its sender was answered; the market data is untouched.
\<close>

theorem only_checked_orders_placed:
  assumes "\<forall>req \<in> set reqs. symbol_wf (r_symbol req)"
  shows "\<exists>oids te'. te_send_orders td reqs te = Ret oids te' \<and> length oids = length reqs
    \<and> te_mktd_mgr te' = te_mktd_mgr te
    \<and> placed_orders (te_gateway te') = placed_orders (te_gateway te) @
        map (\<lambda>(oid, req, ok). (oid, tws_order td req))
          (filter (\<lambda>(oid, req, ok). ok)
            (zip oids (zip reqs (fst (verdicts rk_check_risk reqs (te_risk_manager te, te_portfolio te))))))"
  using ib_orders_gw.placed_are_accepted [OF assms, of rk_check_risk td
      "(te_risk_manager te, te_portfolio te)" "te_gateway te"]
  by (auto simp: te_send_orders_guarded te_parts_def te_put_def)

text \<open>
  While the total profit and loss is below its limit no request of any strategy reaches the
  gateway: every one is answered \<open>- 1\<close>.
\<close>

theorem stopped_out:
  assumes "pf_get_total_pnl (te_portfolio te) < rk_total_pnl_lmt (te_risk_manager te)"
  shows "te_send_orders td reqs te = Ret (replicate (length reqs) (- 1)) te"
proof -
  have "te_send_order td req te = Ret (- 1, []) te" for req
    using assms by (simp add: te_send_order_def rk_check_risk_def Let_def)
  then show ?thesis by (induction reqs) simp_all
qed

section \<open>Witnesses\<close>

definition demo_te :: "double \<Rightarrow> trading_engine" where
  "demo_te tot = \<lparr>te_risk_manager = demo_rk, te_portfolio = pf_init\<lparr>pf_total_pnl := tot\<rparr>,
     te_gateway = ib_nextValidId 1 ib_init, te_mktd_mgr = md_init\<rparr>"

theorem only_checked_orders_placed_witness:
  "\<exists>oids te'. te_send_orders (\<lambda>_. 0) [demo_req, demo_req] (demo_te 0) = Ret oids te'
    \<and> length (placed_orders (te_gateway te')) = 2"
proof -
  have wf: "\<forall>req \<in> set [demo_req, demo_req]. symbol_wf (r_symbol req)"
    by (simp add: demo_req_def symbol_wf_def)
  have v: "fst (verdicts rk_check_risk [demo_req, demo_req] (te_risk_manager (demo_te 0), te_portfolio (demo_te 0)))
      = [True, True]"
    by (simp add: demo_te_def rk_check_risk_def demo_req_def demo_rk_def rk_init_def pf_init_def
        rk_check_flow_def pf_get_total_pnl_def pf_get_algo_pnl_def um_get_def um_touch_def um_contains_def
        Let_def less_double_def zero_double_def um_put_def)
  obtain oids te' where 1: "te_send_orders (\<lambda>_. 0) [demo_req, demo_req] (demo_te 0) = Ret oids te'"
    and 2: "length oids = 2" and 3: "placed_orders (te_gateway te') = placed_orders (te_gateway (demo_te 0)) @
        map (\<lambda>(oid, req, ok). (oid, tws_order (\<lambda>_. 0) req))
          (filter (\<lambda>(oid, req, ok). ok) (zip oids (zip [demo_req, demo_req] [True, True])))"
    using only_checked_orders_placed [OF wf, of "\<lambda>_. 0" "demo_te 0"] unfolding v by auto
  from 2 obtain a b where "oids = [a, b]" by (auto simp: numeral_2_eq_2 length_Suc_conv)
  with 1 3 show ?thesis
    by (simp add: demo_te_def placed_orders_def ib_nextValidId_def ib_init_def)
qed

theorem stopped_out_witness:
  "te_send_orders (\<lambda>_. 0) [demo_req, demo_req] (demo_te (Fin (- 6000))) = Ret [- 1, - 1] (demo_te (Fin (- 6000)))"
proof -
  have "pf_get_total_pnl (te_portfolio (demo_te (Fin (- 6000)))) < rk_total_pnl_lmt (te_risk_manager (demo_te (Fin (- 6000))))"
    by (simp add: demo_te_def demo_rk_def rk_init_def pf_get_total_pnl_def less_double_def)
  from stopped_out [OF this, of "\<lambda>_. 0" "[demo_req, demo_req]"] show ?thesis
    by (simp add: numeral_2_eq_2)
qed

end
