(* ===== verification/Redis.thy ===== *)
theory Redis
  imports Bytes Contracts
begin

text \<open>
  The Redis client of \<open>lib/database/redis_client.h\<close> and \<open>redis_client.cpp\<close>. The functions of the
  hiredis library are the boundary: what each call gives back (a context, a reply, an error) is an
  argument of the operation that makes it. A reply is the list of its elements, each a string of
  bytes. The field \<open>rc_outstanding\<close> counts the replies the library has handed out and not got back.
\<close>

section \<open>State\<close>

record redis_context =
  ctx_err :: bool
  ctx_errstr :: string

type_synonym redis_reply = "string list"

record redis_client =
  rc_host :: string
  rc_port :: int
  rc_reply :: "redis_reply option"
  rc_context :: "redis_context option"
  rc_published :: "(string \<times> string) list"
  rc_outstanding :: nat

definition rc_init :: "string \<Rightarrow> int \<Rightarrow> redis_client" where
  "rc_init host port = \<lparr>rc_host = host, rc_port = port, rc_reply = None, rc_context = None,
     rc_published = [], rc_outstanding = 0\<rparr>"

section \<open>Operations\<close>

definition rc_connect :: "redis_context option \<Rightarrow> redis_client \<Rightarrow> (unit, redis_client) outcome" where
  "rc_connect res rc =
     (let rc1 = rc\<lparr>rc_context := res\<rparr> in
      case res of
        None \<Rightarrow> Throw (Runtime_error ''Can't allocate redis context'') rc1
      | Some context \<Rightarrow>
          if ctx_err context then Throw (Runtime_error (''Error: '' @ ctx_errstr context)) rc1
          else Ret () rc1)"

definition rc_free_context :: "redis_client \<Rightarrow> redis_client" where
  "rc_free_context rc = rc\<lparr>rc_context := None\<rparr>"

definition rc_free_reply :: "redis_client \<Rightarrow> redis_client" where
  "rc_free_reply rc = rc\<lparr>rc_reply := None,
     rc_outstanding := rc_outstanding rc - (if rc_reply rc = None then 0 else 1)\<rparr>"

definition rc_disconnect :: "redis_client \<Rightarrow> redis_client" where
  "rc_disconnect rc = (if rc_context rc \<noteq> None then rc_free_context rc else rc)"

text \<open>The destructor.\<close>

definition rc_destroy :: "redis_client \<Rightarrow> redis_client" where
  "rc_destroy rc =
     (let rc1 = (if rc_reply rc \<noteq> None then rc_free_reply rc else rc)
      in if rc_context rc1 \<noteq> None then rc_free_context rc1 else rc1)"

text \<open>The assignment of a reply the library hands out; the old pointer is overwritten.\<close>

definition rc_take_reply :: "redis_reply option \<times> redis_context \<Rightarrow> redis_client \<Rightarrow> redis_client" where
  "rc_take_reply res rc = rc\<lparr>rc_reply := fst res, rc_context := Some (snd res),
     rc_outstanding := rc_outstanding rc + (if fst res = None then 0 else 1)\<rparr>"

definition rc_check_status :: "redis_client \<Rightarrow> (unit, redis_client) outcome" where
  "rc_check_status rc =
     (case rc_reply rc of
        Some _ \<Rightarrow> Ret () rc
      | None \<Rightarrow>
          (case rc_context rc of
             None \<Rightarrow> Crash Null_deref
           | Some context \<Rightarrow> Throw (Runtime_error (''error occurred '' @ ctx_errstr context)) rc))"

text \<open>A command on a null context is undefined.\<close>

definition rc_publish :: "redis_reply option \<times> redis_context \<Rightarrow> string \<Rightarrow> string \<Rightarrow> redis_client
    \<Rightarrow> (unit, redis_client) outcome" where
  "rc_publish res channel data rc =
     (if rc_context rc = None then Crash Null_deref
      else rc_check_status
        (rc_take_reply res (rc\<lparr>rc_published := rc_published rc @ [(c_string channel, data)]\<rparr>)))"

definition is_sentinel :: "string \<Rightarrow> string \<Rightarrow> bool" where
  "is_sentinel sentinel msg =
     (if length msg \<noteq> length sentinel + 1 then False
      else list_all (\<lambda>i. sentinel ! i = msg ! i) [0 ..< length sentinel])"

text \<open>
  The loop of \<open>subscribe\<close> over the replies that arrive: it ends at the sentinel, with an exception,
  or is left waiting for the next reply.
\<close>

datatype get_reply = GR_ok redis_reply | GR_error redis_context

datatype sub_end = Sub_done | Sub_waiting

fun rc_sub_loop :: "string \<Rightarrow> (string \<Rightarrow> 's \<Rightarrow> (unit, 's) outcome) \<Rightarrow> get_reply list \<Rightarrow> redis_client \<times> 's
    \<Rightarrow> (sub_end, redis_client \<times> 's) outcome" where
  "rc_sub_loop sentinel callback [] (rc, s) = Ret Sub_waiting (rc, s)"
| "rc_sub_loop sentinel callback (GR_error context # rs) (rc, s) =
     Throw (Runtime_error (''error occurred subscribe '' @ ctx_errstr context))
       (rc\<lparr>rc_context := Some context\<rparr>, s)"
| "rc_sub_loop sentinel callback (GR_ok r # rs) (rc, s) =
     (let rc1 = rc\<lparr>rc_reply := Some r, rc_outstanding := rc_outstanding rc + 1\<rparr> in
      with_cast (vec_at r 2) (\<lambda>msg.
        if is_sentinel sentinel msg then Ret Sub_done (rc1, s)
        else (case callback msg s of
                Ret _ s' \<Rightarrow> rc_sub_loop sentinel callback rs (rc_free_reply rc1, s')
              | Throw e s' \<Rightarrow> Throw e (rc1, s')
              | Crash c \<Rightarrow> Crash c)))"

definition rc_subscribe :: "redis_reply option \<times> redis_context \<Rightarrow> get_reply list \<Rightarrow> string
    \<Rightarrow> (string \<Rightarrow> 's \<Rightarrow> (unit, 's) outcome) \<Rightarrow> redis_client \<times> 's
    \<Rightarrow> (sub_end, redis_client \<times> 's) outcome" where
  "rc_subscribe res replies sentinel callback st =
     (case st of (rc, s) \<Rightarrow>
        if rc_context rc = None then Crash Null_deref
        else (case rc_check_status (rc_take_reply res rc) of
                Ret _ rc1 \<Rightarrow> rc_sub_loop sentinel callback replies (rc_free_reply rc1, s)
              | Throw e rc1 \<Rightarrow> Throw e (rc1, s)
              | Crash c \<Rightarrow> Crash c))"

text \<open>The default of the last parameter.\<close>

definition default_sentinel :: string where
  "default_sentinel = ''sentinel''"

section \<open>Delivery\<close>

text \<open>The test looks at every byte but the last: the terminator may be any byte, and must be there.\<close>

lemma is_sentinel_iff: "is_sentinel sentinel msg \<longleftrightarrow> (\<exists>c. msg = sentinel @ [c])"
proof
  assume s: "is_sentinel sentinel msg"
  then have len: "length msg = length sentinel + 1"
    and "\<forall>i < length sentinel. sentinel ! i = msg ! i"
    by (auto simp: is_sentinel_def list_all_iff split: if_splits)
  then have "take (length sentinel) msg = sentinel" by (auto intro: nth_equalityI)
  then have "msg = sentinel @ drop (length sentinel) msg" by (metis append_take_drop_id)
  moreover have "length (drop (length sentinel) msg) = 1" using len by simp
  ultimately show "\<exists>c. msg = sentinel @ [c]" by (metis One_nat_def length_0_conv length_Suc_conv)
next
  assume "\<exists>c. msg = sentinel @ [c]"
  then show "is_sentinel sentinel msg" by (auto simp: is_sentinel_def list_all_iff nth_append)
qed

text \<open>Messages on a channel: the third element of each reply.\<close>

definition message_reply :: "string \<Rightarrow> string \<Rightarrow> get_reply" where
  "message_reply channel msg = GR_ok [''message'', channel, msg]"

lemma sub_loop_messages:
  "\<exists>rc'. rc_sub_loop sentinel (\<lambda>msg s. Ret () (f msg s)) (map (message_reply channel) msgs) (rc, s) =
    Ret (if \<exists>msg \<in> set msgs. is_sentinel sentinel msg then Sub_done else Sub_waiting)
      (rc', fold f (takeWhile (\<lambda>msg. \<not> is_sentinel sentinel msg) msgs) s)
    \<and> rc_context rc' = rc_context rc \<and> rc_outstanding rc' \<le> rc_outstanding rc + 1"
proof (induction msgs arbitrary: rc s)
  case Nil
  then show ?case by simp
next
  case (Cons msg msgs)
  let ?rc = "rc_free_reply (rc\<lparr>rc_reply := Some [''message'', channel, msg], rc_outstanding := rc_outstanding rc + 1\<rparr>)"
  have "rc_outstanding ?rc = rc_outstanding rc" "rc_context ?rc = rc_context rc"
    by (simp_all add: rc_free_reply_def)
  then show ?case
    using Cons.IH [of ?rc "f msg s"] by (auto simp: message_reply_def vec_at_def Let_def)
qed

text \<open>
  The subscriber hands every message before the first sentinel to the callback, in order, and no
  other; it returns when the sentinel arrives and waits for more otherwise. It keeps no reply but
  the last.
\<close>

theorem subscribe_delivers:
  assumes "rc_context rc \<noteq> None" and "rc_reply rc = None"
  shows "\<exists>rc'. rc_subscribe (Some r, context) (map (message_reply channel) msgs) sentinel
      (\<lambda>msg s. Ret () (f msg s)) (rc, s) =
    Ret (if \<exists>msg \<in> set msgs. \<exists>c. msg = sentinel @ [c] then Sub_done else Sub_waiting)
      (rc', fold f (takeWhile (\<lambda>msg. \<nexists>c. msg = sentinel @ [c]) msgs) s)
    \<and> rc_outstanding rc' \<le> rc_outstanding rc + 1"
  using sub_loop_messages [of sentinel f channel msgs "rc_free_reply (rc_take_reply (Some r, context) rc)" s] assms
  by (auto simp: rc_subscribe_def rc_check_status_def rc_take_reply_def rc_free_reply_def is_sentinel_iff) blast

section \<open>Publishing\<close>

fun rc_publishes :: "(redis_reply option \<times> redis_context) list \<Rightarrow> string \<Rightarrow> string list \<Rightarrow> redis_client
    \<Rightarrow> (unit, redis_client) outcome" where
  "rc_publishes (res # ress) channel (data # datas) rc =
     bind_o (rc_publish res channel data rc) (\<lambda>_. rc_publishes ress channel datas)"
| "rc_publishes _ _ _ rc = Ret () rc"

text \<open>
  \<open>publish\<close> sends its bytes on the channel, in order, and never gives a reply back: after \<open>n\<close>
  messages \<open>n\<close> replies are outstanding, of which the client knows the last one only, so all but
  one stay allocated when it is destroyed.
\<close>

theorem publish_keeps_replies:
  assumes "rc_context rc \<noteq> None" and "length ress = length datas"
    and "\<forall>res \<in> set ress. fst res \<noteq> None"
  shows "\<exists>rc'. rc_publishes ress channel datas rc = Ret () rc'
    \<and> rc_published rc' = rc_published rc @ map (Pair (c_string channel)) datas
    \<and> rc_outstanding rc' = rc_outstanding rc + length datas
    \<and> rc_outstanding rc + length datas - 1 \<le> rc_outstanding (rc_destroy rc')"
proof -
  have "\<exists>rc'. rc_publishes ress channel datas rc = Ret () rc'
    \<and> rc_published rc' = rc_published rc @ map (Pair (c_string channel)) datas
    \<and> rc_outstanding rc' = rc_outstanding rc + length datas"
    using assms(2,1,3)
  proof (induction ress datas arbitrary: rc rule: list_induct2)
    case Nil
    then show ?case by simp
  next
    case (Cons res ress data datas)
    let ?rc = "rc_take_reply res (rc\<lparr>rc_published := rc_published rc @ [(c_string channel, data)]\<rparr>)"
    have "rc_publish res channel data rc = Ret () ?rc"
      using Cons.prems by (auto simp: rc_publish_def rc_check_status_def rc_take_reply_def split: option.splits)
    moreover have "rc_context ?rc \<noteq> None" by (simp add: rc_take_reply_def)
    ultimately show ?case
      using Cons.IH [of ?rc] Cons.prems(2) by (auto simp: rc_take_reply_def)
  qed
  then show ?thesis
    by (auto simp: rc_destroy_def rc_free_reply_def rc_free_context_def Let_def)
qed

definition demo_context :: redis_context where
  "demo_context = \<lparr>ctx_err = False, ctx_errstr = []\<rparr>"

theorem subscribe_delivers_witness:
  "\<exists>rc'. rc_subscribe (Some [], demo_context) (map (message_reply ''pos'') [''a'', ''sentinel!'', ''b'']) default_sentinel
      (\<lambda>msg s. Ret () (s @ [msg])) ((rc_init ''localhost'' 6379)\<lparr>rc_context := Some demo_context\<rparr>, []) =
    Ret Sub_done (rc', [''a''])"
  using subscribe_delivers [of "(rc_init ''localhost'' 6379)\<lparr>rc_context := Some demo_context\<rparr>" "[]" demo_context
      "''pos''" "[''a'', ''sentinel!'', ''b'']" default_sentinel "\<lambda>msg s. s @ [msg]" "[]"]
  by (auto simp: rc_init_def default_sentinel_def)

theorem publish_keeps_replies_witness:
  "\<exists>rc'. rc_publishes [(Some [], demo_context), (Some [], demo_context)] ''tick'' [''a'', ''b'']
      ((rc_init ''localhost'' 6379)\<lparr>rc_context := Some demo_context\<rparr>) = Ret () rc'
    \<and> rc_outstanding rc' = 2"
  using publish_keeps_replies [of "(rc_init ''localhost'' 6379)\<lparr>rc_context := Some demo_context\<rparr>"
      "[(Some [], demo_context), (Some [], demo_context)]" "[''a'', ''b'']" "''tick''"]
  by (auto simp: rc_init_def)

end
