(* ===== verification/AlgoEngine.thy ===== *)
theory AlgoEngine
  imports TradingEngine Redis
begin

text \<open>
  The algorithm engine of \<open>lib/algo/algo_engine.h\<close> and \<open>algo_engine.cpp\<close>: it follows a target
  position it receives through Redis, with at most one market order in flight, and sends ticks out.
  The event engine's thread and the Redis thread only push events onto its queue; its own thread
  takes them off. What the Redis library answers to a publish, and the conversion of quantities to
  TWS decimals, are arguments.
\<close>

section \<open>State\<close>

record algo_engine =
  ae_running :: bool
  ae_q :: "event lbqueue"
  ae_mkt_data_symbol :: string
  ae_order_symbol :: string
  ae_redis_host :: string
  ae_redis_port :: int
  ae_tick_channel :: string
  ae_action_channel :: string
  ae_sentinel_token :: string
  ae_pub_redis :: redis_client
  ae_target_pos :: double
  ae_curr_pos :: double
  ae_order_status :: "order_id \<rightharpoonup> order_status"
  ae_order_data :: "order_id \<rightharpoonup> order_data option"
  ae_order_reqs :: "order_id \<rightharpoonup> order_req"
  ae_inflight_order_id :: order_id
  ae_order_cancelled :: bool
  ae_order_target :: double
  ae_order_filled :: double

definition ae_name :: string where
  "ae_name = ''algo_engine''"

text \<open>The values of the configuration file.\<close>

record algo_cfg =
  ac_market_data_symbol :: string
  ac_order_symbol :: string
  ac_redis_host :: string
  ac_redis_port :: int
  ac_tick_channel :: string
  ac_action_channel :: string
  ac_sentinel_token :: string

text \<open>The constructor, which also enters the algorithm's contract in the portfolio.\<close>

definition ae_create :: "algo_cfg \<Rightarrow> portfolio \<Rightarrow> algo_engine \<times> portfolio" where
  "ae_create cfg pf =
     (\<lparr>ae_running = False, ae_q = lbq_empty,
       ae_mkt_data_symbol = ac_market_data_symbol cfg, ae_order_symbol = ac_order_symbol cfg,
       ae_redis_host = ac_redis_host cfg, ae_redis_port = ac_redis_port cfg,
       ae_tick_channel = ac_tick_channel cfg, ae_action_channel = ac_action_channel cfg,
       ae_sentinel_token = ac_sentinel_token cfg,
       ae_pub_redis = rc_init (ac_redis_host cfg) (ac_redis_port cfg),
       ae_target_pos = 0, ae_curr_pos = 0, ae_order_status = Map.empty, ae_order_data = Map.empty,
       ae_order_reqs = Map.empty, ae_inflight_order_id = - 1, ae_order_cancelled = False,
       ae_order_target = 0, ae_order_filled = 0\<rparr>,
      pf_add_to_portfolio ae_name (ac_order_symbol cfg)
        (pf_add_market_data_mapping ae_name (ac_order_symbol cfg) (ac_market_data_symbol cfg) pf))"

section \<open>Start and stop\<close>

definition ae_start :: "redis_context option \<Rightarrow> algo_engine \<times> trading_engine
    \<Rightarrow> (event list, algo_engine \<times> trading_engine) outcome" where
  "ae_start conn s =
     (case s of (ae, te) \<Rightarrow>
        let ae1 = ae\<lparr>ae_running := True\<rparr> in
        case rc_connect conn (ae_pub_redis ae1) of
          Throw e rc \<Rightarrow> Throw e (ae1\<lparr>ae_pub_redis := rc\<rparr>, te)
        | Crash c \<Rightarrow> Crash c
        | Ret _ rc \<Rightarrow>
            let ae2 = ae1\<lparr>ae_pub_redis := rc\<rparr> in
            case te_subscribe (ae_mkt_data_symbol ae2) False te of
              Ret evs te' \<Rightarrow> Ret evs (ae2, te')
            | Throw e te' \<Rightarrow> Throw e (ae2, te')
            | Crash c \<Rightarrow> Crash c)"

text \<open>
  \<open>stop\<close>, given whether the Redis thread has ended its subscription and whether the action thread
  has left its loop; \<open>None\<close> is a join that does not return.
\<close>

definition ae_stop :: "sub_end \<Rightarrow> bool \<Rightarrow> algo_engine \<Rightarrow> algo_engine option" where
  "ae_stop listen action_ended ae =
     (if \<not> ae_running ae then Some ae
      else if listen = Sub_waiting \<or> \<not> action_ended then None
      else Some (ae\<lparr>ae_pub_redis := rc_disconnect (ae_pub_redis ae)\<rparr>))"

section \<open>Callbacks on other threads\<close>

definition ae_push :: "event \<Rightarrow> algo_engine \<Rightarrow> algo_engine" where
  "ae_push ev ae = ae\<lparr>ae_q := wait_push ev (ae_q ae)\<rparr>"

definition ae_event_engine_timer_cb :: "event \<Rightarrow> algo_engine \<Rightarrow> (unit, algo_engine) outcome" where
  "ae_event_engine_timer_cb ev ae =
     (if \<not> ae_running ae then Ret () ae
      else with_cast (cast_timer (e_data ev)) (\<lambda>tm.
        if tm_sec tm = 0 \<or> tm_sec tm = 30 then Ret () (ae_push ev ae) else Ret () ae))"

definition ae_event_engine_order_cb :: "event \<Rightarrow> algo_engine \<Rightarrow> (unit, algo_engine) outcome" where
  "ae_event_engine_order_cb ev ae =
     (if \<not> ae_running ae then Ret () ae else Ret () (ae_push ev ae))"

definition ae_event_engine_tick_cb :: "event \<Rightarrow> algo_engine \<Rightarrow> (unit, algo_engine) outcome" where
  "ae_event_engine_tick_cb ev ae =
     (if \<not> ae_running ae then Ret () ae
      else with_cast (cast_tick (e_data ev)) (\<lambda>data.
        if t_symbol data = ae_mkt_data_symbol ae then Ret () (ae_push ev ae) else Ret () ae))"

text \<open>
  A message is read through a \<open>PosMsg\<close> pointer; the length is not looked at. The buffer of the
  library ends with a NUL byte behind the data; past it the read is undefined.
\<close>

definition ae_mq_message_cb :: "string \<Rightarrow> algo_engine \<Rightarrow> (unit, algo_engine) outcome" where
  "ae_mq_message_cb data ae =
     (let buf = data @ [NUL] in
      if length buf < 48 then Crash Index_out_of_bounds
      else Ret () (ae_push (mk_event ET_algo_pos_update
             (P_pos \<lparr>pu_symbol = c_string buf, pu_pos = msg_double buf,
                     pu_timestamp = msg_timestamp buf, pu_retry = False\<rparr>)) ae))"

text \<open>The Redis thread: a client of its own, and the default sentinel.\<close>

definition ae_run_redis_sub :: "redis_context option \<Rightarrow> redis_reply option \<times> redis_context \<Rightarrow> get_reply list
    \<Rightarrow> algo_engine \<Rightarrow> (sub_end, redis_client \<times> algo_engine) outcome" where
  "ae_run_redis_sub conn res replies ae =
     (case rc_connect conn (rc_init (ae_redis_host ae) (ae_redis_port ae)) of
        Ret _ rc \<Rightarrow> rc_subscribe res replies default_sentinel ae_mq_message_cb (rc, ae)
      | Throw e rc \<Rightarrow> Throw e (rc, ae)
      | Crash c \<Rightarrow> Crash c)"

section \<open>Handlers of the action thread\<close>

definition ae_timer_cb :: "redis_reply option \<times> redis_context \<Rightarrow> event \<Rightarrow> algo_engine \<times> trading_engine
    \<Rightarrow> (event list, algo_engine \<times> trading_engine) outcome" where
  "ae_timer_cb res ev s =
     (case s of (ae, te) \<Rightarrow>
        case te_get_last_tick (ae_mkt_data_symbol ae) te of
          None \<Rightarrow> Crash Null_deref
        | Some tick \<Rightarrow>
            let data_bytes = msg_bytes (strncpy 32 (t_symbol tick)) (t_last_price tick) (t_timestamp tick)
            in case rc_publish res (ae_tick_channel ae) data_bytes (ae_pub_redis ae) of
                 Ret _ rc \<Rightarrow> Ret [] (ae\<lparr>ae_pub_redis := rc\<rparr>, te)
               | Throw e rc \<Rightarrow> Throw e (ae\<lparr>ae_pub_redis := rc\<rparr>, te)
               | Crash c \<Rightarrow> Crash c)"

definition ae_req :: "string \<Rightarrow> double \<Rightarrow> order_req" where
  "ae_req symb quantity =
     \<lparr>r_symbol = symb, r_exchange = [], r_source = ae_name,
      r_action = (if quantity < 0 then A_sell else A_buy), r_order_type = OT_market,
      r_quantity = \<bar>quantity\<bar>, r_price = UnsetDouble, r_order_id = UnsetLong\<rparr>"

text \<open>The parameter \<open>order_type\<close> is not used: every order is a market order.\<close>

definition ae_send_order :: "(double \<Rightarrow> decimal) \<Rightarrow> string \<Rightarrow> double \<Rightarrow> order_type \<Rightarrow> algo_engine \<times> trading_engine
    \<Rightarrow> (event list, algo_engine \<times> trading_engine) outcome" where
  "ae_send_order td symb quantity order_type s =
     (case s of (ae, te) \<Rightarrow>
        let order_req = ae_req symb quantity in
        case te_send_order td order_req te of
          Throw e te' \<Rightarrow> Throw e (ae, te')
        | Crash c \<Rightarrow> Crash c
        | Ret (oid, evs) te' \<Rightarrow>
            if oid > 0 then
              Ret evs (ae\<lparr>ae_inflight_order_id := oid,
                 ae_order_status := (ae_order_status ae)(oid \<mapsto> OS_pending_submit),
                 ae_order_data := (ae_order_data ae)(oid \<mapsto> None),
                 ae_order_reqs := (ae_order_reqs ae)(oid \<mapsto> order_req),
                 ae_order_target := quantity, ae_order_filled := 0\<rparr>, te')
            else Ret evs (ae, te'))"

definition ae_update_pos_cb :: "(double \<Rightarrow> decimal) \<Rightarrow> event \<Rightarrow> algo_engine \<times> trading_engine
    \<Rightarrow> (event list, algo_engine \<times> trading_engine) outcome" where
  "ae_update_pos_cb td ev s =
     (case s of (ae, te) \<Rightarrow>
        with_cast (cast_pos (e_data ev)) (\<lambda>pos.
          let later = (\<lambda>ae te. Ret [] (ae_push (ev\<lparr>e_data := P_pos (pos\<lparr>pu_retry := True\<rparr>)\<rparr>) ae, te)) in
          if ae_inflight_order_id ae > 0 then
            (if \<not> ae_order_cancelled ae then
               (case ae_order_reqs ae (ae_inflight_order_id ae) of
                  None \<Rightarrow> Throw Out_of_range (ae, te)
                | Some _ \<Rightarrow>
                    later (ae\<lparr>ae_order_cancelled := True\<rparr>) (te_cancel_order (ae_inflight_order_id ae) te))
             else if \<not> pu_retry pos then
               Throw (Runtime_error ''in AlgoEngine::update_pos_cb - order filling latency is too high'') (ae, te)
             else later ae te)
          else
            let ae1 = ae\<lparr>ae_target_pos := pu_pos pos\<rparr>;
                diff = ae_target_pos ae1 - ae_curr_pos ae1
            in if diff \<ge> 1 \<or> diff \<le> - 1
               then ae_send_order td (ae_order_symbol ae1) diff OT_market (ae1, te)
               else Ret [] (ae1, te)))"

definition ae_order_cb :: "event \<Rightarrow> algo_engine \<Rightarrow> (unit, algo_engine) outcome" where
  "ae_order_cb ev ae =
     with_cast (cast_order (e_data ev)) (\<lambda>order_d.
       let order_id = d_order_id order_d in
       if ae_order_status ae order_id = None then Ret () ae
       else
         let status = d_status order_d;
             traded = d_traded_quantity order_d;
             error_code = d_error_code order_d;
             active = (is_active_order status \<and> error_code = 0);
             is_buy = (d_action order_d = A_buy);
             diff = traded - ae_order_filled ae;
             ae1 = (if is_buy then ae\<lparr>ae_curr_pos := ae_curr_pos ae + diff\<rparr>
                    else ae\<lparr>ae_curr_pos := ae_curr_pos ae - diff\<rparr>);
             ae2 = ae1\<lparr>ae_order_filled := traded,
                       ae_order_status := (ae_order_status ae1)(order_id \<mapsto> status),
                       ae_order_data := (ae_order_data ae1)(order_id \<mapsto> Some order_d)\<rparr>
         in if \<not> active then Ret () (ae2\<lparr>ae_inflight_order_id := - 1, ae_order_cancelled := False\<rparr>)
            else Ret () ae2)"

text \<open>A request made by \<open>operator[]\<close>.\<close>

definition default_req :: order_req where
  "default_req = \<lparr>r_symbol = [], r_exchange = [], r_source = [], r_action = A_buy,
     r_order_type = OT_limit, r_quantity = 0, r_price = UnsetDouble, r_order_id = UnsetLong\<rparr>"

definition ae_tick_cb :: "event \<Rightarrow> algo_engine \<Rightarrow> algo_engine" where
  "ae_tick_cb ev ae =
     (if ae_inflight_order_id ae < 0 then ae
      else case ae_order_reqs ae (ae_inflight_order_id ae) of
             Some _ \<Rightarrow> ae
           | None \<Rightarrow> ae\<lparr>ae_order_reqs := (ae_order_reqs ae)(ae_inflight_order_id ae \<mapsto> default_req)\<rparr>)"

section \<open>The action thread\<close>

definition ae_handle :: "(double \<Rightarrow> decimal) \<Rightarrow> redis_reply option \<times> redis_context \<Rightarrow> event
    \<Rightarrow> algo_engine \<times> trading_engine \<Rightarrow> (event list, algo_engine \<times> trading_engine) outcome" where
  "ae_handle td res ev s =
     (case e_type ev of
        ET_tick_data \<Rightarrow> Ret [] (ae_tick_cb ev (fst s), snd s)
      | ET_timer \<Rightarrow> ae_timer_cb res ev s
      | ET_algo_pos_update \<Rightarrow> ae_update_pos_cb td ev s
      | ET_order_data \<Rightarrow>
          (case ae_order_cb ev (fst s) of
             Ret _ ae \<Rightarrow> Ret [] (ae, snd s)
           | Throw e ae \<Rightarrow> Throw e (ae, snd s)
           | Crash c \<Rightarrow> Crash c)
      | _ \<Rightarrow> Ret [] s)"

text \<open>One round of \<open>run_actions\<close>. An exception that leaves the thread's function ends the process.\<close>

definition ae_round :: "(double \<Rightarrow> decimal) \<Rightarrow> redis_reply option \<times> redis_context
    \<Rightarrow> algo_engine \<times> trading_engine \<Rightarrow> (event list, algo_engine \<times> trading_engine) outcome" where
  "ae_round td res s =
     (case s of (ae, te) \<Rightarrow>
        case try_pop (mk_event ET_event_engine_stop No_data) (ae_q ae) of
          (False, _, _) \<Rightarrow> Ret [] (ae, te)
        | (True, ev, q') \<Rightarrow>
            (case ae_handle td res ev (ae\<lparr>ae_q := q'\<rparr>, te) of
               Throw e _ \<Rightarrow> Crash Terminate
             | r \<Rightarrow> r))"

section \<open>The invariant\<close>

text \<open>
  An order in flight has an id above zero, and its request and its status are known; a cancelled
  order is one in flight.
\<close>

definition ae_inv :: "algo_engine \<Rightarrow> bool" where
  "ae_inv ae \<longleftrightarrow>
     (ae_inflight_order_id ae = - 1
      \<or> ae_inflight_order_id ae > 0 \<and> ae_order_reqs ae (ae_inflight_order_id ae) \<noteq> None
        \<and> ae_order_status ae (ae_inflight_order_id ae) \<noteq> None)
     \<and> (ae_order_cancelled ae \<longrightarrow> ae_inflight_order_id ae > 0)"

definition ae_queue_ok :: "algo_engine \<Rightarrow> bool" where
  "ae_queue_ok ae \<longleftrightarrow> list_all event_ok (lbq_items (ae_q ae))"

datatype ae_op =
    AE_start "redis_context option"
  | AE_event_engine_timer event
  | AE_event_engine_order event
  | AE_event_engine_tick event
  | AE_mq_message string
  | AE_round "redis_reply option \<times> redis_context"
  | AE_other trading_engine

definition with_te :: "trading_engine \<Rightarrow> (unit, algo_engine) outcome
    \<Rightarrow> (event list, algo_engine \<times> trading_engine) outcome" where
  "with_te te r = (case r of Ret _ ae \<Rightarrow> Ret [] (ae, te) | Throw e ae \<Rightarrow> Throw e (ae, te) | Crash c \<Rightarrow> Crash c)"

text \<open>One step of any of the threads; \<open>AE_other\<close> is what the rest of the program does to the trading engine.\<close>

fun ae_exec :: "(double \<Rightarrow> decimal) \<Rightarrow> ae_op \<Rightarrow> algo_engine \<times> trading_engine
    \<Rightarrow> (event list, algo_engine \<times> trading_engine) outcome" where
  "ae_exec td (AE_event_engine_timer ev) (ae, te) = with_te te (ae_event_engine_timer_cb ev ae)"
| "ae_exec td (AE_event_engine_order ev) (ae, te) = with_te te (ae_event_engine_order_cb ev ae)"
| "ae_exec td (AE_event_engine_tick ev) (ae, te) = with_te te (ae_event_engine_tick_cb ev ae)"
| "ae_exec td (AE_mq_message data) (ae, te) = with_te te (ae_mq_message_cb data ae)"
| "ae_exec td (AE_round res) (ae, te) = ae_round td res (ae, te)"
| "ae_exec td (AE_start conn) (ae, te) = ae_start conn (ae, te)"
| "ae_exec td (AE_other te') (ae, te) = Ret [] (ae, te')"

fun ae_run :: "(double \<Rightarrow> decimal) \<Rightarrow> ae_op list \<Rightarrow> algo_engine \<times> trading_engine
    \<Rightarrow> (event list, algo_engine \<times> trading_engine) outcome" where
  "ae_run td [] s = Ret [] s"
| "ae_run td (op # ops) s =
     bind_o (ae_exec td op s) (\<lambda>evs s'. bind_o (ae_run td ops s') (\<lambda>evs' s''. Ret (evs @ evs') s''))"

text \<open>The events the event engine's thread passes on are well-typed.\<close>

fun ae_op_ok :: "ae_op \<Rightarrow> bool" where
  "ae_op_ok (AE_event_engine_timer ev) = (event_ok ev \<and> e_type ev = ET_timer)"
| "ae_op_ok (AE_event_engine_order ev) = (event_ok ev \<and> e_type ev = ET_order_data)"
| "ae_op_ok (AE_event_engine_tick ev) = (event_ok ev \<and> e_type ev = ET_tick_data)"
| "ae_op_ok _ = True"

lemma ae_push_simps [simp]:
  "ae_inv (ae_push ev ae) = ae_inv ae"
  "ae_queue_ok (ae_push ev ae) \<longleftrightarrow> ae_queue_ok ae \<and> event_ok ev"
  "ae_running (ae_push ev ae) = ae_running ae"
  "ae_order_symbol (ae_push ev ae) = ae_order_symbol ae"
  "ae_mkt_data_symbol (ae_push ev ae) = ae_mkt_data_symbol ae"
  "ae_pub_redis (ae_push ev ae) = ae_pub_redis ae"
  by (simp_all add: ae_inv_def ae_queue_ok_def ae_push_def)

lemma ae_inv_order_cb [inv_intros]:
  "ae_inv ae \<Longrightarrow> ae_order_cb ev ae = Ret u ae' \<Longrightarrow> ae_inv ae'"
  by (cases "cast_order (e_data ev)") (auto simp: ae_order_cb_def ae_inv_def Let_def split: if_splits)

lemma ae_inv_send_order [inv_intros]:
  "ae_inv ae \<Longrightarrow> \<not> ae_inflight_order_id ae > 0 \<Longrightarrow>
   ae_send_order td symb quantity ot (ae, te) = Ret evs (ae', te') \<Longrightarrow> ae_inv ae'"
  by (auto simp: ae_send_order_def ae_inv_def Let_def split: outcome.splits prod.splits if_splits)

lemma ae_inv_update_pos [inv_intros]:
  "ae_inv ae \<Longrightarrow> ae_update_pos_cb td ev (ae, te) = Ret evs (ae', te') \<Longrightarrow> ae_inv ae'"
proof (cases "cast_pos (e_data ev)")
  case (Inr pos)
  assume inv: "ae_inv ae" and r: "ae_update_pos_cb td ev (ae, te) = Ret evs (ae', te')"
  show ?thesis
  proof (cases "ae_inflight_order_id ae > 0")
    case True
    with inv r Inr show ?thesis
      by (auto simp: ae_update_pos_cb_def Let_def split: if_splits option.splits) (auto simp: ae_inv_def)
  next
    case False
    let ?ae = "ae\<lparr>ae_target_pos := pu_pos pos\<rparr>"
    have "ae_inv ?ae" "\<not> ae_inflight_order_id ?ae > 0" using inv False by (simp_all add: ae_inv_def)
    then show ?thesis
      using r Inr False ae_inv_send_order [of ?ae td "ae_order_symbol ae" "pu_pos pos - ae_curr_pos ae" OT_market te evs ae' te']
      by (auto simp: ae_update_pos_cb_def Let_def split: if_splits)
  qed
qed (simp add: ae_update_pos_cb_def)

lemma ae_inv_pub [simp]: "ae_inv (ae\<lparr>ae_pub_redis := rc\<rparr>) = ae_inv ae"
  and ae_inv_q [simp]: "ae_inv (ae\<lparr>ae_q := q\<rparr>) = ae_inv ae"
  by (simp_all add: ae_inv_def)

lemma ae_tick_cb_id: "ae_inv ae \<Longrightarrow> ae_tick_cb ev ae = ae"
proof (cases "ae_inflight_order_id ae < 0")
  case False
  assume "ae_inv ae"
  with False obtain req where "ae_order_reqs ae (ae_inflight_order_id ae) = Some req"
    unfolding ae_inv_def by force
  then show ?thesis by (simp add: ae_tick_cb_def)
qed (simp add: ae_tick_cb_def)

lemma ae_timer_cb_state:
  "ae_timer_cb res ev (ae, te) = Ret evs (ae', te') \<Longrightarrow> \<exists>rc. ae' = ae\<lparr>ae_pub_redis := rc\<rparr> \<and> te' = te \<and> evs = []"
  by (auto simp: ae_timer_cb_def Let_def split: outcome.splits option.splits)

lemma ae_handle_other:
  "e_type ev \<notin> {ET_timer, ET_order_data, ET_algo_pos_update, ET_tick_data} \<Longrightarrow> ae_handle td res ev s = Ret [] s"
  by (cases "e_type ev") (simp_all add: ae_handle_def)

lemma ae_handle_cases:
  assumes "ae_handle td res ev (ae, te) = Ret evs (ae', te')"
  obtains (timer) rc where "ae' = ae\<lparr>ae_pub_redis := rc\<rparr>" "te' = te" "evs = []"
  | (pos) "e_type ev = ET_algo_pos_update" "ae_update_pos_cb td ev (ae, te) = Ret evs (ae', te')"
  | (order) "e_type ev = ET_order_data" "ae_order_cb ev ae = Ret () ae'" "te' = te" "evs = []"
  | (tick) "ae' = ae_tick_cb ev ae" "te' = te" "evs = []"
  | (other) "ae' = ae" "te' = te" "evs = []"
proof -
  consider "e_type ev = ET_timer" | "e_type ev = ET_order_data" | "e_type ev = ET_algo_pos_update"
    | "e_type ev = ET_tick_data" | "e_type ev \<notin> {ET_timer, ET_order_data, ET_algo_pos_update, ET_tick_data}"
    by blast
  then show ?thesis
  proof cases
    case 1
    then have "ae_timer_cb res ev (ae, te) = Ret evs (ae', te')" using assms by (simp add: ae_handle_def)
    from ae_timer_cb_state [OF this] show ?thesis using timer by blast
  next
    case 2
    then show ?thesis
      using assms by (cases "ae_order_cb ev ae") (auto simp: ae_handle_def intro: order)
  next
    case 3
    then have "ae_update_pos_cb td ev (ae, te) = Ret evs (ae', te')" using assms by (simp add: ae_handle_def)
    then show ?thesis by (rule pos [OF 3])
  next
    case 4
    then show ?thesis using assms by (intro tick) (simp_all add: ae_handle_def)
  next
    case 5
    from assms show ?thesis unfolding ae_handle_other [OF 5] by (intro other) simp_all
  qed
qed

lemma ae_inv_handle [inv_intros]:
  "ae_inv ae \<Longrightarrow> ae_handle td res ev (ae, te) = Ret evs (ae', te') \<Longrightarrow> ae_inv ae'"
  by (erule ae_handle_cases) (auto simp: ae_tick_cb_id dest: ae_inv_update_pos ae_inv_order_cb)

section \<open>Safety of the action thread\<close>

lemma te_send_order_cases:
  assumes "symbol_wf (r_symbol req)"
  obtains (rejected) te' where "te_send_order td req te = Ret (- 1, []) te'"
      "te_gateway te' = te_gateway te" "te_mktd_mgr te' = te_mktd_mgr te"
  | (sent) evs te' where "te_send_order td req te = Ret (sent_id req (te_gateway te), evs) te'"
      "te_gateway te' = order_sent td req (te_gateway te)" "te_mktd_mgr te' = te_mktd_mgr te"
proof -
  obtain ok rk pf where "rk_check_risk req (te_risk_manager te, te_portfolio te) = (ok, rk, pf)"
    by (cases "rk_check_risk req (te_risk_manager te, te_portfolio te)")
  with assms that show ?thesis
    by (cases ok) (simp_all add: te_send_order_def ib_send_order_eq Let_def)
qed

lemma ae_send_order_returns:
  assumes "symbol_wf symb"
  shows "\<exists>evs ae' te'. ae_send_order td symb quantity ot (ae, te) = Ret evs (ae', te')"
proof -
  have wf: "symbol_wf (r_symbol (ae_req symb quantity))" using assms by (simp add: ae_req_def)
  show ?thesis
    by (cases rule: te_send_order_cases [OF wf, of td te]) (simp_all add: ae_send_order_def Let_def)
qed

text \<open>What the handlers need of the world around them.\<close>

definition ae_ready :: "redis_reply option \<times> redis_context \<Rightarrow> algo_engine \<times> trading_engine \<Rightarrow> bool" where
  "ae_ready res s \<longleftrightarrow>
     (case s of (ae, te) \<Rightarrow> symbol_wf (ae_order_symbol ae)
        \<and> te_get_last_tick (ae_mkt_data_symbol ae) te \<noteq> None
        \<and> rc_context (ae_pub_redis ae) \<noteq> None \<and> fst res \<noteq> None)"

text \<open>A new position request that finds the order of an older one cancelled and still in flight.\<close>

definition latency_exceeded :: "event \<Rightarrow> algo_engine \<Rightarrow> bool" where
  "latency_exceeded ev ae \<longleftrightarrow> e_type ev = ET_algo_pos_update \<and> ae_inflight_order_id ae > 0
     \<and> ae_order_cancelled ae \<and> (\<exists>pos. e_data ev = P_pos pos \<and> \<not> pu_retry pos)"

lemma ae_timer_cb_returns:
  assumes "ae_ready res (ae, te)"
  shows "\<exists>ae' te'. ae_timer_cb res ev (ae, te) = Ret [] (ae', te')"
  using assms
  by (auto simp: ae_timer_cb_def ae_ready_def Let_def rc_publish_def rc_check_status_def rc_take_reply_def)

lemma ae_update_pos_returns:
  assumes "ae_inv ae" and "event_ok ev" and "e_type ev = ET_algo_pos_update"
    and "symbol_wf (ae_order_symbol ae)"
  shows "(\<exists>evs ae' te'. ae_update_pos_cb td ev (ae, te) = Ret evs (ae', te')) \<longleftrightarrow> \<not> latency_exceeded ev ae"
proof -
  from assms(2,3) obtain pos where pos: "e_data ev = P_pos pos" by (auto simp: event_ok_def)
  show ?thesis
  proof (cases "ae_inflight_order_id ae > 0")
    case True
    then obtain req where "ae_order_reqs ae (ae_inflight_order_id ae) = Some req"
      using assms(1) by (auto simp: ae_inv_def)
    with True pos assms(3) show ?thesis
      by (simp add: ae_update_pos_cb_def latency_exceeded_def Let_def)
  next
    case False
    with pos ae_send_order_returns [OF assms(4)] show ?thesis
      by (simp add: ae_update_pos_cb_def latency_exceeded_def Let_def)
  qed
qed

lemma ae_q_frame:
  "ae_send_order td symb quantity ot (ae, te) = Ret evs (ae', te') \<Longrightarrow> ae_q ae' = ae_q ae"
  "ae_order_cb ev ae = Ret u ae' \<Longrightarrow> ae_q ae' = ae_q ae"
  subgoal by (auto simp: ae_send_order_def Let_def split: outcome.splits prod.splits if_splits)
  subgoal by (cases "cast_order (e_data ev)") (auto simp: ae_order_cb_def Let_def split: if_splits)
  done

lemma ae_update_pos_queue:
  assumes "ae_update_pos_cb td ev (ae, te) = Ret evs (ae', te')" and "e_type ev = ET_algo_pos_update"
  shows "ae_q ae' = ae_q ae \<or> (\<exists>ev'. event_ok ev' \<and> ae_q ae' = wait_push ev' (ae_q ae))"
proof (cases "cast_pos (e_data ev)")
  case (Inr pos)
  have ok: "event_ok (ev\<lparr>e_data := P_pos (pos\<lparr>pu_retry := True\<rparr>)\<rparr>)"
    using assms(2) by (simp add: event_ok_def)
  show ?thesis
  proof (cases "ae_inflight_order_id ae > 0")
    case True
    with assms(1) Inr ok show ?thesis
      by (auto simp: ae_update_pos_cb_def Let_def ae_push_def split: if_splits option.splits)
  next
    case False
    with assms(1) Inr show ?thesis
      by (auto simp: ae_update_pos_cb_def Let_def split: if_splits dest: ae_q_frame(1))
  qed
qed (use assms(1) in \<open>simp add: ae_update_pos_cb_def\<close>)

lemma ae_queue_handle:
  assumes "ae_handle td res ev (ae, te) = Ret evs (ae', te')" and "ae_queue_ok ae"
  shows "ae_queue_ok ae'"
  using assms(1)
proof (cases rule: ae_handle_cases)
  case pos
  from ae_update_pos_queue [OF pos(2,1)] assms(2) show ?thesis by (auto simp: ae_queue_ok_def)
next
  case order
  with assms(2) ae_q_frame(2) [OF order(2)] show ?thesis by (simp add: ae_queue_ok_def)
next
  case tick
  with assms(2) show ?thesis by (auto simp: ae_queue_ok_def ae_tick_cb_def split: option.splits)
qed (use assms(2) in \<open>simp_all add: ae_queue_ok_def\<close>)

lemma ae_order_cb_returns:
  "event_ok ev \<Longrightarrow> e_type ev = ET_order_data \<Longrightarrow> \<exists>ae'. ae_order_cb ev ae = Ret () ae'"
  by (auto simp: event_ok_def ae_order_cb_def Let_def)

lemma ae_handle_returns:
  assumes "ae_inv ae" and "event_ok ev" and "ae_ready res (ae, te)"
  shows "(\<exists>evs ae' te'. ae_handle td res ev (ae, te) = Ret evs (ae', te')) \<or>
    latency_exceeded ev ae \<and> (\<exists>e s. ae_handle td res ev (ae, te) = Throw e s)"
proof -
  consider "e_type ev = ET_timer" | "e_type ev = ET_order_data" | "e_type ev = ET_algo_pos_update"
    | "e_type ev = ET_tick_data" | "e_type ev \<notin> {ET_timer, ET_order_data, ET_algo_pos_update, ET_tick_data}"
    by blast
  then show ?thesis
  proof cases
    case 1
    with ae_timer_cb_returns [OF assms(3), of ev] show ?thesis by (auto simp: ae_handle_def)
  next
    case 2
    from ae_order_cb_returns [OF assms(2) 2, of ae] 2 show ?thesis by (auto simp: ae_handle_def)
  next
    case 3
    show ?thesis
    proof (cases "latency_exceeded ev ae")
      case True
      with 3 show ?thesis by (auto simp: ae_handle_def ae_update_pos_cb_def latency_exceeded_def Let_def)
    next
      case False
      with ae_update_pos_returns [OF assms(1,2) 3, of td te] assms(3) 3 show ?thesis
        by (auto simp: ae_handle_def ae_ready_def)
    qed
  next
    case 4
    then show ?thesis by (simp add: ae_handle_def)
  next
    case 5
    then show ?thesis by (simp add: ae_handle_other)
  qed
qed

text \<open>
  Property C34. In a state that keeps the invariant, with a well-formed order symbol, a tick for the market data
  symbol and a Redis connection that answers, a round of the action thread never runs into undefined
  behaviour: it returns, and the invariant and the typing of the queue hold after it, unless a new
  position request finds a cancelled order still in flight, and then the process ends.
\<close>

theorem algo_round_safe:
  assumes "ae_inv ae" and "ae_queue_ok ae" and "ae_ready res (ae, te)"
  shows "(\<exists>evs ae' te'. ae_round td res (ae, te) = Ret evs (ae', te') \<and> ae_inv ae' \<and> ae_queue_ok ae')
    \<or> ae_round td res (ae, te) = Crash Terminate
      \<and> (\<exists>ev rest. lbq_items (ae_q ae) = ev # rest \<and> latency_exceeded ev ae)"
proof (cases "lbq_items (ae_q ae)")
  case Nil
  with assms(1,2) show ?thesis by (simp add: ae_round_def try_pop_def)
next
  case (Cons ev rest)
  let ?ae = "ae\<lparr>ae_q := (ae_q ae)\<lparr>lbq_items := rest\<rparr>\<rparr>"
  have inv: "ae_inv ?ae" and q: "ae_queue_ok ?ae" and ev: "event_ok ev" and r: "ae_ready res (?ae, te)"
    and l: "latency_exceeded ev ?ae = latency_exceeded ev ae"
    using assms Cons by (simp_all add: ae_queue_ok_def ae_ready_def latency_exceeded_def)
  show ?thesis
    using ae_handle_returns [OF inv ev r, of td] Cons
    by (auto simp: ae_round_def try_pop_def l dest: ae_inv_handle [OF inv] ae_queue_handle [OF _ q])
qed

section \<open>Every run\<close>

lemma ae_round_cases:
  assumes "ae_round td res (ae, te) = Ret evs (ae', te')"
  obtains (timeout) "lbq_items (ae_q ae) = []" "evs = []" "ae' = ae" "te' = te"
  | (event) ev rest where "lbq_items (ae_q ae) = ev # rest"
      "ae_handle td res ev (ae\<lparr>ae_q := (ae_q ae)\<lparr>lbq_items := rest\<rparr>\<rparr>, te) = Ret evs (ae', te')"
proof (cases "lbq_items (ae_q ae)")
  case Nil
  with assms show ?thesis by (intro timeout) (simp_all add: ae_round_def try_pop_def)
next
  case (Cons ev rest)
  with assms show ?thesis
    by (intro event [OF Cons]) (auto simp: ae_round_def try_pop_def split: outcome.splits)
qed

lemma ae_running_frame:
  "ae_handle td res ev (ae, te) = Ret evs (ae', te') \<Longrightarrow> ae_running ae' = ae_running ae"
proof (erule ae_handle_cases)
  assume r: "ae_update_pos_cb td ev (ae, te) = Ret evs (ae', te')"
  have send: "ae_send_order td symb quantity ot (ae, te) = Ret evs (ae', te') \<Longrightarrow> ae_running ae' = ae_running ae"
    for symb quantity ot ae
    by (auto simp: ae_send_order_def Let_def split: outcome.splits prod.splits if_splits)
  show ?thesis
  proof (cases "cast_pos (e_data ev)")
    case (Inr pos)
    show ?thesis
    proof (cases "ae_inflight_order_id ae > 0")
      case True
      with r Inr show ?thesis
        by (auto simp: ae_update_pos_cb_def Let_def split: if_splits option.splits)
    next
      case False
      with r Inr show ?thesis
        by (auto simp: ae_update_pos_cb_def Let_def split: if_splits dest: send)
    qed
  qed (use r in \<open>simp add: ae_update_pos_cb_def\<close>)
next
  assume "ae_order_cb ev ae = Ret () ae'"
  then show ?thesis
    by (cases "cast_order (e_data ev)") (auto simp: ae_order_cb_def Let_def split: if_splits)
next
  assume "ae' = ae_tick_cb ev ae"
  then show ?thesis
    by (cases "ae_order_reqs ae (ae_inflight_order_id ae)") (simp_all add: ae_tick_cb_def)
qed simp_all

lemma ae_exec_inv:
  assumes "ae_exec td op (ae, te) = Ret evs (ae', te')" and "ae_inv ae" "ae_queue_ok ae" and "ae_op_ok op"
  shows "ae_inv ae' \<and> ae_queue_ok ae' \<and> (ae_running ae \<longrightarrow> ae_running ae')"
proof (cases op)
  case (AE_round res)
  with assms(1) have "ae_round td res (ae, te) = Ret evs (ae', te')" by simp
  then show ?thesis
  proof (cases rule: ae_round_cases)
    case timeout
    with assms show ?thesis by simp
  next
    case (event ev rest)
    let ?ae = "ae\<lparr>ae_q := (ae_q ae)\<lparr>lbq_items := rest\<rparr>\<rparr>"
    have "ae_inv ?ae" "ae_queue_ok ?ae" using assms(2,3) event(1) by (simp_all add: ae_queue_ok_def)
    from ae_inv_handle [OF this(1) event(2)] ae_queue_handle [OF event(2) this(2)]
      ae_running_frame [OF event(2)]
    show ?thesis by simp
  qed
next
  case (AE_start conn)
  with assms show ?thesis
    by (auto simp: ae_start_def Let_def ae_inv_def ae_queue_ok_def split: outcome.splits)
qed (use assms in \<open>auto simp: with_te_def ae_event_engine_timer_cb_def ae_event_engine_order_cb_def
      ae_event_engine_tick_cb_def ae_mq_message_cb_def event_ok_def Let_def
      split: outcome.splits if_splits\<close>)

text \<open>
  Every run keeps the invariant and the typing of the queue, and once started the engine stays
  running.
\<close>

lemma ae_run_inv:
  "ae_run td ops (ae, te) = Ret evs (ae', te') \<Longrightarrow> ae_inv ae \<Longrightarrow> ae_queue_ok ae \<Longrightarrow> list_all ae_op_ok ops
    \<Longrightarrow> ae_inv ae' \<and> ae_queue_ok ae' \<and> (ae_running ae \<longrightarrow> ae_running ae')"
proof (induction ops arbitrary: ae te evs)
  case Nil
  then show ?case by simp
next
  case (Cons op ops)
  from Cons.prems(1) obtain evs1 ae1 te1 evs2 where
    1: "ae_exec td op (ae, te) = Ret evs1 (ae1, te1)" and 2: "ae_run td ops (ae1, te1) = Ret evs2 (ae', te')"
    by (auto simp: bind_o_eq_Ret)
  from ae_exec_inv [OF 1] Cons.IH [OF 2] Cons.prems show ?case by simp
qed

text \<open>
  Property C33. Whatever callbacks, strategy messages and rounds of the action thread follow the construction, in
  any order, the order in flight is known with its request, status and data, and every event in the
  queue carries the data its type announces.
\<close>

theorem algo_invariant:
  assumes "ae_run td ops (fst (ae_create cfg pf), te) = Ret evs (ae, te')" and "list_all ae_op_ok ops"
  shows "ae_inv ae \<and> ae_queue_ok ae"
proof -
  have "ae_inv (fst (ae_create cfg pf))" "ae_queue_ok (fst (ae_create cfg pf))"
    by (simp_all add: ae_create_def ae_inv_def ae_queue_ok_def)
  from ae_run_inv [OF assms(1) this assms(2)] show ?thesis by simp
qed

text \<open>
  The engine cannot be stopped: whatever happens after it has started, its action thread finds
  \<open>running\<close> true before each round, so the join in \<open>stop\<close> does not return.
\<close>

lemma algo_stop_never_returns:
  assumes "ae_run td ops (ae, te) = Ret evs (ae', te')" and "list_all ae_op_ok ops"
    and "ae_running ae" and "ae_inv ae" and "ae_queue_ok ae"
  shows "ae_stop listen (\<not> ae_running ae') ae' = None"
  using ae_run_inv [OF assms(1,4,5,2)] assms(3) by (simp add: ae_stop_def)

end
