(* ===== verification/ObjectsText.thy ===== *)
theory ObjectsText
  imports TwsData HistRequests AlgoEngine
begin

text \<open>
  The texts of the records (\<open>to_string\<close> of \<open>lib/objects/objects.cpp\<close>, \<open>lib/data/historical_data.cpp\<close> and
  \<open>lib/algo/algo_engine.cpp\<close>), which go to the log. The text the format library
  makes of a double, which is not part of the sources, is the argument \<open>fd\<close>; the value of a decimal is
  the argument \<open>dd\<close>.
\<close>

section \<open>Records\<close>

definition bool_text :: "bool \<Rightarrow> string" where
  "bool_text b = (if b then ''true'' else ''false'')"

fun joined :: "string \<Rightarrow> string list \<Rightarrow> string" where
  "joined sep [] = []"
| "joined sep [x] = x"
| "joined sep (x # y # xs) = x @ sep @ joined sep (y # xs)"

text \<open>Every format is the name of the type and its members in parentheses.\<close>

definition record_text :: "string \<Rightarrow> (string \<times> string) list \<Rightarrow> string" where
  "record_text name members = name @ ''('' @ joined '', '' (map (\<lambda>(n, t). n @ '':'' @ t) members) @ '')''"

definition contract_text :: "(double \<Rightarrow> string) \<Rightarrow> contract \<Rightarrow> string" where
  "contract_text fd x =
     (record_text ''Contract''
      [(''conId'', int_str (c_conId x)), (''symbol'', c_symbol x), (''secType'', c_secType x),
      (''lastTradeDateOrContractMonth'', c_lastTradeDateOrContractMonth x), (''strike'', fd (c_strike x)),
      (''right'', c_right x), (''multiplier'', c_multiplier x), (''exchange'', c_exchange x),
      (''primaryExchange'', c_primaryExchange x), (''currency'', c_currency x), (''localSymbol'', c_localSymbol x),
      (''tradingClass'', c_tradingClass x), (''includeExpired'', bool_text (c_includeExpired x)),
      (''secIdType'', c_secIdType x), (''secId'', c_secId x), (''description'', c_description x),
      (''issuerId'', c_issuerId x), (''comboLegsDescrip'', c_comboLegsDescrip x)])"

definition contract_details_text :: "(double \<Rightarrow> string) \<Rightarrow> (decimal \<Rightarrow> double) \<Rightarrow> contract_details \<Rightarrow> string" where
  "contract_details_text fd dd x =
     (record_text ''ContractDetails''
      [(''contract'', contract_text fd (cd_contract x)), (''marketName'', cd_marketName x), (''minTick'', fd (cd_minTick x)),
      (''orderTypes'', cd_orderTypes x), (''validExchanges'', cd_validExchanges x),
      (''priceMagnifier'', int_str (cd_priceMagnifier x)), (''underConId'', int_str (cd_underConId x)),
      (''longName'', cd_longName x), (''contractMonth'', cd_contractMonth x), (''industry'', cd_industry x),
      (''category'', cd_category x), (''subcategory'', cd_subcategory x), (''timeZoneId'', cd_timeZoneId x),
      (''tradingHours'', cd_tradingHours x), (''liquidHours'', cd_liquidHours x), (''evRule'', cd_evRule x),
      (''evMultiplier'', fd (cd_evMultiplier x)), (''aggGroup'', int_str (cd_aggGroup x)),
      (''underSymbol'', cd_underSymbol x), (''underSecType'', cd_underSecType x), (''marketRuleIds'', cd_marketRuleIds x),
      (''realExpirationDate'', cd_realExpirationDate x), (''lastTradeTime'', cd_lastTradeTime x),
      (''stockType'', cd_stockType x), (''minSize'', fd (dd (cd_minSize x))),
      (''sizeIncrement'', fd (dd (cd_sizeIncrement x))), (''suggestedSizeIncrement'', fd (dd (cd_suggestedSizeIncrement x))),
      (''cusip'', cd_cusip x), (''ratings'', cd_ratings x), (''descAppend'', cd_descAppend x), (''bondType'', cd_bondType x),
      (''couponType'', cd_couponType x), (''callable'', bool_text (cd_callable x)), (''putable'', bool_text (cd_putable x)),
      (''coupon'', fd (cd_coupon x)), (''convertible'', bool_text (cd_convertible x)), (''maturity'', cd_maturity x),
      (''issueDate'', cd_issueDate x), (''nextOptionDate'', cd_nextOptionDate x), (''nextOptionType'', cd_nextOptionType x),
      (''nextOptionPartial'', bool_text (cd_nextOptionPartial x)), (''notes'', cd_notes x)])"

definition order_state_text :: "(double \<Rightarrow> string) \<Rightarrow> order_state \<Rightarrow> string" where
  "order_state_text fd x =
     (record_text ''OrderState''
      [(''status'', st_status x), (''initMarginBefore'', st_initMarginBefore x),
      (''maintMarginBefore'', st_maintMarginBefore x), (''equityWithLoanBefore'', st_equityWithLoanBefore x),
      (''initMarginChange'', st_initMarginChange x), (''maintMarginChange'', st_maintMarginChange x),
      (''equityWithLoanChange'', st_equityWithLoanChange x), (''initMarginAfter'', st_initMarginAfter x),
      (''maintMarginAfter'', st_maintMarginAfter x), (''equityWithLoanAfter'', st_equityWithLoanAfter x),
      (''commission'', fd (st_commission x)), (''minCommission'', fd (st_minCommission x)),
      (''maxCommission'', fd (st_maxCommission x)), (''commissionCurrency'', st_commissionCurrency x),
      (''warningText'', st_warningText x), (''completedTime'', st_completedTime x),
      (''completedStatus'', st_completedStatus x)])"

definition tws_order_text :: "(double \<Rightarrow> string) \<Rightarrow> (decimal \<Rightarrow> double) \<Rightarrow> tws_order \<Rightarrow> string" where
  "tws_order_text fd dd x =
     (record_text ''Order''
      [(''orderId'', int_str (o_orderId x)), (''clientId'', int_str (o_clientId x)), (''permId'', int_str (o_permId x)),
      (''action'', o_action x), (''totalQuantity'', fd (dd (o_totalQuantity x))), (''orderType'', o_orderType x),
      (''lmtPrice'', fd (o_lmtPrice x)), (''auxPrice'', fd (o_auxPrice x)), (''tif'', o_tif x),
      (''activeStartTime'', o_activeStartTime x), (''activeStopTime'', o_activeStopTime x), (''ocaGroup'', o_ocaGroup x),
      (''ocaType'', int_str (o_ocaType x)), (''orderRef'', o_orderRef x), (''transmit'', bool_text (o_transmit x)),
      (''parentId'', int_str (o_parentId x)), (''blockOrder'', bool_text (o_blockOrder x)),
      (''sweepToFill'', bool_text (o_sweepToFill x)), (''displaySize'', int_str (o_displaySize x)),
      (''triggerMethod'', int_str (o_triggerMethod x)), (''outsideRth'', bool_text (o_outsideRth x)),
      (''hidden'', bool_text (o_hidden x)), (''goodAfterTime'', o_goodAfterTime x), (''goodTillDate'', o_goodTillDate x),
      (''rule80A'', o_rule80A x), (''allOrNone'', bool_text (o_allOrNone x)), (''minQty'', int_str (o_minQty x)),
      (''percentOffset'', fd (o_percentOffset x)),
      (''overridePercentageConstraints'', bool_text (o_overridePercentageConstraints x)),
      (''trailStopPrice'', fd (o_trailStopPrice x)), (''trailingPercent'', fd (o_trailingPercent x))])"

definition bar_text :: "(double \<Rightarrow> string) \<Rightarrow> (decimal \<Rightarrow> double) \<Rightarrow> bar \<Rightarrow> string" where
  "bar_text fd dd x =
     (record_text ''Bar''
      [(''time'', b_time x), (''high'', fd (b_high x)), (''low'', fd (b_low x)), (''open'', fd (b_open x)),
      (''close'', fd (b_close x)), (''wap'', fd (dd (b_wap x))), (''volume'', fd (dd (b_volume x))),
      (''count'', int_str (b_count x))])"

definition err_msg_text :: "err_msg \<Rightarrow> string" where
  "err_msg_text x =
     (record_text ''ErrMsg''
      [(''id'', int_str (em_id x)), (''error_code'', int_str (em_error_code x)), (''message'', em_message x),
      (''order_rejection_json'', em_order_rejection_json x)])"

definition tick_data_text :: "(double \<Rightarrow> string) \<Rightarrow> tick_data \<Rightarrow> string" where
  "tick_data_text fd x =
     (record_text ''TickData''
      [(''symbol'', t_symbol x), (''last_price'', fd (t_last_price x)), (''last_size'', fd (t_last_size x)),
      (''bid_price'', fd (t_bid_price x)), (''bid_size'', fd (t_bid_size x)), (''ask_price'', fd (t_ask_price x)),
      (''ask_size'', fd (t_ask_size x)), (''timestamp'', int_str (t_timestamp x))])"

definition order_req_text :: "(double \<Rightarrow> string) \<Rightarrow> order_req \<Rightarrow> exn + string" where
  "order_req_text fd x =
     (case um_at action_to_ib (r_action x) of Inl e \<Rightarrow> Inl e | Inr a \<Rightarrow>
      (case um_at order_type_to_ib (r_order_type x) of Inl e \<Rightarrow> Inl e | Inr t \<Rightarrow>
      (Inr (record_text ''OrderReq''
      [(''symbol'', r_symbol x), (''exchange'', r_exchange x), (''source'', r_source x), (''action'', a), (''order_type'', t),
      (''quantity'', fd (r_quantity x)), (''price'', fd (r_price x)), (''order_id'', int_str (r_order_id x))]))))"

definition order_data_text :: "(double \<Rightarrow> string) \<Rightarrow> order_data \<Rightarrow> exn + string" where
  "order_data_text fd x =
     (case um_at order_type_to_ib (d_order_type x) of Inl e \<Rightarrow> Inl e | Inr t \<Rightarrow>
      (case um_at action_to_ib (d_action x) of Inl e \<Rightarrow> Inl e | Inr a \<Rightarrow>
      (case um_at order_status_to_ib (d_status x) of Inl e \<Rightarrow> Inl e | Inr s \<Rightarrow>
      (Inr (record_text ''OrderData''
      [(''order_id'', int_str (d_order_id x)), (''symbol'', d_symbol x), (''exchange'', d_exchange x),
      (''source'', d_source x), (''order_type'', t), (''action'', a), (''total_quantity'', fd (d_total_quantity x)),
      (''traded_quantity'', fd (d_traded_quantity x)), (''avg_trade_price'', fd (d_avg_trade_price x)),
      (''commission'', fd (d_commission x)), (''OrderStatus'', s), (''error_code'', int_str (d_error_code x))])))))"

definition hist_bar_text :: "(double \<Rightarrow> string) \<Rightarrow> hist_bar \<Rightarrow> string" where
  "hist_bar_text fd x =
     (record_text ''HistBar''
      [(''id'', int_str (hb_id x)), (''time'', hb_time x), (''high'', fd (hb_high x)), (''low'', fd (hb_low x)),
      (''open'', fd (hb_open x)), (''close'', fd (hb_close x)), (''wap'', fd (hb_wap x)), (''volume'', fd (hb_volume x)),
      (''count'', int_str (hb_count x))])"

definition hist_bar_end_text :: "hist_bar_end \<Rightarrow> string" where
  "hist_bar_end_text x =
     (record_text ''HistBarEnd''
      [(''id'', int_str (he_id x)), (''start'', he_start x), (''end'', he_end x)])"

definition timer_text :: "timer \<Rightarrow> string" where
  "timer_text x =
     (record_text ''Timer''
      [(''sec'', int_str (tm_sec x))])"

definition algo_pnl_text :: "(double \<Rightarrow> string) \<Rightarrow> algo_pnl_rec \<Rightarrow> string" where
  "algo_pnl_text fd x =
     (record_text ''AlgoPnL''
      [(''algo'', ap_algo x), (''pnl'', fd (ap_pnl x)), (''timestamp'', int_str (ap_timestamp x))])"

definition total_pnl_text :: "(double \<Rightarrow> string) \<Rightarrow> total_pnl_rec \<Rightarrow> string" where
  "total_pnl_text fd x =
     (record_text ''TotalPnl''
      [(''pnl'', fd (tp_pnl x)), (''timestamp'', int_str (tp_timestamp x))])"

definition hist_bar_req_text :: "hist_bar_req \<Rightarrow> string" where
  "hist_bar_req_text x =
     (record_text ''HistBarReq''
      [(''symbol'', hr_symbol x), (''start'', hr_start x), (''end'', hr_end x), (''tz'', hr_tz x), (''wts'', hr_wts x),
      (''save_path'', hr_save_path x)])"

definition ib_hist_bar_req_text :: "ib_hist_bar_req \<Rightarrow> string" where
  "ib_hist_bar_req_text x =
     (record_text ''IBHistBarReq''
      [(''symbol'', hq_symbol x), (''end'', hq_end x), (''dur'', hq_dur x), (''bar_size'', hq_bar_size x), (''wts'', hq_wts x)])"

definition pos_update_text :: "(double \<Rightarrow> string) \<Rightarrow> pos_update \<Rightarrow> string" where
  "pos_update_text fd x =
     (record_text ''PosUpdate''
      [(''symbol'', pu_symbol x), (''pos'', fd (pu_pos x)), (''timestamp'', int_str (pu_timestamp x)),
      (''retry'', bool_text (pu_retry x))])"

text \<open>Every enumerator has a name, so writing a log never throws.\<close>

lemma enum_names: "\<exists>s. um_at action_to_ib a = Inr s" "\<exists>s. um_at order_type_to_ib t = Inr s" "\<exists>s. um_at order_status_to_ib st = Inr s"
proof -
  show "\<exists>s. um_at action_to_ib a = Inr s" by (cases a) (simp_all add: um_at_def um_find_def action_to_ib_def)
  show "\<exists>s. um_at order_type_to_ib t = Inr s" by (cases t) (simp_all add: um_at_def um_find_def order_type_to_ib_def)
  show "\<exists>s. um_at order_status_to_ib st = Inr s" by (cases st) (simp_all add: um_at_def um_find_def order_status_to_ib_def)
qed

lemma order_texts_total: "\<exists>s. order_req_text fd r = Inr s" "\<exists>s. order_data_text fd d = Inr s"
proof -
  obtain a t where "um_at action_to_ib (r_action r) = Inr a" "um_at order_type_to_ib (r_order_type r) = Inr t" using enum_names by blast
  then show "\<exists>s. order_req_text fd r = Inr s" by (simp only: order_req_text_def sum.case) blast
  obtain a t st where "um_at action_to_ib (d_action d) = Inr a" "um_at order_type_to_ib (d_order_type d) = Inr t"
    "um_at order_status_to_ib (d_status d) = Inr st" using enum_names by blast
  then show "\<exists>s. order_data_text fd d = Inr s" by (simp only: order_data_text_def sum.case) blast
qed

end
