(* ===== verification/PnlRace.thy ===== *)
theory PnlRace
  imports Risk
begin

text \<open>
  \<open>Portfolio::timer_cb\<close> recomputes the profit and loss under the mutex \<open>data_m\<close>, but \<open>get_total_pnl\<close> and
  \<open>get_algo_pnl\<close> of \<open>lib/core/portfolio.cpp\<close> read without it, on the thread of an algorithm that asks for the
  risk check. What they can see are the states between the writes of the recomputation, in the order
  of the program.
\<close>

section \<open>The states between the writes\<close>

text \<open>The values the inner loop writes to the profit and loss of an algorithm.\<close>

fun algo_writes :: "(string \<Rightarrow> tick_data option) \<Rightarrow> (string \<rightharpoonup> string) \<Rightarrow> (string, contract_pos) umap
    \<Rightarrow> double \<Rightarrow> double list" where
  "algo_writes get_tick m [] pnl = []"
| "algo_writes get_tick m (entry # port) pnl =
     (let pnl' = algo_loop get_tick m [entry] pnl in pnl' # algo_writes get_tick m port pnl')"

definition with_algo_pnl :: "string \<Rightarrow> double \<Rightarrow> portfolio \<Rightarrow> portfolio" where
  "with_algo_pnl algo pnl pf =
     pf\<lparr>pf_algo_pnl := um_put algo pnl (pf_algo_pnl pf),
        pf_active_orders := (pf_active_orders pf)(algo \<mapsto> orders_of pf algo),
        pf_mktd_mapping := (pf_mktd_mapping pf)(algo \<mapsto> mapping_of pf algo)\<rparr>"

definition add_to_total :: "string \<Rightarrow> double \<Rightarrow> portfolio \<Rightarrow> portfolio" where
  "add_to_total algo pnl pf =
     pf\<lparr>pf_total_pnl := (if is_unset_double pnl \<or> is_unset_double (pf_total_pnl pf) then UnsetDouble
        else pf_total_pnl pf + pnl * fx_rate algo)\<rparr>"

fun pnl_writes :: "(string \<Rightarrow> tick_data option) \<Rightarrow> (string, (string, contract_pos) umap) umap \<Rightarrow> portfolio \<Rightarrow> portfolio list" where
  "pnl_writes get_tick [] pf = []"
| "pnl_writes get_tick ((algo, algo_port) # rest) pf =
     (let vs = algo_writes get_tick (mapping_of pf algo) algo_port 0;
          pnl = last (0 # vs);
          pf2 = add_to_total algo pnl (with_algo_pnl algo pnl pf)
      in pf\<lparr>pf_algo_pnl := um_put algo 0 (pf_algo_pnl pf)\<rparr>
           # map (\<lambda>v. with_algo_pnl algo v pf) vs @ pf2 # pnl_writes get_tick rest pf2)"

definition recompute_states :: "(string \<Rightarrow> tick_data option) \<Rightarrow> portfolio \<Rightarrow> portfolio list" where
  "recompute_states get_tick pf =
     (let pf0 = pf\<lparr>pf_total_pnl := 0\<rparr> in pf0 # pnl_writes get_tick (pf_algo_portfolio pf) pf0)"

section \<open>The last of them is the recomputed portfolio\<close>

lemma algo_loop_split: "algo_loop get_tick m (entry # port) pnl = algo_loop get_tick m port (algo_loop get_tick m [entry] pnl)"
  by (cases entry) simp

lemma last_algo_writes: "last (pnl # algo_writes get_tick m port pnl) = algo_loop get_tick m port pnl"
proof (induction port arbitrary: pnl)
  case (Cons entry port)
  then show ?case by (simp only: algo_loop_split [of _ _ entry port] algo_writes.simps Let_def last.simps) simp
qed simp

lemma last_pnl_writes: "last (pf # pnl_writes get_tick port pf) = pnl_loop get_tick port pf"
proof (induction get_tick port pf rule: pnl_loop.induct)
  case (2 get_tick algo algo_port rest pf)
  let ?pnl = "algo_loop get_tick (mapping_of pf algo) algo_port 0"
  have "pnl_loop get_tick ((algo, algo_port) # rest) pf = pnl_loop get_tick rest (add_to_total algo ?pnl (with_algo_pnl algo ?pnl pf))"
    by (simp add: Let_def add_to_total_def with_algo_pnl_def)
  moreover have "last (pnl_writes get_tick ((algo, algo_port) # rest) pf)
      = last (add_to_total algo ?pnl (with_algo_pnl algo ?pnl pf) # pnl_writes get_tick rest (add_to_total algo ?pnl (with_algo_pnl algo ?pnl pf)))"
    unfolding pnl_writes.simps Let_def last_algo_writes by simp
  ultimately show ?case using 2 [OF refl refl refl refl]
    by (simp add: Let_def add_to_total_def with_algo_pnl_def)
qed simp

lemma last_recompute_states: "last (recompute_states get_tick pf) = pf_recompute get_tick pf"
  unfolding recompute_states_def pf_recompute_def Let_def by (rule last_pnl_writes)

section \<open>A check in between\<close>

text \<open>
  Property C27. Whatever the profit and loss before the recomputation and after it, a check of the first
  algorithm that falls into it can pass, when the limits are not above zero and the flow limit is not
  reached: at the start of the recomputation both the total and the figure of this algorithm are zero.
\<close>

theorem unlocked_check_passes:
  assumes "pf_algo_portfolio pf = (r_source req, port) # rest"
    and "\<not> 0 < rk_total_pnl_lmt rk" and "\<forall>lmt. um_find (rk_algo_pnl_lmt rk) (r_source req) = Some lmt \<longrightarrow> \<not> 0 < lmt"
    and "card (rk_active_orders rk) < rk_order_flow_lmt rk"
  shows "\<exists>pf' \<in> set (recompute_states get_tick pf). fst (rk_check_risk req (rk, pf'))"
proof -
  let ?pf = "pf\<lparr>pf_total_pnl := 0, pf_algo_pnl := um_put (r_source req) 0 (pf_algo_pnl pf)\<rparr>"
  have "?pf \<in> set (recompute_states get_tick pf)" by (simp add: recompute_states_def assms(1) Let_def)
  moreover have "within_pnl_limits rk ?pf (r_source req)"
    using assms(2,3) by (simp add: within_pnl_limits_def pf_get_total_pnl_def pf_get_algo_pnl_def um_get_def)
  then have "fst (rk_check_risk req (rk, ?pf))"
    using rk_check_cases [of req rk ?pf "[]"] assms(4) by (elim exE conjE) simp
  ultimately show ?thesis by blast
qed

definition demo_loss :: portfolio where
  "demo_loss = (demo_pf 100 12000)\<lparr>pf_total_pnl := Fin (- 9900), pf_algo_pnl := [(''demo'', Fin (- 9900))]\<rparr>"

lemma demo_loss_limits: "\<not> 0 < rk_total_pnl_lmt demo_rk" "um_find (rk_algo_pnl_lmt demo_rk) ''demo'' = Some (Fin (- 1000))"
  "card (rk_active_orders demo_rk) < rk_order_flow_lmt demo_rk"
  by (simp_all add: demo_rk_def rk_init_def less_double_def zero_double_def um_put_def)

theorem unlocked_check_passes_witness:
  "\<not> fst (rk_check_risk demo_req (demo_rk, demo_loss))
    \<and> \<not> fst (rk_check_risk demo_req (demo_rk, pf_recompute (md_get_last_tick (demo_md 21)) demo_loss))
    \<and> (\<exists>pf' \<in> set (recompute_states (md_get_last_tick (demo_md 21)) demo_loss). fst (rk_check_risk demo_req (demo_rk, pf')))"
proof (intro conjI)
  have d: "r_source demo_req = ''demo''" by (simp add: demo_req_def)
  show "\<not> fst (rk_check_risk demo_req (demo_rk, demo_loss))"
    by (simp add: rk_check_risk_def demo_loss_def pf_get_total_pnl_def demo_rk_def rk_init_def less_double_def Let_def)
  show "\<exists>pf' \<in> set (recompute_states (md_get_last_tick (demo_md 21)) demo_loss). fst (rk_check_risk demo_req (demo_rk, pf'))"
    by (rule unlocked_check_passes)
      (use demo_loss_limits in \<open>simp_all add: d demo_loss_def demo_pf_def pf_init_def less_double_def zero_double_def\<close>)
  have a: "0 + (Fin 100 * Fin 21 - Fin 12000) = Fin (- 9900)" "0 + Fin (- 9900) * 1 = Fin (- 9900)"
    by (simp_all add: double_ops dsub_def)
  have u: "UnsetDouble \<noteq> 0" "UnsetDouble \<noteq> Fin (- 9900)" by (simp_all add: UnsetDouble_def DBL_MAX_def zero_double_def)
  have "pf_total_pnl (pf_recompute (md_get_last_tick (demo_md 21)) demo_loss) = Fin (- 9900)"
    by (simp add: pf_recompute_def demo_loss_def demo_pf_def pf_init_def demo_md_def md_put_def md_init_def md_get_last_tick_def
        market_symbol_def mapping_of_def demo_tick_def new_tick_def Let_def fx_rate_def a u)
  then show "\<not> fst (rk_check_risk demo_req (demo_rk, pf_recompute (md_get_last_tick (demo_md 21)) demo_loss))"
    by (simp add: rk_check_risk_def pf_get_total_pnl_def demo_rk_def rk_init_def less_double_def Let_def)
qed

end
