(* ===== verification/AlgoOrders.thy ===== *)
theory AlgoOrders
  imports AlgoEngine
begin

text \<open>
  What the algorithm engine does with its orders and its position: one order at a time, one cancel
  per order, the position it derives from the order events, and the messages it exchanges.
\<close>

section \<open>One order at a time\<close>

lemma te_cancel_calls [simp]:
  "ib_calls (te_gateway (te_cancel_order oid te)) = ib_calls (te_gateway te) @ [C_cancelOrder oid []]"
  by (simp add: te_cancel_order_def ib_cancel_order_def ib_call_def)

definition place_call :: "(double \<Rightarrow> decimal) \<Rightarrow> order_req \<Rightarrow> order_id \<Rightarrow> client_call" where
  "place_call td req oid = C_placeOrder oid (sent_contract req) (ib_order_of td req)"

lemma ae_send_order_calls:
  assumes "ae_send_order td symb quantity ot (ae, te) = Ret evs (ae', te')" and "symbol_wf symb"
  shows "ib_calls (te_gateway te') = ib_calls (te_gateway te) \<or>
    (\<exists>oid. ib_calls (te_gateway te') = ib_calls (te_gateway te) @ [place_call td (ae_req symb quantity) oid]
       \<and> (oid > 0 \<longrightarrow> ae_inflight_order_id ae' = oid))"
proof -
  have wf: "symbol_wf (r_symbol (ae_req symb quantity))" using assms(2) by (simp add: ae_req_def)
  show ?thesis
  proof (cases rule: te_send_order_cases [OF wf, of td te])
    case (1 te1)
    with assms(1) show ?thesis by (simp add: ae_send_order_def Let_def)
  next
    case (2 evs1 te1)
    let ?oid = "sent_id (ae_req symb quantity) (te_gateway te)"
    have "te' = te1" "?oid > 0 \<longrightarrow> ae_inflight_order_id ae' = ?oid"
      using assms(1) 2(1) by (auto simp: ae_send_order_def Let_def split: if_splits)
    with 2(2) show ?thesis by (auto simp: order_sent_def place_call_def)
  qed
qed

text \<open>
  Property C32. A round of the action thread that returns, with a well-formed order symbol, sends at
  most one request to the broker: a cancel of the order in flight, once per order, or a new order, and
  that only when none is in flight, for at least one whole unit; the id answered is then the order in
  flight.
\<close>

theorem one_order_at_a_time:
  assumes "ae_round td res (ae, te) = Ret evs (ae', te')" and "symbol_wf (ae_order_symbol ae)"
  shows "ib_calls (te_gateway te') = ib_calls (te_gateway te)
    \<or> (ae_inflight_order_id ae > 0 \<and> \<not> ae_order_cancelled ae \<and> ae_order_cancelled ae'
        \<and> ib_calls (te_gateway te') = ib_calls (te_gateway te) @ [C_cancelOrder (ae_inflight_order_id ae) []])
    \<or> (\<not> ae_inflight_order_id ae > 0
        \<and> (\<exists>oid quantity. ib_calls (te_gateway te') = ib_calls (te_gateway te)
              @ [place_call td (ae_req (ae_order_symbol ae) quantity) oid]
            \<and> (quantity \<ge> 1 \<or> quantity \<le> - 1) \<and> (oid > 0 \<longrightarrow> ae_inflight_order_id ae' = oid)))"
  using assms(1)
proof (cases rule: ae_round_cases)
  case timeout
  then show ?thesis by simp
next
  case (event ev rest)
  let ?ae = "ae\<lparr>ae_q := (ae_q ae)\<lparr>lbq_items := rest\<rparr>\<rparr>"
  from event(2) show ?thesis
  proof (cases rule: ae_handle_cases)
    case pos
    show ?thesis
    proof (cases "cast_pos (e_data ev)")
      case (Inl a)
      with pos(2) show ?thesis by (simp add: ae_update_pos_cb_def)
    next
      case (Inr p)
      show ?thesis
      proof (cases "ae_inflight_order_id ae > 0")
        case True
        with pos(2) Inr show ?thesis
          by (auto simp: ae_update_pos_cb_def Let_def ae_push_def split: if_splits option.splits)
      next
        case False
        let ?ae1 = "?ae\<lparr>ae_target_pos := pu_pos p\<rparr>" and ?d = "pu_pos p - ae_curr_pos ae"
        show ?thesis
        proof (cases "?d \<ge> 1 \<or> ?d \<le> - 1")
          case True
          with pos(2) Inr False
          have "ae_send_order td (ae_order_symbol ae) ?d OT_market (?ae1, te) = Ret evs (ae', te')"
            by (auto simp: ae_update_pos_cb_def Let_def)
          from ae_send_order_calls [OF this assms(2)] False True show ?thesis by blast
        next
          case no: False
          with pos(2) Inr False show ?thesis by (auto simp: ae_update_pos_cb_def Let_def)
        qed
      qed
    qed
  qed simp_all
qed

section \<open>The position follows the fills\<close>

fun ae_orders :: "order_data list \<Rightarrow> algo_engine \<Rightarrow> (unit, algo_engine) outcome" where
  "ae_orders [] ae = Ret () ae"
| "ae_orders (d # ds) ae = bind_o (ae_order_cb (on_order d) ae) (\<lambda>_. ae_orders ds)"

definition order_closed :: "order_data \<Rightarrow> bool" where
  "order_closed d \<longleftrightarrow> \<not> (is_active_order (d_status d) \<and> d_error_code d = 0)"

definition fill_ok :: "nat \<Rightarrow> rat \<Rightarrow> action \<Rightarrow> order_id \<Rightarrow> order_data \<Rightarrow> bool" where
  "fill_ok k B act oid d \<longleftrightarrow> d_order_id d = oid \<and> d_action d = act
     \<and> d_traded_quantity d = Fin (the_fin (d_traded_quantity d))
     \<and> dyadic k (the_fin (d_traded_quantity d)) \<and> \<bar>the_fin (d_traded_quantity d)\<bar> \<le> B"

definition signed_by :: "action \<Rightarrow> rat \<Rightarrow> rat" where
  "signed_by act q = (if act = A_buy then q else - q)"

lemma ae_order_cb_eq:
  assumes "ae_order_status ae (d_order_id d) \<noteq> None"
  shows "\<exists>ae'. ae_order_cb (on_order d) ae = Ret () ae'
    \<and> ae_curr_pos ae' = (if d_action d = A_buy then ae_curr_pos ae + (d_traded_quantity d - ae_order_filled ae)
        else ae_curr_pos ae - (d_traded_quantity d - ae_order_filled ae))
    \<and> ae_order_filled ae' = d_traded_quantity d
    \<and> ae_order_status ae' = (ae_order_status ae)(d_order_id d \<mapsto> d_status d)
    \<and> ae_inflight_order_id ae' = (if order_closed d then - 1 else ae_inflight_order_id ae)
    \<and> ae_order_cancelled ae' = (\<not> order_closed d \<and> ae_order_cancelled ae)
    \<and> ae_target_pos ae' = ae_target_pos ae \<and> ae_order_symbol ae' = ae_order_symbol ae"
  using assms by (auto simp: ae_order_cb_def on_order_def Let_def order_closed_def)

lemma ae_orders_fills:
  assumes "list_all (fill_ok k B act oid) ds" and "ae_order_status ae oid \<noteq> None"
    and "ae_curr_pos ae = Fin (b + signed_by act f)" and "ae_order_filled ae = Fin f"
    and "dyadic k b" "dyadic k f" "k \<le> 1074" "\<bar>f\<bar> \<le> B" "\<bar>b\<bar> + 2 * B \<le> grid_bound k"
  shows "\<exists>ae'. ae_orders ds ae = Ret () ae'
    \<and> ae_curr_pos ae' = Fin (b + signed_by act (the_fin (last (Fin f # map d_traded_quantity ds))))
    \<and> ae_inflight_order_id ae' = (if list_ex order_closed ds then - 1 else ae_inflight_order_id ae)
    \<and> ae_target_pos ae' = ae_target_pos ae \<and> ae_order_symbol ae' = ae_order_symbol ae"
  using assms
proof (induction ds arbitrary: ae f)
  case Nil
  then show ?case by simp
next
  case (Cons d ds)
  from Cons.prems(1) obtain q where d: "d_order_id d = oid" "d_action d = act" "d_traded_quantity d = Fin q"
    "dyadic k q" "\<bar>q\<bar> \<le> B" by (auto simp: fill_ok_def)
  have st: "ae_order_status ae (d_order_id d) \<noteq> None" using Cons.prems(2) d(1) by simp
  from ae_order_cb_eq [OF st] obtain ae1 where 1: "ae_order_cb (on_order d) ae = Ret () ae1"
    and raw: "ae_curr_pos ae1 = (if d_action d = A_buy then ae_curr_pos ae + (d_traded_quantity d - ae_order_filled ae)
        else ae_curr_pos ae - (d_traded_quantity d - ae_order_filled ae))"
      "ae_order_filled ae1 = d_traded_quantity d"
      "ae_order_status ae1 = (ae_order_status ae)(d_order_id d \<mapsto> d_status d)"
    and inf: "ae_inflight_order_id ae1 = (if order_closed d then - 1 else ae_inflight_order_id ae)"
    and tg: "ae_target_pos ae1 = ae_target_pos ae" "ae_order_symbol ae1 = ae_order_symbol ae"
    by blast
  have cp: "ae_curr_pos ae1 = (if act = A_buy then Fin (b + signed_by act f) + (Fin q - Fin f)
        else Fin (b + signed_by act f) - (Fin q - Fin f))"
    and ff: "ae_order_filled ae1 = Fin q" and st1: "ae_order_status ae1 oid \<noteq> None"
    using raw Cons.prems(3,4) d by simp_all
  have b1: "\<bar>q - f\<bar> \<le> grid_bound k" using d(5) Cons.prems(8,9) by linarith
  have b2: "\<bar>b + q\<bar> \<le> grid_bound k" "\<bar>b - q\<bar> \<le> grid_bound k" using d(5) Cons.prems(8,9) by linarith+
  have diff: "Fin q - Fin f = Fin (q - f)"
    using d(4) Cons.prems(6) b1 Cons.prems(7) by (rule fin_diff)
  have "Fin (b + f) + Fin (q - f) = Fin (b + q)" "Fin (b - f) - Fin (q - f) = Fin (b - q)"
    using fin_add [of k "b + f" "q - f"] fin_diff [of k "b - f" "q - f"] d(4) Cons.prems(5-7) b2
    by (simp_all add: dyadic_add dyadic_diff)
  then have cp1: "ae_curr_pos ae1 = Fin (b + signed_by act q)"
    by (simp add: cp diff signed_by_def)
  have ds: "list_all (fill_ok k B act oid) ds" using Cons.prems(1) by simp
  from Cons.IH [OF ds st1 cp1 ff Cons.prems(5) d(4) Cons.prems(7) d(5) Cons.prems(9)] obtain ae' where
    "ae_orders ds ae1 = Ret () ae'"
    "ae_curr_pos ae' = Fin (b + signed_by act (the_fin (last (Fin q # map d_traded_quantity ds))))"
    "ae_inflight_order_id ae' = (if list_ex order_closed ds then - 1 else ae_inflight_order_id ae1)"
    "ae_target_pos ae' = ae_target_pos ae1 \<and> ae_order_symbol ae' = ae_order_symbol ae1" by blast
  with 1 inf tg d(3) show ?case by simp
qed

text \<open>
  From the moment an order is sent, whatever the sequence of its reports (partial fills, repeated
  or corrected figures), the position is the one before the order plus or minus the last traded
  quantity, exactly, and the order stays in flight until a report closes it.
\<close>

theorem position_follows_fills:
  assumes "list_all (fill_ok k B act oid) ds" and "ae_order_status ae oid \<noteq> None"
    and "ae_curr_pos ae = Fin p" and "ae_order_filled ae = 0"
    and "dyadic k p" and "k \<le> 1074" and "0 \<le> B" and "\<bar>p\<bar> + 2 * B \<le> grid_bound k"
  shows "\<exists>ae'. ae_orders ds ae = Ret () ae'
    \<and> ae_curr_pos ae' = Fin (p + signed_by act (the_fin (last (0 # map d_traded_quantity ds))))
    \<and> ae_inflight_order_id ae' = (if list_ex order_closed ds then - 1 else ae_inflight_order_id ae)"
  using ae_orders_fills [OF assms(1,2), of p 0] assms(3-)
  by (auto simp: signed_by_def zero_double_def)

section \<open>Reaching the target\<close>

definition pos_event :: "double \<Rightarrow> event" where
  "pos_event target = mk_event ET_algo_pos_update
     (P_pos \<lparr>pu_symbol = [], pu_pos = target, pu_timestamp = 0, pu_retry = False\<rparr>)"

lemma ae_update_pos_idle:
  assumes "\<not> ae_inflight_order_id ae > 0"
  shows "ae_update_pos_cb td (pos_event x) (ae, te) =
    (if x - ae_curr_pos ae \<ge> 1 \<or> x - ae_curr_pos ae \<le> - 1
     then ae_send_order td (ae_order_symbol ae) (x - ae_curr_pos ae) OT_market (ae\<lparr>ae_target_pos := x\<rparr>, te)
     else Ret [] (ae\<lparr>ae_target_pos := x\<rparr>, te))"
  using assms by (simp add: ae_update_pos_cb_def pos_event_def Let_def)

lemma double_unit_iff [simp]: "1 \<le> Fin x \<longleftrightarrow> 1 \<le> x" "Fin x \<le> - 1 \<longleftrightarrow> x \<le> - 1"
  by (auto simp: double_ops dle_def deq_def)

lemma ae_send_order_sent:
  assumes "ae_send_order td symb quantity ot (ae, te) = Ret evs (ae1, te1)"
    and "\<not> ae_inflight_order_id ae > 0" and "ae_inflight_order_id ae1 > 0"
  shows "ae_curr_pos ae1 = ae_curr_pos ae \<and> ae_order_filled ae1 = 0
    \<and> ae_order_status ae1 (ae_inflight_order_id ae1) \<noteq> None \<and> ae_order_symbol ae1 = ae_order_symbol ae"
  using assms by (auto simp: ae_send_order_def Let_def split: outcome.splits prod.splits if_splits)

text \<open>
  Property C3. A position request for \<open>target\<close> when nothing is in flight, the position and
  the target are numbers of one binary grid small enough to be exact as doubles and the difference is at
  least one unit: if the risk check lets the order through, and the reports that follow are the order's
  own, with traded quantities of the grid not above the order's, and end with it closed and filled in
  full, the position is the target, nothing is in flight, and a further request for the same target
  sends nothing.
\<close>

theorem target_reached:
  assumes "\<not> ae_inflight_order_id ae > 0" and "ae_curr_pos ae = Fin p"
    and "dyadic k p" "dyadic k t" "k \<le> 1074" "\<bar>p\<bar> + 2 * \<bar>t - p\<bar> \<le> grid_bound k" "1 \<le> \<bar>t - p\<bar>"
    and "ae_update_pos_cb td (pos_event (Fin t)) (ae, te) = Ret evs (ae1, te1)"
    and "ae_inflight_order_id ae1 = oid" and "oid > 0"
    and "list_all (fill_ok k \<bar>t - p\<bar> (r_action (ae_req (ae_order_symbol ae) (Fin (t - p)))) oid) ds"
    and "list_ex order_closed ds"
    and "d_traded_quantity (last ds) = r_quantity (ae_req (ae_order_symbol ae) (Fin (t - p)))"
  shows "\<exists>ae2. ae_orders ds ae1 = Ret () ae2 \<and> ae_curr_pos ae2 = Fin t
    \<and> ae_inflight_order_id ae2 = - 1
    \<and> ae_update_pos_cb td' (pos_event (Fin t)) (ae2, te2) = Ret [] (ae2\<lparr>ae_target_pos := Fin t\<rparr>, te2)"
proof -
  have "y \<le> g" if "x + 2 * y \<le> g" "0 \<le> x" "0 \<le> y" for x y g :: rat using that by linarith
  from this [OF assms(6)] have grid: "\<bar>t - p\<bar> \<le> grid_bound k" by simp
  have diff: "Fin t - Fin p = Fin (t - p)"
    by (rule fin_diff) (use assms grid in auto)
  let ?req = "ae_req (ae_order_symbol ae) (Fin (t - p))"
  have "1 \<le> Fin (t - p) \<or> Fin (t - p) \<le> - 1" using assms(7) by auto
  then have "ae_send_order td (ae_order_symbol ae) (Fin (t - p)) OT_market (ae\<lparr>ae_target_pos := Fin t\<rparr>, te) = Ret evs (ae1, te1)"
    using assms(8) unfolding ae_update_pos_idle [OF assms(1)] assms(2) diff by simp
  from ae_send_order_sent [OF this] have s: "ae_curr_pos ae1 = Fin p" "ae_order_filled ae1 = Fin 0"
    "ae_order_status ae1 oid \<noteq> None"
    using assms(1,2,9,10) by (simp_all add: zero_double_def)
  have "ae_curr_pos ae1 = Fin (p + signed_by (r_action ?req) 0)" using s(1) by (simp add: signed_by_def)
  from ae_orders_fills [OF assms(11) s(3) this s(2) assms(3) _ assms(5) _ assms(6)]
  obtain ae2 where o: "ae_orders ds ae1 = Ret () ae2"
    and c: "ae_curr_pos ae2 = Fin (p + signed_by (r_action ?req) (the_fin (last (Fin 0 # map d_traded_quantity ds))))"
    and n: "ae_inflight_order_id ae2 = - 1"
    using assms(12) by auto
  have "ds \<noteq> []" using assms(12) by auto
  then have "last (Fin 0 # map d_traded_quantity ds) = Fin \<bar>t - p\<bar>"
    using assms(13) by (simp add: last_map ae_req_def abs_double_def)
  then have c2: "ae_curr_pos ae2 = Fin t"
    using c by (auto simp: signed_by_def ae_req_def less_double_def zero_double_def)
  have "Fin t - Fin t = Fin (t - t)" using assms(4,5) by (intro fin_diff) (simp_all add: grid_bound_def)
  then have "ae_update_pos_cb td' (pos_event (Fin t)) (ae2, te2) = Ret [] (ae2\<lparr>ae_target_pos := Fin t\<rparr>, te2)"
    using n by (simp add: ae_update_pos_idle c2)
  with o c2 n show ?thesis by blast
qed

section \<open>Reports of an older order\<close>

text \<open>
  Property C35. The filled quantity is kept for one order only. A report of an older, closed order that
  arrives while another one is in flight of which nothing is filled yet (such as the commission that
  follows a fill) is taken for a fill of the one in flight: its whole traded quantity is added to the
  position a second time, and the engine no longer knows that an order is in flight. The numbers are of
  one binary grid and small enough to be exact.
\<close>

theorem late_report_corrupts_position:
  assumes "ae_order_status ae (d_order_id d) \<noteq> None" and "order_closed d"
    and "d_order_id d \<noteq> ae_inflight_order_id ae" and "ae_inflight_order_id ae > 0"
    and "ae_order_filled ae = 0" and "ae_curr_pos ae = Fin p" and "d_traded_quantity d = Fin q"
    and "dyadic k p" "dyadic k q" "k \<le> 1074" "\<bar>p\<bar> + \<bar>q\<bar> \<le> grid_bound k"
  shows "\<exists>ae'. ae_order_cb (on_order d) ae = Ret () ae'
    \<and> ae_curr_pos ae' = Fin (p + signed_by (d_action d) q) \<and> ae_inflight_order_id ae' = - 1"
proof -
  have g: "\<bar>q - 0\<bar> \<le> grid_bound k" "\<bar>p + q\<bar> \<le> grid_bound k" "\<bar>p - q\<bar> \<le> grid_bound k"
    using assms(11) by simp_all
  have "Fin q - 0 = Fin q"
    using fin_diff [OF assms(9) dyadic_zero g(1) assms(10)] by (simp add: zero_double_def)
  moreover have "Fin p + Fin q = Fin (p + q)" by (rule fin_add [OF assms(8,9) g(2) assms(10)])
  moreover have "Fin p - Fin q = Fin (p - q)" by (rule fin_diff [OF assms(8,9) g(3) assms(10)])
  moreover obtain ae' where "ae_order_cb (on_order d) ae = Ret () ae'"
    "ae_curr_pos ae' = (if d_action d = A_buy then ae_curr_pos ae + (d_traded_quantity d - ae_order_filled ae)
        else ae_curr_pos ae - (d_traded_quantity d - ae_order_filled ae))"
    "ae_inflight_order_id ae' = (if order_closed d then - 1 else ae_inflight_order_id ae)"
    using ae_order_cb_eq [OF assms(1)] by blast
  ultimately show ?thesis using assms by (simp add: signed_by_def)
qed

text \<open>
  A new position request that finds the order of an older one cancelled and still in flight ends
  the process: the exception leaves the thread.
\<close>

theorem latency_ends_process:
  assumes "lbq_items (ae_q ae) = ev # rest" and "latency_exceeded ev ae"
  shows "ae_round td res (ae, te) = Crash Terminate"
  using assms
  by (auto simp: ae_round_def try_pop_def latency_exceeded_def ae_handle_def ae_update_pos_cb_def Let_def)

section \<open>Messages\<close>

text \<open>
  A position message laid out as \<open>PosMsg\<close>, with a symbol of at most 31 characters, becomes one
  position request with exactly its symbol, position and timestamp.
\<close>

theorem pos_message_roundtrip:
  assumes "NUL \<notin> set symb" and "length symb < 32" and "exact q" and "- (2 ^ 63) \<le> t" and "t < 2 ^ 63"
  shows "ae_mq_message_cb (msg_bytes (strncpy 32 symb) (Fin q) t) ae =
    Ret () (ae_push (mk_event ET_algo_pos_update (P_pos \<lparr>pu_symbol = symb, pu_pos = Fin q,
      pu_timestamp = t, pu_retry = False\<rparr>)) ae)"
  using assms
  by (simp add: ae_mq_message_cb_def length_msg_bytes Let_def c_string_msg_short msg_double_bytes
      msg_timestamp_bytes)

text \<open>
  The length of a message is not looked at: one that is shorter than the struct is read past its
  end.
\<close>

lemma short_message_overread:
  assumes "length data < 47"
  shows "ae_mq_message_cb data ae = Crash Index_out_of_bounds"
  using assms by (simp add: ae_mq_message_cb_def)

text \<open>
  At a timer event the engine publishes one message on the tick channel, from which the reader of
  the struct gets back exactly the last price and the time of the last tick. It gets the symbol
  back too when that has at most 31 characters; a longer one is cut off without a terminator and
  runs into the bytes of the price.
\<close>

theorem tick_message_readable:
  assumes "te_get_last_tick (ae_mkt_data_symbol ae) te = Some tick" and "NUL \<notin> set (t_symbol tick)"
    and "t_last_price tick = Fin q" and "exact q" and "- (2 ^ 63) \<le> t_timestamp tick" and "t_timestamp tick < 2 ^ 63"
    and "rc_context (ae_pub_redis ae) \<noteq> None"
  shows "\<exists>ae' buf. ae_timer_cb (Some r, context) ev (ae, te) = Ret [] (ae', te)
    \<and> rc_published (ae_pub_redis ae') = rc_published (ae_pub_redis ae) @ [(c_string (ae_tick_channel ae), buf)]
    \<and> msg_double buf = t_last_price tick \<and> msg_timestamp buf = t_timestamp tick
    \<and> c_string buf = (if length (t_symbol tick) < 32 then t_symbol tick
        else take 32 (t_symbol tick) @ c_string (drop 32 buf))"
proof -
  let ?buf = "msg_bytes (strncpy 32 (t_symbol tick)) (Fin q) (t_timestamp tick)"
  have "msg_double ?buf = Fin q" using msg_double_bytes [of _ q _ "[]"] assms(4) by simp
  moreover have "msg_timestamp ?buf = t_timestamp tick"
    using msg_timestamp_bytes [of _ "t_timestamp tick" _ "[]"] assms(5,6) by simp
  moreover have "c_string ?buf = t_symbol tick" if "length (t_symbol tick) < 32"
    using c_string_msg_short [OF assms(2) that, of "Fin q" "t_timestamp tick" "[]"] by simp
  moreover have "c_string ?buf = take 32 (t_symbol tick) @ c_string (drop 32 ?buf)"
    if "\<not> length (t_symbol tick) < 32"
    using c_string_msg_long [OF assms(2), of "Fin q" "t_timestamp tick" "[]"] that
    by (simp add: msg_bytes_def)
  ultimately show ?thesis
    using assms
    by (auto simp: ae_timer_cb_def Let_def rc_publish_def rc_check_status_def rc_take_reply_def)
qed

section \<open>Witnesses\<close>

definition demo_cfg :: algo_cfg where
  "demo_cfg = \<lparr>ac_market_data_symbol = ''6758-STK-JPY.TSEJ'', ac_order_symbol = ''6758-STK-JPY.TSEJ'',
     ac_redis_host = ''localhost'', ac_redis_port = 6379, ac_tick_channel = ''tick'',
     ac_action_channel = ''action'', ac_sentinel_token = ''end''\<rparr>"

definition demo_ae :: "event list \<Rightarrow> algo_engine" where
  "demo_ae evs = (fst (ae_create demo_cfg pf_init))\<lparr>ae_running := True, ae_q := \<lparr>lbq_items = evs\<rparr>,
     ae_pub_redis := (rc_init ''localhost'' 6379)\<lparr>rc_context := Some demo_context\<rparr>\<rparr>"

definition demo_world :: trading_engine where
  "demo_world = (demo_te 0)\<lparr>te_mktd_mgr := demo_md 20\<rparr>"

lemmas demo_ae_simps = demo_ae_def ae_create_def demo_cfg_def rc_init_def

lemma demo_ae_wf: "symbol_wf (ae_order_symbol (demo_ae evs))"
  by (simp add: demo_ae_simps symbol_wf_def)

lemma demo_ae_ready: "ae_ready (Some [], demo_context) (demo_ae evs, demo_world)"
  using demo_ae_wf [of evs]
  by (simp add: ae_ready_def te_get_last_tick_def demo_world_def demo_md_def demo_tick_def md_put_def
      md_get_last_tick_def new_tick_def) (simp add: demo_ae_simps)

lemma demo_ae_ok: "ae_inv (demo_ae evs)" "list_all event_ok evs \<Longrightarrow> ae_queue_ok (demo_ae evs)"
  by (simp_all add: ae_inv_def ae_queue_ok_def demo_ae_simps)

theorem algo_invariant_witness:
  "ae_inv ((fst (ae_create demo_cfg pf_init))\<lparr>ae_running := True,
     ae_pub_redis := (rc_init ''localhost'' 6379)\<lparr>rc_context := Some demo_context\<rparr>\<rparr>)"
proof -
  have "\<exists>te'. ae_run (\<lambda>_. 0) [AE_start (Some demo_context)] (fst (ae_create demo_cfg pf_init), demo_world) =
      Ret [] ((fst (ae_create demo_cfg pf_init))\<lparr>ae_running := True,
     ae_pub_redis := (rc_init ''localhost'' 6379)\<lparr>rc_context := Some demo_context\<rparr>\<rparr>, te')"
    by (simp add: ae_start_def ae_create_def demo_cfg_def rc_connect_def demo_context_def rc_init_def Let_def
        te_subscribe_def md_subscribe_def demo_world_def demo_md_def md_put_def demo_tick_def new_tick_def)
  then obtain te' where "ae_run (\<lambda>_. 0) [AE_start (Some demo_context)] (fst (ae_create demo_cfg pf_init), demo_world) =
      Ret [] ((fst (ae_create demo_cfg pf_init))\<lparr>ae_running := True,
     ae_pub_redis := (rc_init ''localhost'' 6379)\<lparr>rc_context := Some demo_context\<rparr>\<rparr>, te')" ..
  from algo_invariant [OF this] show ?thesis by simp
qed

theorem algo_round_safe_witness:
  "\<exists>evs ae' te'. ae_round (\<lambda>_. 0) (Some [], demo_context) (demo_ae [pos_event (Fin 100)], demo_world) = Ret evs (ae', te')
    \<and> ae_inv ae' \<and> ae_queue_ok ae'"
proof -
  have "ae_queue_ok (demo_ae [pos_event (Fin 100)])"
    by (rule demo_ae_ok) (simp add: pos_event_def)
  from algo_round_safe [OF demo_ae_ok(1) this demo_ae_ready, of "\<lambda>_. 0"]
  show ?thesis by (auto simp: demo_ae_simps latency_exceeded_def)
qed

lemma demo_ae_q:
  "lbq_items (ae_q (demo_ae evs)) = evs"
  "(demo_ae evs)\<lparr>ae_q := (ae_q (demo_ae evs))\<lparr>lbq_items := evs'\<rparr>\<rparr> = demo_ae evs'"
  by (simp_all add: demo_ae_simps)

text \<open>A request for 100 shares becomes one market order.\<close>

lemma demo_round:
  "\<exists>evs ae' te'. ae_update_pos_cb (\<lambda>_. 0) (pos_event (Fin 100)) (demo_ae [], demo_world) = Ret evs (ae', te')
    \<and> ae_inflight_order_id ae' = 1"
  by (simp add: ae_update_pos_idle demo_ae_simps zero_double_def minus_double_def dsub_def)
    (simp add: ae_send_order_def te_send_order_def demo_world_def demo_te_def rk_check_risk_def ae_req_def
      demo_rk_def rk_init_def pf_get_total_pnl_def pf_init_def less_double_def zero_double_def um_put_def
      rk_check_flow_def ib_send_order_eq symbol_wf_def sent_id_def ib_nextValidId_def Let_def ae_name_def)

theorem one_order_at_a_time_witness:
  "\<exists>evs ae' te'. ae_round (\<lambda>_. 0) (Some [], demo_context) (demo_ae [pos_event (Fin 100)], demo_world) = Ret evs (ae', te')
    \<and> length (ib_calls (te_gateway te')) \<le> length (ib_calls (te_gateway demo_world)) + 1"
proof -
  have "ae_queue_ok (demo_ae [pos_event (Fin 100)])"
    by (rule demo_ae_ok) (simp add: pos_event_def)
  have "\<exists>evs ae' te'. ae_round (\<lambda>_. 0) (Some [], demo_context) (demo_ae [pos_event (Fin 100)], demo_world) = Ret evs (ae', te')"
    using demo_round
    by (elim exE conjE) (simp add: ae_round_def try_pop_def demo_ae_q ae_handle_def pos_event_def)
  then obtain evs ae' te' where
    r: "ae_round (\<lambda>_. 0) (Some [], demo_context) (demo_ae [pos_event (Fin 100)], demo_world) = Ret evs (ae', te')" by blast
  from one_order_at_a_time [OF r demo_ae_wf] r show ?thesis by auto
qed

definition demo_report :: "rat \<Rightarrow> order_status \<Rightarrow> order_data" where
  "demo_report qty st = (demo_fill 1 A_buy qty 20)\<lparr>d_status := st\<rparr>"

theorem position_follows_fills_witness:
  "\<exists>ae'. ae_orders [demo_report 40 OS_submitted, demo_report 100 OS_filled]
      ((demo_ae [])\<lparr>ae_order_status := [1 \<mapsto> OS_pending_submit]\<rparr>) = Ret () ae'
    \<and> ae_curr_pos ae' = Fin 100 \<and> ae_inflight_order_id ae' = - 1"
proof -
  let ?ae = "(demo_ae [])\<lparr>ae_order_status := [1 \<mapsto> OS_pending_submit]\<rparr>"
  have "list_all (fill_ok 0 100 A_buy 1) [demo_report 40 OS_submitted, demo_report 100 OS_filled]"
    by (simp add: fill_ok_def demo_report_def demo_fill_def)
  moreover have "ae_order_status ?ae 1 \<noteq> None" "ae_curr_pos ?ae = Fin 0" "ae_order_filled ?ae = 0"
    by (simp_all add: demo_ae_simps zero_double_def)
  moreover have "\<bar>0\<bar> + 2 * 100 \<le> grid_bound 0" by (simp add: grid_bound_def)
  ultimately obtain ae' where "ae_orders [demo_report 40 OS_submitted, demo_report 100 OS_filled] ?ae = Ret () ae'"
    "ae_curr_pos ae' = Fin (0 + signed_by A_buy (the_fin (last (0 # map d_traded_quantity [demo_report 40 OS_submitted, demo_report 100 OS_filled]))))"
    "ae_inflight_order_id ae' = (if list_ex order_closed [demo_report 40 OS_submitted, demo_report 100 OS_filled] then - 1 else ae_inflight_order_id ?ae)"
    using position_follows_fills [of 0 100 A_buy 1 "[demo_report 40 OS_submitted, demo_report 100 OS_filled]" ?ae 0] by auto
  then show ?thesis by (auto simp: demo_report_def demo_fill_def signed_by_def order_closed_def)
qed

theorem target_reached_witness:
  "\<exists>ae1 ae2. ae_orders [demo_report 40 OS_submitted, demo_report 100 OS_filled] ae1 = Ret () ae2
    \<and> ae_curr_pos ae2 = Fin 100"
proof -
  obtain evs ae1 te1 where 1: "ae_update_pos_cb (\<lambda>_. 0) (pos_event (Fin 100)) (demo_ae [], demo_world) = Ret evs (ae1, te1)"
    and 2: "ae_inflight_order_id ae1 = 1" using demo_round by blast
  have "\<exists>ae2. ae_orders [demo_report 40 OS_submitted, demo_report 100 OS_filled] ae1 = Ret () ae2 \<and> ae_curr_pos ae2 = Fin 100
    \<and> ae_inflight_order_id ae2 = - 1
    \<and> ae_update_pos_cb (\<lambda>_. 0) (pos_event (Fin 100)) (ae2, demo_world) = Ret [] (ae2\<lparr>ae_target_pos := Fin 100\<rparr>, demo_world)"
    by (rule target_reached [OF _ _ _ _ _ _ _ 1 2, of 0 0])
      (simp_all add: demo_ae_simps zero_double_def grid_bound_def fill_ok_def demo_report_def demo_fill_def
        ae_req_def less_double_def order_closed_def abs_double_def)
  then show ?thesis by blast
qed

theorem late_report_corrupts_position_witness:
  "\<exists>ae'. ae_order_cb (on_order (demo_report 100 OS_filled))
      ((demo_ae [])\<lparr>ae_order_status := [1 \<mapsto> OS_filled, 2 \<mapsto> OS_pending_submit],
         ae_inflight_order_id := 2, ae_curr_pos := Fin 100\<rparr>) = Ret () ae'
    \<and> ae_curr_pos ae' = Fin 200"
proof -
  let ?ae = "(demo_ae [])\<lparr>ae_order_status := [1 \<mapsto> OS_filled, 2 \<mapsto> OS_pending_submit],
         ae_inflight_order_id := 2, ae_curr_pos := Fin 100\<rparr>" and ?d = "demo_report 100 OS_filled"
  have "\<exists>ae'. ae_order_cb (on_order ?d) ?ae = Ret () ae'
      \<and> ae_curr_pos ae' = Fin (100 + signed_by (d_action ?d) 100) \<and> ae_inflight_order_id ae' = - 1"
    by (rule late_report_corrupts_position [where k = 0])
      (simp_all add: demo_report_def demo_fill_def order_closed_def demo_ae_simps grid_bound_def)
  then show ?thesis by (auto simp: demo_report_def demo_fill_def signed_by_def)
qed

theorem latency_ends_process_witness:
  "ae_round (\<lambda>_. 0) (Some [], demo_context)
     ((demo_ae [pos_event (Fin 100)])\<lparr>ae_inflight_order_id := 1, ae_order_cancelled := True\<rparr>, demo_world) = Crash Terminate"
  by (rule latency_ends_process [where ev = "pos_event (Fin 100)" and rest = "[]"])
    (simp_all add: demo_ae_simps latency_exceeded_def pos_event_def)

theorem pos_message_roundtrip_witness:
  "ae_mq_message_cb (msg_bytes (strncpy 32 ''6758-STK-JPY.TSEJ'') (Fin (- 5 / 2)) 1700000000) (demo_ae []) =
    Ret () (ae_push (mk_event ET_algo_pos_update (P_pos \<lparr>pu_symbol = ''6758-STK-JPY.TSEJ'', pu_pos = Fin (- 5 / 2),
      pu_timestamp = 1700000000, pu_retry = False\<rparr>)) (demo_ae []))"
proof (rule pos_message_roundtrip)
  show "exact (- 5 / 2)"
    by (rule exact_dyadic [of 1]) (simp_all add: dyadic_def grid_bound_def)
qed simp_all

theorem tick_message_readable_witness:
  "\<exists>ae' buf. ae_timer_cb (Some [], demo_context) (mk_event ET_timer No_data) (demo_ae [], demo_world) = Ret [] (ae', demo_world)
    \<and> msg_double buf = Fin 20 \<and> c_string buf = ''6758-STK-JPY.TSEJ''"
proof -
  have t: "te_get_last_tick (ae_mkt_data_symbol (demo_ae [])) demo_world = Some (demo_tick 20)"
    by (simp add: te_get_last_tick_def demo_world_def demo_md_def md_put_def md_get_last_tick_def
        demo_tick_def new_tick_def demo_ae_simps)
  have "exact 20" by (rule exact_dyadic [of 0]) (simp_all add: grid_bound_def)
  with tick_message_readable [OF t, of 20 "[]" demo_context "mk_event ET_timer No_data"] show ?thesis
    by (auto simp: demo_tick_def new_tick_def demo_ae_simps)
qed

end
