(* ===== verification/DataRecorder.thy ===== *)
theory DataRecorder
  imports Events LBQueue
begin

text \<open>
  The data recorder of \<open>lib/data/data_recorder.h\<close> and \<open>data_recorder.cpp\<close>: a callback copies ticks
  and order snapshots into a queue, and a thread writes them to a MongoDB database. Whether an
  insertion succeeds is a parameter. The local \<open>event\<close> of the thread lives across rounds, has no
  initial value, and the result of \<open>try_pop\<close> is not looked at.
\<close>

section \<open>Documents\<close>

datatype bson = B_string string | B_double double | B_int64 int | B_int32 int

type_synonym bson_doc = "(string \<times> bson) list"

definition to_bson_tick :: "tick_data \<Rightarrow> bson_doc" where
  "to_bson_tick t =
     [(''symbol'', B_string (t_symbol t)),
      (''last_price'', B_double (t_last_price t)),
      (''last_size'', B_double (t_last_size t)),
      (''bid_price'', B_double (t_bid_price t)),
      (''bid_size'', B_double (t_bid_size t)),
      (''ask_price'', B_double (t_ask_size t)),
      (''timestamp'', B_int64 (t_timestamp t))]"

definition to_bson_req :: "order_req \<Rightarrow> exn + bson_doc" where
  "to_bson_req r =
     (case um_at action_to_ib (r_action r) of Inl e \<Rightarrow> Inl e | Inr action \<Rightarrow>
      case um_at order_type_to_ib (r_order_type r) of Inl e \<Rightarrow> Inl e | Inr order_type \<Rightarrow>
      Inr [(''symbol'', B_string (r_symbol r)),
           (''exchange'', B_string (r_exchange r)),
           (''action'', B_string action),
           (''order_type'', B_string order_type),
           (''quantity'', B_double (r_quantity r)),
           (''price'', B_double (r_price r)),
           (''order_id'', B_int64 (r_order_id r))])"

definition to_bson_order :: "order_data \<Rightarrow> exn + bson_doc" where
  "to_bson_order d =
     (case um_at order_type_to_ib (d_order_type d) of Inl e \<Rightarrow> Inl e | Inr order_type \<Rightarrow>
      case um_at action_to_ib (d_action d) of Inl e \<Rightarrow> Inl e | Inr action \<Rightarrow>
      case um_at order_status_to_ib (d_status d) of Inl e \<Rightarrow> Inl e | Inr status \<Rightarrow>
      Inr [(''order_id'', B_int64 (d_order_id d)),
           (''symbol'', B_string (d_symbol d)),
           (''exchange'', B_string (d_exchange d)),
           (''source'', B_string (d_source d)),
           (''order_type'', B_string order_type),
           (''action'', B_string action),
           (''total_quantity'', B_double (d_total_quantity d)),
           (''traded_quantity'', B_double (d_traded_quantity d)),
           (''avg_trade_price'', B_double (d_avg_trade_price d)),
           (''commission'', B_double (d_commission d)),
           (''status'', B_string status),
           (''error_code'', B_int32 (d_error_code d))])"

section \<open>The recorder\<close>

record data_recorder =
  dr_q :: "event lbqueue"
  dr_running :: bool
  dr_db :: "(string \<times> bson_doc) list"

definition dr_init :: data_recorder where
  "dr_init = \<lparr>dr_q = lbq_empty, dr_running = False, dr_db = []\<rparr>"

text \<open>The event types the recorder registers its callback for.\<close>

definition dr_event_types :: "event_type list" where
  "dr_event_types = [ET_tick_data, ET_order_data]"

text \<open>Whether the thread is started, or joined.\<close>

definition dr_start :: "data_recorder \<Rightarrow> bool \<times> data_recorder" where
  "dr_start dr = (if dr_running dr then (False, dr) else (True, dr\<lparr>dr_running := True\<rparr>))"

definition dr_stop :: "data_recorder \<Rightarrow> bool \<times> data_recorder" where
  "dr_stop dr = (if \<not> dr_running dr then (False, dr) else (True, dr\<lparr>dr_running := False\<rparr>))"

definition dr_copy_to_queue :: "event \<Rightarrow> data_recorder \<Rightarrow> (unit, data_recorder) outcome" where
  "dr_copy_to_queue ev dr = Ret () (dr\<lparr>dr_q := wait_push ev (dr_q dr)\<rparr>)"

text \<open>\<open>insert_one\<close> stores the document or throws.\<close>

definition insert_one :: "bool \<Rightarrow> string \<Rightarrow> bson_doc \<Rightarrow> data_recorder \<Rightarrow> (unit, data_recorder) outcome" where
  "insert_one ok coll doc dr =
     (if ok then Ret () (dr\<lparr>dr_db := dr_db dr @ [(coll, doc)]\<rparr>) else Throw (Library_error ''mongocxx'') dr)"

definition dr_save_tick :: "bool \<Rightarrow> event \<Rightarrow> data_recorder \<Rightarrow> (unit, data_recorder) outcome" where
  "dr_save_tick ok ev dr =
     with_cast (cast_tick (e_data ev)) (\<lambda>data. insert_one ok ''tick'' (to_bson_tick data) dr)"

definition dr_save_order_data :: "bool \<Rightarrow> event \<Rightarrow> data_recorder \<Rightarrow> (unit, data_recorder) outcome" where
  "dr_save_order_data ok ev dr =
     with_cast (cast_order (e_data ev)) (\<lambda>data.
       case to_bson_order data of Inl e \<Rightarrow> Throw e dr | Inr doc \<Rightarrow> insert_one ok ''order_data'' doc dr)"

text \<open>
  A turn of the loop of \<open>run_action\<close>. An exception of the database is logged and the loop goes on;
  any other leaves the thread and ends the process.
\<close>

definition dr_round :: "bool \<Rightarrow> event \<Rightarrow> data_recorder \<Rightarrow> (event, data_recorder) outcome" where
  "dr_round ok ev dr =
     (case try_pop ev (dr_q dr) of (_, ev1, q) \<Rightarrow>
        let dr1 = dr\<lparr>dr_q := q\<rparr> in
        case (case e_type ev1 of
                ET_order_data \<Rightarrow> dr_save_order_data ok ev1 dr1
              | ET_tick_data \<Rightarrow> dr_save_tick ok ev1 dr1
              | _ \<Rightarrow> Ret () dr1) of
          Ret _ dr2 \<Rightarrow> Ret ev1 dr2
        | Throw (Library_error _) dr2 \<Rightarrow> Ret ev1 dr2
        | Throw _ _ \<Rightarrow> Crash Terminate
        | Crash c \<Rightarrow> Crash c)"

text \<open>Turns with their results of the database.\<close>

fun dr_rounds :: "bool list \<Rightarrow> event \<Rightarrow> data_recorder \<Rightarrow> (event, data_recorder) outcome" where
  "dr_rounds [] ev dr = Ret ev dr"
| "dr_rounds (ok # oks) ev dr = bind_o (dr_round ok ev dr) (dr_rounds oks)"

section \<open>What is written\<close>

text \<open>Every action, order type and status has a name, so the documents always exist.\<close>

fun status_name :: "order_status \<Rightarrow> string" where
  "status_name OS_pending_submit = ''PendingSubmit''"
| "status_name OS_pending_cancel = ''PendingCancel''"
| "status_name OS_pre_submitted = ''PreSubmitted''"
| "status_name OS_submitted = ''Submitted''"
| "status_name OS_api_cancelled = ''ApiCancelled''"
| "status_name OS_cancelled = ''Cancelled''"
| "status_name OS_filled = ''Filled''"
| "status_name OS_inactive = ''Inactive''"

lemma names_exist [simp]:
  "um_at action_to_ib a = Inr (case a of A_buy \<Rightarrow> ''BUY'' | A_sell \<Rightarrow> ''SELL'')"
  "um_at order_type_to_ib t = Inr (case t of OT_limit \<Rightarrow> ''LMT'' | OT_market \<Rightarrow> ''MKT'')"
  "um_at order_status_to_ib s = Inr (status_name s)"
  apply (cases a; simp add: um_at_def action_to_ib_def)
  apply (cases t; simp add: um_at_def order_type_to_ib_def)
  apply (cases s; simp add: um_at_def order_status_to_ib_def)
  done

lemma status_name_inj [simp]: "status_name s = status_name s' \<longleftrightarrow> s = s'"
  by (cases s; cases s') simp_all

lemma order_document_exists: "\<exists>doc. to_bson_order d = Inr doc"
  by (simp add: to_bson_order_def)

text \<open>
  The document of an order snapshot always exists and determines the snapshot: every member can be
  read back from it.
\<close>

theorem order_document_faithful:
  "(\<exists>doc. to_bson_order d = Inr doc) \<and> (to_bson_order d = to_bson_order d' \<longleftrightarrow> d = d')"
proof (intro conjI iffI order_document_exists)
  assume eq: "to_bson_order d = to_bson_order d'"
  then have "(case d_action d of A_buy \<Rightarrow> ''BUY'' | A_sell \<Rightarrow> ''SELL'') = (case d_action d' of A_buy \<Rightarrow> ''BUY'' | A_sell \<Rightarrow> ''SELL'')"
    "(case d_order_type d of OT_limit \<Rightarrow> ''LMT'' | OT_market \<Rightarrow> ''MKT'') = (case d_order_type d' of OT_limit \<Rightarrow> ''LMT'' | OT_market \<Rightarrow> ''MKT'')"
    by (simp_all add: to_bson_order_def)
  then have "d_action d = d_action d'" "d_order_type d = d_order_type d'" by (auto split: action.splits order_type.splits)
  with eq show "d = d'" by (simp add: to_bson_order_def)
qed simp

text \<open>
  The document of a tick has the size of the ask under the key of its price: the ask price itself
  is lost, and ticks that differ in it have the same document.
\<close>

theorem tick_document_loses_ask_price:
  "map_of (to_bson_tick t) ''ask_price'' = Some (B_double (t_ask_size t)) \<and> map_of (to_bson_tick t) ''ask_size'' = None
    \<and> to_bson_tick (t\<lparr>t_ask_price := px\<rparr>) = to_bson_tick t"
  by (simp add: to_bson_tick_def)

text \<open>The documents written for an event.\<close>

definition record_of :: "event \<Rightarrow> (string \<times> bson_doc) list" where
  "record_of ev =
     (case (e_type ev, e_data ev) of
        (ET_tick_data, P_tick t) \<Rightarrow> [(''tick'', to_bson_tick t)]
      | (ET_order_data, P_order d) \<Rightarrow> (case to_bson_order d of Inr doc \<Rightarrow> [(''order_data'', doc)] | Inl _ \<Rightarrow> [])
      | _ \<Rightarrow> [])"

text \<open>The events handled in as many turns as there are results: those of the queue, then the last one again and again.\<close>

fun dr_handled :: "nat \<Rightarrow> event \<Rightarrow> event list \<Rightarrow> event list" where
  "dr_handled 0 ev evs = []"
| "dr_handled (Suc n) ev [] = ev # dr_handled n ev []"
| "dr_handled (Suc n) ev (e # evs) = e # dr_handled n e evs"

lemma dr_round_eq:
  assumes "event_ok (fst (snd (try_pop ev (dr_q dr))))"
  shows "dr_round ok ev dr = (case try_pop ev (dr_q dr) of (_, ev1, q) \<Rightarrow>
     Ret ev1 (dr\<lparr>dr_q := q, dr_db := dr_db dr @ (if ok then record_of ev1 else [])\<rparr>))"
proof -
  obtain b ev1 q where p: "try_pop ev (dr_q dr) = (b, ev1, q)" by (cases "try_pop ev (dr_q dr)") auto
  have ok1: "event_ok ev1" using assms p by simp
  show ?thesis
  proof (cases "e_type ev1")
    case ET_order_data
    then obtain d where d: "e_data ev1 = P_order d" using ok1 by (auto simp: event_ok_def)
    obtain doc where "to_bson_order d = Inr doc" using order_document_exists by blast
    then show ?thesis using p ET_order_data d
      by (simp add: dr_round_def dr_save_order_data_def insert_one_def record_of_def)
  next
    case ET_tick_data
    then obtain t where t: "e_data ev1 = P_tick t" using ok1 by (auto simp: event_ok_def)
    then show ?thesis using p ET_tick_data
      by (simp add: dr_round_def dr_save_tick_def insert_one_def record_of_def)
  qed (use p in \<open>simp_all add: dr_round_def record_of_def\<close>)
qed

lemma dr_rounds_eq:
  "list_all event_ok (lbq_items (dr_q dr)) \<Longrightarrow> event_ok ev
    \<Longrightarrow> \<exists>ev' dr'. dr_rounds oks ev dr = Ret ev' dr'
      \<and> dr_db dr' = dr_db dr @ concat (map2 (\<lambda>ok e. if ok then record_of e else []) oks (dr_handled (length oks) ev (lbq_items (dr_q dr))))
      \<and> lbq_items (dr_q dr') = drop (length oks) (lbq_items (dr_q dr))"
proof (induction oks arbitrary: ev dr)
  case Nil
  then show ?case by simp
next
  case (Cons ok oks)
  show ?case
  proof (cases "lbq_items (dr_q dr)")
    case Nil
    then have "dr_round ok ev dr = Ret ev (dr\<lparr>dr_db := dr_db dr @ (if ok then record_of ev else [])\<rparr>)"
      using dr_round_eq [of ev dr ok] Cons.prems(2) by (simp add: try_pop_def)
    with Cons.IH [of "dr\<lparr>dr_db := dr_db dr @ (if ok then record_of ev else [])\<rparr>" ev] Cons.prems Nil show ?thesis by simp
  next
    case (Cons e es)
    let ?dr = "dr\<lparr>dr_q := (dr_q dr)\<lparr>lbq_items := es\<rparr>, dr_db := dr_db dr @ (if ok then record_of e else [])\<rparr>"
    have "dr_round ok ev dr = Ret e ?dr"
      using dr_round_eq [of ev dr ok] Cons.prems(1) Cons by (simp add: try_pop_def)
    with Cons.IH [of ?dr e] Cons.prems Cons show ?thesis by simp
  qed
qed

text \<open>What is written of some events, given which insertions succeed.\<close>

definition stored_docs :: "bool list \<Rightarrow> event list \<Rightarrow> (string \<times> bson_doc) list" where
  "stored_docs oks evs = concat (map (\<lambda>(ok, ev). if ok then record_of ev else []) (zip oks evs))"

lemma stored_append: "length oks = length evs \<Longrightarrow> stored_docs (oks @ oks') (evs @ evs') = stored_docs oks evs @ stored_docs oks' evs'"
  by (simp add: stored_docs_def)

lemma handled_split: "dr_handled (length es + n) ev es = es @ replicate n (last (ev # es))"
proof (induction es arbitrary: ev)
  case Nil
  show ?case by (induction n) simp_all
qed simp

text \<open>
  Property C37. Whichever insertions the database refuses, the thread goes on: while events wait, every tick and every
  order snapshot the callback copied is written once and in order, except exactly those whose own
  insertion fails; and each timeout of the queue afterwards writes the last one again, with the same
  exception. The first event the thread has seen is taken to carry the data of its type.
\<close>

theorem recorder_writes_in_order:
  assumes "list_all event_ok (lbq_items (dr_q dr))" and "event_ok ev"
    and "length oks = length (lbq_items (dr_q dr))"
  shows "\<exists>ev' dr'. dr_rounds (oks @ oks') ev dr = Ret ev' dr'
    \<and> dr_db dr' = dr_db dr @ stored_docs oks (lbq_items (dr_q dr))
        @ stored_docs oks' (replicate (length oks') (last (ev # lbq_items (dr_q dr))))
    \<and> lbq_items (dr_q dr') = []"
proof -
  have "map2 (\<lambda>ok e. if ok then record_of e else []) xs ys = map (\<lambda>(ok, ev). if ok then record_of ev else []) (zip xs ys)" for xs ys
    by (rule refl)
  with dr_rounds_eq [OF assms(1,2), of "oks @ oks'"] show ?thesis
    by (auto simp: assms(3) handled_split stored_docs_def)
qed

text \<open>
  If the queue times out before the first event has come, the thread looks at an event that was
  never set. Its type can be anything, and where it is one of the recorder's its data is null.
\<close>

lemma recorder_first_timeout:
  "lbq_items (dr_q dr) = [] \<Longrightarrow> dr_round ok (mk_event ET_tick_data No_data) dr = Crash Null_deref"
  by (simp add: dr_round_def try_pop_def dr_save_tick_def)

text \<open>Three ticks, the second of which the database refuses, and a timeout.\<close>

theorem recorder_writes_in_order_witness:
  "\<exists>ev' dr'. dr_rounds [True, False, True, True] (mk_event ET_event_engine_test No_data)
      (dr_init\<lparr>dr_q := \<lparr>lbq_items = map (\<lambda>s. mk_event ET_tick_data (P_tick (new_tick s))) [''a'', ''b'', ''c'']\<rparr>\<rparr>)
      = Ret ev' dr'
    \<and> dr_db dr' = [(''tick'', to_bson_tick (new_tick ''a'')), (''tick'', to_bson_tick (new_tick ''c'')), (''tick'', to_bson_tick (new_tick ''c''))]"
  using recorder_writes_in_order [of "dr_init\<lparr>dr_q := \<lparr>lbq_items = map (\<lambda>s. mk_event ET_tick_data (P_tick (new_tick s))) [''a'', ''b'', ''c'']\<rparr>\<rparr>"
      "mk_event ET_event_engine_test No_data" "[True, False, True]" "[True]"]
  by (auto simp: dr_init_def record_of_def stored_docs_def)

end
