(* ===== verification/Trader.thy ===== *)
theory Trader
  imports AlgoOrders DataRecorder
begin

text \<open>
  The trader of \<open>lib/core/trader.h\<close> with the algorithm engine (\<open>trader.cpp\<close>): the components put
  together, with the callbacks their constructors register, the start-up, and the steps of its
  threads: the event engine, the message thread of the TWS client, the portfolio, the algorithm's
  action thread and its subscription, the data recorder and the main loop with its timer. A step is a
  turn of a thread's loop. The dummy algorithm of \<open>trader.cpp\<close> only logs and is left out.
\<close>

section \<open>The components and their callbacks\<close>

datatype trader_cb =
    CB_portfolio_timer
  | CB_portfolio_order_data
  | CB_risk_order
  | CB_update_ticks
  | CB_algo_tick
  | CB_algo_timer
  | CB_algo_order_data
  | CB_recorder_copy

record trader =
  tr_te :: trading_engine
  tr_ae :: algo_engine
  tr_dr :: data_recorder
  tr_pf_event :: event
  tr_dr_event :: event
  tr_target :: "time_t option"

type_synonym trader_world = "trader_cb event_engine \<times> trader"

text \<open>The registrations, in the order the constructors run.\<close>

definition trader_cbs :: "(event_type \<times> string \<times> trader_cb) list" where
  "trader_cbs =
     [(ET_timer, ''portfolio_timer_cb'', CB_portfolio_timer),
      (ET_order_data, ''portfolio_order_data_cb'', CB_portfolio_order_data),
      (ET_order_data, ''risk_order_cb'', CB_risk_order),
      (ET_tick_data, ''trading_engine_tick_update'', CB_update_ticks),
      (ET_tick_data, ''algo_engine_tick'', CB_algo_tick),
      (ET_timer, ''algo_engine_timer'', CB_algo_timer),
      (ET_order_data, ''algo_engine_order_data'', CB_algo_order_data)]
     @ map (\<lambda>t. (t, ''data_recorder_copy'', CB_recorder_copy)) dr_event_types"

fun register_all :: "(event_type \<times> string \<times> 'cb) list \<Rightarrow> 'cb event_engine \<Rightarrow> 'cb event_engine" where
  "register_all [] ee = ee"
| "register_all ((t, n, cb) # cbs) ee = register_all cbs (snd (ee_register_cb t n cb ee))"

text \<open>The locals of the two threads have no initial value; \<open>pf_event\<close> and \<open>dr_event\<close> stand for what they hold.\<close>

definition trader_create :: "algo_cfg \<Rightarrow> risk_manager \<Rightarrow> event \<Rightarrow> event \<Rightarrow> trader_world" where
  "trader_create cfg rk pf_event dr_event =
     (case ae_create cfg pf_init of (ae, pf) \<Rightarrow>
        (register_all trader_cbs ee_init,
         \<lparr>tr_te = \<lparr>te_risk_manager = rk, te_portfolio = pf, te_gateway = ib_init, te_mktd_mgr = md_init\<rparr>,
          tr_ae = ae, tr_dr = dr_init, tr_pf_event = pf_event, tr_dr_event = dr_event, tr_target = None\<rparr>))"

text \<open>A callback on the state of its component.\<close>

definition on_te :: "(unit, trading_engine) outcome \<Rightarrow> 'e \<times> trader \<Rightarrow> (unit, 'e \<times> trader) outcome" where
  "on_te r s = (case r of Ret _ te \<Rightarrow> Ret () (fst s, (snd s)\<lparr>tr_te := te\<rparr>)
     | Throw e te \<Rightarrow> Throw e (fst s, (snd s)\<lparr>tr_te := te\<rparr>) | Crash c \<Rightarrow> Crash c)"

definition on_rk :: "(unit, risk_manager) outcome \<Rightarrow> 'e \<times> trader \<Rightarrow> (unit, 'e \<times> trader) outcome" where
  "on_rk r s = (let set_rk = (\<lambda>rk. (fst s, (snd s)\<lparr>tr_te := (tr_te (snd s))\<lparr>te_risk_manager := rk\<rparr>\<rparr>)) in
     case r of Ret _ rk \<Rightarrow> Ret () (set_rk rk) | Throw e rk \<Rightarrow> Throw e (set_rk rk) | Crash c \<Rightarrow> Crash c)"

definition on_ae :: "(unit, algo_engine) outcome \<Rightarrow> 'e \<times> trader \<Rightarrow> (unit, 'e \<times> trader) outcome" where
  "on_ae r s = (case r of Ret _ ae \<Rightarrow> Ret () (fst s, (snd s)\<lparr>tr_ae := ae\<rparr>)
     | Throw e ae \<Rightarrow> Throw e (fst s, (snd s)\<lparr>tr_ae := ae\<rparr>) | Crash c \<Rightarrow> Crash c)"

definition on_dr :: "(unit, data_recorder) outcome \<Rightarrow> 'e \<times> trader \<Rightarrow> (unit, 'e \<times> trader) outcome" where
  "on_dr r s = (case r of Ret _ dr \<Rightarrow> Ret () (fst s, (snd s)\<lparr>tr_dr := dr\<rparr>)
     | Throw e dr \<Rightarrow> Throw e (fst s, (snd s)\<lparr>tr_dr := dr\<rparr>) | Crash c \<Rightarrow> Crash c)"

definition set_pf :: "(portfolio \<Rightarrow> portfolio) \<Rightarrow> 'e \<times> trader \<Rightarrow> 'e \<times> trader" where
  "set_pf f s = (fst s, (snd s)\<lparr>tr_te := (tr_te (snd s))\<lparr>te_portfolio := f (te_portfolio (tr_te (snd s)))\<rparr>\<rparr>)"

definition trader_invoke :: "(trader_cb, trader) invoker" where
  "trader_invoke cb ev s =
     (case cb of
        CB_portfolio_timer \<Rightarrow> Ret () (set_pf (pf_event_engine_timer_cb ev) s)
      | CB_portfolio_order_data \<Rightarrow> Ret () (set_pf (pf_event_engine_order_data_cb ev) s)
      | CB_risk_order \<Rightarrow> on_rk (rk_event_engine_order_cb ev (te_risk_manager (tr_te (snd s)))) s
      | CB_update_ticks \<Rightarrow> on_te (te_update_ticks ev (tr_te (snd s))) s
      | CB_algo_tick \<Rightarrow> on_ae (ae_event_engine_tick_cb ev (tr_ae (snd s))) s
      | CB_algo_timer \<Rightarrow> on_ae (ae_event_engine_timer_cb ev (tr_ae (snd s))) s
      | CB_algo_order_data \<Rightarrow> on_ae (ae_event_engine_order_cb ev (tr_ae (snd s))) s
      | CB_recorder_copy \<Rightarrow> on_dr (dr_copy_to_queue ev (tr_dr (snd s))) s)"

section \<open>Start-up\<close>

text \<open>
  \<open>run\<close> up to its loop: whether the socket connects, the first order id TWS sends, and the answer of
  the Redis server are parameters. The start of the gateway returns once an id has come; without
  one it waits for ever, which is \<open>None\<close>. An exception of an algorithm's start leaves \<open>main\<close>.
\<close>

definition trader_start :: "bool \<Rightarrow> order_id \<Rightarrow> redis_context option \<Rightarrow> trader_world \<Rightarrow> (unit, trader_world) outcome option" where
  "trader_start bRes oid conn s =
     (case s of (ee, w) \<Rightarrow>
        case ee_start ee of
          Ret _ ee1 \<Rightarrow>
            (let dr1 = snd (dr_start (tr_dr w));
                 ib0 = te_gateway (tr_te w);
                 ib1 = (if bRes then ib_nextValidId oid (ib_start bRes ib0) else ib_start bRes ib0);
                 te1 = (tr_te w)\<lparr>te_gateway := ib1, te_portfolio := pf_start (te_portfolio (tr_te w))\<rparr>
             in if bRes \<and> \<not> ib_start_returned ib1 then None
                else case ae_start conn (tr_ae w, te1) of
                    Ret evs (ae, te) \<Rightarrow> Some (Ret () (gw_post evs ee1, w\<lparr>tr_te := te, tr_ae := ae, tr_dr := dr1\<rparr>))
                  | Throw _ _ \<Rightarrow> Some (Crash Terminate)
                  | Crash c \<Rightarrow> Some (Crash c))
        | Throw e ee1 \<Rightarrow> Some (Throw e (ee1, w))
        | Crash c \<Rightarrow> Some (Crash c))"

section \<open>The timer\<close>

text \<open>
  \<open>send_timer\<close> at the time \<open>t\<close> in whole seconds: the target is set to the next second at the first
  call, whose two readings of the clock are taken to fall into the same second; the remainder of C++
  takes the sign of the time, which is positive here.
\<close>

definition send_timer :: "time_t \<Rightarrow> time_t option \<Rightarrow> event list \<times> time_t option" where
  "send_timer t target =
     (let target1 = (case target of None \<Rightarrow> t + 1 | Some x \<Rightarrow> x) in
      if t \<ge> target1
      then ([mk_event ET_timer (P_timer \<lparr>tm_sec = t mod 60, tm_timestamp = t\<rparr>)], Some (target1 + 1))
      else ([], Some target1))"

fun send_timers :: "time_t list \<Rightarrow> time_t option \<Rightarrow> event list \<times> time_t option" where
  "send_timers [] target = ([], target)"
| "send_timers (t # ts) target =
     (case send_timer t target of (evs, target1) \<Rightarrow>
      case send_timers ts target1 of (evs', target2) \<Rightarrow> (evs @ evs', target2))"

definition timer_at :: "time_t \<Rightarrow> event" where
  "timer_at t = mk_event ET_timer (P_timer \<lparr>tm_sec = t mod 60, tm_timestamp = t\<rparr>)"

lemma send_timer_simps:
  "send_timer t None = ([], Some (t + 1))"
  "x \<le> t \<Longrightarrow> send_timer t (Some x) = ([timer_at t], Some (x + 1))"
  "t < x \<Longrightarrow> send_timer t (Some x) = ([], Some x)"
  by (simp_all add: send_timer_def timer_at_def)

lemma send_timers_from:
  "sorted (t0 # ts) \<Longrightarrow> (\<forall>i < length ts. ts ! i - (t0 # ts) ! i \<le> 1)
    \<Longrightarrow> send_timers ts (Some (t0 + 1)) = (map timer_at [t0 + 1 .. last (t0 # ts)], Some (last (t0 # ts) + 1))"
proof (induction ts arbitrary: t0)
  case Nil
  then show ?case by simp
next
  case (Cons t ts)
  have step: "t - t0 \<le> 1" "t0 \<le> t" using Cons.prems(1) Cons.prems(2) [rule_format, of 0] by simp_all
  have gaps: "\<forall>i < length ts. ts ! i - (t # ts) ! i \<le> 1"
  proof (intro allI impI)
    fix i assume "i < length ts"
    then show "ts ! i - (t # ts) ! i \<le> 1" using Cons.prems(2) [rule_format, of "Suc i"] by simp
  qed
  have srt: "sorted (t # ts)" using Cons.prems(1) by simp
  have le: "t \<le> last (t # ts)" using srt by (cases ts) (auto simp: last_in_set)
  show ?case
  proof (cases "t = t0")
    case True
    with Cons.IH [OF srt gaps] show ?thesis by (auto simp: send_timer_simps)
  next
    case False
    then have t: "t = t0 + 1" using step by simp
    then have "[t0 + 1 .. last (t # ts)] = t # [t + 1 .. last (t # ts)]" using le by (simp add: upto_rec1)
    with Cons.IH [OF srt gaps] show ?thesis by (auto simp: send_timer_simps t)
  qed
qed

text \<open>
  Property C39. When the main loop looks at the clock at least once in every second, it sends exactly one timer for
  every second after the first look, in order, each with its own time.
\<close>

theorem timer_every_second:
  assumes "sorted (t0 # ts)" and "\<forall>i < length ts. ts ! i - (t0 # ts) ! i \<le> 1"
  shows "fst (send_timers (t0 # ts) None) = map timer_at [t0 + 1 .. last (t0 # ts)]"
  using send_timers_from [OF assms] by (simp add: send_timer_simps)

theorem timer_every_second_witness:
  "fst (send_timers [98, 98, 99, 100, 100, 101] None) = [timer_at 99, timer_at 100, timer_at 101]"
proof -
  have "\<forall>i < length [98, 99, 100, 100, 101 :: time_t]. [98, 99, 100, 100, 101] ! i - [98, 98, 99, 100, 100, 101 :: time_t] ! i \<le> 1"
    by (auto simp: less_Suc_eq)
  with timer_every_second [of 98 "[98, 99, 100, 100, 101]"] show ?thesis by (simp add: upto.simps)
qed

lemma send_timers_stalled:
  "x + int n \<le> t + 1 \<Longrightarrow> send_timers (replicate n t) (Some x) = (replicate n (timer_at t), Some (x + int n))"
proof (induction n arbitrary: x)
  case (Suc n)
  then show ?case by (simp add: send_timer_simps)
qed simp

text \<open>
  When the loop is held up from second \<open>t0\<close> to a later second \<open>t\<close>, the seconds in between are lost: the
  calls in second \<open>t\<close> send one timer each, all with the time \<open>t\<close>, until as many as the seconds passed
  have gone out.
\<close>

theorem stalled_loop_repeats_timer:
  assumes "t0 + 1 < t" and "n \<le> nat (t - t0)"
  shows "fst (send_timers (t0 # replicate n t) None) = replicate n (timer_at t)"
  using send_timers_stalled [of "t0 + 1" n t] assms by (simp add: send_timer_simps)

theorem stalled_loop_repeats_timer_witness:
  "fst (send_timers [58, 61, 61, 61] None) = [timer_at 61, timer_at 61, timer_at 61]"
  using stalled_loop_repeats_timer [of 58 61 3] by (simp add: numeral_3_eq_3)

section \<open>The threads\<close>

inductive trader_step :: "(decimal \<Rightarrow> double) \<Rightarrow> (double \<Rightarrow> decimal) \<Rightarrow> trader_world \<Rightarrow> trader_world \<Rightarrow> bool"
  for dd td where
  engine: "ee_running ee \<Longrightarrow> ee_round trader_invoke (ee, w) = Ret errs s \<Longrightarrow> trader_step dd td (ee, w) s"
| tws: "ib_exec dd td op (te_gateway (tr_te w)) = Ret evs ib
    \<Longrightarrow> trader_step dd td (ee, w) (gw_post evs ee, w\<lparr>tr_te := (tr_te w)\<lparr>te_gateway := ib\<rparr>\<rparr>)"
| portfolio: "pf_running (te_portfolio (tr_te w))
    \<Longrightarrow> pf_round (te_mktd_mgr (tr_te w)) (tr_pf_event w) (te_portfolio (tr_te w)) = Ret (ev, evs) pf
    \<Longrightarrow> trader_step dd td (ee, w) (gw_post evs ee, w\<lparr>tr_te := (tr_te w)\<lparr>te_portfolio := pf\<rparr>, tr_pf_event := ev\<rparr>)"
| algo: "ae_running (tr_ae w) \<Longrightarrow> ae_round td res (tr_ae w, tr_te w) = Ret evs (ae, te)
    \<Longrightarrow> trader_step dd td (ee, w) (gw_post evs ee, w\<lparr>tr_te := te, tr_ae := ae\<rparr>)"
| strategy: "ae_mq_message_cb data (tr_ae w) = Ret () ae \<Longrightarrow> trader_step dd td (ee, w) (ee, w\<lparr>tr_ae := ae\<rparr>)"
| recorder: "dr_running (tr_dr w) \<Longrightarrow> dr_round ok (tr_dr_event w) (tr_dr w) = Ret ev dr
    \<Longrightarrow> trader_step dd td (ee, w) (ee, w\<lparr>tr_dr := dr, tr_dr_event := ev\<rparr>)"
| clock: "send_timer t (tr_target w) = (evs, target)
    \<Longrightarrow> trader_step dd td (ee, w) (fold te_send_event evs ee, w\<lparr>tr_target := target\<rparr>)"

text \<open>Every queue holds only events that carry what their type announces.\<close>

definition queue_typed :: "event lbqueue \<Rightarrow> bool" where
  "queue_typed q \<longleftrightarrow> list_all event_ok (lbq_items q)"

definition queues_typed :: "trader_world \<Rightarrow> bool" where
  "queues_typed s \<longleftrightarrow> queue_typed (ee_q (fst s)) \<and> queue_typed (pf_q (te_portfolio (tr_te (snd s))))
     \<and> queue_typed (ae_q (tr_ae (snd s))) \<and> queue_typed (dr_q (tr_dr (snd s)))"

text \<open>The event type each callback is registered for.\<close>

fun cb_type_ok :: "event_type \<Rightarrow> trader_cb \<Rightarrow> bool" where
  "cb_type_ok t CB_portfolio_timer = (t = ET_timer)"
| "cb_type_ok t CB_portfolio_order_data = (t = ET_order_data)"
| "cb_type_ok t CB_risk_order = (t = ET_order_data)"
| "cb_type_ok t CB_update_ticks = (t = ET_tick_data)"
| "cb_type_ok t CB_algo_tick = (t = ET_tick_data)"
| "cb_type_ok t CB_algo_timer = (t = ET_timer)"
| "cb_type_ok t CB_algo_order_data = (t = ET_order_data)"
| "cb_type_ok t CB_recorder_copy = (t \<in> set dr_event_types)"

definition cbs_typed :: "trader_cb event_engine \<Rightarrow> bool" where
  "cbs_typed ee \<longleftrightarrow> (\<forall>t n cb. (n, cb) \<in> set (ee_cbs_of ee t) \<longrightarrow> cb_type_ok t cb)"

lemma queue_typed_push [simp]: "queue_typed (wait_push ev q) \<longleftrightarrow> queue_typed q \<and> event_ok ev"
  by (simp add: queue_typed_def wait_push_def)

lemma queue_typed_items [simp]: "queue_typed (q\<lparr>lbq_items := xs\<rparr>) \<longleftrightarrow> list_all event_ok xs"
  by (simp add: queue_typed_def)

lemma fold_send [simp]:
  "ee_q (fold ee_send evs ee) = (ee_q ee)\<lparr>lbq_items := lbq_items (ee_q ee) @ evs\<rparr>"
  "ee_cbs_of (fold ee_send evs ee) = ee_cbs_of ee" "ee_cbs (fold ee_send evs ee) = ee_cbs ee"
  "ee_running (fold ee_send evs ee) = ee_running ee"
  by (induction evs arbitrary: ee) (auto simp: ee_send_def wait_push_def ee_cbs_of_def)

lemma te_send_event_eq: "te_send_event = ee_send"
  by (simp add: te_send_event_def fun_eq_iff)

lemma fold_send_typed: "queue_typed (ee_q (fold ee_send evs ee)) \<longleftrightarrow> queue_typed (ee_q ee) \<and> list_all event_ok evs"
  by (simp add: queue_typed_def)

text \<open>A callback on a well-typed event of its type returns, keeps the types and does not touch the engine.\<close>

lemma trader_invoke_typed:
  assumes "cb_type_ok (e_type ev) cb" "event_ok ev" "queues_typed (ee, w)"
  shows "\<exists>w'. trader_invoke cb ev (ee, w) = Ret () (ee, w') \<and> queues_typed (ee, w')"
proof (cases cb)
  case CB_portfolio_timer
  with assms show ?thesis by (simp add: trader_invoke_def set_pf_def pf_event_engine_timer_cb_def queues_typed_def)
next
  case CB_portfolio_order_data
  with assms show ?thesis by (simp add: trader_invoke_def set_pf_def pf_event_engine_order_data_cb_def queues_typed_def)
next
  case CB_risk_order
  with assms obtain d where "e_data ev = P_order d" by (auto simp: event_ok_def)
  with CB_risk_order assms show ?thesis
    by (simp add: trader_invoke_def on_rk_def rk_event_engine_order_cb_def queues_typed_def Let_def)
next
  case CB_update_ticks
  with assms obtain d where "e_data ev = P_tick d" by (auto simp: event_ok_def)
  with CB_update_ticks assms show ?thesis
    by (simp add: trader_invoke_def on_te_def te_update_ticks_def md_update_ticks_def queues_typed_def)
next
  case CB_algo_tick
  with assms obtain d where "e_data ev = P_tick d" by (auto simp: event_ok_def)
  with CB_algo_tick assms show ?thesis
    by (simp add: trader_invoke_def on_ae_def ae_event_engine_tick_cb_def ae_push_def queues_typed_def)
next
  case CB_algo_timer
  with assms obtain d where "e_data ev = P_timer d" by (auto simp: event_ok_def)
  with CB_algo_timer assms show ?thesis
    by (simp add: trader_invoke_def on_ae_def ae_event_engine_timer_cb_def ae_push_def queues_typed_def)
next
  case CB_algo_order_data
  with assms show ?thesis
    by (simp add: trader_invoke_def on_ae_def ae_event_engine_order_cb_def ae_push_def queues_typed_def)
next
  case CB_recorder_copy
  with assms show ?thesis
    by (simp add: trader_invoke_def on_dr_def dr_copy_to_queue_def queues_typed_def)
qed

lemma run_cbs_typed:
  "\<forall>(n, cb) \<in> set cbs. cb_type_ok (e_type ev) cb \<Longrightarrow> event_ok ev \<Longrightarrow> queues_typed (ee, w)
    \<Longrightarrow> \<exists>w'. run_cbs trader_invoke cbs ev (ee, w) = Ret [] (ee, w') \<and> queues_typed (ee, w')"
proof (induction cbs arbitrary: w)
  case Nil
  then show ?case by simp
next
  case (Cons c cbs)
  obtain n cb where c: "c = (n, cb)" by (cases c)
  obtain w1 where "trader_invoke cb ev (ee, w) = Ret () (ee, w1)" "queues_typed (ee, w1)"
    using trader_invoke_typed [of ev cb ee w] Cons.prems c by auto
  with Cons.IH [of w1] Cons.prems c show ?case by auto
qed

lemma ee_round_typed:
  assumes "queues_typed (ee, w)" and "cbs_typed ee"
  shows "\<exists>ee' w'. ee_round trader_invoke (ee, w) = Ret [] (ee', w') \<and> queues_typed (ee', w') \<and> cbs_typed ee'
    \<and> ee_cbs ee' = ee_cbs ee \<and> lbq_items (ee_q ee') = tl (lbq_items (ee_q ee))"
proof (cases "lbq_items (ee_q ee)")
  case Nil
  with assms show ?thesis by (simp add: ee_round_def lbq_pop_def try_pop_def)
next
  case (Cons ev evs)
  let ?ee = "ee\<lparr>ee_q := (ee_q ee)\<lparr>lbq_items := evs\<rparr>\<rparr>"
  have t: "queues_typed (?ee, w)" "event_ok ev" "cbs_typed ?ee"
    using assms Cons by (simp_all add: queues_typed_def queue_typed_def cbs_typed_def)
  have r: "ee_round trader_invoke (ee, w) = ee_handle trader_invoke ev (?ee, w)"
    using Cons by (simp add: ee_round_def lbq_pop_def try_pop_def)
  show ?thesis
  proof (cases "e_type ev = ET_event_engine_stop")
    case True
    with r t Cons show ?thesis by (simp add: ee_handle_def queues_typed_def cbs_typed_def)
  next
    case False
    show ?thesis
    proof (cases "ee_cbs ee (e_type ev)")
      case None
      with r t False Cons show ?thesis by (simp add: ee_handle_def)
    next
      case (Some cbs)
      have "\<forall>(n, cb) \<in> set cbs. cb_type_ok (e_type ev) cb"
        using t(3) Some by (auto simp: cbs_typed_def ee_cbs_of_def split: option.splits)
      from run_cbs_typed [OF this t(2,1)] r Some False t(3) Cons show ?thesis by (auto simp: ee_handle_def)
    qed
  qed
qed

text \<open>What the risk check, an order and a round of the portfolio do to the queues.\<close>

lemma te_send_order_typed:
  assumes "te_send_order td req te = Ret (oid, evs) te'"
  shows "list_all event_ok evs" "pf_q (te_portfolio te') = pf_q (te_portfolio te)"
proof -
  obtain ok rk pf where r: "rk_check_risk req (te_risk_manager te, te_portfolio te) = (ok, rk, pf)"
    by (cases "rk_check_risk req (te_risk_manager te, te_portfolio te)")
  have q: "pf_q pf = pf_q (te_portfolio te)"
    using r by (auto simp: rk_check_risk_def pf_get_algo_pnl_def Let_def split: if_splits option.splits prod.splits)
  show "list_all event_ok evs" "pf_q (te_portfolio te') = pf_q (te_portfolio te)"
    using assms r q by (auto simp: te_send_order_def ib_send_order_eq Let_def on_order_def split: if_splits)
qed

lemma ae_update_pos_typed:
  assumes "ae_update_pos_cb td ev (ae, te) = Ret evs (ae', te')"
  shows "list_all event_ok evs \<and> pf_q (te_portfolio te') = pf_q (te_portfolio te)"
proof -
  obtain pos where c: "cast_pos (e_data ev) = Inr pos"
    using assms by (cases "cast_pos (e_data ev)") (auto simp: ae_update_pos_cb_def)
  show ?thesis
  proof (cases "ae_inflight_order_id ae > 0")
    case True
    with assms c show ?thesis
      by (auto simp: ae_update_pos_cb_def te_cancel_order_def Let_def split: if_splits option.splits)
  next
    case False
    with assms c show ?thesis
      by (auto simp: ae_update_pos_cb_def ae_send_order_def Let_def dest: te_send_order_typed
          split: if_splits outcome.splits prod.splits)
  qed
qed

lemma ae_round_typed:
  assumes "ae_round td res (ae, te) = Ret evs (ae', te')" and "queue_typed (ae_q ae)"
  shows "list_all event_ok evs" "pf_q (te_portfolio te') = pf_q (te_portfolio te)" "queue_typed (ae_q ae')"
proof -
  have "list_all event_ok evs \<and> pf_q (te_portfolio te') = pf_q (te_portfolio te) \<and> queue_typed (ae_q ae')"
    using assms(1)
  proof (cases rule: ae_round_cases)
    case timeout
    with assms(2) show ?thesis by simp
  next
    case (event ev rest)
    have "ae_queue_ok (ae\<lparr>ae_q := (ae_q ae)\<lparr>lbq_items := rest\<rparr>\<rparr>)"
      using assms(2) event(1) by (simp add: ae_queue_ok_def queue_typed_def)
    from ae_queue_handle [OF event(2) this] have q: "queue_typed (ae_q ae')" by (simp add: ae_queue_ok_def queue_typed_def)
    from event(2) show ?thesis
    proof (cases rule: ae_handle_cases)
      case pos
      from ae_update_pos_typed [OF pos(2)] q show ?thesis by simp
    qed (use q in simp_all)
  qed
  then show "list_all event_ok evs" "pf_q (te_portfolio te') = pf_q (te_portfolio te)" "queue_typed (ae_q ae')" by simp_all
qed

lemma pf_q_recompute [simp]: "pf_q (pnl_loop get_tick port pf) = pf_q pf"
  by (induction get_tick port pf rule: pnl_loop.induct) (simp_all add: Let_def)

lemma pf_round_typed:
  assumes "pf_round md ev pf = Ret (ev', evs) pf'" and "queue_typed (pf_q pf)"
  shows "list_all event_ok evs" "queue_typed (pf_q pf')"
proof -
  obtain b ev1 q where p: "try_pop ev (pf_q pf) = (b, ev1, q)" by (cases "try_pop ev (pf_q pf)") auto
  have q: "queue_typed q" using p assms(2) by (auto simp: try_pop_def queue_typed_def split: list.splits)
  have order: "pf_q pf2 = q" if "pf_order_data_cb ev1 (pf\<lparr>pf_q := q\<rparr>) = Ret u pf2" for u pf2
    using that by (cases "cast_order (e_data ev1)") (auto simp: pf_order_data_cb_def Let_def split: prod.splits)
  have timer: "pf_q pf2 = q \<and> list_all event_ok evs2" if "pf_timer_cb md ev1 (pf\<lparr>pf_q := q\<rparr>) = Ret evs2 pf2" for evs2 pf2
    using that by (cases "cast_timer (e_data ev1)")
      (auto simp: pf_timer_cb_def pf_recompute_def pnl_events_def Let_def list_all_iff split: if_splits)
  have "list_all event_ok evs \<and> queue_typed (pf_q pf')"
  proof (cases "e_type ev1 = ET_order_data \<or> e_type ev1 = ET_timer")
    case True
    with assms(1) p q order timer show ?thesis by (auto simp: pf_round_def bind_o_eq_Ret)
  next
    case False
    then have "pf_round md ev pf = Ret (ev1, []) (pf\<lparr>pf_q := q\<rparr>)" using p by (cases "e_type ev1") (simp_all add: pf_round_def)
    with assms(1) q show ?thesis by auto
  qed
  then show "list_all event_ok evs" "queue_typed (pf_q pf')" by simp_all
qed

lemma dr_round_typed:
  assumes "dr_round ok ev dr = Ret ev' dr'" and "queue_typed (dr_q dr)"
  shows "queue_typed (dr_q dr')"
proof -
  obtain b ev1 q where p: "try_pop ev (dr_q dr) = (b, ev1, q)" by (cases "try_pop ev (dr_q dr)") auto
  have q: "queue_typed q" using p assms(2) by (auto simp: try_pop_def queue_typed_def split: list.splits)
  have *: "dr_q dr2 = q" if "dr_save_tick ok ev1 (dr\<lparr>dr_q := q\<rparr>) = r \<or> dr_save_order_data ok ev1 (dr\<lparr>dr_q := q\<rparr>) = r"
      "r = Ret u dr2 \<or> r = Throw e dr2" for r u e dr2
    using that by (auto simp: dr_save_tick_def dr_save_order_data_def insert_one_def with_cast_def split: sum.splits if_splits)
  have "dr_q dr' = q"
    using assms(1) p *
    by (auto simp: dr_round_def Let_def split: event_type.splits outcome.splits exn.splits)
  with q show ?thesis by simp
qed

definition trader_typed :: "trader_world \<Rightarrow> bool" where
  "trader_typed s \<longleftrightarrow> queues_typed s \<and> cbs_typed (fst s)"

lemma cbs_typed_fold [simp]: "cbs_typed (fold ee_send evs ee) = cbs_typed ee"
  by (simp add: cbs_typed_def)

lemma trader_step_typed:
  assumes "trader_step dd td s s'" and "trader_typed s"
  shows "trader_typed s'"
  using assms
proof (induction rule: trader_step.induct)
  case (engine ee w errs s)
  with ee_round_typed [of ee w] show ?case by (auto simp: trader_typed_def)
next
  case (tws op w evs ib ee)
  have "list_all event_ok evs" using ib_exec_events_ok [OF tws(1)] by (simp add: list_all_iff)
  with tws show ?case by (simp add: trader_typed_def queues_typed_def gw_post_def queue_typed_def)
next
  case (portfolio w ev evs pf ee)
  with pf_round_typed [OF portfolio(2)] show ?case
    by (simp add: trader_typed_def queues_typed_def gw_post_def queue_typed_def)
next
  case (algo w res evs ae te ee)
  with ae_round_typed [OF algo(2)] show ?case
    by (simp add: trader_typed_def queues_typed_def gw_post_def queue_typed_def)
next
  case (strategy data w ae ee)
  then have "\<exists>p. ae = ae_push (mk_event ET_algo_pos_update (P_pos p)) (tr_ae w)"
    by (auto simp: ae_mq_message_cb_def Let_def split: if_splits)
  with strategy show ?case by (auto simp: trader_typed_def queues_typed_def ae_push_def)
next
  case (recorder w ok ev dr ee)
  with dr_round_typed [OF recorder(2)] show ?case by (simp add: trader_typed_def queues_typed_def)
next
  case (clock t w evs target ee)
  then have "list_all event_ok evs" by (auto simp: send_timer_def Let_def split: if_splits option.splits)
  with clock show ?case
    by (simp add: trader_typed_def queues_typed_def te_send_event_eq queue_typed_def)
qed

inductive trader_reach :: "(decimal \<Rightarrow> double) \<Rightarrow> (double \<Rightarrow> decimal) \<Rightarrow> trader_world \<Rightarrow> trader_world \<Rightarrow> bool"
  for dd td s0 where
  start: "trader_reach dd td s0 s0"
| step: "trader_reach dd td s0 s \<Longrightarrow> trader_step dd td s s' \<Longrightarrow> trader_reach dd td s0 s'"

lemma trader_reach_typed: "trader_reach dd td s0 s \<Longrightarrow> trader_typed s0 \<Longrightarrow> trader_typed s"
  by (induction rule: trader_reach.induct) (auto intro: trader_step_typed)

text \<open>The registrations of the constructors, and the state after the start.\<close>

lemma register_all_cbs:
  assumes "\<not> ee_running ee" and "cbs_typed ee" and "\<forall>(t, n, cb) \<in> set cbs. cb_type_ok t cb"
  shows "cbs_typed (register_all cbs ee) \<and> \<not> ee_running (register_all cbs ee)
    \<and> ee_q (register_all cbs ee) = ee_q ee \<and> ee_joinable (register_all cbs ee) = ee_joinable ee"
  using assms
proof (induction cbs arbitrary: ee)
  case Nil
  then show ?case by simp
next
  case (Cons c cbs)
  obtain t n cb where c: "c = (t, n, cb)" by (cases c)
  let ?ee = "snd (ee_register_cb t n cb ee)"
  have mem: "(k', v) \<in> set (um_put k x m) \<Longrightarrow> (k', v) \<in> set m \<or> (k', v) = (k, x)" for k k' and v x :: trader_cb and m :: "(string, trader_cb) umap"
    by (induction m) (auto simp: um_put_def split: if_splits)
  have "cbs_typed ?ee" using Cons.prems(1-3) c by (auto simp: cbs_typed_def ee_cbs_of_register dest: mem split: if_splits)
  moreover have "\<not> ee_running ?ee" "ee_q ?ee = ee_q ee" "ee_joinable ?ee = ee_joinable ee"
    using Cons.prems(1) by (simp_all add: ee_register_cb_def)
  ultimately show ?case using Cons.IH [of ?ee] Cons.prems(3) c by simp
qed

lemma trader_cbs_typed: "\<forall>(t, n, cb) \<in> set trader_cbs. cb_type_ok t cb"
  by (auto simp: trader_cbs_def dr_event_types_def)

lemma trader_create_typed:
  "trader_typed (trader_create cfg rk e1 e2)" "\<not> ee_running (fst (trader_create cfg rk e1 e2))"
  using register_all_cbs [of ee_init trader_cbs] trader_cbs_typed
  by (simp_all add: trader_create_def ae_create_def trader_typed_def queues_typed_def queue_typed_def ee_init_def lbq_empty_def
      cbs_typed_def ee_cbs_of_def pf_init_def dr_init_def pf_add_to_portfolio_def pf_add_market_data_mapping_def)

lemma ae_start_events:
  assumes "ae_start conn (ae, te) = Ret evs (ae', te')"
  shows "list_all event_ok evs" "pf_q (te_portfolio te') = pf_q (te_portfolio te)" "ae_q ae' = ae_q ae" "ae_running ae'"
  using assms
  by (auto simp: ae_start_def Let_def rc_connect_def te_subscribe_def md_subscribe_def ib_subscribe_eq on_tick_def on_error_def
      split: if_splits option.splits outcome.splits prod.splits)

lemma trader_start_typed:
  assumes "trader_start bRes oid conn s = Some (Ret () s')" and "trader_typed s"
  shows "trader_typed s'" "ee_running (fst s')"
proof -
  obtain ee w where s: "s = (ee, w)" by (cases s)
  obtain ee1 where e: "ee_start ee = Ret () ee1" using assms(1) s by (cases "ee_start ee") (auto simp: trader_start_def)
  let ?ib = "if bRes then ib_nextValidId oid (ib_start bRes (te_gateway (tr_te w))) else ib_start bRes (te_gateway (tr_te w))"
  let ?te = "(tr_te w)\<lparr>te_gateway := ?ib, te_portfolio := pf_start (te_portfolio (tr_te w))\<rparr>"
  obtain evs ae te where a: "ae_start conn (tr_ae w, ?te) = Ret evs (ae, te)"
    and s': "s' = (gw_post evs ee1, w\<lparr>tr_te := te, tr_ae := ae, tr_dr := snd (dr_start (tr_dr w))\<rparr>)"
    using assms(1) s e by (cases "ae_start conn (tr_ae w, ?te)") (auto simp: trader_start_def Let_def split: if_splits)
  have "pf_q (pf_start (te_portfolio (tr_te w))) = pf_q (te_portfolio (tr_te w))" "dr_q (snd (dr_start (tr_dr w))) = dr_q (tr_dr w)"
    "ee_q ee1 = ee_q ee" "ee_cbs ee1 = ee_cbs ee" "ee_running ee1"
    using e by (auto simp: pf_start_def dr_start_def ee_start_def Let_def split: if_splits)
  with ae_start_events [OF a] assms(2) show "trader_typed s'" "ee_running (fst s')" unfolding s s'
    by (simp_all add: trader_typed_def queues_typed_def gw_post_def queue_typed_def cbs_typed_def ee_cbs_of_def)
qed

text \<open>
  Property C8. From the start on, whatever the threads do in any order, the queues of the event engine, the
  portfolio, the algorithm and the recorder hold only events that carry the data their type
  announces.
\<close>

theorem trader_queues_typed:
  assumes "trader_start bRes oid conn (trader_create cfg rk e1 e2) = Some (Ret () s0)" and "trader_reach dd td s0 s"
  shows "queues_typed s"
  using trader_reach_typed [OF assms(2) trader_start_typed(1) [OF assms(1) trader_create_typed(1)]] by (simp add: trader_typed_def)

text \<open>
  Property C40. From the start on, whatever the threads do in any order, a turn of the event engine
  never fails: no callback throws, none meets a null pointer or data of another type, and the next event
  is taken.
\<close>

theorem engine_turn_never_fails:
  assumes "trader_start bRes oid conn (trader_create cfg rk e1 e2) = Some (Ret () s0)" and "trader_reach dd td s0 s"
  shows "\<exists>s'. ee_round trader_invoke s = Ret [] s' \<and> lbq_items (ee_q (fst s')) = tl (lbq_items (ee_q (fst s)))"
proof -
  obtain ee w where s: "s = (ee, w)" by (cases s)
  have "queues_typed (ee, w)" "cbs_typed ee"
    using trader_reach_typed [OF assms(2) trader_start_typed(1) [OF assms(1) trader_create_typed(1)]] s by (simp_all add: trader_typed_def)
  from ee_round_typed [OF this] s show ?thesis by auto
qed

text \<open>The table of callbacks stays what the constructors made it.\<close>

lemma trader_step_cbs: "trader_step dd td s s' \<Longrightarrow> trader_typed s \<Longrightarrow> ee_cbs (fst s') = ee_cbs (fst s)"
proof (induction rule: trader_step.induct)
  case (engine ee w errs s)
  with ee_round_typed [of ee w] show ?case by (auto simp: trader_typed_def)
qed (simp_all add: gw_post_def te_send_event_eq)

lemma trader_reach_cbs: "trader_reach dd td s0 s \<Longrightarrow> trader_typed s0 \<Longrightarrow> ee_cbs (fst s) = ee_cbs (fst s0)"
  by (induction rule: trader_reach.induct) (auto dest: trader_step_cbs trader_reach_typed)

lemma trader_start_cbs:
  assumes "trader_start bRes oid conn s = Some (Ret () s')"
  shows "ee_cbs (fst s') = ee_cbs (fst s)"
proof -
  obtain ee w where s: "s = (ee, w)" by (cases s)
  obtain ee1 where e: "ee_start ee = Ret () ee1" using assms s by (cases "ee_start ee") (auto simp: trader_start_def)
  then have "ee_cbs ee1 = ee_cbs ee" by (auto simp: ee_start_def Let_def split: if_splits)
  moreover obtain evs where "fst s' = gw_post evs ee1"
    using assms s e by (auto simp: trader_start_def Let_def split: if_splits outcome.splits prod.splits)
  ultimately show ?thesis using s by (simp add: gw_post_def)
qed

lemma trader_create_cbs:
  "ee_cbs (fst (trader_create cfg rk e1 e2)) ET_tick_data =
     Some [(''trading_engine_tick_update'', CB_update_ticks), (''algo_engine_tick'', CB_algo_tick), (''data_recorder_copy'', CB_recorder_copy)]"
  "ee_cbs (fst (trader_create cfg rk e1 e2)) ET_order_data =
     Some [(''portfolio_order_data_cb'', CB_portfolio_order_data), (''risk_order_cb'', CB_risk_order),
       (''algo_engine_order_data'', CB_algo_order_data), (''data_recorder_copy'', CB_recorder_copy)]"
  "ee_cbs (fst (trader_create cfg rk e1 e2)) ET_timer =
     Some [(''portfolio_timer_cb'', CB_portfolio_timer), (''algo_engine_timer'', CB_algo_timer)]"
  by (simp_all add: trader_create_def ae_create_def trader_cbs_def dr_event_types_def ee_register_cb_def ee_init_def ee_cbs_of_def um_put_def)

text \<open>
  Property C9. In every state the running program can reach, a tick that is next in the engine's queue
  becomes the last tick of its symbol, is put into the recorder's queue, and into the algorithm's queue
  when the algorithm runs and the tick is of the symbol it watches; nothing else changes.
\<close>

theorem tick_fan_out:
  assumes "trader_start bRes oid conn (trader_create cfg rk e1 e2) = Some (Ret () s0)" and "trader_reach dd td s0 (ee, w)"
    and "lbq_items (ee_q ee) = on_tick t # rest"
  shows "ee_round trader_invoke (ee, w) = Ret [] (ee\<lparr>ee_q := (ee_q ee)\<lparr>lbq_items := rest\<rparr>\<rparr>,
    w\<lparr>tr_te := (tr_te w)\<lparr>te_mktd_mgr := (te_mktd_mgr (tr_te w))\<lparr>md_last_ticks := (md_last_ticks (te_mktd_mgr (tr_te w)))(t_symbol t \<mapsto> t)\<rparr>\<rparr>,
      tr_ae := if ae_running (tr_ae w) \<and> t_symbol t = ae_mkt_data_symbol (tr_ae w) then ae_push (on_tick t) (tr_ae w) else tr_ae w,
      tr_dr := (tr_dr w)\<lparr>dr_q := wait_push (on_tick t) (dr_q (tr_dr w))\<rparr>\<rparr>)"
proof -
  have "ee_cbs ee = ee_cbs (fst (trader_create cfg rk e1 e2))"
    using trader_reach_cbs [OF assms(2) trader_start_typed(1) [OF assms(1) trader_create_typed(1)]] trader_start_cbs [OF assms(1)] by simp
  then have "ee_cbs ee ET_tick_data =
     Some [(''trading_engine_tick_update'', CB_update_ticks), (''algo_engine_tick'', CB_algo_tick), (''data_recorder_copy'', CB_recorder_copy)]"
    by (simp add: trader_create_cbs)
  with assms(3) show ?thesis
    by (simp add: ee_round_def lbq_pop_def try_pop_def ee_handle_def on_tick_def trader_invoke_def on_te_def te_update_ticks_def
        md_update_ticks_def on_ae_def ae_event_engine_tick_cb_def on_dr_def dr_copy_to_queue_def)
qed

section \<open>A trader that has started\<close>

definition demo_trader :: trader_world where
  "demo_trader = trader_create demo_cfg (rk_init [] 0 10) (mk_event ET_event_engine_test No_data) (mk_event ET_event_engine_test No_data)"

lemma demo_trader_queue: "\<exists>ee w. demo_trader = (ee, w) \<and> \<not> ee_running ee \<and> \<not> ee_joinable ee \<and> ee_q ee = lbq_empty
    \<and> w = \<lparr>tr_te = \<lparr>te_risk_manager = rk_init [] 0 10, te_portfolio = snd (ae_create demo_cfg pf_init), te_gateway = ib_init, te_mktd_mgr = md_init\<rparr>,
          tr_ae = fst (ae_create demo_cfg pf_init), tr_dr = dr_init, tr_pf_event = mk_event ET_event_engine_test No_data,
          tr_dr_event = mk_event ET_event_engine_test No_data, tr_target = None\<rparr>"
  using register_all_cbs [of ee_init trader_cbs] trader_cbs_typed
  by (simp add: demo_trader_def trader_create_def cbs_typed_def ee_cbs_of_def ee_init_def split: prod.splits)

lemma demo_trader_starts:
  "\<exists>s0 t ib. trader_start True 1 (Some demo_context) demo_trader = Some (Ret () s0) \<and> lbq_items (ee_q (fst s0)) = []
    \<and> ib_exec (\<lambda>_. Fin 1) td (Op_all_last 10000000 1 6 (Fin 5) 0) (te_gateway (tr_te (snd s0))) = Ret [on_tick t] ib"
proof -
  obtain ee w where d: "demo_trader = (ee, w)" "\<not> ee_running ee" "\<not> ee_joinable ee" "ee_q ee = lbq_empty"
    and w: "w = \<lparr>tr_te = \<lparr>te_risk_manager = rk_init [] 0 10, te_portfolio = snd (ae_create demo_cfg pf_init), te_gateway = ib_init, te_mktd_mgr = md_init\<rparr>,
          tr_ae = fst (ae_create demo_cfg pf_init), tr_dr = dr_init, tr_pf_event = mk_event ET_event_engine_test No_data,
          tr_dr_event = mk_event ET_event_engine_test No_data, tr_target = None\<rparr>"
    using demo_trader_queue by blast
  have wf: "symbol_wf ''6758-STK-JPY.TSEJ''" by code_simp
  show ?thesis
    unfolding d(1) w using d(2-4) wf
    by (simp add: trader_start_def ee_start_def ib_start_def ib_nextValidId_def ib_start_returned_def ib_init_def
        ae_start_def rc_connect_def ae_create_def demo_cfg_def rc_init_def demo_context_def te_subscribe_def md_subscribe_def md_init_def
        ib_subscribe_def generate_contract_eq ib_call_def Let_def gw_post_def lbq_empty_def lift_o_def ib_tickByTickAllLast_def) blast
qed

theorem trader_queues_typed_witness:
  "\<exists>s0 s. trader_start True 1 (Some demo_context) demo_trader = Some (Ret () s0)
    \<and> trader_reach (\<lambda>_. Fin 1) (\<lambda>_. 0) s0 s \<and> lbq_items (ee_q (fst s)) \<noteq> [] \<and> queues_typed s"
proof -
  obtain s0 t ib where s: "trader_start True 1 (Some demo_context) demo_trader = Some (Ret () s0)"
    and e: "ib_exec (\<lambda>_. Fin 1) (\<lambda>_. 0) (Op_all_last 10000000 1 6 (Fin 5) 0) (te_gateway (tr_te (snd s0))) = Ret [on_tick t] ib"
    using demo_trader_starts by blast
  let ?s = "(gw_post [on_tick t] (fst s0), (snd s0)\<lparr>tr_te := (tr_te (snd s0))\<lparr>te_gateway := ib\<rparr>\<rparr>)"
  have r: "trader_reach (\<lambda>_. Fin 1) (\<lambda>_. 0) s0 ?s"
    using trader_reach.step [OF trader_reach.start trader_step.tws [OF e]] by (metis prod.collapse)
  from trader_queues_typed [OF s [unfolded demo_trader_def] r] s r show ?thesis
    by (intro exI [of _ s0] exI [of _ ?s]) (simp add: gw_post_def ee_send_def wait_push_def)
qed

theorem engine_turn_never_fails_witness:
  "\<exists>s0 s'. trader_start True 1 (Some demo_context) demo_trader = Some (Ret () s0) \<and> ee_round trader_invoke s0 = Ret [] s'"
proof -
  obtain s0 where s: "trader_start True 1 (Some demo_context) demo_trader = Some (Ret () s0)"
    using demo_trader_starts by blast
  from engine_turn_never_fails [OF s [unfolded demo_trader_def] trader_reach.start] s show ?thesis by blast
qed

theorem tick_fan_out_witness:
  "\<exists>s0 ee w t s'. trader_start True 1 (Some demo_context) demo_trader = Some (Ret () s0)
    \<and> trader_reach (\<lambda>_. Fin 1) (\<lambda>_. 0) s0 (ee, w) \<and> lbq_items (ee_q ee) = [on_tick t]
    \<and> ee_round trader_invoke (ee, w) = Ret [] s' \<and> te_get_last_tick (t_symbol t) (tr_te (snd s')) = Some t"
proof -
  obtain s0 t ib where s: "trader_start True 1 (Some demo_context) demo_trader = Some (Ret () s0)" and q: "lbq_items (ee_q (fst s0)) = []"
    and e: "ib_exec (\<lambda>_. Fin 1) (\<lambda>_. 0) (Op_all_last 10000000 1 6 (Fin 5) 0) (te_gateway (tr_te (snd s0))) = Ret [on_tick t] ib"
    using demo_trader_starts by blast
  let ?ee = "gw_post [on_tick t] (fst s0)" and ?w = "(snd s0)\<lparr>tr_te := (tr_te (snd s0))\<lparr>te_gateway := ib\<rparr>\<rparr>"
  have r: "trader_reach (\<lambda>_. Fin 1) (\<lambda>_. 0) s0 (?ee, ?w)"
    using trader_reach.step [OF trader_reach.start trader_step.tws [OF e]] by (metis prod.collapse)
  have h: "lbq_items (ee_q ?ee) = [on_tick t]" using q by (simp add: gw_post_def ee_send_def wait_push_def)
  from tick_fan_out [OF s [unfolded demo_trader_def] r h] s r h show ?thesis
    by (intro exI [of _ s0] exI [of _ ?ee] exI [of _ ?w] exI [of _ t] exI) (auto simp: te_get_last_tick_def md_get_last_tick_def)
qed

end
