(* ===== verification/TwsClient.thy ===== *)
theory TwsClient
  imports TwsData
begin

text \<open>
  The state of the TWS client (\<open>EClient\<close> of \<open>external/tws/client/EClient.h\<close> and \<open>EClient.cpp\<close>,
  \<open>EClientSocket\<close> of \<open>EClientSocket.cpp\<close>, \<open>ESocket\<close> of \<open>ESocket.cpp\<close>) and how it sends: the length
  header, the output buffer, what the socket takes of it, and what follows an error of the socket.
  The answer of \<open>::send\<close> to the bytes it is offered is an argument of every operation that sends.
  The callbacks into \<open>EWrapper\<close> are recorded in order.
\<close>

section \<open>State\<close>

datatype conn_state = CS_DISCONNECTED | CS_CONNECTING | CS_CONNECTED | CS_REDIRECT

text \<open>The values of \<open>errno\<close> the client tells apart; \<open>E_other\<close> has the text of \<open>strerror\<close>.\<close>

datatype errno = E_none | E_isconn | E_wouldblock | E_connrefused | E_other string

record eclient =
  ec_connState :: conn_state
  ec_serverVersion :: int
  ec_clientId :: int
  ec_extraAuth :: bool
  ec_useV100Plus :: bool
  ec_optionalCapabilities :: string
  ec_connectOptions :: string
  ec_TwsTime :: string
  ec_host :: string
  ec_port :: int
  ec_asyncEConnect :: bool
  ec_redirectCount :: int
  ec_fd :: int
  ec_outBuffer :: string
  ec_sent :: string
  ec_errno :: errno
  ec_cbs :: "wrapper_call list"

definition ec_init :: eclient where
  "ec_init = \<lparr>ec_connState = CS_DISCONNECTED, ec_serverVersion = 0, ec_clientId = - 1, ec_extraAuth = False,
     ec_useV100Plus = True, ec_optionalCapabilities = [], ec_connectOptions = [], ec_TwsTime = [],
     ec_host = [], ec_port = 0,
     ec_asyncEConnect = False, ec_redirectCount = 0, ec_fd = - 1, ec_outBuffer = [], ec_sent = [],
     ec_errno = E_none, ec_cbs = []\<rparr>"

definition ec_call :: "wrapper_call \<Rightarrow> eclient \<Rightarrow> eclient" where
  "ec_call w ec = ec\<lparr>ec_cbs := ec_cbs ec @ [w]\<rparr>"

definition isConnected :: "eclient \<Rightarrow> bool" where
  "isConnected ec \<longleftrightarrow> ec_connState ec = CS_CONNECTED"

definition isSocketOK :: "eclient \<Rightarrow> bool" where
  "isSocketOK ec \<longleftrightarrow> ec_fd ec \<ge> 0"

definition NO_VALID_ID :: int where
  "NO_VALID_ID = - 1"

text \<open>The errors the client reports (\<open>TwsSocketClientErrors.h\<close>).\<close>

definition CONNECT_FAIL :: "int \<times> string" where
  "CONNECT_FAIL = (502, ''Couldn't connect to TWS. Confirm that ''
     @ CHR 0x22 # ''Enable ActiveX and Socket Clients'' @ CHR 0x22 # '' is enabled and connection port is the same as ''
     @ CHR 0x22 # ''Socket Port'' @ CHR 0x22 # '' on the TWS '' @ CHR 0x22 # ''Edit->Global Configuration...->API->Settings''
     @ CHR 0x22 # '' menu. Live Trading ports: TWS: 7496; IB Gateway: 4001. Simulated Trading ports for new installations ''
     @ ''of version 954.1 or newer:  TWS: 7497; IB Gateway: 4002'')"

definition UPDATE_TWS :: "int \<times> string" where
  "UPDATE_TWS = (503, ''The TWS is out of date and must be upgraded.'')"

definition NOT_CONNECTED :: "int \<times> string" where
  "NOT_CONNECTED = (504, ''Not connected'')"

definition UNSUPPORTED_VERSION :: "int \<times> string" where
  "UNSUPPORTED_VERSION = (506, ''Unsupported version'')"

definition BAD_LENGTH :: "int \<times> string" where
  "BAD_LENGTH = (507, ''Bad message length'')"

definition SOCKET_EXCEPTION :: "int \<times> string" where
  "SOCKET_EXCEPTION = (509, ''Exception caught while reading socket - '')"

definition INVALID_SYMBOL :: "int \<times> string" where
  "INVALID_SYMBOL = (579, ''Invalid symbol in string - '')"

definition ec_error :: "int \<Rightarrow> int \<times> string \<Rightarrow> string \<Rightarrow> eclient \<Rightarrow> eclient" where
  "ec_error i e extra = ec_call (W_error i (fst e) (snd e @ extra) [])"

section \<open>The socket\<close>

datatype send_result = Sent nat | Send_fails errno

type_synonym kernel = "string \<Rightarrow> send_result"

text \<open>\<open>ESocket::send\<close>: the number of bytes taken, or -1 with \<open>errno\<close> set.\<close>

definition es_send :: "kernel \<Rightarrow> string \<Rightarrow> eclient \<Rightarrow> int \<times> eclient" where
  "es_send k buf ec =
     (if buf = [] then (0, ec)
      else case k buf of
        Send_fails e \<Rightarrow> (- 1, ec\<lparr>ec_errno := e\<rparr>)
      | Sent n \<Rightarrow> (int (min n (length buf)), ec\<lparr>ec_sent := ec_sent ec @ take n buf\<rparr>))"

definition CleanupBuffer :: "string \<Rightarrow> int \<Rightarrow> string" where
  "CleanupBuffer buffer processed =
     (if buffer = [] then buffer else if processed \<le> 0 then buffer
      else if nat processed = length buffer then [] else drop (nat processed) buffer)"

definition sendBufferedData :: "kernel \<Rightarrow> eclient \<Rightarrow> int \<times> eclient" where
  "sendBufferedData k ec =
     (if ec_outBuffer ec = [] then (0, ec)
      else case es_send k (ec_outBuffer ec) ec of (nResult, ec1) \<Rightarrow>
        if nResult \<le> 0 then (nResult, ec1)
        else (nResult, ec1\<lparr>ec_outBuffer := CleanupBuffer (ec_outBuffer ec1) nResult\<rparr>))"

definition bufferedSend :: "kernel \<Rightarrow> string \<Rightarrow> eclient \<Rightarrow> int \<times> eclient" where
  "bufferedSend k buf ec =
     (if buf = [] then (0, ec)
      else if ec_outBuffer ec \<noteq> [] then sendBufferedData k (ec\<lparr>ec_outBuffer := ec_outBuffer ec @ buf\<rparr>)
      else case es_send k buf ec of (nResult, ec1) \<Rightarrow>
        if nResult < int (length buf)
        then (nResult, ec1\<lparr>ec_outBuffer := ec_outBuffer ec1 @ drop (nat (max nResult 0)) buf\<rparr>)
        else (nResult, ec1))"

section \<open>Disconnecting and errors\<close>

definition eDisconnectBase :: "eclient \<Rightarrow> eclient" where
  "eDisconnectBase ec = ec\<lparr>ec_connState := CS_DISCONNECTED, ec_serverVersion := 0, ec_clientId := - 1,
     ec_extraAuth := False, ec_TwsTime := []\<rparr>"

definition eDisconnect :: "bool \<Rightarrow> eclient \<Rightarrow> eclient" where
  "eDisconnect resetState ec =
     (let ec1 = ec\<lparr>ec_fd := - 1\<rparr> in if resetState then eDisconnectBase ec1 else ec1)"

definition handleSocketError :: "eclient \<Rightarrow> bool \<times> eclient" where
  "handleSocketError ec =
     (case ec_errno ec of
        E_none \<Rightarrow> (True, ec)
      | E_isconn \<Rightarrow> (True, ec)
      | E_wouldblock \<Rightarrow> (False, ec)
      | E_connrefused \<Rightarrow> (False, eDisconnect True ((ec_error NO_VALID_ID CONNECT_FAIL [] ec)\<lparr>ec_errno := E_none\<rparr>))
      | E_other text \<Rightarrow> (False, eDisconnect True ((ec_error NO_VALID_ID SOCKET_EXCEPTION text ec)\<lparr>ec_errno := E_none\<rparr>)))"

definition onSend :: "kernel \<Rightarrow> eclient \<Rightarrow> eclient" where
  "onSend k ec = (case sendBufferedData k ec of (n, ec1) \<Rightarrow> if n < 0 then snd (handleSocketError ec1) else ec1)"

definition onClose :: "eclient \<Rightarrow> eclient" where
  "onClose ec = ec_call W_connectionClosed (eDisconnect True ec)"

definition onError :: "eclient \<Rightarrow> eclient" where
  "onError ec = snd (handleSocketError ec)"

section \<open>Sending a message\<close>

definition HEADER_LEN :: nat where
  "HEADER_LEN = 4"

definition MAX_MSG_LEN :: nat where
  "MAX_MSG_LEN = 0xFFFFFF"

text \<open>The four bytes of a length in network order.\<close>

definition htonl_bytes :: "nat \<Rightarrow> string" where
  "htonl_bytes n = rev (le_bytes 4 n)"

definition prepareBuffer :: "eclient \<Rightarrow> string" where
  "prepareBuffer ec = (if ec_useV100Plus ec then replicate HEADER_LEN NUL else [])"

text \<open>A message that is too long keeps its empty header, and is sent all the same.\<close>

definition encodeMsgLen :: "string \<Rightarrow> nat \<Rightarrow> eclient \<Rightarrow> string \<times> eclient" where
  "encodeMsgLen msg offset ec =
     (let len = length msg - HEADER_LEN - offset in
      if len > MAX_MSG_LEN then (msg, ec_error NO_VALID_ID BAD_LENGTH [] ec)
      else (take offset msg @ htonl_bytes len @ drop (offset + HEADER_LEN) msg, ec))"

definition closeAndSend :: "kernel \<Rightarrow> string \<Rightarrow> nat \<Rightarrow> eclient \<Rightarrow> bool \<times> eclient" where
  "closeAndSend k msg offset ec =
     (case (if ec_useV100Plus ec then encodeMsgLen msg offset ec else (msg, ec)) of (msg1, ec1) \<Rightarrow>
        case bufferedSend k msg1 ec1 of (n, ec2) \<Rightarrow>
          if n = - 1 then handleSocketError ec2 else (True, ec2))"

text \<open>
  What every request does with its fields: the message is put together in a stream, the exception of
  a text that cannot be printed is reported under the id of the request, and otherwise it is sent.
\<close>

definition send_fields :: "kernel \<Rightarrow> (decimal \<Rightarrow> string) \<Rightarrow> int \<Rightarrow> field list \<Rightarrow> eclient \<Rightarrow> eclient" where
  "send_fields k dec_str i fs ec =
     (case encode_fields dec_str fs of
        Inl t \<Rightarrow> ec_error i INVALID_SYMBOL t ec
      | Inr s \<Rightarrow> snd (closeAndSend k (prepareBuffer ec @ s) 0 ec))"

text \<open>The checks of the server's version: the first one that fails has the text of the error.\<close>

fun refusal :: "int \<Rightarrow> (int \<times> bool \<times> string) list \<Rightarrow> string option" where
  "refusal v [] = None"
| "refusal v ((needed, used, text) # cs) = (if v < needed \<and> used then Some text else refusal v cs)"

definition since :: "int \<Rightarrow> int \<Rightarrow> field list \<Rightarrow> field list" where
  "since v needed fs = (if v \<ge> needed then fs else [])"

section \<open>Connecting\<close>

definition MIN_CLIENT_VER :: int where
  "MIN_CLIENT_VER = 100"

definition MAX_CLIENT_VER :: int where
  "MAX_CLIENT_VER = 176"

definition CLIENT_VERSION :: int where
  "CLIENT_VERSION = 66"

definition API_SIGN :: string where
  "API_SIGN = ''API'' @ [NUL]"

definition sendConnectRequest :: "kernel \<Rightarrow> eclient \<Rightarrow> int \<times> eclient" where
  "sendConnectRequest k ec =
     (let ec1 = ec\<lparr>ec_connState := CS_CONNECTING\<rparr>;
          (rval, ec2) =
            (if ec_useV100Plus ec1 then
               (let msg = API_SIGN @ replicate HEADER_LEN NUL
                   @ (if MIN_CLIENT_VER < MAX_CLIENT_VER
                      then ''v'' @ int_str MIN_CLIENT_VER @ ''..'' @ int_str MAX_CLIENT_VER
                      else ''v'' @ int_str MIN_CLIENT_VER)
                   @ (if ec_connectOptions ec1 \<noteq> [] then '' '' @ ec_connectOptions ec1 else [])
                in case closeAndSend k msg (length API_SIGN) ec1 of (ok, ec2) \<Rightarrow> (if ok then 1 else - 1, ec2))
             else bufferedSend k (wire [int_str CLIENT_VERSION]) ec1)
      in (rval, ec2\<lparr>ec_connState := (if rval > 0 then CS_CONNECTED else CS_DISCONNECTED)\<rparr>))"

definition startApi :: "kernel \<Rightarrow> (decimal \<Rightarrow> string) \<Rightarrow> eclient \<Rightarrow> eclient" where
  "startApi k dec_str ec =
     (if \<not> isConnected ec then ec_error NO_VALID_ID NOT_CONNECTED [] ec
      else if ec_serverVersion ec \<ge> 3 then
        (if ec_serverVersion ec < 70 then snd (bufferedSend k (wire [int_str (ec_clientId ec)]) ec)
         else send_fields k dec_str NO_VALID_ID
           ([F_int 71, F_int 2, F_int (ec_clientId ec)]
            @ since (ec_serverVersion ec) 72 [F_string (ec_optionalCapabilities ec)]) ec)
      else ec)"

text \<open>What the client does with the version of the server once it is known.\<close>

definition set_serverVersion :: "kernel \<Rightarrow> (decimal \<Rightarrow> string) \<Rightarrow> int \<Rightarrow> string \<Rightarrow> eclient \<Rightarrow> eclient" where
  "set_serverVersion k dec_str version time ec =
     (let ec1 = ec\<lparr>ec_serverVersion := version, ec_TwsTime := time, ec_redirectCount := 0\<rparr> in
      if (if ec_useV100Plus ec1 then version < MIN_CLIENT_VER \<or> version > MAX_CLIENT_VER else version < 38)
      then ec_error NO_VALID_ID UNSUPPORTED_VERSION [] (eDisconnect True ec1)
      else if \<not> ec_asyncEConnect ec1 then startApi k dec_str ec1 else ec1)"

section \<open>No byte is lost or reordered\<close>

text \<open>What the socket took and what waits, one after the other.\<close>

definition ec_stream :: "eclient \<Rightarrow> string" where
  "ec_stream ec = ec_sent ec @ ec_outBuffer ec"

definition frame :: "string \<Rightarrow> string" where
  "frame s = htonl_bytes (length s) @ s"

lemma es_send_facts:
  assumes "es_send k buf ec = (n, ec1)"
  shows "- 1 \<le> n" "n \<le> int (length buf)" "ec_sent ec1 = ec_sent ec @ take (nat (max n 0)) buf"
    "ec_outBuffer ec1 = ec_outBuffer ec" "ec_cbs ec1 = ec_cbs ec"
  using assms by (auto simp: es_send_def min_def split: if_splits send_result.splits)

lemma sendBufferedData_stream:
  assumes "sendBufferedData k ec = (n, ec1)"
  shows "ec_stream ec1 = ec_stream ec" "ec_cbs ec1 = ec_cbs ec"
proof -
  obtain m ec2 where s: "es_send k (ec_outBuffer ec) ec = (m, ec2)" by (cases "es_send k (ec_outBuffer ec) ec") auto
  note f = es_send_facts [OF s]
  show "ec_stream ec1 = ec_stream ec" "ec_cbs ec1 = ec_cbs ec"
    using assms s f by (auto simp: sendBufferedData_def ec_stream_def CleanupBuffer_def split: if_splits)
qed

lemma bufferedSend_stream:
  assumes "bufferedSend k buf ec = (n, ec1)"
  shows "ec_stream ec1 = ec_stream ec @ buf" "ec_cbs ec1 = ec_cbs ec"
proof -
  have "ec_stream ec1 = ec_stream ec @ buf \<and> ec_cbs ec1 = ec_cbs ec"
  proof (cases "buf = [] \<or> ec_outBuffer ec \<noteq> []")
    case True
    then show ?thesis using assms sendBufferedData_stream [of k "ec\<lparr>ec_outBuffer := ec_outBuffer ec @ buf\<rparr>" n ec1]
      by (auto simp: bufferedSend_def ec_stream_def split: if_splits)
  next
    case False
    obtain m ec2 where s: "es_send k buf ec = (m, ec2)" by (cases "es_send k buf ec") auto
    note f = es_send_facts [OF s]
    show ?thesis using assms s f False by (auto simp: bufferedSend_def ec_stream_def split: if_splits)
  qed
  then show "ec_stream ec1 = ec_stream ec @ buf" "ec_cbs ec1 = ec_cbs ec" by blast+
qed

lemma ec_stream_simps [simp]:
  "ec_stream (ec_error i e x ec) = ec_stream ec" "ec_stream (eDisconnect r ec) = ec_stream ec"
  "ec_stream (ec\<lparr>ec_errno := en\<rparr>) = ec_stream ec" "ec_stream (ec\<lparr>ec_connState := cs\<rparr>) = ec_stream ec"
  "ec_stream (snd (handleSocketError ec)) = ec_stream ec"
  by (simp_all add: ec_stream_def ec_error_def ec_call_def eDisconnect_def eDisconnectBase_def handleSocketError_def Let_def
      split: errno.splits)

lemma encodeMsgLen_frame:
  assumes "length s \<le> MAX_MSG_LEN" and "offset = length p"
  shows "encodeMsgLen (p @ replicate HEADER_LEN NUL @ s) offset ec = (p @ frame s, ec)"
  using assms by (simp add: encodeMsgLen_def Let_def HEADER_LEN_def frame_def)

lemma closeAndSend_stream:
  assumes "ec_useV100Plus ec" and "length s \<le> MAX_MSG_LEN"
  shows "ec_stream (snd (closeAndSend k (p @ replicate HEADER_LEN NUL @ s) (length p) ec)) = ec_stream ec @ p @ frame s"
proof -
  obtain n ec1 where b: "bufferedSend k (p @ frame s) ec = (n, ec1)" by (cases "bufferedSend k (p @ frame s) ec") auto
  show ?thesis using assms b bufferedSend_stream(1) [OF b] encodeMsgLen_frame [OF assms(2) refl, of p ec]
    by (simp add: closeAndSend_def)
qed

lemma send_fields_stream:
  assumes "ec_useV100Plus ec" and "encode_fields dec_str fs = Inr s" and "length s \<le> MAX_MSG_LEN"
  shows "ec_stream (send_fields k dec_str i fs ec) = ec_stream ec @ frame s"
  using assms closeAndSend_stream [of ec s k "[]"] by (simp add: send_fields_def prepareBuffer_def)

text \<open>
  A message over the limit goes out with four zero bytes for its length, after the error: the server
  loses track of the stream.
\<close>

lemma oversized_message_sent:
  assumes "ec_useV100Plus ec" and "encode_fields dec_str fs = Inr s" and "length s > MAX_MSG_LEN"
  shows "ec_stream (send_fields k dec_str i fs ec) = ec_stream ec @ replicate HEADER_LEN NUL @ s"
proof -
  let ?ec = "ec_error NO_VALID_ID BAD_LENGTH [] ec" and ?m = "replicate HEADER_LEN NUL @ s"
  obtain n ec1 where b: "bufferedSend k ?m ?ec = (n, ec1)" by (cases "bufferedSend k ?m ?ec") auto
  have "encodeMsgLen ?m 0 ec = (?m, ?ec)" using assms(3) by (simp add: encodeMsgLen_def HEADER_LEN_def)
  then show ?thesis using assms b bufferedSend_stream(1) [OF b] by (simp add: send_fields_def prepareBuffer_def closeAndSend_def)
qed

end
