(* ===== verification/TwsRequests.thy ===== *)
theory TwsRequests
  imports TwsClient
begin

text \<open>
  The requests of \<open>EClient\<close> the gateway makes, except placing an order: tick-by-tick data, historical
  data, contract details, the type of market data, the cancellation of one or all orders. Each one
  checks the connection, then the version of the server, and sends its fields. The numbers compared
  with the version are the constants \<open>MIN_SERVER_VER_\<dots>\<close> of \<open>EDecoder.h\<close>.
\<close>

section \<open>Contracts\<close>

text \<open>The members of a contract up to the local symbol, which every request sends in this order.\<close>

definition contract_head :: "contract \<Rightarrow> field list" where
  "contract_head c = [F_string (c_symbol c), F_string (c_secType c), F_string (c_lastTradeDateOrContractMonth c),
     F_double (c_strike c), F_string (c_right c), F_string (c_multiplier c)]"

definition contract_fields :: "contract \<Rightarrow> field list" where
  "contract_fields c = contract_head c @ [F_string (c_exchange c), F_string (c_primaryExchange c),
     F_string (c_currency c), F_string (c_localSymbol c)]"

section \<open>Market data\<close>

definition reqMarketDataType :: "kernel \<Rightarrow> (decimal \<Rightarrow> string) \<Rightarrow> int \<Rightarrow> eclient \<Rightarrow> eclient" where
  "reqMarketDataType k dec_str marketDataType ec =
     (if \<not> isConnected ec then ec_error NO_VALID_ID NOT_CONNECTED [] ec
      else case refusal (ec_serverVersion ec) [(55, True, ''  It does not support market data type requests.'')] of
        Some text \<Rightarrow> ec_error NO_VALID_ID UPDATE_TWS text ec
      | None \<Rightarrow> send_fields k dec_str NO_VALID_ID [F_int 59, F_int 1, F_int marketDataType] ec)"

definition tick_by_tick_fields :: "int \<Rightarrow> int \<Rightarrow> contract \<Rightarrow> string \<Rightarrow> int \<Rightarrow> bool \<Rightarrow> field list" where
  "tick_by_tick_fields v reqId c tickType numberOfTicks ignoreSize =
     [F_int 97, F_int reqId, F_int (c_conId c)] @ contract_fields c @ [F_string (c_tradingClass c), F_string tickType]
     @ since v 140 [F_int numberOfTicks, F_bool ignoreSize]"

definition reqTickByTickData :: "kernel \<Rightarrow> (decimal \<Rightarrow> string) \<Rightarrow> int \<Rightarrow> contract \<Rightarrow> string \<Rightarrow> int \<Rightarrow> bool \<Rightarrow> eclient \<Rightarrow> eclient" where
  "reqTickByTickData k dec_str reqId c tickType numberOfTicks ignoreSize ec =
     (if \<not> isConnected ec then ec_error NO_VALID_ID NOT_CONNECTED [] ec
      else case refusal (ec_serverVersion ec)
          [(137, True, ''  It does not support tick-by-tick data request.''),
           (140, numberOfTicks \<noteq> 0 \<or> ignoreSize,
            ''  It does not support ignoreSize and numberOfTicks parameters in tick-by-tick data requests.'')] of
        Some text \<Rightarrow> ec_error NO_VALID_ID UPDATE_TWS text ec
      | None \<Rightarrow> send_fields k dec_str reqId
          (tick_by_tick_fields (ec_serverVersion ec) reqId c tickType numberOfTicks ignoreSize) ec)"

section \<open>Historical data\<close>

definition hist_leg_fields :: "combo_leg \<Rightarrow> field list" where
  "hist_leg_fields l = [F_int (l_conId l), F_int (l_ratio l), F_string (l_action l), F_string (l_exchange l)]"

definition hist_fields :: "int \<Rightarrow> int \<Rightarrow> contract \<Rightarrow> string \<Rightarrow> string \<Rightarrow> string \<Rightarrow> string \<Rightarrow> int \<Rightarrow> int \<Rightarrow> bool
    \<Rightarrow> (string \<times> string) list \<Rightarrow> field list" where
  "hist_fields v tickerId c endDateTime durationStr barSizeSetting whatToShow useRTH formatDate keepUpToDate chartOptions =
     [F_int 20] @ (if v < 124 then [F_int 6] else []) @ [F_int tickerId]
     @ since v 68 [F_int (c_conId c)] @ contract_fields c @ since v 68 [F_string (c_tradingClass c)]
     @ [F_bool (c_includeExpired c), F_string endDateTime, F_string barSizeSetting, F_string durationStr,
        F_int useRTH, F_string whatToShow, F_int formatDate]
     @ (if c_secType c = ''BAG''
        then F_int (int (length (c_comboLegs c))) # concat (map hist_leg_fields (c_comboLegs c)) else [])
     @ since v 124 [F_bool keepUpToDate]
     @ since v 70 [tag_value_list chartOptions]"

definition reqHistoricalData :: "kernel \<Rightarrow> (decimal \<Rightarrow> string) \<Rightarrow> int \<Rightarrow> contract \<Rightarrow> string \<Rightarrow> string \<Rightarrow> string \<Rightarrow> string \<Rightarrow> int \<Rightarrow> int
    \<Rightarrow> bool \<Rightarrow> (string \<times> string) list \<Rightarrow> eclient \<Rightarrow> eclient" where
  "reqHistoricalData k dec_str tickerId c endDateTime durationStr barSizeSetting whatToShow useRTH formatDate
       keepUpToDate chartOptions ec =
     (if \<not> isConnected ec then ec_error tickerId NOT_CONNECTED [] ec
      else case refusal (ec_serverVersion ec)
          [(68, c_tradingClass c \<noteq> [] \<or> c_conId c > 0,
            ''  It does not support conId and tradingClass parameters in reqHistoricalData.''),
           (165, whatToShow \<noteq> [] \<and> whatToShow = ''SCHEDULE'', ''  It does not support requesting of historical schedule.'')] of
        Some text \<Rightarrow> ec_error tickerId UPDATE_TWS text ec
      | None \<Rightarrow> send_fields k dec_str tickerId
          (hist_fields (ec_serverVersion ec) tickerId c endDateTime durationStr barSizeSetting whatToShow useRTH formatDate
             keepUpToDate chartOptions) ec)"

section \<open>Contract details\<close>

definition contract_details_fields :: "int \<Rightarrow> int \<Rightarrow> contract \<Rightarrow> field list" where
  "contract_details_fields v reqId c =
     [F_int 9, F_int 8] @ since v 40 [F_int reqId] @ [F_int (c_conId c)] @ contract_head c
     @ (if v \<ge> 75 then [F_string (c_exchange c), F_string (c_primaryExchange c)]
        else if v \<ge> 70 then
          (if c_primaryExchange c \<noteq> [] \<and> (c_exchange c = ''BEST'' \<or> c_exchange c = ''SMART'')
           then [F_string (c_exchange c @ '':'' @ c_primaryExchange c)] else [F_string (c_exchange c)])
        else [])
     @ [F_string (c_currency c), F_string (c_localSymbol c)]
     @ since v 68 [F_string (c_tradingClass c)]
     @ [F_bool (c_includeExpired c)]
     @ since v 45 [F_string (c_secIdType c), F_string (c_secId c)]
     @ since v 176 [F_string (c_issuerId c)]"

definition reqContractDetails :: "kernel \<Rightarrow> (decimal \<Rightarrow> string) \<Rightarrow> int \<Rightarrow> contract \<Rightarrow> eclient \<Rightarrow> eclient" where
  "reqContractDetails k dec_str reqId c ec =
     (if \<not> isConnected ec then ec_error NO_VALID_ID NOT_CONNECTED [] ec
      else case refusal (ec_serverVersion ec)
          [(45, c_secIdType c \<noteq> [] \<or> c_secId c \<noteq> [], ''  It does not support secIdType and secId parameters.''),
           (68, c_tradingClass c \<noteq> [], ''  It does not support tradingClass parameter in reqContractDetails.''),
           (70, c_primaryExchange c \<noteq> [], ''  It does not support primaryExchange parameter in reqContractDetails.''),
           (176, c_issuerId c \<noteq> [], ''  It does not support issuerId parameter in reqContractDetails.'')] of
        Some text \<Rightarrow> ec_error reqId UPDATE_TWS text ec
      | None \<Rightarrow> send_fields k dec_str reqId (contract_details_fields (ec_serverVersion ec) reqId c) ec)"

section \<open>Cancelling orders\<close>

text \<open>
  The time of a manual cancellation is encoded outside of any handler: a text that cannot be printed
  leaves the function as an exception.
\<close>

definition cancelOrder :: "kernel \<Rightarrow> (decimal \<Rightarrow> string) \<Rightarrow> int \<Rightarrow> string \<Rightarrow> eclient \<Rightarrow> (unit, eclient) outcome" where
  "cancelOrder k dec_str i manualOrderCancelTime ec =
     (if \<not> isConnected ec then Ret () (ec_error i NOT_CONNECTED [] ec)
      else case refusal (ec_serverVersion ec)
          [(169, manualOrderCancelTime \<noteq> [], '' It does not support manual order cancel time attribute'')] of
        Some text \<Rightarrow> Ret () (ec_error i UPDATE_TWS text ec)
      | None \<Rightarrow>
          (let fs = [F_int 4, F_int 1, F_int i] @ since (ec_serverVersion ec) 169 [F_string manualOrderCancelTime] in
           case encode_fields dec_str fs of
             Inl t \<Rightarrow> Throw (Library_error (snd INVALID_SYMBOL @ t)) ec
           | Inr _ \<Rightarrow> Ret () (send_fields k dec_str i fs ec)))"

definition reqGlobalCancel :: "kernel \<Rightarrow> (decimal \<Rightarrow> string) \<Rightarrow> eclient \<Rightarrow> eclient" where
  "reqGlobalCancel k dec_str ec =
     (if \<not> isConnected ec then ec_error NO_VALID_ID NOT_CONNECTED [] ec
      else case refusal (ec_serverVersion ec) [(53, True, ''  It does not support globalCancel requests.'')] of
        Some text \<Rightarrow> ec_error NO_VALID_ID UPDATE_TWS text ec
      | None \<Rightarrow> send_fields k dec_str NO_VALID_ID [F_int 58, F_int 1] ec)"

end
