(* ===== verification/TwsMarketRequests.thy ===== *)
theory TwsMarketRequests
  imports TwsRequests
begin

text \<open>
  The requests of \<open>EClient\<close> for market data, scanners, options and fundamental data
  (\<open>external/tws/client/EClient.cpp\<close>).
\<close>

section \<open>The shape of a request\<close>

text \<open>
  Every request has the same course: without a connection it reports an error under \<open>i0\<close>; the first
  check that applies ends it with an error that names what the server does not support; then its
  fields are encoded, where a text that cannot be printed is reported under \<open>i\<close>, and sent. The numbers
  compared with the version \<open>v\<close> are the constants \<open>MIN_SERVER_VER_\<dots>\<close> of \<open>EDecoder.h\<close>, the first field is
  the number of the message in \<open>EClient.h\<close>.
\<close>

definition request :: "kernel \<Rightarrow> (decimal \<Rightarrow> string) \<Rightarrow> int \<Rightarrow> (eclient \<Rightarrow> int \<Rightarrow> (bool \<times> int \<times> string) list) \<Rightarrow> int
    \<Rightarrow> (int \<Rightarrow> field list) \<Rightarrow> eclient \<Rightarrow> eclient" where
  "request k dec_str i0 checks i fs ec =
     (if \<not> isConnected ec then ec_error i0 NOT_CONNECTED [] ec
      else case find fst (checks ec (ec_serverVersion ec)) of
        Some (_, i', text) \<Rightarrow> ec_error i' UPDATE_TWS text ec
      | None \<Rightarrow> send_fields k dec_str i (fs (ec_serverVersion ec)) ec)"

section \<open>What they take\<close>

definition encode_contract :: "contract \<Rightarrow> field list" where
  "encode_contract c =
     [F_int (c_conId c), F_string (c_symbol c), F_string (c_secType c), F_string (c_lastTradeDateOrContractMonth c),
      F_double (c_strike c), F_string (c_right c), F_string (c_multiplier c), F_string (c_exchange c),
      F_string (c_primaryExchange c), F_string (c_currency c), F_string (c_localSymbol c), F_string (c_tradingClass c),
      F_bool (c_includeExpired c)]"

record scanner_subscription =
  ss_numberOfRows :: int
  ss_instrument :: string
  ss_locationCode :: string
  ss_scanCode :: string
  ss_abovePrice :: double
  ss_belowPrice :: double
  ss_aboveVolume :: int
  ss_marketCapAbove :: double
  ss_marketCapBelow :: double
  ss_moodyRatingAbove :: string
  ss_moodyRatingBelow :: string
  ss_spRatingAbove :: string
  ss_spRatingBelow :: string
  ss_maturityDateAbove :: string
  ss_maturityDateBelow :: string
  ss_couponRateAbove :: double
  ss_couponRateBelow :: double
  ss_excludeConvertible :: int
  ss_averageOptionVolumeAbove :: int
  ss_scannerSettingPairs :: string
  ss_stockTypeFilter :: string

section \<open>Market data, options and scanners\<close>

definition reqMktData :: "kernel \<Rightarrow> (decimal \<Rightarrow> string) \<Rightarrow> int \<Rightarrow> contract
        \<Rightarrow> string \<Rightarrow> bool \<Rightarrow> bool \<Rightarrow> (string \<times> string) list \<Rightarrow> eclient \<Rightarrow> eclient" where
  "reqMktData k dec_str tickerId c genericTicks snapshot regulatorySnaphsot mktDataOptions =
     request k dec_str tickerId
       (\<lambda>ec v. [(v < 40 \<and> c_deltaNeutralContract c \<noteq> None, tickerId, ''  It does not support delta-neutral orders.''),
         (v < 47 \<and> c_conId c > 0, tickerId, ''  It does not support conId parameter.''),
         (v < 68 \<and> c_tradingClass c \<noteq> [], tickerId, ''  It does not support tradingClass parameter in reqMktData.'')])
       tickerId (\<lambda>v. [F_int 1, F_int 11, F_int tickerId] @ since v 47 [F_int (c_conId c)] @ [F_string (c_symbol c), F_string (c_secType c),
        F_string (c_lastTradeDateOrContractMonth c), F_double (c_strike c), F_string (c_right c), F_string (c_multiplier c),
        F_string (c_exchange c), F_string (c_primaryExchange c), F_string (c_currency c), F_string (c_localSymbol c)]
        @ since v 68 [F_string (c_tradingClass c)]
        @ (if c_secType c = ''BAG'' then F_int (int (length (c_comboLegs c))) # concat (map hist_leg_fields (c_comboLegs c)) else [])
        @ since v 40 (case c_deltaNeutralContract c of Some n \<Rightarrow> [F_bool True, F_int (n_conId n), F_double (n_delta n),
        F_double (n_price n)] | None \<Rightarrow> [F_bool False]) @ [F_string genericTicks, F_bool snapshot]
        @ since v 114 [F_bool regulatorySnaphsot] @ since v 70 [tag_value_list mktDataOptions])"

definition cancelMktData :: "kernel \<Rightarrow> (decimal \<Rightarrow> string) \<Rightarrow> int \<Rightarrow> eclient \<Rightarrow> eclient" where
  "cancelMktData k dec_str tickerId =
     request k dec_str tickerId
       (\<lambda>ec v. [])
       NO_VALID_ID (\<lambda>v. [F_int 2, F_int 2, F_int tickerId])"

definition reqMktDepth :: "kernel \<Rightarrow> (decimal \<Rightarrow> string) \<Rightarrow> int \<Rightarrow> contract
        \<Rightarrow> int \<Rightarrow> bool \<Rightarrow> (string \<times> string) list \<Rightarrow> eclient \<Rightarrow> eclient" where
  "reqMktDepth k dec_str tickerId c numRows isSmartDepth mktDepthOptions =
     request k dec_str tickerId
       (\<lambda>ec v. [(v < 68 \<and> (c_tradingClass c \<noteq> [] \<or> c_conId c > 0), tickerId, ''  It does not support conId and tradingClass parameters in reqMktDepth.''),
         (v < 146 \<and> isSmartDepth, tickerId, ''  It does not support SMART depth request.''),
         (v < 149 \<and> c_primaryExchange c \<noteq> [], tickerId, ''  It does not support primaryExchange parameter in reqMktDepth.'')])
       tickerId (\<lambda>v. [F_int 10, F_int 5, F_int tickerId] @ since v 68 [F_int (c_conId c)] @ [F_string (c_symbol c), F_string (c_secType c),
        F_string (c_lastTradeDateOrContractMonth c), F_double (c_strike c), F_string (c_right c), F_string (c_multiplier c),
        F_string (c_exchange c)] @ since v 149 [F_string (c_primaryExchange c)] @ [F_string (c_currency c), F_string (c_localSymbol c)]
        @ since v 68 [F_string (c_tradingClass c)] @ [F_int numRows] @ since v 146 [F_bool isSmartDepth]
        @ since v 70 [tag_value_list mktDepthOptions])"

definition cancelMktDepth :: "kernel \<Rightarrow> (decimal \<Rightarrow> string) \<Rightarrow> int \<Rightarrow> bool
        \<Rightarrow> eclient \<Rightarrow> eclient" where
  "cancelMktDepth k dec_str tickerId isSmartDepth =
     request k dec_str tickerId
       (\<lambda>ec v. [(v < 146 \<and> isSmartDepth, tickerId, ''  It does not support SMART depth cancel.'')])
       NO_VALID_ID (\<lambda>v. [F_int 11, F_int 1, F_int tickerId] @ since v 146 [F_bool isSmartDepth])"

definition cancelHistoricalData :: "kernel \<Rightarrow> (decimal \<Rightarrow> string) \<Rightarrow> int \<Rightarrow> eclient
        \<Rightarrow> eclient" where
  "cancelHistoricalData k dec_str tickerId =
     request k dec_str tickerId
       (\<lambda>ec v. [])
       NO_VALID_ID (\<lambda>v. [F_int 25, F_int 1, F_int tickerId])"

definition reqRealTimeBars :: "kernel \<Rightarrow> (decimal \<Rightarrow> string) \<Rightarrow> int \<Rightarrow> contract
        \<Rightarrow> int \<Rightarrow> string \<Rightarrow> bool \<Rightarrow> (string \<times> string) list \<Rightarrow> eclient \<Rightarrow> eclient" where
  "reqRealTimeBars k dec_str tickerId c barSize whatToShow useRTH realTimeBarsOptions =
     request k dec_str tickerId
       (\<lambda>ec v. [(v < 68 \<and> (c_tradingClass c \<noteq> [] \<or> c_conId c > 0), tickerId, ''  It does not support conId and tradingClass parameters in reqRealTimeBars.'')])
       tickerId (\<lambda>v. [F_int 50, F_int 3, F_int tickerId] @ since v 68 [F_int (c_conId c)] @ [F_string (c_symbol c), F_string (c_secType c),
        F_string (c_lastTradeDateOrContractMonth c), F_double (c_strike c), F_string (c_right c), F_string (c_multiplier c),
        F_string (c_exchange c), F_string (c_primaryExchange c), F_string (c_currency c), F_string (c_localSymbol c)]
        @ since v 68 [F_string (c_tradingClass c)] @ [F_int barSize, F_string whatToShow, F_bool useRTH]
        @ since v 70 [tag_value_list realTimeBarsOptions])"

definition cancelRealTimeBars :: "kernel \<Rightarrow> (decimal \<Rightarrow> string) \<Rightarrow> int \<Rightarrow> eclient
        \<Rightarrow> eclient" where
  "cancelRealTimeBars k dec_str tickerId =
     request k dec_str tickerId
       (\<lambda>ec v. [])
       NO_VALID_ID (\<lambda>v. [F_int 51, F_int 1, F_int tickerId])"

definition reqScannerParameters :: "kernel \<Rightarrow> (decimal \<Rightarrow> string) \<Rightarrow> eclient \<Rightarrow> eclient" where
  "reqScannerParameters k dec_str =
     request k dec_str NO_VALID_ID
       (\<lambda>ec v. [])
       NO_VALID_ID (\<lambda>v. [F_int 24, F_int 1])"

definition reqScannerSubscription :: "kernel \<Rightarrow> (decimal \<Rightarrow> string) \<Rightarrow> int
        \<Rightarrow> scanner_subscription \<Rightarrow> (string \<times> string) list \<Rightarrow> (string \<times> string) list \<Rightarrow> eclient \<Rightarrow> eclient" where
  "reqScannerSubscription k dec_str tickerId subscription scannerSubscriptionOptions scannerSubscriptionFilterOptions =
     request k dec_str tickerId
       (\<lambda>ec v. [])
       tickerId (\<lambda>v. [F_int 22] @ (if v < 143 then [F_int 4] else []) @ [F_int tickerId, field_max_int (ss_numberOfRows subscription),
        F_string (ss_instrument subscription), F_string (ss_locationCode subscription), F_string (ss_scanCode subscription),
        field_max_double (ss_abovePrice subscription), field_max_double (ss_belowPrice subscription),
        field_max_int (ss_aboveVolume subscription), field_max_double (ss_marketCapAbove subscription),
        field_max_double (ss_marketCapBelow subscription), F_string (ss_moodyRatingAbove subscription),
        F_string (ss_moodyRatingBelow subscription), F_string (ss_spRatingAbove subscription), F_string (ss_spRatingBelow subscription),
        F_string (ss_maturityDateAbove subscription), F_string (ss_maturityDateBelow subscription),
        field_max_double (ss_couponRateAbove subscription), field_max_double (ss_couponRateBelow subscription),
        field_max_int (ss_excludeConvertible subscription), field_max_int (ss_averageOptionVolumeAbove subscription),
        F_string (ss_scannerSettingPairs subscription), F_string (ss_stockTypeFilter subscription)]
        @ since v 143 [tag_value_list scannerSubscriptionFilterOptions] @ since v 70 [tag_value_list scannerSubscriptionOptions])"

definition cancelScannerSubscription :: "kernel \<Rightarrow> (decimal \<Rightarrow> string) \<Rightarrow> int \<Rightarrow> eclient
        \<Rightarrow> eclient" where
  "cancelScannerSubscription k dec_str tickerId =
     request k dec_str tickerId
       (\<lambda>ec v. [])
       NO_VALID_ID (\<lambda>v. [F_int 23, F_int 1, F_int tickerId])"

definition reqFundamentalData :: "kernel \<Rightarrow> (decimal \<Rightarrow> string) \<Rightarrow> int \<Rightarrow> contract
        \<Rightarrow> string \<Rightarrow> (string \<times> string) list \<Rightarrow> eclient \<Rightarrow> eclient" where
  "reqFundamentalData k dec_str reqId c reportType fundamentalDataOptions =
     request k dec_str reqId
       (\<lambda>ec v. [(v < 40, NO_VALID_ID, ''  It does not support fundamental data requests.''),
         (v < 68 \<and> c_conId c > 0, reqId, ''  It does not support conId parameter in reqFundamentalData.'')])
       reqId (\<lambda>v. [F_int 52, F_int 2, F_int reqId] @ since v 68 [F_int (c_conId c)] @ [F_string (c_symbol c), F_string (c_secType c),
        F_string (c_exchange c), F_string (c_primaryExchange c), F_string (c_currency c), F_string (c_localSymbol c), F_string reportType]
        @ since v 70 [tag_value_list fundamentalDataOptions])"

definition cancelFundamentalData :: "kernel \<Rightarrow> (decimal \<Rightarrow> string) \<Rightarrow> int \<Rightarrow> eclient
        \<Rightarrow> eclient" where
  "cancelFundamentalData k dec_str reqId =
     request k dec_str reqId
       (\<lambda>ec v. [(v < 40, NO_VALID_ID, ''  It does not support fundamental data requests.'')])
       NO_VALID_ID (\<lambda>v. [F_int 53, F_int 1, F_int reqId])"

definition calculateImpliedVolatility :: "kernel \<Rightarrow> (decimal \<Rightarrow> string) \<Rightarrow> int \<Rightarrow> contract
        \<Rightarrow> double \<Rightarrow> double \<Rightarrow> (string \<times> string) list \<Rightarrow> eclient \<Rightarrow> eclient" where
  "calculateImpliedVolatility k dec_str reqId c optionPrice underPrice miscOptions =
     request k dec_str NO_VALID_ID
       (\<lambda>ec v. [(v < 49, reqId, ''  It does not support calculate implied volatility requests.''),
         (v < 68 \<and> c_tradingClass c \<noteq> [], reqId, ''  It does not support tradingClass parameter in calculateImpliedVolatility.'')])
       reqId (\<lambda>v. [F_int 54, F_int 2, F_int reqId, F_int (c_conId c), F_string (c_symbol c), F_string (c_secType c),
        F_string (c_lastTradeDateOrContractMonth c), F_double (c_strike c), F_string (c_right c), F_string (c_multiplier c),
        F_string (c_exchange c), F_string (c_primaryExchange c), F_string (c_currency c), F_string (c_localSymbol c)]
        @ since v 68 [F_string (c_tradingClass c)] @ [F_double optionPrice, F_double underPrice] @ since v 70 [tag_value_list miscOptions])"

definition cancelCalculateImpliedVolatility :: "kernel \<Rightarrow> (decimal \<Rightarrow> string) \<Rightarrow> int
        \<Rightarrow> eclient \<Rightarrow> eclient" where
  "cancelCalculateImpliedVolatility k dec_str reqId =
     request k dec_str NO_VALID_ID
       (\<lambda>ec v. [(v < 50, reqId, ''  It does not support calculate implied volatility cancellation.'')])
       NO_VALID_ID (\<lambda>v. [F_int 56, F_int 1, F_int reqId])"

definition calculateOptionPrice :: "kernel \<Rightarrow> (decimal \<Rightarrow> string) \<Rightarrow> int \<Rightarrow> contract
        \<Rightarrow> double \<Rightarrow> double \<Rightarrow> (string \<times> string) list \<Rightarrow> eclient \<Rightarrow> eclient" where
  "calculateOptionPrice k dec_str reqId c volatility underPrice miscOptions =
     request k dec_str NO_VALID_ID
       (\<lambda>ec v. [(v < 50, reqId, ''  It does not support calculate option price requests.''),
         (v < 68 \<and> c_tradingClass c \<noteq> [], reqId, ''  It does not support tradingClass parameter in calculateOptionPrice.'')])
       reqId (\<lambda>v. [F_int 55, F_int 2, F_int reqId, F_int (c_conId c), F_string (c_symbol c), F_string (c_secType c),
        F_string (c_lastTradeDateOrContractMonth c), F_double (c_strike c), F_string (c_right c), F_string (c_multiplier c),
        F_string (c_exchange c), F_string (c_primaryExchange c), F_string (c_currency c), F_string (c_localSymbol c)]
        @ since v 68 [F_string (c_tradingClass c)] @ [F_double volatility, F_double underPrice] @ since v 70 [tag_value_list miscOptions])"

definition cancelCalculateOptionPrice :: "kernel \<Rightarrow> (decimal \<Rightarrow> string) \<Rightarrow> int \<Rightarrow> eclient
        \<Rightarrow> eclient" where
  "cancelCalculateOptionPrice k dec_str reqId =
     request k dec_str NO_VALID_ID
       (\<lambda>ec v. [(v < 50, reqId, ''  It does not support calculate option price cancellation.'')])
       NO_VALID_ID (\<lambda>v. [F_int 57, F_int 1, F_int reqId])"

definition reqCurrentTime :: "kernel \<Rightarrow> (decimal \<Rightarrow> string) \<Rightarrow> eclient \<Rightarrow> eclient" where
  "reqCurrentTime k dec_str =
     request k dec_str NO_VALID_ID
       (\<lambda>ec v. [])
       NO_VALID_ID (\<lambda>v. [F_int 49, F_int 1])"

definition exerciseOptions :: "kernel \<Rightarrow> (decimal \<Rightarrow> string) \<Rightarrow> int \<Rightarrow> contract
        \<Rightarrow> int \<Rightarrow> int \<Rightarrow> string \<Rightarrow> int \<Rightarrow> eclient \<Rightarrow> eclient" where
  "exerciseOptions k dec_str tickerId c exerciseAction exerciseQuantity account overrides =
     request k dec_str NO_VALID_ID
       (\<lambda>ec v. [(v < 68 \<and> (c_tradingClass c \<noteq> [] \<or> c_conId c > 0), tickerId, ''  It does not support conId, multiplier and tradingClass parameters in exerciseOptions.'')])
       tickerId (\<lambda>v. [F_int 21, F_int 2, F_int tickerId] @ since v 68 [F_int (c_conId c)] @ [F_string (c_symbol c), F_string (c_secType c),
        F_string (c_lastTradeDateOrContractMonth c), F_double (c_strike c), F_string (c_right c), F_string (c_multiplier c),
        F_string (c_exchange c), F_string (c_currency c), F_string (c_localSymbol c)] @ since v 68 [F_string (c_tradingClass c)]
        @ [F_int exerciseAction, F_int exerciseQuantity, F_string account, F_int overrides])"

end
