(* ===== verification/TwsAccountRequests.thy ===== *)
theory TwsAccountRequests
  imports TwsMarketRequests
begin

text \<open>
  The requests of \<open>EClient\<close> for orders, executions, accounts, positions and display groups
  (\<open>external/tws/client/EClient.cpp\<close>).
\<close>

record execution_filter =
  ef_m_clientId :: int
  ef_m_acctCode :: string
  ef_m_time :: string
  ef_m_symbol :: string
  ef_m_secType :: string
  ef_m_exchange :: string
  ef_m_side :: string

definition reqAccountUpdates :: "kernel \<Rightarrow> (decimal \<Rightarrow> string) \<Rightarrow> bool \<Rightarrow> string
        \<Rightarrow> eclient \<Rightarrow> eclient" where
  "reqAccountUpdates k dec_str subscr acctCode =
     request k dec_str NO_VALID_ID
       (\<lambda>ec v. [])
       NO_VALID_ID (\<lambda>v. [F_int 6, F_int 2, F_bool subscr, F_string acctCode])"

definition reqOpenOrders :: "kernel \<Rightarrow> (decimal \<Rightarrow> string) \<Rightarrow> eclient \<Rightarrow> eclient" where
  "reqOpenOrders k dec_str =
     request k dec_str NO_VALID_ID
       (\<lambda>ec v. [])
       NO_VALID_ID (\<lambda>v. [F_int 5, F_int 1])"

definition reqAutoOpenOrders :: "kernel \<Rightarrow> (decimal \<Rightarrow> string) \<Rightarrow> bool \<Rightarrow> eclient
        \<Rightarrow> eclient" where
  "reqAutoOpenOrders k dec_str bAutoBind =
     request k dec_str NO_VALID_ID
       (\<lambda>ec v. [])
       NO_VALID_ID (\<lambda>v. [F_int 15, F_int 1, F_bool bAutoBind])"

definition reqAllOpenOrders :: "kernel \<Rightarrow> (decimal \<Rightarrow> string) \<Rightarrow> eclient \<Rightarrow> eclient" where
  "reqAllOpenOrders k dec_str =
     request k dec_str NO_VALID_ID
       (\<lambda>ec v. [])
       NO_VALID_ID (\<lambda>v. [F_int 16, F_int 1])"

definition reqExecutions :: "kernel \<Rightarrow> (decimal \<Rightarrow> string) \<Rightarrow> int \<Rightarrow> execution_filter
        \<Rightarrow> eclient \<Rightarrow> eclient" where
  "reqExecutions k dec_str reqId flt =
     request k dec_str NO_VALID_ID
       (\<lambda>ec v. [])
       reqId (\<lambda>v. [F_int 7, F_int 3] @ since v 42 [F_int reqId] @ [F_int (ef_m_clientId flt), F_string (ef_m_acctCode flt),
        F_string (ef_m_time flt), F_string (ef_m_symbol flt), F_string (ef_m_secType flt), F_string (ef_m_exchange flt), F_string (ef_m_side flt)])"

definition reqIds :: "kernel \<Rightarrow> (decimal \<Rightarrow> string) \<Rightarrow> int \<Rightarrow> eclient \<Rightarrow> eclient" where
  "reqIds k dec_str numIds =
     request k dec_str numIds
       (\<lambda>ec v. [])
       NO_VALID_ID (\<lambda>v. [F_int 8, F_int 1, F_int numIds])"

definition reqNewsBulletins :: "kernel \<Rightarrow> (decimal \<Rightarrow> string) \<Rightarrow> bool \<Rightarrow> eclient
        \<Rightarrow> eclient" where
  "reqNewsBulletins k dec_str allMsgs =
     request k dec_str NO_VALID_ID
       (\<lambda>ec v. [])
       NO_VALID_ID (\<lambda>v. [F_int 12, F_int 1, F_bool allMsgs])"

definition cancelNewsBulletins :: "kernel \<Rightarrow> (decimal \<Rightarrow> string) \<Rightarrow> eclient \<Rightarrow> eclient" where
  "cancelNewsBulletins k dec_str =
     request k dec_str NO_VALID_ID
       (\<lambda>ec v. [])
       NO_VALID_ID (\<lambda>v. [F_int 13, F_int 1])"

definition setServerLogLevel :: "kernel \<Rightarrow> (decimal \<Rightarrow> string) \<Rightarrow> int \<Rightarrow> eclient
        \<Rightarrow> eclient" where
  "setServerLogLevel k dec_str logLevel =
     request k dec_str NO_VALID_ID
       (\<lambda>ec v. [])
       NO_VALID_ID (\<lambda>v. [F_int 14, F_int 1, F_int logLevel])"

definition reqManagedAccts :: "kernel \<Rightarrow> (decimal \<Rightarrow> string) \<Rightarrow> eclient \<Rightarrow> eclient" where
  "reqManagedAccts k dec_str =
     request k dec_str NO_VALID_ID
       (\<lambda>ec v. [])
       NO_VALID_ID (\<lambda>v. [F_int 17, F_int 1])"

definition requestFA :: "kernel \<Rightarrow> (decimal \<Rightarrow> string) \<Rightarrow> int \<Rightarrow> eclient \<Rightarrow> eclient" where
  "requestFA k dec_str pFaDataType =
     request k dec_str NO_VALID_ID
       (\<lambda>ec v. [])
       NO_VALID_ID (\<lambda>v. [F_int 18, F_int 1, F_int pFaDataType])"

definition replaceFA :: "kernel \<Rightarrow> (decimal \<Rightarrow> string) \<Rightarrow> int \<Rightarrow> int \<Rightarrow> string
        \<Rightarrow> eclient \<Rightarrow> eclient" where
  "replaceFA k dec_str reqId pFaDataType cxml =
     request k dec_str NO_VALID_ID
       (\<lambda>ec v. [])
       reqId (\<lambda>v. [F_int 19, F_int 1, F_int pFaDataType, F_string cxml] @ since v 157 [F_int reqId])"

definition reqPositions :: "kernel \<Rightarrow> (decimal \<Rightarrow> string) \<Rightarrow> eclient \<Rightarrow> eclient" where
  "reqPositions k dec_str =
     request k dec_str NO_VALID_ID
       (\<lambda>ec v. [(v < 67, NO_VALID_ID, ''  It does not support positions request.'')])
       NO_VALID_ID (\<lambda>v. [F_int 61, F_int 1])"

definition cancelPositions :: "kernel \<Rightarrow> (decimal \<Rightarrow> string) \<Rightarrow> eclient \<Rightarrow> eclient" where
  "cancelPositions k dec_str =
     request k dec_str NO_VALID_ID
       (\<lambda>ec v. [(v < 67, NO_VALID_ID, ''  It does not support positions cancellation.'')])
       NO_VALID_ID (\<lambda>v. [F_int 64, F_int 1])"

definition reqAccountSummary :: "kernel \<Rightarrow> (decimal \<Rightarrow> string) \<Rightarrow> int \<Rightarrow> string
        \<Rightarrow> string \<Rightarrow> eclient \<Rightarrow> eclient" where
  "reqAccountSummary k dec_str reqId groupName tags =
     request k dec_str NO_VALID_ID
       (\<lambda>ec v. [(v < 67, NO_VALID_ID, ''  It does not support account summary request.'')])
       reqId (\<lambda>v. [F_int 62, F_int 1, F_int reqId, F_string groupName, F_string tags])"

definition cancelAccountSummary :: "kernel \<Rightarrow> (decimal \<Rightarrow> string) \<Rightarrow> int \<Rightarrow> eclient
        \<Rightarrow> eclient" where
  "cancelAccountSummary k dec_str reqId =
     request k dec_str NO_VALID_ID
       (\<lambda>ec v. [(v < 67, NO_VALID_ID, ''  It does not support account summary cancellation.'')])
       NO_VALID_ID (\<lambda>v. [F_int 63, F_int 1, F_int reqId])"

definition verifyRequest :: "kernel \<Rightarrow> (decimal \<Rightarrow> string) \<Rightarrow> string \<Rightarrow> string
        \<Rightarrow> eclient \<Rightarrow> eclient" where
  "verifyRequest k dec_str apiName apiVersion =
     request k dec_str NO_VALID_ID
       (\<lambda>ec v. [(v < 70, NO_VALID_ID, ''  It does not support verification request.''),
         (\<not> ec_extraAuth ec, NO_VALID_ID, ''  Intent to authenticate needs to be expressed during initial connect request.'')])
       NO_VALID_ID (\<lambda>v. [F_int 65, F_int 1, F_string apiName, F_string apiVersion])"

definition verifyMessage :: "kernel \<Rightarrow> (decimal \<Rightarrow> string) \<Rightarrow> string \<Rightarrow> eclient
        \<Rightarrow> eclient" where
  "verifyMessage k dec_str apiData =
     request k dec_str NO_VALID_ID
       (\<lambda>ec v. [(v < 70, NO_VALID_ID, ''  It does not support verification message sending.'')])
       NO_VALID_ID (\<lambda>v. [F_int 66, F_int 1, F_string apiData])"

definition verifyAndAuthRequest :: "kernel \<Rightarrow> (decimal \<Rightarrow> string) \<Rightarrow> string \<Rightarrow> string
        \<Rightarrow> string \<Rightarrow> eclient \<Rightarrow> eclient" where
  "verifyAndAuthRequest k dec_str apiName apiVersion opaqueIsvKey =
     request k dec_str NO_VALID_ID
       (\<lambda>ec v. [(v < 74, NO_VALID_ID, ''  It does not support verification request.''),
         (\<not> ec_extraAuth ec, NO_VALID_ID, ''  Intent to authenticate needs to be expressed during initial connect request.'')])
       NO_VALID_ID (\<lambda>v. [F_int 72, F_int 1, F_string apiName, F_string apiVersion, F_string opaqueIsvKey])"

definition verifyAndAuthMessage :: "kernel \<Rightarrow> (decimal \<Rightarrow> string) \<Rightarrow> string \<Rightarrow> string
        \<Rightarrow> eclient \<Rightarrow> eclient" where
  "verifyAndAuthMessage k dec_str apiData xyzResponse =
     request k dec_str NO_VALID_ID
       (\<lambda>ec v. [(v < 74, NO_VALID_ID, ''  It does not support verification message sending.'')])
       NO_VALID_ID (\<lambda>v. [F_int 73, F_int 1, F_string apiData, F_string xyzResponse])"

definition queryDisplayGroups :: "kernel \<Rightarrow> (decimal \<Rightarrow> string) \<Rightarrow> int \<Rightarrow> eclient
        \<Rightarrow> eclient" where
  "queryDisplayGroups k dec_str reqId =
     request k dec_str NO_VALID_ID
       (\<lambda>ec v. [(v < 70, NO_VALID_ID, ''  It does not support queryDisplayGroups request.'')])
       NO_VALID_ID (\<lambda>v. [F_int 67, F_int 1, F_int reqId])"

definition subscribeToGroupEvents :: "kernel \<Rightarrow> (decimal \<Rightarrow> string) \<Rightarrow> int \<Rightarrow> int
        \<Rightarrow> eclient \<Rightarrow> eclient" where
  "subscribeToGroupEvents k dec_str reqId groupId =
     request k dec_str NO_VALID_ID
       (\<lambda>ec v. [(v < 70, NO_VALID_ID, ''  It does not support subscribeToGroupEvents request.'')])
       NO_VALID_ID (\<lambda>v. [F_int 68, F_int 1, F_int reqId, F_int groupId])"

definition updateDisplayGroup :: "kernel \<Rightarrow> (decimal \<Rightarrow> string) \<Rightarrow> int \<Rightarrow> string
        \<Rightarrow> eclient \<Rightarrow> eclient" where
  "updateDisplayGroup k dec_str reqId contractInfo =
     request k dec_str NO_VALID_ID
       (\<lambda>ec v. [(v < 70, NO_VALID_ID, ''  It does not support updateDisplayGroup request.'')])
       reqId (\<lambda>v. [F_int 69, F_int 1, F_int reqId, F_string contractInfo])"

definition unsubscribeFromGroupEvents :: "kernel \<Rightarrow> (decimal \<Rightarrow> string) \<Rightarrow> int \<Rightarrow> eclient
        \<Rightarrow> eclient" where
  "unsubscribeFromGroupEvents k dec_str reqId =
     request k dec_str NO_VALID_ID
       (\<lambda>ec v. [(v < 70, NO_VALID_ID, ''  It does not support unsubscribeFromGroupEvents request.'')])
       NO_VALID_ID (\<lambda>v. [F_int 70, F_int 1, F_int reqId])"

definition reqPositionsMulti :: "kernel \<Rightarrow> (decimal \<Rightarrow> string) \<Rightarrow> int \<Rightarrow> string
        \<Rightarrow> string \<Rightarrow> eclient \<Rightarrow> eclient" where
  "reqPositionsMulti k dec_str reqId account modelCode =
     request k dec_str NO_VALID_ID
       (\<lambda>ec v. [(v < 103, NO_VALID_ID, ''  It does not support positions multi request.'')])
       reqId (\<lambda>v. [F_int 74, F_int 1, F_int reqId, F_string account, F_string modelCode])"

definition cancelPositionsMulti :: "kernel \<Rightarrow> (decimal \<Rightarrow> string) \<Rightarrow> int \<Rightarrow> eclient
        \<Rightarrow> eclient" where
  "cancelPositionsMulti k dec_str reqId =
     request k dec_str NO_VALID_ID
       (\<lambda>ec v. [(v < 103, NO_VALID_ID, ''  It does not support positions multi cancellation.'')])
       NO_VALID_ID (\<lambda>v. [F_int 75, F_int 1, F_int reqId])"

definition reqAccountUpdatesMulti :: "kernel \<Rightarrow> (decimal \<Rightarrow> string) \<Rightarrow> int \<Rightarrow> string
        \<Rightarrow> string \<Rightarrow> bool \<Rightarrow> eclient \<Rightarrow> eclient" where
  "reqAccountUpdatesMulti k dec_str reqId account modelCode ledgerAndNLV =
     request k dec_str NO_VALID_ID
       (\<lambda>ec v. [(v < 103, NO_VALID_ID, ''  It does not support account updates multi request.'')])
       reqId (\<lambda>v. [F_int 76, F_int 1, F_int reqId, F_string account, F_string modelCode, F_bool ledgerAndNLV])"

definition cancelAccountUpdatesMulti :: "kernel \<Rightarrow> (decimal \<Rightarrow> string) \<Rightarrow> int \<Rightarrow> eclient
        \<Rightarrow> eclient" where
  "cancelAccountUpdatesMulti k dec_str reqId =
     request k dec_str NO_VALID_ID
       (\<lambda>ec v. [(v < 103, NO_VALID_ID, ''  It does not support account updates multi cancellation.'')])
       NO_VALID_ID (\<lambda>v. [F_int 77, F_int 1, F_int reqId])"

definition reqSoftDollarTiers :: "kernel \<Rightarrow> (decimal \<Rightarrow> string) \<Rightarrow> int \<Rightarrow> eclient
        \<Rightarrow> eclient" where
  "reqSoftDollarTiers k dec_str reqId =
     request k dec_str NO_VALID_ID
       (\<lambda>ec v. [])
       NO_VALID_ID (\<lambda>v. [F_int 79, F_int reqId])"

definition reqFamilyCodes :: "kernel \<Rightarrow> (decimal \<Rightarrow> string) \<Rightarrow> eclient \<Rightarrow> eclient" where
  "reqFamilyCodes k dec_str =
     request k dec_str NO_VALID_ID
       (\<lambda>ec v. [(v < 107, NO_VALID_ID, ''  It does not support family codes requests.'')])
       NO_VALID_ID (\<lambda>v. [F_int 80])"

definition reqPnL :: "kernel \<Rightarrow> (decimal \<Rightarrow> string) \<Rightarrow> int \<Rightarrow> string \<Rightarrow> string
        \<Rightarrow> eclient \<Rightarrow> eclient" where
  "reqPnL k dec_str reqId account modelCode =
     request k dec_str NO_VALID_ID
       (\<lambda>ec v. [(v < 127, NO_VALID_ID, ''  It does not support PnL requests.'')])
       reqId (\<lambda>v. [F_int 92, F_int reqId, F_string account, F_string modelCode])"

definition cancelPnL :: "kernel \<Rightarrow> (decimal \<Rightarrow> string) \<Rightarrow> int \<Rightarrow> eclient \<Rightarrow> eclient" where
  "cancelPnL k dec_str reqId =
     request k dec_str NO_VALID_ID
       (\<lambda>ec v. [(v < 127, NO_VALID_ID, ''  It does not support PnL requests.'')])
       NO_VALID_ID (\<lambda>v. [F_int 93, F_int reqId])"

definition reqPnLSingle :: "kernel \<Rightarrow> (decimal \<Rightarrow> string) \<Rightarrow> int \<Rightarrow> string
        \<Rightarrow> string \<Rightarrow> int \<Rightarrow> eclient \<Rightarrow> eclient" where
  "reqPnLSingle k dec_str reqId account modelCode conId =
     request k dec_str NO_VALID_ID
       (\<lambda>ec v. [(v < 127, NO_VALID_ID, ''  It does not support PnL requests.'')])
       reqId (\<lambda>v. [F_int 94, F_int reqId, F_string account, F_string modelCode, F_int conId])"

definition cancelPnLSingle :: "kernel \<Rightarrow> (decimal \<Rightarrow> string) \<Rightarrow> int \<Rightarrow> eclient
        \<Rightarrow> eclient" where
  "cancelPnLSingle k dec_str reqId =
     request k dec_str NO_VALID_ID
       (\<lambda>ec v. [(v < 127, NO_VALID_ID, ''  It does not support PnL requests.'')])
       NO_VALID_ID (\<lambda>v. [F_int 95, F_int reqId])"

definition reqCompletedOrders :: "kernel \<Rightarrow> (decimal \<Rightarrow> string) \<Rightarrow> bool \<Rightarrow> eclient
        \<Rightarrow> eclient" where
  "reqCompletedOrders k dec_str apiOnly =
     request k dec_str NO_VALID_ID
       (\<lambda>ec v. [(v < 150, NO_VALID_ID, ''  It does not support completed orders request.'')])
       NO_VALID_ID (\<lambda>v. [F_int 99, F_bool apiOnly])"

end
