(* ===== verification/TwsInfoRequests.thy ===== *)
theory TwsInfoRequests
  imports TwsAccountRequests
begin

text \<open>
  The requests of \<open>EClient\<close> for definitions, news, history and events (\<open>external/tws/client/EClient.cpp\<close>).
\<close>

record wsh_event_data =
  we_conId :: int
  we_filter :: string
  we_fillWatchlist :: bool
  we_fillPortfolio :: bool
  we_fillCompetitors :: bool
  we_startDate :: string
  we_endDate :: string
  we_totalLimit :: int

definition reqSecDefOptParams :: "kernel \<Rightarrow> (decimal \<Rightarrow> string) \<Rightarrow> int \<Rightarrow> string
        \<Rightarrow> string \<Rightarrow> string \<Rightarrow> int \<Rightarrow> eclient \<Rightarrow> eclient" where
  "reqSecDefOptParams k dec_str reqId underlyingSymbol futFopExchange underlyingSecType underlyingConId =
     request k dec_str NO_VALID_ID
       (\<lambda>ec v. [(v < 104, NO_VALID_ID, ''  It does not support security definiton option requests.'')])
       reqId (\<lambda>v. [F_int 78, F_int reqId, F_string underlyingSymbol, F_string futFopExchange, F_string underlyingSecType,
        F_int underlyingConId])"

definition reqMatchingSymbols :: "kernel \<Rightarrow> (decimal \<Rightarrow> string) \<Rightarrow> int \<Rightarrow> string
        \<Rightarrow> eclient \<Rightarrow> eclient" where
  "reqMatchingSymbols k dec_str reqId pattern =
     request k dec_str NO_VALID_ID
       (\<lambda>ec v. [(v < 108, NO_VALID_ID, ''  It does not support matching symbols requests.'')])
       reqId (\<lambda>v. [F_int 81, F_int reqId, F_string pattern])"

definition reqMktDepthExchanges :: "kernel \<Rightarrow> (decimal \<Rightarrow> string) \<Rightarrow> eclient \<Rightarrow> eclient" where
  "reqMktDepthExchanges k dec_str =
     request k dec_str NO_VALID_ID
       (\<lambda>ec v. [(v < 112, NO_VALID_ID, ''  It does not support market depth exchanges requests.'')])
       NO_VALID_ID (\<lambda>v. [F_int 82])"

definition reqSmartComponents :: "kernel \<Rightarrow> (decimal \<Rightarrow> string) \<Rightarrow> int \<Rightarrow> string
        \<Rightarrow> eclient \<Rightarrow> eclient" where
  "reqSmartComponents k dec_str reqId bboExchange =
     request k dec_str NO_VALID_ID
       (\<lambda>ec v. [(v < 114, NO_VALID_ID, ''  It does not support smart components request.'')])
       reqId (\<lambda>v. [F_int 83, F_int reqId, F_string bboExchange])"

definition reqNewsProviders :: "kernel \<Rightarrow> (decimal \<Rightarrow> string) \<Rightarrow> eclient \<Rightarrow> eclient" where
  "reqNewsProviders k dec_str =
     request k dec_str NO_VALID_ID
       (\<lambda>ec v. [(v < 115, NO_VALID_ID, ''  It does not support news providers requests.'')])
       NO_VALID_ID (\<lambda>v. [F_int 85])"

definition reqNewsArticle :: "kernel \<Rightarrow> (decimal \<Rightarrow> string) \<Rightarrow> int \<Rightarrow> string
        \<Rightarrow> string \<Rightarrow> (string \<times> string) list \<Rightarrow> eclient \<Rightarrow> eclient" where
  "reqNewsArticle k dec_str requestId providerCode articleId newsArticleOptions =
     request k dec_str NO_VALID_ID
       (\<lambda>ec v. [(v < 116, NO_VALID_ID, ''  It does not support news article requests.'')])
       requestId (\<lambda>v. [F_int 84, F_int requestId, F_string providerCode, F_string articleId]
        @ since v 128 [tag_value_list newsArticleOptions])"

definition reqHistoricalNews :: "kernel \<Rightarrow> (decimal \<Rightarrow> string) \<Rightarrow> int \<Rightarrow> int
        \<Rightarrow> string \<Rightarrow> string \<Rightarrow> string \<Rightarrow> int \<Rightarrow> (string \<times> string) list \<Rightarrow> eclient \<Rightarrow> eclient" where
  "reqHistoricalNews k dec_str requestId conId providerCodes startDateTime endDateTime totalResults historicalNewsOptions =
     request k dec_str NO_VALID_ID
       (\<lambda>ec v. [(v < 117, NO_VALID_ID, ''  It does not support historical news requests.'')])
       requestId (\<lambda>v. [F_int 86, F_int requestId, F_int conId, F_string providerCodes, F_string startDateTime, F_string endDateTime,
        F_int totalResults] @ since v 128 [tag_value_list historicalNewsOptions])"

definition reqHeadTimestamp :: "kernel \<Rightarrow> (decimal \<Rightarrow> string) \<Rightarrow> int \<Rightarrow> contract
        \<Rightarrow> string \<Rightarrow> int \<Rightarrow> int \<Rightarrow> eclient \<Rightarrow> eclient" where
  "reqHeadTimestamp k dec_str tickerId c whatToShow useRTH formatDate =
     request k dec_str NO_VALID_ID
       (\<lambda>ec v. [(v < 118, NO_VALID_ID, ''  It does not support head timestamp requests.'')])
       tickerId (\<lambda>v. [F_int 87, F_int tickerId, F_int (c_conId c), F_string (c_symbol c), F_string (c_secType c),
        F_string (c_lastTradeDateOrContractMonth c), F_double (c_strike c), F_string (c_right c), F_string (c_multiplier c),
        F_string (c_exchange c), F_string (c_primaryExchange c), F_string (c_currency c), F_string (c_localSymbol c), F_string (c_tradingClass c),
        F_bool (c_includeExpired c), F_int useRTH, F_string whatToShow, F_int formatDate])"

definition cancelHeadTimestamp :: "kernel \<Rightarrow> (decimal \<Rightarrow> string) \<Rightarrow> int \<Rightarrow> eclient
        \<Rightarrow> eclient" where
  "cancelHeadTimestamp k dec_str tickerId =
     request k dec_str NO_VALID_ID
       (\<lambda>ec v. [(v < 123, NO_VALID_ID, ''  It does not support head timestamp requests canceling.'')])
       NO_VALID_ID (\<lambda>v. [F_int 90, F_int tickerId])"

definition reqHistogramData :: "kernel \<Rightarrow> (decimal \<Rightarrow> string) \<Rightarrow> int \<Rightarrow> contract
        \<Rightarrow> bool \<Rightarrow> string \<Rightarrow> eclient \<Rightarrow> eclient" where
  "reqHistogramData k dec_str reqId c useRTH timePeriod =
     request k dec_str NO_VALID_ID
       (\<lambda>ec v. [(v < 119, NO_VALID_ID, ''  It does not support histogram requests.'')])
       reqId (\<lambda>v. [F_int 88, F_int reqId] @ encode_contract c @ [F_bool useRTH, F_string timePeriod])"

definition cancelHistogramData :: "kernel \<Rightarrow> (decimal \<Rightarrow> string) \<Rightarrow> int \<Rightarrow> eclient
        \<Rightarrow> eclient" where
  "cancelHistogramData k dec_str reqId =
     request k dec_str NO_VALID_ID
       (\<lambda>ec v. [(v < 118, NO_VALID_ID, ''  It does not support histogram requests.'')])
       NO_VALID_ID (\<lambda>v. [F_int 89, F_int reqId])"

definition reqMarketRule :: "kernel \<Rightarrow> (decimal \<Rightarrow> string) \<Rightarrow> int \<Rightarrow> eclient \<Rightarrow> eclient" where
  "reqMarketRule k dec_str marketRuleId =
     request k dec_str NO_VALID_ID
       (\<lambda>ec v. [(v < 126, NO_VALID_ID, ''  It does not support market rule requests.'')])
       NO_VALID_ID (\<lambda>v. [F_int 91, F_int marketRuleId])"

definition reqHistoricalTicks :: "kernel \<Rightarrow> (decimal \<Rightarrow> string) \<Rightarrow> int \<Rightarrow> contract
        \<Rightarrow> string \<Rightarrow> string \<Rightarrow> int \<Rightarrow> string \<Rightarrow> int \<Rightarrow> bool \<Rightarrow> (string \<times> string) list \<Rightarrow> eclient \<Rightarrow> eclient" where
  "reqHistoricalTicks k dec_str reqId c startDateTime endDateTime numberOfTicks whatToShow useRth ignoreSize miscOptions =
     request k dec_str NO_VALID_ID
       (\<lambda>ec v. [(v < 130, NO_VALID_ID, ''  It does not support historical ticks request request.'')])
       reqId (\<lambda>v. [F_int 96, F_int reqId] @ encode_contract c @ [F_string startDateTime, F_string endDateTime, F_int numberOfTicks,
        F_string whatToShow, F_int useRth, F_bool ignoreSize, tag_value_list miscOptions])"

definition cancelTickByTickData :: "kernel \<Rightarrow> (decimal \<Rightarrow> string) \<Rightarrow> int \<Rightarrow> eclient
        \<Rightarrow> eclient" where
  "cancelTickByTickData k dec_str reqId =
     request k dec_str NO_VALID_ID
       (\<lambda>ec v. [(v < 137, NO_VALID_ID, ''  It does not support tick-by-tick data cancel.'')])
       NO_VALID_ID (\<lambda>v. [F_int 98, F_int reqId])"

definition reqWshMetaData :: "kernel \<Rightarrow> (decimal \<Rightarrow> string) \<Rightarrow> int \<Rightarrow> eclient \<Rightarrow> eclient" where
  "reqWshMetaData k dec_str reqId =
     request k dec_str NO_VALID_ID
       (\<lambda>ec v. [(v < 161, NO_VALID_ID, ''  It does not support WSHE Calendar API.'')])
       NO_VALID_ID (\<lambda>v. [F_int 100, F_int reqId])"

definition cancelWshMetaData :: "kernel \<Rightarrow> (decimal \<Rightarrow> string) \<Rightarrow> int \<Rightarrow> eclient
        \<Rightarrow> eclient" where
  "cancelWshMetaData k dec_str reqId =
     request k dec_str NO_VALID_ID
       (\<lambda>ec v. [(v < 161, NO_VALID_ID, ''  It does not support WSHE Calendar API.'')])
       NO_VALID_ID (\<lambda>v. [F_int 101, F_int reqId])"

definition cancelWshEventData :: "kernel \<Rightarrow> (decimal \<Rightarrow> string) \<Rightarrow> int \<Rightarrow> eclient
        \<Rightarrow> eclient" where
  "cancelWshEventData k dec_str reqId =
     request k dec_str NO_VALID_ID
       (\<lambda>ec v. [(v < 161, NO_VALID_ID, ''  It does not support WSHE Calendar API.'')])
       NO_VALID_ID (\<lambda>v. [F_int 103, F_int reqId])"

definition reqUserInfo :: "kernel \<Rightarrow> (decimal \<Rightarrow> string) \<Rightarrow> int \<Rightarrow> eclient \<Rightarrow> eclient" where
  "reqUserInfo k dec_str reqId =
     request k dec_str NO_VALID_ID
       (\<lambda>ec v. [(v < 167, NO_VALID_ID, ''  It does not support user info requests.'')])
       NO_VALID_ID (\<lambda>v. [F_int 104, F_int reqId])"

text \<open>
  The fields of this request are encoded outside of any handler: a text that cannot be printed leaves
  the function as an exception.
\<close>

definition wsh_event_fields :: "int \<Rightarrow> int \<Rightarrow> wsh_event_data \<Rightarrow> field list" where
  "wsh_event_fields v reqId wshEventData =
     [F_int 102, F_int reqId, F_int (we_conId wshEventData)]
     @ since v 171 [F_string (we_filter wshEventData), F_bool (we_fillWatchlist wshEventData), F_bool (we_fillPortfolio wshEventData), F_bool (we_fillCompetitors wshEventData)]
     @ since v 173 [F_string (we_startDate wshEventData), F_string (we_endDate wshEventData), F_int (we_totalLimit wshEventData)]"

definition reqWshEventData :: "kernel \<Rightarrow> (decimal \<Rightarrow> string) \<Rightarrow> int \<Rightarrow> wsh_event_data \<Rightarrow> eclient \<Rightarrow> (unit, eclient) outcome" where
  "reqWshEventData k dec_str reqId wshEventData ec =
     (let v = ec_serverVersion ec; fs = wsh_event_fields v reqId wshEventData in
      if \<not> isConnected ec then Ret () (ec_error NO_VALID_ID NOT_CONNECTED [] ec)
      else case find fst
            [(v < 161, NO_VALID_ID, ''  It does not support WSHE Calendar API.''),
             (v < 171 \<and> (we_filter wshEventData \<noteq> [] \<or> we_fillWatchlist wshEventData \<or> we_fillPortfolio wshEventData \<or> we_fillCompetitors wshEventData), NO_VALID_ID, ''  It does not support WSH event data filters.''),
             (v < 173 \<and> (we_startDate wshEventData \<noteq> [] \<or> we_endDate wshEventData \<noteq> [] \<or> we_totalLimit wshEventData \<noteq> UnsetInt), NO_VALID_ID, ''  It does not support WSH event data date filters.'')] of
        Some (_, i, text) \<Rightarrow> Ret () (ec_error i UPDATE_TWS text ec)
      | None \<Rightarrow>
          (case encode_fields dec_str fs of
             Inl t \<Rightarrow> Throw (Library_error (snd INVALID_SYMBOL @ t)) ec
           | Inr _ \<Rightarrow> Ret () (send_fields k dec_str NO_VALID_ID fs ec)))"

end
