(* ===== verification/TwsPlaceOrder.thy ===== *)
theory TwsPlaceOrder
  imports TwsRequests
begin

text \<open>
  \<open>EClient::placeOrder\<close>: what an older server does not support, in the order of the checks, and the
  fields of the message, group by group. The numbers compared with the version are the constants
  \<open>MIN_SERVER_VER_\<dots>\<close> of \<open>EDecoder.h\<close>.
\<close>

section \<open>Checks\<close>

definition place_checks_old :: "contract \<Rightarrow> tws_order \<Rightarrow> (int \<times> bool \<times> string) list" where
  "place_checks_old c ord =
     [(40, c_deltaNeutralContract c \<noteq> None, ''  It does not support delta-neutral orders.''),
      (40, o_scaleSubsLevelSize ord \<noteq> UnsetInt, ''  It does not support Subsequent Level Size for Scale orders.''),
      (41, o_algoStrategy ord \<noteq> [], ''  It does not support algo orders.''),
      (44, o_notHeld ord, ''  It does not support notHeld parameter.''),
      (45, c_secIdType c \<noteq> [] \<or> c_secId c \<noteq> [], ''  It does not support secIdType and secId parameters.''),
      (46, c_conId c > 0, ''  It does not support conId parameter.''),
      (52, o_exemptCode ord \<noteq> - 1, ''  It does not support exemptCode parameter.''),
      (52, list_ex (\<lambda>l. l_exemptCode l \<noteq> - 1) (c_comboLegs c), ''  It does not support exemptCode parameter.''),
      (54, o_hedgeType ord \<noteq> [], ''  It does not support hedge orders.''),
      (56, o_optOutSmartRouting ord, ''  It does not support optOutSmartRouting parameter.'')]"

definition place_checks_neutral :: "tws_order \<Rightarrow> (int \<times> bool \<times> string) list" where
  "place_checks_neutral ord =
     [(58, o_deltaNeutralConId ord > 0 \<or> o_deltaNeutralSettlingFirm ord \<noteq> [] \<or> o_deltaNeutralClearingAccount ord \<noteq> []
        \<or> o_deltaNeutralClearingIntent ord \<noteq> [],
        ''  It does not support deltaNeutral parameters: ConId, SettlingFirm, ClearingAccount, ClearingIntent.''),
      (66, o_deltaNeutralOpenClose ord \<noteq> [] \<or> o_deltaNeutralShortSale ord \<or> o_deltaNeutralShortSaleSlot ord > 0
        \<or> o_deltaNeutralDesignatedLocation ord \<noteq> [],
        ''  It does not support deltaNeutral parameters: OpenClose, ShortSale, ShortSaleSlot, DesignatedLocation.''),
      (60, dlt 0 (o_scalePriceIncrement ord) \<and> is_set_double (o_scalePriceIncrement ord)
        \<and> (is_set_double (o_scalePriceAdjustValue ord) \<or> o_scalePriceAdjustInterval ord \<noteq> UnsetInt
          \<or> is_set_double (o_scaleProfitOffset ord) \<or> o_scaleAutoReset ord \<or> o_scaleInitPosition ord \<noteq> UnsetInt
          \<or> o_scaleInitFillQty ord \<noteq> UnsetInt \<or> o_scaleRandomPercent ord),
        ''  It does not support Scale order parameters: PriceAdjustValue, PriceAdjustInterval, ''
          @ ''ProfitOffset, AutoReset, InitPosition, InitFillQty and RandomPercent'')]"

definition place_checks_classes :: "contract \<Rightarrow> tws_order \<Rightarrow> (int \<times> bool \<times> string) list" where
  "place_checks_classes c ord =
     [(61, c_secType c = ''BAG'' \<and> list_ex is_set_double (o_orderComboLegs ord),
        ''  It does not support per-leg prices for order combo legs.''),
      (62, is_set_double (o_trailingPercent ord), ''  It does not support trailing percent parameter''),
      (68, c_tradingClass c \<noteq> [], ''  It does not support tradingClass parameter in placeOrder.''),
      (69, o_scaleTable ord \<noteq> [] \<or> o_activeStartTime ord \<noteq> [] \<or> o_activeStopTime ord \<noteq> [],
        ''  It does not support scaleTable, activeStartTime and activeStopTime parameters''),
      (71, o_algoId ord \<noteq> [], ''  It does not support algoId parameter''),
      (73, o_solicited ord, ''  It does not support order solicited parameter.''),
      (103, o_modelCode ord \<noteq> [], ''  It does not support model code parameter.''),
      (105, o_extOperator ord \<noteq> [], ''  It does not support ext operator parameter''),
      (106, fst (o_softDollarTier ord) \<noteq> [] \<or> fst (snd (o_softDollarTier ord)) \<noteq> [],
        '' It does not support soft dollar tier''),
      (111, is_set_double (o_cashQty ord), ''  It does not support cash quantity parameter'')]"

definition place_checks_new :: "tws_order \<Rightarrow> (int \<times> bool \<times> string) list" where
  "place_checks_new ord =
     [(138, o_mifid2DecisionMaker ord \<noteq> [] \<or> o_mifid2DecisionAlgo ord \<noteq> [],
        '' It does not support MIFID II decision maker parameters''),
      (139, o_mifid2ExecutionTrader ord \<noteq> [] \<or> o_mifid2ExecutionAlgo ord \<noteq> [],
        '' It does not support MIFID II execution parameters''),
      (141, o_dontUseAutoPriceForHedge ord, '' It does not support don't use auto price for hedge parameter''),
      (145, o_isOmsContainer ord, '' It does not support oms container parameter''),
      (148, o_discretionaryUpToLimitPrice ord, '' It does not support D-Peg orders''),
      (151, o_usePriceMgmtAlgo ord \<noteq> UnsetInt, '' It does not support Use Price Management Algo requests''),
      (158, o_duration ord \<noteq> UnsetInt, '' It does not support duration attribute''),
      (160, o_postToAts ord \<noteq> UnsetInt, '' It does not support postToAts attribute''),
      (162, o_autoCancelParent ord, ''  It does not support autoCancelParent parameter.''),
      (166, o_advancedErrorOverride ord \<noteq> [], '' It does not support advanced error override attribute''),
      (169, o_manualOrderTime ord \<noteq> [], '' It does not support manual order time attribute''),
      (170, o_minTradeQty ord \<noteq> UnsetInt \<or> o_minCompeteSize ord \<noteq> UnsetInt \<or> is_set_double (o_competeAgainstBestOffset ord)
        \<or> is_set_double (o_midOffsetAtWhole ord) \<or> is_set_double (o_midOffsetAtHalf ord),
        ''  It does not support PEG BEST / PEG MID order parameters: minTradeQty, minCompeteSize, ''
          @ ''competeAgainstBestOffset, midOffsetAtWhole and midOffsetAtHalf'')]"

definition place_checks :: "contract \<Rightarrow> tws_order \<Rightarrow> (int \<times> bool \<times> string) list" where
  "place_checks c ord =
     place_checks_old c ord @ place_checks_neutral ord @ place_checks_classes c ord @ place_checks_new ord"

section \<open>Fields\<close>

definition place_contract_fields :: "int \<Rightarrow> int \<Rightarrow> contract \<Rightarrow> field list" where
  "place_contract_fields v i c =
     [F_int 3] @ (if v < 145 then [F_int (if v < 44 then 27 else 45)] else []) @ [F_int i]
     @ since v 46 [F_int (c_conId c)] @ contract_fields c
     @ since v 68 [F_string (c_tradingClass c)] @ since v 45 [F_string (c_secIdType c), F_string (c_secId c)]"

text \<open>The cast of a decimal to \<open>long\<close> is one of the 64 bits.\<close>

definition place_main_fields :: "int \<Rightarrow> tws_order \<Rightarrow> field list" where
  "place_main_fields v ord =
     [F_string (o_action ord), if v \<ge> 101 then F_decimal (o_totalQuantity ord) else F_int (sint (o_totalQuantity ord)),
      F_string (o_orderType ord),
      if v < 61 then F_double (if is_set_double (o_lmtPrice ord) then o_lmtPrice ord else 0) else field_max_double (o_lmtPrice ord),
      if v < 62 then F_double (if is_set_double (o_auxPrice ord) then o_auxPrice ord else 0) else field_max_double (o_auxPrice ord)]"

definition place_extended_fields :: "tws_order \<Rightarrow> field list" where
  "place_extended_fields ord =
     [F_string (o_tif ord), F_string (o_ocaGroup ord), F_string (o_account ord), F_string (o_openClose ord),
      F_int (o_origin ord), F_string (o_orderRef ord), F_bool (o_transmit ord), F_int (o_parentId ord),
      F_bool (o_blockOrder ord), F_bool (o_sweepToFill ord), F_int (o_displaySize ord), F_int (o_triggerMethod ord),
      F_bool (o_outsideRth ord), F_bool (o_hidden ord)]"

definition place_leg_fields :: "int \<Rightarrow> combo_leg \<Rightarrow> field list" where
  "place_leg_fields v l =
     [F_int (l_conId l), F_int (l_ratio l), F_string (l_action l), F_string (l_exchange l), F_int (l_openClose l),
      F_int (l_shortSaleSlot l), F_string (l_designatedLocation l)] @ since v 51 [F_int (l_exemptCode l)]"

definition tag_value_fields :: "(string \<times> string) list \<Rightarrow> field list" where
  "tag_value_fields l = F_int (int (length l)) # concat (map (\<lambda>(tag, v). [F_string tag, F_string v]) l)"

definition place_combo_fields :: "int \<Rightarrow> contract \<Rightarrow> tws_order \<Rightarrow> field list" where
  "place_combo_fields v c ord =
     (if c_secType c = ''BAG''
      then F_int (int (length (c_comboLegs c))) # concat (map (place_leg_fields v) (c_comboLegs c)) else [])
     @ (if v \<ge> 61 \<and> c_secType c = ''BAG''
        then F_int (int (length (o_orderComboLegs ord))) # map field_max_double (o_orderComboLegs ord) else [])
     @ (if v \<ge> 57 \<and> c_secType c = ''BAG'' then tag_value_fields (o_smartComboRoutingParams ord) else [])"

definition place_advisor_fields :: "int \<Rightarrow> tws_order \<Rightarrow> field list" where
  "place_advisor_fields v ord =
     [F_chars [], F_double (o_discretionaryAmt ord), F_string (o_goodAfterTime ord), F_string (o_goodTillDate ord),
      F_string (o_faGroup ord), F_string (o_faMethod ord), F_string (o_faPercentage ord), F_string (o_faProfile ord)]
     @ since v 103 [F_string (o_modelCode ord)]
     @ [F_int (o_shortSaleSlot ord), F_string (o_designatedLocation ord)] @ since v 51 [F_int (o_exemptCode ord)]
     @ [F_int (o_ocaType ord), F_string (o_rule80A ord), F_string (o_settlingFirm ord), F_bool (o_allOrNone ord),
        field_max_int (o_minQty ord), field_max_double (o_percentOffset ord), F_bool False, F_bool False,
        field_max_double UnsetDouble, F_int (o_auctionStrategy ord), field_max_double (o_startingPrice ord),
        field_max_double (o_stockRefPrice ord), field_max_double (o_delta ord), field_max_double (o_stockRangeLower ord),
        field_max_double (o_stockRangeUpper ord), F_bool (o_overridePercentageConstraints ord)]"

definition place_volatility_fields :: "int \<Rightarrow> tws_order \<Rightarrow> field list" where
  "place_volatility_fields v ord =
     [field_max_double (o_volatility ord), field_max_int (o_volatilityType ord), F_string (o_deltaNeutralOrderType ord),
      field_max_double (o_deltaNeutralAuxPrice ord)]
     @ (if v \<ge> 58 \<and> o_deltaNeutralOrderType ord \<noteq> []
        then [F_int (o_deltaNeutralConId ord), F_string (o_deltaNeutralSettlingFirm ord),
          F_string (o_deltaNeutralClearingAccount ord), F_string (o_deltaNeutralClearingIntent ord)] else [])
     @ (if v \<ge> 66 \<and> o_deltaNeutralOrderType ord \<noteq> []
        then [F_string (o_deltaNeutralOpenClose ord), F_bool (o_deltaNeutralShortSale ord),
          F_int (o_deltaNeutralShortSaleSlot ord), F_string (o_deltaNeutralDesignatedLocation ord)] else [])
     @ [F_bool (o_continuousUpdate ord), field_max_int (o_referencePriceType ord), field_max_double (o_trailStopPrice ord)]
     @ since v 62 [field_max_double (o_trailingPercent ord)]"

definition place_scale_fields :: "int \<Rightarrow> tws_order \<Rightarrow> field list" where
  "place_scale_fields v ord =
     (if v \<ge> 40 then [field_max_int (o_scaleInitLevelSize ord), field_max_int (o_scaleSubsLevelSize ord)]
      else [F_chars [], field_max_int (o_scaleInitLevelSize ord)])
     @ [field_max_double (o_scalePriceIncrement ord)]
     @ (if v \<ge> 60 \<and> dlt 0 (o_scalePriceIncrement ord) \<and> is_set_double (o_scalePriceIncrement ord)
        then [field_max_double (o_scalePriceAdjustValue ord), field_max_int (o_scalePriceAdjustInterval ord),
          field_max_double (o_scaleProfitOffset ord), F_bool (o_scaleAutoReset ord), field_max_int (o_scaleInitPosition ord),
          field_max_int (o_scaleInitFillQty ord), F_bool (o_scaleRandomPercent ord)] else [])
     @ since v 69 [F_string (o_scaleTable ord), F_string (o_activeStartTime ord), F_string (o_activeStopTime ord)]"

definition place_hedge_fields :: "int \<Rightarrow> contract \<Rightarrow> tws_order \<Rightarrow> field list" where
  "place_hedge_fields v c ord =
     since v 54 (F_string (o_hedgeType ord) # (if o_hedgeType ord \<noteq> [] then [F_string (o_hedgeParam ord)] else []))
     @ since v 56 [F_bool (o_optOutSmartRouting ord)]
     @ since v 39 [F_string (o_clearingAccount ord), F_string (o_clearingIntent ord)]
     @ since v 44 [F_bool (o_notHeld ord)]
     @ since v 40 (case c_deltaNeutralContract c of
         Some n \<Rightarrow> [F_bool True, F_int (n_conId n), F_double (n_delta n), F_double (n_price n)]
       | None \<Rightarrow> [F_bool False])
     @ since v 41 (F_string (o_algoStrategy ord) # (if o_algoStrategy ord \<noteq> [] then tag_value_fields (o_algoParams ord) else []))
     @ since v 71 [F_string (o_algoId ord)]
     @ [F_bool (o_whatIf ord)]
     @ since v 70 [tag_value_list (o_orderMiscOptions ord)]
     @ since v 73 [F_bool (o_solicited ord)]
     @ since v 76 [F_bool (o_randomizeSize ord), F_bool (o_randomizePrice ord)]"

definition place_pegged_fields :: "int \<Rightarrow> tws_order \<Rightarrow> field list" where
  "place_pegged_fields v ord = since v 102
     ((if o_orderType ord = ''PEG BENCH''
       then [F_int (o_referenceContractId ord), F_bool (o_isPeggedChangeAmountDecrease ord),
         F_double (o_peggedChangeAmount ord), F_double (o_referenceChangeAmount ord), F_string (o_referenceExchangeId ord)]
       else [])
      @ [F_int (int (length (o_conditions ord)))]
      @ (if o_conditions ord \<noteq> []
         then concat (map (\<lambda>item. F_int (condition_type item) # writeExternal item) (o_conditions ord))
           @ [F_bool (o_conditionsIgnoreRth ord), F_bool (o_conditionsCancelOrder ord)] else [])
      @ [F_string (o_adjustedOrderType ord), F_double (o_triggerPrice ord), F_double (o_lmtPriceOffset ord),
         F_double (o_adjustedStopPrice ord), F_double (o_adjustedStopLimitPrice ord), F_double (o_adjustedTrailingAmount ord),
         F_int (o_adjustableTrailingUnit ord)])"

definition place_rule_fields :: "int \<Rightarrow> tws_order \<Rightarrow> field list" where
  "place_rule_fields v ord =
     since v 105 [F_string (o_extOperator ord)]
     @ since v 106 [F_string (fst (o_softDollarTier ord)), F_string (fst (snd (o_softDollarTier ord)))]
     @ since v 111 [field_max_double (o_cashQty ord)]
     @ since v 138 [F_string (o_mifid2DecisionMaker ord), F_string (o_mifid2DecisionAlgo ord)]
     @ since v 139 [F_string (o_mifid2ExecutionTrader ord), F_string (o_mifid2ExecutionAlgo ord)]
     @ since v 141 [F_bool (o_dontUseAutoPriceForHedge ord)]
     @ since v 145 [F_bool (o_isOmsContainer ord)]
     @ since v 148 [F_bool (o_discretionaryUpToLimitPrice ord)]
     @ since v 151 [field_max_int (o_usePriceMgmtAlgo ord)]
     @ since v 158 [field_max_int (o_duration ord)]
     @ since v 160 [field_max_int (o_postToAts ord)]
     @ since v 162 [F_bool (o_autoCancelParent ord)]
     @ since v 166 [F_string (o_advancedErrorOverride ord)]
     @ since v 169 [F_string (o_manualOrderTime ord)]"

definition place_peg_best_fields :: "int \<Rightarrow> contract \<Rightarrow> tws_order \<Rightarrow> field list" where
  "place_peg_best_fields v c ord = since v 170
     ((if c_exchange c = ''IBKRATS'' then [field_max_int (o_minTradeQty ord)] else [])
      @ (if o_orderType ord = ''PEG BEST''
         then [field_max_int (o_minCompeteSize ord), field_max_double (o_competeAgainstBestOffset ord)] else [])
      @ (if (if o_orderType ord = ''PEG BEST'' then deq (o_competeAgainstBestOffset ord) PInf else o_orderType ord = ''PEG MID'')
         then [field_max_double (o_midOffsetAtWhole ord), field_max_double (o_midOffsetAtHalf ord)] else []))"

definition place_order_fields :: "int \<Rightarrow> int \<Rightarrow> contract \<Rightarrow> tws_order \<Rightarrow> field list" where
  "place_order_fields v i c ord =
     place_contract_fields v i c @ place_main_fields v ord @ place_extended_fields ord @ place_combo_fields v c ord
     @ place_advisor_fields v ord @ place_volatility_fields v ord @ place_scale_fields v ord @ place_hedge_fields v c ord
     @ place_pegged_fields v ord @ place_rule_fields v ord @ place_peg_best_fields v c ord"

definition placeOrder :: "kernel \<Rightarrow> (decimal \<Rightarrow> string) \<Rightarrow> int \<Rightarrow> contract \<Rightarrow> tws_order \<Rightarrow> eclient \<Rightarrow> eclient" where
  "placeOrder k dec_str i c ord ec =
     (if \<not> isConnected ec then ec_error i NOT_CONNECTED [] ec
      else case refusal (ec_serverVersion ec) (place_checks c ord) of
        Some text \<Rightarrow> ec_error i UPDATE_TWS text ec
      | None \<Rightarrow> send_fields k dec_str i (place_order_fields (ec_serverVersion ec) i c ord) ec)"

end
