(* ===== verification/TwsApi.thy ===== *)
theory TwsApi
  imports TwsInfoRequests TwsPlaceOrder
begin

text \<open>
  All requests of \<open>EClient\<close> at once, but for \<open>cancelOrder\<close> and \<open>reqWshEventData\<close>, which may leave with an
  exception, and what they have in common.
\<close>

datatype market_request =
    R_reqMktData int contract string bool bool "(string \<times> string) list"
  | R_cancelMktData int
  | R_reqMktDepth int contract int bool "(string \<times> string) list"
  | R_cancelMktDepth int bool
  | R_cancelHistoricalData int
  | R_reqRealTimeBars int contract int string bool "(string \<times> string) list"
  | R_cancelRealTimeBars int
  | R_reqScannerParameters
  | R_reqScannerSubscription int scanner_subscription "(string \<times> string) list" "(string \<times> string) list"
  | R_cancelScannerSubscription int
  | R_reqFundamentalData int contract string "(string \<times> string) list"
  | R_cancelFundamentalData int
  | R_calculateImpliedVolatility int contract double double "(string \<times> string) list"
  | R_cancelCalculateImpliedVolatility int
  | R_calculateOptionPrice int contract double double "(string \<times> string) list"
  | R_cancelCalculateOptionPrice int
  | R_reqCurrentTime
  | R_exerciseOptions int contract int int string int

fun run_market :: "kernel \<Rightarrow> (decimal \<Rightarrow> string) \<Rightarrow> market_request \<Rightarrow> eclient \<Rightarrow> eclient" where
  "run_market k dec_str (R_reqMktData a b c d e f) = reqMktData k dec_str a b c d e f"
| "run_market k dec_str (R_cancelMktData a) = cancelMktData k dec_str a"
| "run_market k dec_str (R_reqMktDepth a b c d e) = reqMktDepth k dec_str a b c d e"
| "run_market k dec_str (R_cancelMktDepth a b) = cancelMktDepth k dec_str a b"
| "run_market k dec_str (R_cancelHistoricalData a) = cancelHistoricalData k dec_str a"
| "run_market k dec_str (R_reqRealTimeBars a b c d e f) = reqRealTimeBars k dec_str a b c d e f"
| "run_market k dec_str (R_cancelRealTimeBars a) = cancelRealTimeBars k dec_str a"
| "run_market k dec_str R_reqScannerParameters = reqScannerParameters k dec_str"
| "run_market k dec_str (R_reqScannerSubscription a b c d) = reqScannerSubscription k dec_str a b c d"
| "run_market k dec_str (R_cancelScannerSubscription a) = cancelScannerSubscription k dec_str a"
| "run_market k dec_str (R_reqFundamentalData a b c d) = reqFundamentalData k dec_str a b c d"
| "run_market k dec_str (R_cancelFundamentalData a) = cancelFundamentalData k dec_str a"
| "run_market k dec_str (R_calculateImpliedVolatility a b c d e) = calculateImpliedVolatility k dec_str a b c d e"
| "run_market k dec_str (R_cancelCalculateImpliedVolatility a) = cancelCalculateImpliedVolatility k dec_str a"
| "run_market k dec_str (R_calculateOptionPrice a b c d e) = calculateOptionPrice k dec_str a b c d e"
| "run_market k dec_str (R_cancelCalculateOptionPrice a) = cancelCalculateOptionPrice k dec_str a"
| "run_market k dec_str R_reqCurrentTime = reqCurrentTime k dec_str"
| "run_market k dec_str (R_exerciseOptions a b c d e f) = exerciseOptions k dec_str a b c d e f"

fun market_number :: "market_request \<Rightarrow> int" where
  "market_number (R_reqMktData _ _ _ _ _ _) = 1"
| "market_number (R_cancelMktData _) = 2"
| "market_number (R_reqMktDepth _ _ _ _ _) = 10"
| "market_number (R_cancelMktDepth _ _) = 11"
| "market_number (R_cancelHistoricalData _) = 25"
| "market_number (R_reqRealTimeBars _ _ _ _ _ _) = 50"
| "market_number (R_cancelRealTimeBars _) = 51"
| "market_number R_reqScannerParameters = 24"
| "market_number (R_reqScannerSubscription _ _ _ _) = 22"
| "market_number (R_cancelScannerSubscription _) = 23"
| "market_number (R_reqFundamentalData _ _ _ _) = 52"
| "market_number (R_cancelFundamentalData _) = 53"
| "market_number (R_calculateImpliedVolatility _ _ _ _ _) = 54"
| "market_number (R_cancelCalculateImpliedVolatility _) = 56"
| "market_number (R_calculateOptionPrice _ _ _ _ _) = 55"
| "market_number (R_cancelCalculateOptionPrice _) = 57"
| "market_number R_reqCurrentTime = 49"
| "market_number (R_exerciseOptions _ _ _ _ _ _) = 21"

datatype account_request =
    R_reqAccountUpdates bool string
  | R_reqOpenOrders
  | R_reqAutoOpenOrders bool
  | R_reqAllOpenOrders
  | R_reqExecutions int execution_filter
  | R_reqIds int
  | R_reqNewsBulletins bool
  | R_cancelNewsBulletins
  | R_setServerLogLevel int
  | R_reqManagedAccts
  | R_requestFA int
  | R_replaceFA int int string
  | R_reqPositions
  | R_cancelPositions
  | R_reqAccountSummary int string string
  | R_cancelAccountSummary int
  | R_verifyRequest string string

fun run_account :: "kernel \<Rightarrow> (decimal \<Rightarrow> string) \<Rightarrow> account_request \<Rightarrow> eclient \<Rightarrow> eclient" where
  "run_account k dec_str (R_reqAccountUpdates a b) = reqAccountUpdates k dec_str a b"
| "run_account k dec_str R_reqOpenOrders = reqOpenOrders k dec_str"
| "run_account k dec_str (R_reqAutoOpenOrders a) = reqAutoOpenOrders k dec_str a"
| "run_account k dec_str R_reqAllOpenOrders = reqAllOpenOrders k dec_str"
| "run_account k dec_str (R_reqExecutions a b) = reqExecutions k dec_str a b"
| "run_account k dec_str (R_reqIds a) = reqIds k dec_str a"
| "run_account k dec_str (R_reqNewsBulletins a) = reqNewsBulletins k dec_str a"
| "run_account k dec_str R_cancelNewsBulletins = cancelNewsBulletins k dec_str"
| "run_account k dec_str (R_setServerLogLevel a) = setServerLogLevel k dec_str a"
| "run_account k dec_str R_reqManagedAccts = reqManagedAccts k dec_str"
| "run_account k dec_str (R_requestFA a) = requestFA k dec_str a"
| "run_account k dec_str (R_replaceFA a b c) = replaceFA k dec_str a b c"
| "run_account k dec_str R_reqPositions = reqPositions k dec_str"
| "run_account k dec_str R_cancelPositions = cancelPositions k dec_str"
| "run_account k dec_str (R_reqAccountSummary a b c) = reqAccountSummary k dec_str a b c"
| "run_account k dec_str (R_cancelAccountSummary a) = cancelAccountSummary k dec_str a"
| "run_account k dec_str (R_verifyRequest a b) = verifyRequest k dec_str a b"

fun account_number :: "account_request \<Rightarrow> int" where
  "account_number (R_reqAccountUpdates _ _) = 6"
| "account_number R_reqOpenOrders = 5"
| "account_number (R_reqAutoOpenOrders _) = 15"
| "account_number R_reqAllOpenOrders = 16"
| "account_number (R_reqExecutions _ _) = 7"
| "account_number (R_reqIds _) = 8"
| "account_number (R_reqNewsBulletins _) = 12"
| "account_number R_cancelNewsBulletins = 13"
| "account_number (R_setServerLogLevel _) = 14"
| "account_number R_reqManagedAccts = 17"
| "account_number (R_requestFA _) = 18"
| "account_number (R_replaceFA _ _ _) = 19"
| "account_number R_reqPositions = 61"
| "account_number R_cancelPositions = 64"
| "account_number (R_reqAccountSummary _ _ _) = 62"
| "account_number (R_cancelAccountSummary _) = 63"
| "account_number (R_verifyRequest _ _) = 65"

datatype group_request =
    R_verifyMessage string
  | R_verifyAndAuthRequest string string string
  | R_verifyAndAuthMessage string string
  | R_queryDisplayGroups int
  | R_subscribeToGroupEvents int int
  | R_updateDisplayGroup int string
  | R_unsubscribeFromGroupEvents int
  | R_reqPositionsMulti int string string
  | R_cancelPositionsMulti int
  | R_reqAccountUpdatesMulti int string string bool
  | R_cancelAccountUpdatesMulti int
  | R_reqSoftDollarTiers int
  | R_reqFamilyCodes
  | R_reqPnL int string string
  | R_cancelPnL int
  | R_reqPnLSingle int string string int
  | R_cancelPnLSingle int
  | R_reqCompletedOrders bool

fun run_group :: "kernel \<Rightarrow> (decimal \<Rightarrow> string) \<Rightarrow> group_request \<Rightarrow> eclient \<Rightarrow> eclient" where
  "run_group k dec_str (R_verifyMessage a) = verifyMessage k dec_str a"
| "run_group k dec_str (R_verifyAndAuthRequest a b c) = verifyAndAuthRequest k dec_str a b c"
| "run_group k dec_str (R_verifyAndAuthMessage a b) = verifyAndAuthMessage k dec_str a b"
| "run_group k dec_str (R_queryDisplayGroups a) = queryDisplayGroups k dec_str a"
| "run_group k dec_str (R_subscribeToGroupEvents a b) = subscribeToGroupEvents k dec_str a b"
| "run_group k dec_str (R_updateDisplayGroup a b) = updateDisplayGroup k dec_str a b"
| "run_group k dec_str (R_unsubscribeFromGroupEvents a) = unsubscribeFromGroupEvents k dec_str a"
| "run_group k dec_str (R_reqPositionsMulti a b c) = reqPositionsMulti k dec_str a b c"
| "run_group k dec_str (R_cancelPositionsMulti a) = cancelPositionsMulti k dec_str a"
| "run_group k dec_str (R_reqAccountUpdatesMulti a b c d) = reqAccountUpdatesMulti k dec_str a b c d"
| "run_group k dec_str (R_cancelAccountUpdatesMulti a) = cancelAccountUpdatesMulti k dec_str a"
| "run_group k dec_str (R_reqSoftDollarTiers a) = reqSoftDollarTiers k dec_str a"
| "run_group k dec_str R_reqFamilyCodes = reqFamilyCodes k dec_str"
| "run_group k dec_str (R_reqPnL a b c) = reqPnL k dec_str a b c"
| "run_group k dec_str (R_cancelPnL a) = cancelPnL k dec_str a"
| "run_group k dec_str (R_reqPnLSingle a b c d) = reqPnLSingle k dec_str a b c d"
| "run_group k dec_str (R_cancelPnLSingle a) = cancelPnLSingle k dec_str a"
| "run_group k dec_str (R_reqCompletedOrders a) = reqCompletedOrders k dec_str a"

fun group_number :: "group_request \<Rightarrow> int" where
  "group_number (R_verifyMessage _) = 66"
| "group_number (R_verifyAndAuthRequest _ _ _) = 72"
| "group_number (R_verifyAndAuthMessage _ _) = 73"
| "group_number (R_queryDisplayGroups _) = 67"
| "group_number (R_subscribeToGroupEvents _ _) = 68"
| "group_number (R_updateDisplayGroup _ _) = 69"
| "group_number (R_unsubscribeFromGroupEvents _) = 70"
| "group_number (R_reqPositionsMulti _ _ _) = 74"
| "group_number (R_cancelPositionsMulti _) = 75"
| "group_number (R_reqAccountUpdatesMulti _ _ _ _) = 76"
| "group_number (R_cancelAccountUpdatesMulti _) = 77"
| "group_number (R_reqSoftDollarTiers _) = 79"
| "group_number R_reqFamilyCodes = 80"
| "group_number (R_reqPnL _ _ _) = 92"
| "group_number (R_cancelPnL _) = 93"
| "group_number (R_reqPnLSingle _ _ _ _) = 94"
| "group_number (R_cancelPnLSingle _) = 95"
| "group_number (R_reqCompletedOrders _) = 99"

datatype info_request =
    R_reqSecDefOptParams int string string string int
  | R_reqMatchingSymbols int string
  | R_reqMktDepthExchanges
  | R_reqSmartComponents int string
  | R_reqNewsProviders
  | R_reqNewsArticle int string string "(string \<times> string) list"
  | R_reqHistoricalNews int int string string string int "(string \<times> string) list"
  | R_reqHeadTimestamp int contract string int int
  | R_cancelHeadTimestamp int
  | R_reqHistogramData int contract bool string
  | R_cancelHistogramData int
  | R_reqMarketRule int
  | R_reqHistoricalTicks int contract string string int string int bool "(string \<times> string) list"
  | R_cancelTickByTickData int
  | R_reqWshMetaData int
  | R_cancelWshMetaData int
  | R_cancelWshEventData int
  | R_reqUserInfo int

fun run_info :: "kernel \<Rightarrow> (decimal \<Rightarrow> string) \<Rightarrow> info_request \<Rightarrow> eclient \<Rightarrow> eclient" where
  "run_info k dec_str (R_reqSecDefOptParams a b c d e) = reqSecDefOptParams k dec_str a b c d e"
| "run_info k dec_str (R_reqMatchingSymbols a b) = reqMatchingSymbols k dec_str a b"
| "run_info k dec_str R_reqMktDepthExchanges = reqMktDepthExchanges k dec_str"
| "run_info k dec_str (R_reqSmartComponents a b) = reqSmartComponents k dec_str a b"
| "run_info k dec_str R_reqNewsProviders = reqNewsProviders k dec_str"
| "run_info k dec_str (R_reqNewsArticle a b c d) = reqNewsArticle k dec_str a b c d"
| "run_info k dec_str (R_reqHistoricalNews a b c d e f g) = reqHistoricalNews k dec_str a b c d e f g"
| "run_info k dec_str (R_reqHeadTimestamp a b c d e) = reqHeadTimestamp k dec_str a b c d e"
| "run_info k dec_str (R_cancelHeadTimestamp a) = cancelHeadTimestamp k dec_str a"
| "run_info k dec_str (R_reqHistogramData a b c d) = reqHistogramData k dec_str a b c d"
| "run_info k dec_str (R_cancelHistogramData a) = cancelHistogramData k dec_str a"
| "run_info k dec_str (R_reqMarketRule a) = reqMarketRule k dec_str a"
| "run_info k dec_str (R_reqHistoricalTicks a b c d e f g h i) = reqHistoricalTicks k dec_str a b c d e f g h i"
| "run_info k dec_str (R_cancelTickByTickData a) = cancelTickByTickData k dec_str a"
| "run_info k dec_str (R_reqWshMetaData a) = reqWshMetaData k dec_str a"
| "run_info k dec_str (R_cancelWshMetaData a) = cancelWshMetaData k dec_str a"
| "run_info k dec_str (R_cancelWshEventData a) = cancelWshEventData k dec_str a"
| "run_info k dec_str (R_reqUserInfo a) = reqUserInfo k dec_str a"

fun info_number :: "info_request \<Rightarrow> int" where
  "info_number (R_reqSecDefOptParams _ _ _ _ _) = 78"
| "info_number (R_reqMatchingSymbols _ _) = 81"
| "info_number R_reqMktDepthExchanges = 82"
| "info_number (R_reqSmartComponents _ _) = 83"
| "info_number R_reqNewsProviders = 85"
| "info_number (R_reqNewsArticle _ _ _ _) = 84"
| "info_number (R_reqHistoricalNews _ _ _ _ _ _ _) = 86"
| "info_number (R_reqHeadTimestamp _ _ _ _ _) = 87"
| "info_number (R_cancelHeadTimestamp _) = 90"
| "info_number (R_reqHistogramData _ _ _ _) = 88"
| "info_number (R_cancelHistogramData _) = 89"
| "info_number (R_reqMarketRule _) = 91"
| "info_number (R_reqHistoricalTicks _ _ _ _ _ _ _ _ _) = 96"
| "info_number (R_cancelTickByTickData _) = 98"
| "info_number (R_reqWshMetaData _) = 100"
| "info_number (R_cancelWshMetaData _) = 101"
| "info_number (R_cancelWshEventData _) = 103"
| "info_number (R_reqUserInfo _) = 104"

datatype core_request =
    R_reqTickByTickData int contract string int bool
  | R_reqHistoricalData int contract string string string string int int bool "(string \<times> string) list"
  | R_reqContractDetails int contract
  | R_reqGlobalCancel
  | R_reqMarketDataType int
  | R_placeOrder int contract tws_order

fun run_core :: "kernel \<Rightarrow> (decimal \<Rightarrow> string) \<Rightarrow> core_request \<Rightarrow> eclient \<Rightarrow> eclient" where
  "run_core k dec_str (R_reqTickByTickData a b c d e) = reqTickByTickData k dec_str a b c d e"
| "run_core k dec_str (R_reqHistoricalData a b c d e f g h i j) = reqHistoricalData k dec_str a b c d e f g h i j"
| "run_core k dec_str (R_reqContractDetails a b) = reqContractDetails k dec_str a b"
| "run_core k dec_str R_reqGlobalCancel = reqGlobalCancel k dec_str"
| "run_core k dec_str (R_reqMarketDataType a) = reqMarketDataType k dec_str a"
| "run_core k dec_str (R_placeOrder a b c) = placeOrder k dec_str a b c"

fun core_number :: "core_request \<Rightarrow> int" where
  "core_number (R_reqTickByTickData _ _ _ _ _) = 97"
| "core_number (R_reqHistoricalData _ _ _ _ _ _ _ _ _ _) = 20"
| "core_number (R_reqContractDetails _ _) = 9"
| "core_number R_reqGlobalCancel = 58"
| "core_number (R_reqMarketDataType _) = 59"
| "core_number (R_placeOrder _ _ _) = 3"

datatype api_request =
    R_market market_request
  | R_account account_request
  | R_group group_request
  | R_info info_request
  | R_core core_request

fun run_api :: "kernel \<Rightarrow> (decimal \<Rightarrow> string) \<Rightarrow> api_request \<Rightarrow> eclient \<Rightarrow> eclient" where
  "run_api k dec_str (R_market r) = run_market k dec_str r"
| "run_api k dec_str (R_account r) = run_account k dec_str r"
| "run_api k dec_str (R_group r) = run_group k dec_str r"
| "run_api k dec_str (R_info r) = run_info k dec_str r"
| "run_api k dec_str (R_core r) = run_core k dec_str r"

fun msg_number :: "api_request \<Rightarrow> int" where
  "msg_number (R_market r) = market_number r"
| "msg_number (R_account r) = account_number r"
| "msg_number (R_group r) = group_number r"
| "msg_number (R_info r) = info_number r"
| "msg_number (R_core r) = core_number r"

section \<open>A message or an error\<close>

definition answers :: "kernel \<Rightarrow> (decimal \<Rightarrow> string) \<Rightarrow> int \<Rightarrow> (eclient \<Rightarrow> eclient) \<Rightarrow> eclient \<Rightarrow> bool" where
  "answers k dec_str n f ec \<longleftrightarrow>
     (if \<not> isConnected ec then \<exists>i. f ec = ec_error i NOT_CONNECTED [] ec
      else (\<exists>i e t. e \<in> {UPDATE_TWS, INVALID_SYMBOL} \<and> f ec = ec_error i e t ec)
        \<or> (\<exists>fs s. encode_fields dec_str (F_int n # fs) = Inr s \<and> f ec = snd (closeAndSend k (prepareBuffer ec @ s) 0 ec)))"

lemma answers_unconnected: "\<not> isConnected ec \<Longrightarrow> f ec = ec_error i NOT_CONNECTED [] ec \<Longrightarrow> answers k dec_str n f ec"
  unfolding answers_def by auto

lemma answers_refused: "isConnected ec \<Longrightarrow> f ec = ec_error i UPDATE_TWS t ec \<Longrightarrow> answers k dec_str n f ec"
  unfolding answers_def by (simp only: simp_thms if_False) blast

lemma answers_send: "isConnected ec \<Longrightarrow> f ec = send_fields k dec_str i (F_int n # fs) ec \<Longrightarrow> answers k dec_str n f ec"
  by (cases "encode_fields dec_str (F_int n # fs)")
    (simp_all only: answers_def send_fields_def sum.case simp_thms if_False not_True_eq_False, blast+)

lemma answers_request: "(\<And>v. \<exists>gs. fs v = F_int n # gs) \<Longrightarrow> answers k dec_str n (request k dec_str i0 checks i fs) ec"
proof -
  assume fs: "\<And>v. \<exists>gs. fs v = F_int n # gs"
  obtain gs where gs: "fs (ec_serverVersion ec) = F_int n # gs" using fs by blast
  consider "\<not> isConnected ec" | x i' t where "isConnected ec" "find fst (checks ec (ec_serverVersion ec)) = Some (x, i', t)"
    | "isConnected ec" "find fst (checks ec (ec_serverVersion ec)) = None"
    by (cases "find fst (checks ec (ec_serverVersion ec))") auto
  then show ?thesis
    by cases (auto simp: request_def gs intro: answers_unconnected answers_refused answers_send)
qed

lemma answers_checks:
  "f ec = (if \<not> isConnected ec then ec_error i0 NOT_CONNECTED [] ec else case r of Some t \<Rightarrow> ec_error i' UPDATE_TWS t ec
     | None \<Rightarrow> send_fields k dec_str i (F_int n # fs) ec) \<Longrightarrow> answers k dec_str n f ec"
  by (cases "isConnected ec"; cases r) (auto intro: answers_unconnected answers_refused answers_send)

lemma answers_old:
  "answers k dec_str 97 (reqTickByTickData k dec_str a b c d e) ec"
  "answers k dec_str 20 (reqHistoricalData k dec_str a b s1 s2 s3 s4 g h j l) ec"
  "answers k dec_str 9 (reqContractDetails k dec_str a b) ec"
  "answers k dec_str 58 (reqGlobalCancel k dec_str) ec"
  "answers k dec_str 59 (reqMarketDataType k dec_str a) ec"
  "answers k dec_str 3 (placeOrder k dec_str a b ord) ec"
  by (rule answers_checks, simp only: reqTickByTickData_def tick_by_tick_fields_def reqHistoricalData_def hist_fields_def
      reqContractDetails_def contract_details_fields_def reqGlobalCancel_def reqMarketDataType_def placeOrder_def
      place_order_fields_def place_contract_fields_def append.simps append_assoc)+

lemma answers_market:
  "answers k dec_str 1 (reqMktData k dec_str a0 b0 c0 d0 e0 f0) ec"
  "answers k dec_str 2 (cancelMktData k dec_str a1) ec"
  "answers k dec_str 10 (reqMktDepth k dec_str a2 b2 c2 d2 e2) ec"
  "answers k dec_str 11 (cancelMktDepth k dec_str a3 b3) ec"
  "answers k dec_str 25 (cancelHistoricalData k dec_str a4) ec"
  "answers k dec_str 50 (reqRealTimeBars k dec_str a5 b5 c5 d5 e5 f5) ec"
  "answers k dec_str 51 (cancelRealTimeBars k dec_str a6) ec"
  "answers k dec_str 24 (reqScannerParameters k dec_str) ec"
  "answers k dec_str 22 (reqScannerSubscription k dec_str a8 b8 c8 d8) ec"
  "answers k dec_str 23 (cancelScannerSubscription k dec_str a9) ec"
  "answers k dec_str 52 (reqFundamentalData k dec_str a10 b10 c10 d10) ec"
  "answers k dec_str 53 (cancelFundamentalData k dec_str a11) ec"
  "answers k dec_str 54 (calculateImpliedVolatility k dec_str a12 b12 c12 d12 e12) ec"
  "answers k dec_str 56 (cancelCalculateImpliedVolatility k dec_str a13) ec"
  "answers k dec_str 55 (calculateOptionPrice k dec_str a14 b14 c14 d14 e14) ec"
  "answers k dec_str 57 (cancelCalculateOptionPrice k dec_str a15) ec"
  "answers k dec_str 49 (reqCurrentTime k dec_str) ec"
  "answers k dec_str 21 (exerciseOptions k dec_str a17 b17 c17 d17 e17 f17) ec"
  unfolding reqMktData_def cancelMktData_def reqMktDepth_def cancelMktDepth_def cancelHistoricalData_def reqRealTimeBars_def cancelRealTimeBars_def reqScannerParameters_def reqScannerSubscription_def cancelScannerSubscription_def reqFundamentalData_def cancelFundamentalData_def calculateImpliedVolatility_def cancelCalculateImpliedVolatility_def calculateOptionPrice_def cancelCalculateOptionPrice_def reqCurrentTime_def exerciseOptions_def
  by (rule answers_request, simp)+

lemma answers_account:
  "answers k dec_str 6 (reqAccountUpdates k dec_str a0 b0) ec"
  "answers k dec_str 5 (reqOpenOrders k dec_str) ec"
  "answers k dec_str 15 (reqAutoOpenOrders k dec_str a2) ec"
  "answers k dec_str 16 (reqAllOpenOrders k dec_str) ec"
  "answers k dec_str 7 (reqExecutions k dec_str a4 b4) ec"
  "answers k dec_str 8 (reqIds k dec_str a5) ec"
  "answers k dec_str 12 (reqNewsBulletins k dec_str a6) ec"
  "answers k dec_str 13 (cancelNewsBulletins k dec_str) ec"
  "answers k dec_str 14 (setServerLogLevel k dec_str a8) ec"
  "answers k dec_str 17 (reqManagedAccts k dec_str) ec"
  "answers k dec_str 18 (requestFA k dec_str a10) ec"
  "answers k dec_str 19 (replaceFA k dec_str a11 b11 c11) ec"
  "answers k dec_str 61 (reqPositions k dec_str) ec"
  "answers k dec_str 64 (cancelPositions k dec_str) ec"
  "answers k dec_str 62 (reqAccountSummary k dec_str a14 b14 c14) ec"
  "answers k dec_str 63 (cancelAccountSummary k dec_str a15) ec"
  "answers k dec_str 65 (verifyRequest k dec_str a16 b16) ec"
  unfolding reqAccountUpdates_def reqOpenOrders_def reqAutoOpenOrders_def reqAllOpenOrders_def reqExecutions_def reqIds_def reqNewsBulletins_def cancelNewsBulletins_def setServerLogLevel_def reqManagedAccts_def requestFA_def replaceFA_def reqPositions_def cancelPositions_def reqAccountSummary_def cancelAccountSummary_def verifyRequest_def
  by (rule answers_request, simp)+

lemma answers_group:
  "answers k dec_str 66 (verifyMessage k dec_str a0) ec"
  "answers k dec_str 72 (verifyAndAuthRequest k dec_str a1 b1 c1) ec"
  "answers k dec_str 73 (verifyAndAuthMessage k dec_str a2 b2) ec"
  "answers k dec_str 67 (queryDisplayGroups k dec_str a3) ec"
  "answers k dec_str 68 (subscribeToGroupEvents k dec_str a4 b4) ec"
  "answers k dec_str 69 (updateDisplayGroup k dec_str a5 b5) ec"
  "answers k dec_str 70 (unsubscribeFromGroupEvents k dec_str a6) ec"
  "answers k dec_str 74 (reqPositionsMulti k dec_str a7 b7 c7) ec"
  "answers k dec_str 75 (cancelPositionsMulti k dec_str a8) ec"
  "answers k dec_str 76 (reqAccountUpdatesMulti k dec_str a9 b9 c9 d9) ec"
  "answers k dec_str 77 (cancelAccountUpdatesMulti k dec_str a10) ec"
  "answers k dec_str 79 (reqSoftDollarTiers k dec_str a11) ec"
  "answers k dec_str 80 (reqFamilyCodes k dec_str) ec"
  "answers k dec_str 92 (reqPnL k dec_str a13 b13 c13) ec"
  "answers k dec_str 93 (cancelPnL k dec_str a14) ec"
  "answers k dec_str 94 (reqPnLSingle k dec_str a15 b15 c15 d15) ec"
  "answers k dec_str 95 (cancelPnLSingle k dec_str a16) ec"
  "answers k dec_str 99 (reqCompletedOrders k dec_str a17) ec"
  unfolding verifyMessage_def verifyAndAuthRequest_def verifyAndAuthMessage_def queryDisplayGroups_def subscribeToGroupEvents_def updateDisplayGroup_def unsubscribeFromGroupEvents_def reqPositionsMulti_def cancelPositionsMulti_def reqAccountUpdatesMulti_def cancelAccountUpdatesMulti_def reqSoftDollarTiers_def reqFamilyCodes_def reqPnL_def cancelPnL_def reqPnLSingle_def cancelPnLSingle_def reqCompletedOrders_def
  by (rule answers_request, simp)+

lemma answers_info:
  "answers k dec_str 78 (reqSecDefOptParams k dec_str a0 b0 c0 d0 e0) ec"
  "answers k dec_str 81 (reqMatchingSymbols k dec_str a1 b1) ec"
  "answers k dec_str 82 (reqMktDepthExchanges k dec_str) ec"
  "answers k dec_str 83 (reqSmartComponents k dec_str a3 b3) ec"
  "answers k dec_str 85 (reqNewsProviders k dec_str) ec"
  "answers k dec_str 84 (reqNewsArticle k dec_str a5 b5 c5 d5) ec"
  "answers k dec_str 86 (reqHistoricalNews k dec_str a6 b6 c6 d6 e6 f6 g6) ec"
  "answers k dec_str 87 (reqHeadTimestamp k dec_str a7 b7 c7 d7 e7) ec"
  "answers k dec_str 90 (cancelHeadTimestamp k dec_str a8) ec"
  "answers k dec_str 88 (reqHistogramData k dec_str a9 b9 c9 d9) ec"
  "answers k dec_str 89 (cancelHistogramData k dec_str a10) ec"
  "answers k dec_str 91 (reqMarketRule k dec_str a11) ec"
  "answers k dec_str 96 (reqHistoricalTicks k dec_str a12 b12 c12 d12 e12 f12 g12 h12 i12) ec"
  "answers k dec_str 98 (cancelTickByTickData k dec_str a13) ec"
  "answers k dec_str 100 (reqWshMetaData k dec_str a14) ec"
  "answers k dec_str 101 (cancelWshMetaData k dec_str a15) ec"
  "answers k dec_str 103 (cancelWshEventData k dec_str a16) ec"
  "answers k dec_str 104 (reqUserInfo k dec_str a17) ec"
  unfolding reqSecDefOptParams_def reqMatchingSymbols_def reqMktDepthExchanges_def reqSmartComponents_def reqNewsProviders_def reqNewsArticle_def reqHistoricalNews_def reqHeadTimestamp_def cancelHeadTimestamp_def reqHistogramData_def cancelHistogramData_def reqMarketRule_def reqHistoricalTicks_def cancelTickByTickData_def reqWshMetaData_def cancelWshMetaData_def cancelWshEventData_def reqUserInfo_def
  by (rule answers_request, simp)+

lemma answers_run_market: "answers k dec_str (market_number r) (run_market k dec_str r) ec"
  by (cases r) (simp_all only: run_market.simps market_number.simps answers_market)

lemma answers_run_account: "answers k dec_str (account_number r) (run_account k dec_str r) ec"
  by (cases r) (simp_all only: run_account.simps account_number.simps answers_account)

lemma answers_run_group: "answers k dec_str (group_number r) (run_group k dec_str r) ec"
  by (cases r) (simp_all only: run_group.simps group_number.simps answers_group)

lemma answers_run_info: "answers k dec_str (info_number r) (run_info k dec_str r) ec"
  by (cases r) (simp_all only: run_info.simps info_number.simps answers_info)

lemma answers_run_core: "answers k dec_str (core_number r) (run_core k dec_str r) ec"
  by (cases r) (simp_all only: run_core.simps core_number.simps answers_old)

text \<open>
  Whatever the request and whatever its arguments: without a connection it reports that and does nothing
  else; with one it hands one message to the socket, whose first field is the number of the request,
  unless the server is too old for it or a text cannot be printed, which it reports instead.
\<close>

lemma every_request_answers: "answers k dec_str (msg_number r) (run_api k dec_str r) ec"
  by (cases r) (simp_all only: run_api.simps msg_number.simps answers_run_market answers_run_account answers_run_group
      answers_run_info answers_run_core)

end
