(* ===== verification/TwsReader.thy ===== *)
theory TwsReader
  imports TwsClient
begin

text \<open>
  \<open>EReader\<close> (\<open>external/tws/client/EReader.cpp\<close>) with the length headers of the protocol since version
  100: bytes come off the socket into a buffer in whatever pieces the network makes of them, and
  complete messages are put into a queue. What each call of \<open>select\<close> finds is a list, the network's
  side of the model; an operation that waits when the list is used up waits for ever, which is \<open>None\<close>.
\<close>

section \<open>The network\<close>

datatype recv_result = Recv string | Recv_fails errno

text \<open>
  \<open>select\<close> times out, fails, or finds the socket with an error and with something to receive; nothing
  to receive but the end of the connection is \<open>Recv []\<close>. Readiness for writing only raises a signal.
\<close>

datatype select_result = Sel_timeout | Sel_fails | Sel_ready bool "recv_result option"

fun net_size :: "select_result list \<Rightarrow> nat" where
  "net_size [] = 0"
| "net_size (Sel_ready e (Some (Recv s)) # net) = Suc (length s) + net_size net"
| "net_size (_ # net) = Suc (net_size net)"

section \<open>State\<close>

record ereader =
  rd_buf :: string
  rd_nMaxBufSize :: nat
  rd_msgQueue :: "string list"
  rd_client :: eclient
  rd_net :: "select_result list"

definition IN_BUF_SIZE_DEFAULT :: nat where
  "IN_BUF_SIZE_DEFAULT = 8192"

definition rd_init :: "eclient \<Rightarrow> select_result list \<Rightarrow> ereader" where
  "rd_init ec net = \<lparr>rd_buf = [], rd_nMaxBufSize = IN_BUF_SIZE_DEFAULT, rd_msgQueue = [], rd_client = ec, rd_net = net\<rparr>"

definition rd_ok :: "ereader \<Rightarrow> bool" where
  "rd_ok rd \<longleftrightarrow> isSocketOK (rd_client rd)"

section \<open>Receiving\<close>

definition resize :: "nat \<Rightarrow> string \<Rightarrow> string" where
  "resize n s = take n s @ replicate (n - length s) NUL"

text \<open>
  \<open>EClientSocket::receive\<close>: the bytes that fit into the space, the rest stays in the socket. The end of
  the connection closes it.
\<close>

definition receive :: "nat \<Rightarrow> recv_result \<Rightarrow> eclient \<Rightarrow> int \<times> string \<times> recv_result option \<times> eclient" where
  "receive sz r ec =
     (if sz = 0 then (0, [], Some r, ec)
      else case r of
        Recv s \<Rightarrow>
          if s = [] then (0, [], None, onClose ec)
          else (int (min sz (length s)), take sz s, (if length s \<le> sz then None else Some (Recv (drop sz s))), ec)
      | Recv_fails e \<Rightarrow>
          (case handleSocketError (ec\<lparr>ec_errno := e\<rparr>) of (ok, ec1) \<Rightarrow> (if ok then 0 else - 1, [], None, ec1)))"

text \<open>
  The buffer is made as large as it can be, and cut back to what was received; when nothing was, it
  stays as it is, with zeros up to its end.
\<close>

definition onReceive :: "recv_result \<Rightarrow> ereader \<Rightarrow> ereader" where
  "onReceive r rd =
     (let nOffset = length (rd_buf rd); buf = resize (rd_nMaxBufSize rd) (rd_buf rd) in
      case receive (length buf - nOffset) r (rd_client rd) of (nRes, bytes, rest, ec) \<Rightarrow>
        let rd1 = rd\<lparr>rd_client := ec,
              rd_net := (case rest of None \<Rightarrow> rd_net rd | Some r' \<Rightarrow> Sel_ready False (Some r') # rd_net rd)\<rparr> in
        if nRes \<le> 0 then rd1\<lparr>rd_buf := buf\<rparr>
        else rd1\<lparr>rd_buf := take nOffset buf @ bytes\<rparr>)"

definition processNonBlockingSelect :: "ereader \<Rightarrow> (bool \<times> ereader) option" where
  "processNonBlockingSelect rd =
     (if \<not> rd_ok rd then Some (False, rd)
      else case rd_net rd of
        [] \<Rightarrow> None
      | Sel_timeout # net \<Rightarrow> Some (False, rd\<lparr>rd_net := net\<rparr>)
      | Sel_fails # net \<Rightarrow> Some (False, rd\<lparr>rd_net := net, rd_client := eDisconnect True (rd_client rd)\<rparr>)
      | Sel_ready err r # net \<Rightarrow>
          (let rd1 = rd\<lparr>rd_net := net, rd_client := (if err then onError (rd_client rd) else rd_client rd)\<rparr> in
           if \<not> rd_ok rd1 then Some (False, rd1)
           else Some (True, case r of None \<Rightarrow> rd1 | Some r' \<Rightarrow> onReceive r' rd1)))"

lemma onReceive_net: "net_size (rd_net (onReceive r rd)) < net_size (Sel_ready e (Some r) # rd_net rd)
    \<or> length (rd_buf rd) \<ge> rd_nMaxBufSize rd"
  by (auto simp: onReceive_def receive_def Let_def resize_def split: recv_result.splits prod.splits)

lemma select_net:
  assumes "processNonBlockingSelect rd = Some (b, rd1)" and "length (rd_buf rd) < rd_nMaxBufSize rd" and "b \<or> rd_ok rd1"
  shows "net_size (rd_net rd1) < net_size (rd_net rd)"
proof -
  have ok: "rd_ok rd" using assms by (auto simp: processNonBlockingSelect_def split: if_splits)
  show ?thesis
  proof (cases "rd_net rd")
    case Nil
    then show ?thesis using assms ok by (simp add: processNonBlockingSelect_def)
  next
    case (Cons ev net)
    show ?thesis
    proof (cases ev)
      case (Sel_ready e r)
      let ?rd = "rd\<lparr>rd_net := net, rd_client := (if e then onError (rd_client rd) else rd_client rd)\<rparr>"
      show ?thesis
      proof (cases "r = None \<or> \<not> rd_ok ?rd")
        case True
        then show ?thesis using assms ok Cons Sel_ready
          by (cases r rule: option.exhaust; cases "the r") (auto simp: processNonBlockingSelect_def Let_def split: if_splits)
      next
        case False
        then obtain r' where r: "r = Some r'" by auto
        have "net_size (rd_net (onReceive r' ?rd)) < net_size (ev # net)"
          using onReceive_net [of r' ?rd e] assms(2) by (simp add: Sel_ready r)
        then show ?thesis using assms ok Cons Sel_ready r False
          by (auto simp: processNonBlockingSelect_def Let_def split: if_splits)
      qed
    qed (use assms ok Cons in \<open>auto simp: processNonBlockingSelect_def\<close>)
  qed
qed

text \<open>The inner loop of \<open>bufferedRead\<close>: wait until the bytes are there or the buffer is full.\<close>

function fill :: "nat \<Rightarrow> ereader \<Rightarrow> (bool \<times> ereader) option" where
  "fill size' rd =
     (if length (rd_buf rd) < size' \<and> length (rd_buf rd) < rd_nMaxBufSize rd then
        (case processNonBlockingSelect rd of
           None \<Rightarrow> None
         | Some (b, rd1) \<Rightarrow> if \<not> b \<and> \<not> rd_ok rd1 then Some (False, rd1) else fill size' rd1)
      else Some (True, rd))"
  by pat_completeness auto
termination
  by (relation "measure (\<lambda>(n, rd). net_size (rd_net rd))") (auto dest!: select_net)

declare fill.simps [simp del]

section \<open>Reading messages\<close>

text \<open>Without room in the buffer the code would loop for ever; its size is never zero.\<close>

function bufferedRead :: "nat \<Rightarrow> ereader \<Rightarrow> (string option \<times> ereader) option" where
  "bufferedRead size' rd =
     (if size' = 0 then Some (Some [], rd)
      else if rd_nMaxBufSize rd = 0 then None
      else case fill size' rd of
        None \<Rightarrow> None
      | Some (False, rd1) \<Rightarrow> Some (None, rd1)
      | Some (True, rd1) \<Rightarrow>
          (let nBytes = min (rd_nMaxBufSize rd) size' in
           case bufferedRead (size' - nBytes) (rd1\<lparr>rd_buf := drop nBytes (rd_buf rd1)\<rparr>) of
             None \<Rightarrow> None
           | Some (None, rd2) \<Rightarrow> Some (None, rd2)
           | Some (Some s, rd2) \<Rightarrow> Some (Some (take nBytes (rd_buf rd1) @ s), rd2)))"
  by pat_completeness auto
termination
  by (relation "measure fst") auto

declare bufferedRead.simps [simp del]

definition ntohl :: "string \<Rightarrow> int" where
  "ntohl s = signed_take_bit 31 (int (le_value (rev s)))"

definition readSingleMsg :: "ereader \<Rightarrow> (string option \<times> ereader) option" where
  "readSingleMsg rd =
     (case bufferedRead HEADER_LEN rd of
        None \<Rightarrow> None
      | Some (None, rd1) \<Rightarrow> Some (None, rd1)
      | Some (Some h, rd1) \<Rightarrow>
          (let msgSize = ntohl h in
           if msgSize \<le> 0 \<or> msgSize > int MAX_MSG_LEN then Some (None, rd1)
           else bufferedRead (nat msgSize) rd1))"

definition putMessageToQueue :: "ereader \<Rightarrow> (bool \<times> ereader) option" where
  "putMessageToQueue rd =
     (case (if rd_ok rd then readSingleMsg rd else Some (None, rd)) of
        None \<Rightarrow> None
      | Some (None, rd1) \<Rightarrow> Some (False, rd1)
      | Some (Some msg, rd1) \<Rightarrow> Some (True, rd1\<lparr>rd_msgQueue := rd_msgQueue rd1 @ [msg]\<rparr>))"

definition getMsg :: "ereader \<Rightarrow> string option \<times> ereader" where
  "getMsg rd = (case rd_msgQueue rd of [] \<Rightarrow> (None, rd) | m # ms \<Rightarrow> (Some m, rd\<lparr>rd_msgQueue := ms\<rparr>))"

text \<open>The thread that reads, as long as the reader is alive.\<close>

partial_function (option) readToQueue :: "ereader \<Rightarrow> ereader option" where
  "readToQueue rd =
     (case (if rd_buf rd = [] then processNonBlockingSelect rd else Some (True, rd)) of
        None \<Rightarrow> None
      | Some (b, rd1) \<Rightarrow>
          if rd_buf rd = [] \<and> \<not> b \<and> rd_ok rd1 then readToQueue rd1
          else (case putMessageToQueue rd1 of
             None \<Rightarrow> None
           | Some (ok, rd2) \<Rightarrow>
               if ok then readToQueue rd2
               else Some (rd2\<lparr>rd_client := snd (handleSocketError (rd_client rd2))\<rparr>)))"

section \<open>Messages come out as they went in\<close>

text \<open>A network that works: it times out, or has some bytes.\<close>

fun works :: "select_result \<Rightarrow> bool" where
  "works Sel_timeout = True"
| "works Sel_fails = False"
| "works (Sel_ready err r) = (\<not> err \<and> (case r of None \<Rightarrow> True | Some (Recv s) \<Rightarrow> s \<noteq> [] | Some (Recv_fails _) \<Rightarrow> False))"

fun arriving :: "select_result list \<Rightarrow> string" where
  "arriving [] = []"
| "arriving (Sel_ready err (Some (Recv s)) # net) = s @ arriving net"
| "arriving (_ # net) = arriving net"

text \<open>The reader between messages: what is in its buffer and what arrives, before \<open>tail\<close>.\<close>

definition reading :: "ereader \<Rightarrow> string \<Rightarrow> select_result list \<Rightarrow> ereader \<Rightarrow> bool" where
  "reading rd0 stream tail rd \<longleftrightarrow> (\<exists>evs. rd_net rd = evs @ tail \<and> list_all works evs \<and> stream = rd_buf rd @ arriving evs)
     \<and> length (rd_buf rd) \<le> rd_nMaxBufSize rd \<and> HEADER_LEN \<le> rd_nMaxBufSize rd \<and> rd_ok rd
     \<and> rd_client rd = rd_client rd0 \<and> rd_msgQueue rd = rd_msgQueue rd0 \<and> rd_nMaxBufSize rd = rd_nMaxBufSize rd0"

lemma onReceive_plain:
  assumes "s \<noteq> []" and "length (rd_buf rd) < rd_nMaxBufSize rd"
  shows "onReceive (Recv s) rd =
    (let space = rd_nMaxBufSize rd - length (rd_buf rd) in
     rd\<lparr>rd_buf := rd_buf rd @ take space s,
        rd_net := (if length s \<le> space then rd_net rd else Sel_ready False (Some (Recv (drop space s))) # rd_net rd)\<rparr>)"
  using assms by (auto simp: onReceive_def receive_def Let_def resize_def)

lemma select_reading:
  assumes "reading rd0 stream tail rd" and "rd_net rd \<noteq> tail" and "length (rd_buf rd) < rd_nMaxBufSize rd"
  shows "\<exists>b rd1. processNonBlockingSelect rd = Some (b, rd1) \<and> reading rd0 stream tail rd1"
proof -
  from assms(1) obtain evs where r: "rd_net rd = evs @ tail" "list_all works evs" "stream = rd_buf rd @ arriving evs"
    "rd_ok rd" "HEADER_LEN \<le> rd_nMaxBufSize rd" "rd_client rd = rd_client rd0" "rd_msgQueue rd = rd_msgQueue rd0" "rd_nMaxBufSize rd = rd_nMaxBufSize rd0"
    by (auto simp: reading_def)
  obtain ev evs' where e: "evs = ev # evs'" using assms(2) r(1) by (cases evs) auto
  show ?thesis
  proof (cases ev)
    case (Sel_ready err rr)
    show ?thesis
    proof (cases rr)
      case None
      then show ?thesis using r e Sel_ready assms(3)
        by (auto simp: processNonBlockingSelect_def reading_def rd_ok_def Let_def)
    next
      case (Some x)
      then obtain s where s: "x = Recv s" "s \<noteq> []" "\<not> err" using r e Sel_ready by (cases x) auto
      let ?space = "rd_nMaxBufSize rd - length (rd_buf rd)" and ?net = "evs' @ tail"
      let ?evs = "if length s \<le> ?space then evs' else Sel_ready False (Some (Recv (drop ?space s))) # evs'"
      have p: "processNonBlockingSelect rd = Some (True, rd\<lparr>rd_buf := rd_buf rd @ take ?space s, rd_net := ?evs @ tail\<rparr>)"
        using r e Sel_ready Some s assms(3)
        by (simp add: processNonBlockingSelect_def rd_ok_def Let_def onReceive_plain)
      have "take ?space s @ arriving ?evs = s @ arriving evs'" by simp
      then have "reading rd0 stream tail (rd\<lparr>rd_buf := rd_buf rd @ take ?space s, rd_net := ?evs @ tail\<rparr>)"
        unfolding reading_def using r e Sel_ready Some s assms(3) by (intro conjI exI [of _ ?evs]) (auto simp: rd_ok_def)
      with p show ?thesis by blast
    qed
  qed (use r e assms(3) in \<open>auto simp: processNonBlockingSelect_def reading_def rd_ok_def\<close>)
qed

lemma fill_reading:
  assumes "reading rd0 stream tail rd" and "n \<le> length stream"
  shows "\<exists>rd1. fill n rd = Some (True, rd1) \<and> reading rd0 stream tail rd1
    \<and> (n \<le> length (rd_buf rd1) \<or> rd_nMaxBufSize rd1 \<le> length (rd_buf rd1))"
  using assms
proof (induction n rd rule: fill.induct)
  case (1 n rd)
  show ?case
  proof (cases "length (rd_buf rd) < n \<and> length (rd_buf rd) < rd_nMaxBufSize rd")
    case True
    have "rd_net rd \<noteq> tail" using 1(2,3) True by (auto simp: reading_def)
    with True select_reading [OF 1(2)] obtain b rd1 where s: "processNonBlockingSelect rd = Some (b, rd1)" "reading rd0 stream tail rd1"
      by auto
    moreover have "rd_ok rd1" using s(2) by (simp add: reading_def)
    ultimately show ?thesis using 1(1) [OF True s(1) refl] 1(3) True by (subst fill.simps) simp
  next
    case False
    then show ?thesis using 1(2) by (subst fill.simps) auto
  qed
qed

lemma reading_stream: "reading rd0 stream tail rd \<Longrightarrow> \<exists>r. stream = rd_buf rd @ r"
  by (auto simp: reading_def)

lemma bufferedRead_reading:
  assumes "reading rd0 stream tail rd" and "n \<le> length stream"
  shows "\<exists>rd1. bufferedRead n rd = Some (Some (take n stream), rd1) \<and> reading rd0 (drop n stream) tail rd1"
  using assms
proof (induction n rd arbitrary: stream rule: bufferedRead.induct)
  case (1 n rd)
  show ?case
  proof (cases "n = 0")
    case True
    then show ?thesis using 1(2) by (subst bufferedRead.simps) simp
  next
    case False
    from fill_reading [OF 1(2,3)] obtain rd1 where f: "fill n rd = Some (True, rd1)" "reading rd0 stream tail rd1"
      "n \<le> length (rd_buf rd1) \<or> rd_nMaxBufSize rd1 \<le> length (rd_buf rd1)" by blast
    have mx: "rd_nMaxBufSize rd1 = rd_nMaxBufSize rd" "rd_nMaxBufSize rd \<noteq> 0" using f(2) 1(2) by (auto simp: reading_def HEADER_LEN_def)
    let ?k = "min (rd_nMaxBufSize rd) n" and ?b = "rd_buf rd1"
    have k: "?k \<le> length ?b" using f(3) mx by auto
    let ?rd = "rd1\<lparr>rd_buf := drop ?k ?b\<rparr>"
    obtain r where st: "stream = ?b @ r" using reading_stream [OF f(2)] by blast
    have rest: "reading rd0 (drop ?k stream) tail ?rd" using f(2) k unfolding reading_def rd_ok_def by auto
    have "n - ?k \<le> length (drop ?k stream)" using 1(3) by auto
    from 1(1) [OF False mx(2) f(1) refl refl refl rest this]
    obtain rd2 where "bufferedRead (n - ?k) ?rd = Some (Some (take (n - ?k) (drop ?k stream)), rd2)"
      "reading rd0 (drop (n - ?k) (drop ?k stream)) tail rd2" by blast
    moreover have "take ?k ?b @ take (n - ?k) (drop ?k stream) = take n stream"
    proof -
      have "take ?k ?b = take ?k stream" using k by (simp add: st)
      moreover have "n = ?k + (n - ?k)" by simp
      ultimately show ?thesis by (metis take_add)
    qed
    moreover have "drop (n - ?k) (drop ?k stream) = drop n stream" by (simp add: min_def)
    ultimately show ?thesis using False mx f(1) by (subst bufferedRead.simps) (simp add: Let_def)
  qed
qed

lemma ntohl_htonl: "n \<le> MAX_MSG_LEN \<Longrightarrow> ntohl (htonl_bytes n) = int n"
proof -
  assume n: "n \<le> MAX_MSG_LEN"
  then have "n < 256 ^ 4" by (simp add: MAX_MSG_LEN_def)
  then have "le_value (rev (htonl_bytes n)) = n" by (simp add: htonl_bytes_def le_value_bytes)
  then show ?thesis using n by (simp add: ntohl_def signed_take_bit_int_eq_self MAX_MSG_LEN_def)
qed

lemma put_reading:
  assumes "reading rd0 (frame m @ rest) tail rd" and "m \<noteq> []" "length m \<le> MAX_MSG_LEN"
  shows "\<exists>rd1. putMessageToQueue rd = Some (True, rd1)
    \<and> reading (rd0\<lparr>rd_msgQueue := rd_msgQueue rd0 @ [m]\<rparr>) rest tail rd1"
proof -
  have h: "length (htonl_bytes (length m)) = HEADER_LEN" by (simp add: htonl_bytes_def HEADER_LEN_def)
  obtain rd1 where 1: "bufferedRead HEADER_LEN rd = Some (Some (htonl_bytes (length m)), rd1)" "reading rd0 (m @ rest) tail rd1"
    using bufferedRead_reading [OF assms(1), of HEADER_LEN] h by (auto simp: frame_def)
  obtain rd2 where 2: "bufferedRead (length m) rd1 = Some (Some m, rd2)" "reading rd0 rest tail rd2"
    using bufferedRead_reading [OF 1(2), of "length m"] by auto
  have ok: "rd_ok rd" using assms(1) by (simp add: reading_def)
  have "readSingleMsg rd = Some (Some m, rd2)"
    using 1(1) 2(1) assms(2,3) ntohl_htonl [OF assms(3)] by (simp add: readSingleMsg_def Let_def)
  then show ?thesis using ok 2(2) by (auto simp: putMessageToQueue_def reading_def rd_ok_def)
qed

lemma onReceive_size: "net_size (rd_net (onReceive r rd)) \<le> net_size (Sel_ready e (Some r) # rd_net rd)"
proof (cases r)
  case (Recv_fails x)
  then show ?thesis
    by (cases "handleSocketError (rd_client rd\<lparr>ec_errno := x\<rparr>)") (simp add: onReceive_def receive_def Let_def)
qed (auto simp: onReceive_def receive_def Let_def)

lemma select_size: "processNonBlockingSelect rd = Some (b, rd1) \<Longrightarrow> net_size (rd_net rd1) \<le> net_size (rd_net rd)"
proof (cases "rd_net rd")
  case (Cons ev net)
  assume s: "processNonBlockingSelect rd = Some (b, rd1)"
  show ?thesis
  proof (cases ev)
    case (Sel_ready e r)
    have *: "net_size net \<le> net_size (Sel_ready e r # net)" by (cases r; cases "the r") auto
    show ?thesis
    proof (cases r)
      case (Some r')
      let ?rd = "rd\<lparr>rd_net := net, rd_client := (if e then onError (rd_client rd) else rd_client rd)\<rparr>"
      have "net_size (rd_net (onReceive r' ?rd)) \<le> net_size (rd_net rd)"
        using onReceive_size [of r' ?rd e] Cons Sel_ready Some by simp
      then show ?thesis using s Cons Sel_ready Some * by (auto simp: processNonBlockingSelect_def Let_def split: if_splits)
    qed (use s Cons Sel_ready * in \<open>auto simp: processNonBlockingSelect_def Let_def split: if_splits\<close>)
  qed (use s Cons in \<open>auto simp: processNonBlockingSelect_def split: if_splits\<close>)
qed (auto simp: processNonBlockingSelect_def split: if_splits)

lemma fill_size: "fill n rd = Some (b, rd1) \<Longrightarrow> net_size (rd_net rd1) \<le> net_size (rd_net rd)"
proof (induction n rd rule: fill.induct)
  case (1 n rd)
  show ?case
  proof (cases "length (rd_buf rd) < n \<and> length (rd_buf rd) < rd_nMaxBufSize rd")
    case True
    then obtain c rd2 where s: "processNonBlockingSelect rd = Some (c, rd2)"
      using 1(2) by (subst (asm) fill.simps) (auto split: option.splits)
    show ?thesis
    proof (cases "\<not> c \<and> \<not> rd_ok rd2")
      case False
      then have "fill n rd2 = Some (b, rd1)" using 1(2) True s by (subst (asm) fill.simps) auto
      from 1(1) [OF True s refl False this] select_size [OF s] show ?thesis by simp
    qed (use 1(2) True s select_size [OF s] in \<open>subst (asm) fill.simps, auto\<close>)
  qed (use 1(2) in \<open>subst (asm) fill.simps, auto split: if_splits\<close>)
qed

lemma bufferedRead_size: "bufferedRead n rd = Some (r, rd1) \<Longrightarrow> net_size (rd_net rd1) \<le> net_size (rd_net rd)"
proof (induction n rd arbitrary: r rd1 rule: bufferedRead.induct)
  case (1 n rd)
  show ?case
  proof (cases "n = 0 \<or> rd_nMaxBufSize rd = 0")
    case True
    then show ?thesis using 1(2) by (subst (asm) bufferedRead.simps) (auto split: if_splits)
  next
    case False
    obtain b rd2 where f: "fill n rd = Some (b, rd2)" using 1(2) False
      by (subst (asm) bufferedRead.simps) (auto split: option.splits)
    note sz = fill_size [OF f]
    show ?thesis
    proof (cases b)
      case True
      let ?rd = "rd2\<lparr>rd_buf := drop (min (rd_nMaxBufSize rd) n) (rd_buf rd2)\<rparr>"
      obtain r' where "bufferedRead (n - min (rd_nMaxBufSize rd) n) ?rd = Some (r', rd1)"
        using 1(2) False f True by (subst (asm) bufferedRead.simps) (auto simp: Let_def split: option.splits)
      from 1(1) [OF _ _ f refl _ refl this] False True sz show ?thesis by simp
    qed (use 1(2) False f sz in \<open>subst (asm) bufferedRead.simps, auto\<close>)
  qed
qed

lemma put_net: "putMessageToQueue rd = Some (b, rd1) \<Longrightarrow> net_size (rd_net rd1) \<le> net_size (rd_net rd)"
  by (auto simp: putMessageToQueue_def readSingleMsg_def Let_def split: if_splits option.splits dest!: bufferedRead_size)

text \<open>The loop of the reading thread takes off all complete messages.\<close>

lemma readToQueue_messages:
  assumes "reading rd0 (concat (map frame ms) @ rest) tail rd" and "\<forall>m \<in> set ms. m \<noteq> [] \<and> length m \<le> MAX_MSG_LEN"
  shows "\<exists>rd1. readToQueue rd = readToQueue rd1 \<and> reading (rd0\<lparr>rd_msgQueue := rd_msgQueue rd0 @ ms\<rparr>) rest tail rd1"
  using assms
proof (induction "length ms + net_size (rd_net rd)" arbitrary: rd0 ms rd rule: less_induct)
  case less
  show ?case
  proof (cases ms)
    case Nil
    then show ?thesis using less(2) by (intro exI [of _ rd]) simp
  next
    case (Cons m ms')
    let ?rd0 = "rd0\<lparr>rd_msgQueue := rd_msgQueue rd0 @ [m]\<rparr>"
    have m: "m \<noteq> []" "length m \<le> MAX_MSG_LEN" "\<forall>m \<in> set ms'. m \<noteq> [] \<and> length m \<le> MAX_MSG_LEN" using less(3) Cons by auto
    have put: "\<exists>rd2 rd3. putMessageToQueue rd1 = Some (True, rd2) \<and> readToQueue rd2 = readToQueue rd3
        \<and> reading (rd0\<lparr>rd_msgQueue := rd_msgQueue rd0 @ ms\<rparr>) rest tail rd3"
      if rd1: "reading rd0 (concat (map frame ms) @ rest) tail rd1" "net_size (rd_net rd1) \<le> net_size (rd_net rd)" for rd1
    proof -
      have "reading rd0 (frame m @ (concat (map frame ms') @ rest)) tail rd1" using rd1 Cons by simp
      from put_reading [OF this m(1,2)] obtain rd2 where p: "putMessageToQueue rd1 = Some (True, rd2)"
        "reading ?rd0 (concat (map frame ms') @ rest) tail rd2" by blast
      have "net_size (rd_net rd2) \<le> net_size (rd_net rd1)" by (rule put_net [OF p(1)])
      then have "length ms' + net_size (rd_net rd2) < length ms + net_size (rd_net rd)" using rd1(2) Cons by simp
      from less(1) [OF this p(2) m(3)] p(1) Cons show ?thesis by auto
    qed
    show ?thesis
    proof (cases "rd_buf rd = []")
      case False
      then show ?thesis using put [OF less(2)] by (subst readToQueue.simps) auto
    next
      case True
      have "length (frame m) \<noteq> 0" by (simp add: frame_def htonl_bytes_def)
      then have "frame m \<noteq> []" by blast
      then have net: "rd_net rd \<noteq> tail" using less(2) True Cons by (auto simp: reading_def)
      have sp: "length (rd_buf rd) < rd_nMaxBufSize rd" using less(2) True by (auto simp: reading_def HEADER_LEN_def)
      obtain b rd1 where s: "processNonBlockingSelect rd = Some (b, rd1)" "reading rd0 (concat (map frame ms) @ rest) tail rd1"
        using select_reading [OF less(2) net sp] by blast
      have ok: "rd_ok rd1" using s(2) by (simp add: reading_def)
      have lt: "net_size (rd_net rd1) < net_size (rd_net rd)" by (rule select_net [OF s(1) sp]) (simp add: ok)
      show ?thesis
      proof (cases b)
        case False
        with less(1) [OF _ s(2) less(3)] lt True s(1) ok show ?thesis by (subst readToQueue.simps) auto
      next
        case b: True
        show ?thesis using put [OF s(2)] lt True s(1) b by (subst readToQueue.simps) auto
      qed
    qed
  qed
qed

section \<open>The end of the connection\<close>

abbreviation closing :: "select_result list" where
  "closing \<equiv> [Sel_ready False (Some (Recv []))]"

text \<open>A wait that meets the end of the connection finds zeros up to the end of the buffer.\<close>

lemma fill_closed:
  assumes "reading rd0 stream closing rd" and "length stream < n" and "length stream < rd_nMaxBufSize rd0"
  shows "\<exists>rd1. fill n rd = Some (True, rd1) \<and> rd_buf rd1 = resize (rd_nMaxBufSize rd0) stream
    \<and> rd_client rd1 = onClose (rd_client rd0) \<and> rd_msgQueue rd1 = rd_msgQueue rd0 \<and> rd_nMaxBufSize rd1 = rd_nMaxBufSize rd0"
  using assms
proof (induction n rd rule: fill.induct)
  case (1 n rd)
  from 1(2) have r: "rd_ok rd" "rd_client rd = rd_client rd0" "rd_msgQueue rd = rd_msgQueue rd0" "rd_nMaxBufSize rd = rd_nMaxBufSize rd0"
    by (auto simp: reading_def)
  have cond: "length (rd_buf rd) < n \<and> length (rd_buf rd) < rd_nMaxBufSize rd" using 1(2-4) by (auto simp: reading_def)
  show ?case
  proof (cases "rd_net rd = closing")
    case True
    then have st: "stream = rd_buf rd" using 1(2) by (auto simp: reading_def)
    have len: "length (resize (rd_nMaxBufSize rd) (rd_buf rd)) = rd_nMaxBufSize rd" using cond by (simp add: resize_def)
    let ?rd1 = "rd\<lparr>rd_buf := resize (rd_nMaxBufSize rd) (rd_buf rd), rd_client := onClose (rd_client rd), rd_net := []\<rparr>"
    have "processNonBlockingSelect rd = Some (True, ?rd1)"
      using r True cond len by (simp add: processNonBlockingSelect_def rd_ok_def Let_def onReceive_def receive_def)
    moreover have "fill n ?rd1 = Some (True, ?rd1)" by (subst fill.simps) (simp add: len)
    ultimately show ?thesis using cond st r by (subst fill.simps) simp
  next
    case False
    then obtain b rd1 where s: "processNonBlockingSelect rd = Some (b, rd1)" "reading rd0 stream closing rd1"
      using select_reading [OF 1(2)] cond by blast
    moreover have "rd_ok rd1" using s(2) by (simp add: reading_def)
    ultimately show ?thesis using 1(1) [OF cond s(1) refl] 1(3,4) cond by (subst fill.simps) simp
  qed
qed

lemma onClose_not_ok: "\<not> isSocketOK (onClose ec)"
  by (simp add: onClose_def ec_call_def eDisconnect_def eDisconnectBase_def isSocketOK_def)

lemma readToQueue_not_ok:
  assumes "\<not> rd_ok rd"
  shows "\<exists>rd1. readToQueue rd = Some rd1 \<and> rd_msgQueue rd1 = rd_msgQueue rd"
proof -
  have "putMessageToQueue rd = Some (False, rd)" using assms by (simp add: putMessageToQueue_def)
  moreover have "processNonBlockingSelect rd = Some (False, rd)" using assms by (simp add: processNonBlockingSelect_def)
  ultimately show ?thesis using assms by (subst readToQueue.simps) auto
qed

lemma bufferedRead_closed:
  assumes "reading rd0 stream closing rd" and "length stream < n" and "n \<le> rd_nMaxBufSize rd0"
  shows "\<exists>rd1. bufferedRead n rd = Some (Some (stream @ replicate (n - length stream) NUL), rd1)
    \<and> rd_client rd1 = onClose (rd_client rd0) \<and> rd_msgQueue rd1 = rd_msgQueue rd0"
proof -
  obtain rd1 where f: "fill n rd = Some (True, rd1)" "rd_buf rd1 = resize (rd_nMaxBufSize rd0) stream"
    "rd_client rd1 = onClose (rd_client rd0)" "rd_msgQueue rd1 = rd_msgQueue rd0"
    using fill_closed [OF assms(1,2)] assms(2,3) by auto
  have mx: "rd_nMaxBufSize rd = rd_nMaxBufSize rd0" using assms(1) by (simp add: reading_def)
  have "take n (resize (rd_nMaxBufSize rd0) stream) = stream @ replicate (n - length stream) NUL"
    using assms(2,3) by (simp add: resize_def)
  moreover have "bufferedRead 0 rd' = Some (Some [], rd')" for rd' by (subst bufferedRead.simps) simp
  ultimately show ?thesis using assms(2,3) f mx by (subst bufferedRead.simps) (auto simp: Let_def min_def)
qed

text \<open>When the reader is about to take a message, the connection ends within its header or within its text.\<close>

lemma put_closed_header:
  assumes "reading rd0 [] closing rd"
  shows "\<exists>rd1. putMessageToQueue rd = Some (False, rd1) \<and> rd_msgQueue rd1 = rd_msgQueue rd0"
proof -
  have mx: "HEADER_LEN \<le> rd_nMaxBufSize rd0" using assms by (simp add: reading_def)
  obtain rd1 where b: "bufferedRead HEADER_LEN rd = Some (Some (replicate HEADER_LEN NUL), rd1)" "rd_msgQueue rd1 = rd_msgQueue rd0"
    using bufferedRead_closed [OF assms _ mx] by (auto simp: HEADER_LEN_def)
  have "ntohl (replicate HEADER_LEN NUL) = 0" by (simp add: ntohl_def HEADER_LEN_def eval_nat_numeral)
  then show ?thesis using assms b by (simp add: putMessageToQueue_def readSingleMsg_def reading_def)
qed

lemma put_closed_body:
  assumes "reading rd0 (htonl_bytes n @ p) closing rd" and "length p < n" and "n \<le> rd_nMaxBufSize rd0" "n \<le> MAX_MSG_LEN"
  shows "\<exists>rd1. putMessageToQueue rd = Some (True, rd1) \<and> \<not> rd_ok rd1
    \<and> rd_msgQueue rd1 = rd_msgQueue rd0 @ [p @ replicate (n - length p) NUL]"
proof -
  have h: "length (htonl_bytes n) = HEADER_LEN" by (simp add: htonl_bytes_def HEADER_LEN_def)
  obtain rd1 where 1: "bufferedRead HEADER_LEN rd = Some (Some (htonl_bytes n), rd1)" "reading rd0 p closing rd1"
    using bufferedRead_reading [OF assms(1), of HEADER_LEN] h by auto
  obtain rd2 where 2: "bufferedRead n rd1 = Some (Some (p @ replicate (n - length p) NUL), rd2)"
    "rd_client rd2 = onClose (rd_client rd0)" "rd_msgQueue rd2 = rd_msgQueue rd0"
    using bufferedRead_closed [OF 1(2) assms(2,3)] by blast
  have "rd_ok rd" using assms(1) by (simp add: reading_def)
  then show ?thesis using 1(1) 2 ntohl_htonl [OF assms(4)] assms(2,4)
    by (simp add: putMessageToQueue_def readSingleMsg_def Let_def rd_ok_def onClose_not_ok)
qed

text \<open>One turn of the loop that takes no message, until the next turn can.\<close>

lemma readToQueue_turn:
  assumes "reading rd0 stream closing rd"
  shows "\<exists>rd1. readToQueue rd = (case putMessageToQueue rd1 of
             None \<Rightarrow> None
           | Some (ok, rd2) \<Rightarrow> if ok then readToQueue rd2
               else Some (rd2\<lparr>rd_client := snd (handleSocketError (rd_client rd2))\<rparr>))
    \<and> (reading rd0 stream closing rd1 \<or> stream = [] \<and> \<not> rd_ok rd1 \<and> rd_msgQueue rd1 = rd_msgQueue rd0)"
  using assms
proof (induction "net_size (rd_net rd)" arbitrary: rd rule: less_induct)
  case less
  show ?case
  proof (cases "rd_buf rd = []")
    case False
    then show ?thesis using less(2) by (subst readToQueue.simps) auto
  next
    case True
    have sp: "length (rd_buf rd) < rd_nMaxBufSize rd" using less(2) True by (auto simp: reading_def HEADER_LEN_def)
    show ?thesis
    proof (cases "rd_net rd = closing")
      case net: True
      then have st: "stream = []" using less(2) True by (auto simp: reading_def)
      let ?rd1 = "rd\<lparr>rd_buf := resize (rd_nMaxBufSize rd) [], rd_client := onClose (rd_client rd), rd_net := []\<rparr>"
      have "isSocketOK (rd_client rd)" using less(2) unfolding reading_def rd_ok_def by blast
      then have "processNonBlockingSelect rd = Some (True, ?rd1)"
        using net sp True by (simp add: processNonBlockingSelect_def rd_ok_def Let_def onReceive_def receive_def resize_def)
      moreover have "rd_msgQueue ?rd1 = rd_msgQueue rd0" using less(2) by (simp add: reading_def)
      ultimately show ?thesis using True st onClose_not_ok by (subst readToQueue.simps) (auto simp: rd_ok_def intro!: exI [of _ ?rd1])
    next
      case False
      obtain b rd1 where s: "processNonBlockingSelect rd = Some (b, rd1)" "reading rd0 stream closing rd1"
        using select_reading [OF less(2) False sp] by blast
      have ok: "rd_ok rd1" using s(2) by (simp add: reading_def)
      have lt: "net_size (rd_net rd1) < net_size (rd_net rd)" by (rule select_net [OF s(1) sp]) (simp add: ok)
      show ?thesis
      proof (cases b)
        case False
        with less(1) [OF lt s(2)] True s(1) ok show ?thesis by (subst readToQueue.simps) auto
      next
        case b: True
        then show ?thesis using s True by (subst readToQueue.simps) auto
      qed
    qed
  qed
qed

lemma put_not_ok: "\<not> rd_ok rd \<Longrightarrow> putMessageToQueue rd = Some (False, rd)"
  by (simp add: putMessageToQueue_def)

lemma readToQueue_closed:
  assumes "reading rd0 [] closing rd"
  shows "\<exists>rd1. readToQueue rd = Some rd1 \<and> rd_msgQueue rd1 = rd_msgQueue rd0"
proof -
  obtain rd1 where "readToQueue rd = (case putMessageToQueue rd1 of None \<Rightarrow> None
      | Some (ok, rd2) \<Rightarrow> if ok then readToQueue rd2 else Some (rd2\<lparr>rd_client := snd (handleSocketError (rd_client rd2))\<rparr>))"
    "reading rd0 [] closing rd1 \<or> \<not> rd_ok rd1 \<and> rd_msgQueue rd1 = rd_msgQueue rd0"
    using readToQueue_turn [OF assms] by blast
  then show ?thesis using put_closed_header [of rd0 rd1] put_not_ok [of rd1] by auto
qed

lemma readToQueue_cut:
  assumes "reading rd0 (htonl_bytes n @ p) closing rd" and "length p < n" and "n \<le> rd_nMaxBufSize rd0" "n \<le> MAX_MSG_LEN"
  shows "\<exists>rd1. readToQueue rd = Some rd1 \<and> rd_msgQueue rd1 = rd_msgQueue rd0 @ [p @ replicate (n - length p) NUL]"
proof -
  have "length (htonl_bytes n) = 4" by (simp add: htonl_bytes_def)
  then have ne: "htonl_bytes n @ p \<noteq> []" by auto
  obtain rd1 where r: "readToQueue rd = (case putMessageToQueue rd1 of None \<Rightarrow> None
      | Some (ok, rd2) \<Rightarrow> if ok then readToQueue rd2 else Some (rd2\<lparr>rd_client := snd (handleSocketError (rd_client rd2))\<rparr>))"
    "reading rd0 (htonl_bytes n @ p) closing rd1"
    using readToQueue_turn [OF assms(1)] ne by blast
  obtain rd2 where p: "putMessageToQueue rd1 = Some (True, rd2)" "\<not> rd_ok rd2"
    "rd_msgQueue rd2 = rd_msgQueue rd0 @ [p @ replicate (n - length p) NUL]"
    using put_closed_body [OF r(2) assms(2-4)] by blast
  show ?thesis using r(1) p readToQueue_not_ok [OF p(2)] by auto
qed

section \<open>Refinement of a queue of messages\<close>

lemma reading_init:
  assumes "isSocketOK ec" and "list_all works evs"
  shows "reading (rd_init ec (evs @ tail)) (arriving evs) tail (rd_init ec (evs @ tail))"
  using assms by (auto simp: reading_def rd_init_def rd_ok_def HEADER_LEN_def IN_BUF_SIZE_DEFAULT_def)

text \<open>
  Property C13. The reader refines a queue of messages: whatever pieces and pauses the network makes of
  the frames of some messages, none empty and none over the limit of the length, by the time the
  connection ends the reading thread has put exactly these messages into the queue, in order.
\<close>

theorem reader_refines_messages:
  assumes "isSocketOK ec" and "list_all works evs" and "arriving evs = concat (map frame ms)"
    and "\<forall>m \<in> set ms. m \<noteq> [] \<and> length m \<le> MAX_MSG_LEN"
  shows "\<exists>rd. readToQueue (rd_init ec (evs @ closing)) = Some rd \<and> rd_msgQueue rd = ms"
proof -
  have "reading (rd_init ec (evs @ closing)) (concat (map frame ms) @ []) closing (rd_init ec (evs @ closing))"
    using reading_init [OF assms(1,2), of closing] by (simp add: assms(3))
  from readToQueue_messages [OF this assms(4)] readToQueue_closed show ?thesis by (fastforce simp: rd_init_def)
qed

text \<open>
  But a connection that ends within the text of a message does not lose this message: the reader
  puts what has arrived of it into the queue, filled up with zeros, which the decoder takes for the
  ends of its fields.
\<close>

theorem cut_message_is_delivered:
  assumes "isSocketOK ec" and "list_all works evs"
    and "arriving evs = concat (map frame ms) @ htonl_bytes n @ p" and "length p < n" "n \<le> IN_BUF_SIZE_DEFAULT"
    and "\<forall>m \<in> set ms. m \<noteq> [] \<and> length m \<le> MAX_MSG_LEN"
  shows "\<exists>rd. readToQueue (rd_init ec (evs @ closing)) = Some rd
    \<and> rd_msgQueue rd = ms @ [p @ replicate (n - length p) NUL]"
proof -
  have n: "n \<le> MAX_MSG_LEN" using assms(5) by (simp add: IN_BUF_SIZE_DEFAULT_def MAX_MSG_LEN_def)
  have "reading (rd_init ec (evs @ closing)) (concat (map frame ms) @ (htonl_bytes n @ p)) closing (rd_init ec (evs @ closing))"
    using reading_init [OF assms(1,2), of closing] by (simp add: assms(3))
  from readToQueue_messages [OF this assms(6)] obtain rd1 where r: "readToQueue (rd_init ec (evs @ closing)) = readToQueue rd1"
    "reading ((rd_init ec (evs @ closing))\<lparr>rd_msgQueue := rd_msgQueue (rd_init ec (evs @ closing)) @ ms\<rparr>) (htonl_bytes n @ p) closing rd1"
    by blast
  from readToQueue_cut [OF r(2) assms(4)] assms(5) n r(1) show ?thesis by (simp add: rd_init_def)
qed

text \<open>A message in three pieces, and one of which only the first byte of two arrives.\<close>

definition demo_client :: eclient where
  "demo_client = ec_init\<lparr>ec_fd := 3, ec_connState := CS_CONNECTED, ec_serverVersion := 176\<rparr>"

lemma demo_client_ok: "isSocketOK demo_client"
  by (simp add: demo_client_def isSocketOK_def)

lemma demo_frame: "frame ''15'' = [NUL, NUL, NUL, CHR 0x02] @ ''15''" "htonl_bytes 2 = [NUL, NUL, NUL, CHR 0x02]"
  by (code_simp, code_simp)

theorem reader_refines_messages_witness:
  "\<exists>rd. readToQueue (rd_init demo_client
      ([Sel_ready False (Some (Recv [NUL, NUL])), Sel_timeout, Sel_ready False (Some (Recv [NUL])),
        Sel_ready False (Some (Recv (CHR 0x02 # ''15'')))] @ closing)) = Some rd \<and> rd_msgQueue rd = [''15'']"
proof (rule reader_refines_messages [OF demo_client_ok])
  show "arriving [Sel_ready False (Some (Recv [NUL, NUL])), Sel_timeout, Sel_ready False (Some (Recv [NUL])),
      Sel_ready False (Some (Recv (CHR 0x02 # ''15'')))] = concat (map frame [''15''])"
    by (simp only: demo_frame list.map concat.simps arriving.simps append.simps)
qed (simp_all add: MAX_MSG_LEN_def)

theorem cut_message_is_delivered_witness:
  "\<exists>rd. readToQueue (rd_init demo_client
      ([Sel_ready False (Some (Recv ([NUL, NUL, NUL, CHR 0x02] @ ''1'')))] @ closing)) = Some rd
    \<and> rd_msgQueue rd = [] @ [''1'' @ replicate (2 - length ''1'') NUL]"
proof (rule cut_message_is_delivered [OF demo_client_ok])
  show "arriving [Sel_ready False (Some (Recv ([NUL, NUL, NUL, CHR 0x02] @ ''1'')))] = concat (map frame []) @ htonl_bytes 2 @ ''1''"
    by (simp only: demo_frame list.map concat.simps arriving.simps append.simps)
qed (simp_all add: IN_BUF_SIZE_DEFAULT_def)

end
