(* ===== verification/TwsDecode.thy ===== *)
theory TwsDecode
  imports TwsReader
begin

text \<open>
  What the decoders of single messages (\<open>external/tws/client/EDecoder.cpp\<close>, \<open>EOrderDecoder.cpp\<close>) are
  made of: readers of one value that go on with a function of it, of a value only some servers send, of
  lists; and the text of a last trade date. A decoder returns the callbacks it makes and the rest of the
  text, the text of an exception, the use of a null pointer, or nothing when the text ends early.
\<close>

section \<open>Results\<close>

datatype decode_fault = DF_exception string | DF_null

type_synonym decoded = "((decode_fault + wrapper_call list) \<times> string) option"

definition calls :: "wrapper_call list \<Rightarrow> string \<Rightarrow> decoded" where
  "calls ws s = Some (Inr ws, s)"

definition fails :: "decode_fault \<Rightarrow> string \<Rightarrow> decoded" where
  "fails e s = Some (Inl e, s)"

text \<open>
  What the sources do not determine: the decimal a text stands for, which is a function of Intel's
  library, and the values of members that no constructor sets.
\<close>

record decode_env =
  de_decimal :: "string \<Rightarrow> decimal"
  de_uninit_int :: int
  de_uninit_double :: double

section \<open>Values\<close>

text \<open>A character is the first of its field, which is the NUL when the field is empty.\<close>

definition get_char :: "(char \<Rightarrow> string \<Rightarrow> 'r option) \<Rightarrow> string \<Rightarrow> 'r option" where
  "get_char k = get_text (\<lambda>t. k (case t of [] \<Rightarrow> NUL | c # _ \<Rightarrow> c))"

text \<open>A field that is only there under a condition; otherwise the variable keeps its value.\<close>

definition when_read :: "bool \<Rightarrow> (('a \<Rightarrow> string \<Rightarrow> 'r option) \<Rightarrow> string \<Rightarrow> 'r option) \<Rightarrow> 'a
    \<Rightarrow> ('a \<Rightarrow> string \<Rightarrow> 'r option) \<Rightarrow> string \<Rightarrow> 'r option" where
  "when_read b g d k = (if b then g k else k d)"

fun get_list :: "nat \<Rightarrow> (('a \<Rightarrow> string \<Rightarrow> 'r option) \<Rightarrow> string \<Rightarrow> 'r option)
    \<Rightarrow> ('a list \<Rightarrow> string \<Rightarrow> 'r option) \<Rightarrow> string \<Rightarrow> 'r option" where
  "get_list 0 g k = k []"
| "get_list (Suc n) g k = g (\<lambda>x. get_list n g (\<lambda>xs. k (x # xs)))"

text \<open>A vector whose size is the number read: a negative one is more than any vector can hold.\<close>

definition sized :: "string \<Rightarrow> int \<Rightarrow> (string \<Rightarrow> decoded) \<Rightarrow> string \<Rightarrow> decoded" where
  "sized what n k = (if n < 0 then fails (DF_exception what) else k)"

definition get_pair :: "(string \<times> string \<Rightarrow> string \<Rightarrow> 'r option) \<Rightarrow> string \<Rightarrow> 'r option" where
  "get_pair k = get_text (\<lambda>tag. get_text (\<lambda>v. k (tag, v)))"

text \<open>A list of tags and values, preceded by its length.\<close>

definition get_tag_values :: "((string \<times> string) list \<Rightarrow> string \<Rightarrow> 'r option) \<Rightarrow> string \<Rightarrow> 'r option" where
  "get_tag_values k = get_int (\<lambda>n. get_list (nat n) get_pair k)"

text \<open>Some fields of a contract that all messages send in this order.\<close>

definition get_contract_head :: "(contract \<Rightarrow> string \<Rightarrow> 'r option) \<Rightarrow> string \<Rightarrow> 'r option" where
  "get_contract_head k = get_long (\<lambda>conId. get_text (\<lambda>symb. get_text (\<lambda>secType. get_text (\<lambda>lastTradeDate.
     get_double (\<lambda>strike. get_text (\<lambda>right. k (new_contract\<lparr>c_conId := conId, c_symbol := symb, c_secType := secType,
       c_lastTradeDateOrContractMonth := lastTradeDate, c_strike := strike, c_right := right\<rparr>)))))))"

section \<open>Last trade dates\<close>

text \<open>\<open>getline\<close> until the stream ends: a separator at the end of the text is not followed by an empty line.\<close>

function getlines :: "char \<Rightarrow> string \<Rightarrow> string list" where
  "getlines c s =
     (if s = [] then []
      else takeWhile (\<lambda>x. x \<noteq> c) s # getlines c (tl (dropWhile (\<lambda>x. x \<noteq> c) s)))"
  by pat_completeness auto
termination
proof (relation "measure (\<lambda>(c, s). length s)")
  fix c :: char and s :: string
  assume "s \<noteq> []"
  then have "length (tl (dropWhile (\<lambda>x. x \<noteq> c) s)) < length s"
    using length_dropWhile_le [of "\<lambda>x. x \<noteq> c" s] by (cases s) (auto simp: less_Suc_eq_le)
  then show "((c, tl (dropWhile (\<lambda>x. x \<noteq> c) s)), c, s) \<in> measure (\<lambda>(c, s). length s)" by simp
qed simp

declare getlines.simps [simp del]

text \<open>A date, a time of day and, for bonds, a time zone, with dashes or spaces between them.\<close>

definition decodeLastTradeDate :: "bool \<Rightarrow> contract_details \<Rightarrow> (contract_details \<Rightarrow> string \<Rightarrow> 'r option) \<Rightarrow> string \<Rightarrow> 'r option" where
  "decodeLastTradeDate isBond cd k = get_text (\<lambda>t.
     if t = [] then k cd
     else let splitted = getlines (if CHR ''-'' \<in> set t then CHR ''-'' else CHR '' '') t;
              cd1 = (if splitted = [] then cd
                else if isBond then cd\<lparr>cd_maturity := splitted ! 0\<rparr>
                else cd\<lparr>cd_contract := (cd_contract cd)\<lparr>c_lastTradeDateOrContractMonth := splitted ! 0\<rparr>\<rparr>);
              cd2 = (if length splitted > 1 then cd1\<lparr>cd_lastTradeTime := splitted ! 1\<rparr> else cd1);
              cd3 = (if isBond \<and> length splitted > 2 then cd2\<lparr>cd_timeZoneId := splitted ! 2\<rparr> else cd2)
          in k cd3)"

section \<open>What a decoder reads\<close>

text \<open>
  A decoder that comes to an end has read a first part of the text, and what follows that part has no
  bearing on its result. A reader keeps this law of the decoder it goes on with.
\<close>

named_theorems reads_rules

definition reads :: "(string \<Rightarrow> ('a \<times> string) option) \<Rightarrow> bool" where
  "reads f \<longleftrightarrow> (\<forall>s x r. f s = Some (x, r) \<longrightarrow> (\<exists>p. s = p @ r \<and> (\<forall>r'. f (p @ r') = Some (x, r'))))"

definition reader :: "(('a \<Rightarrow> string \<Rightarrow> ('b \<times> string) option) \<Rightarrow> string \<Rightarrow> ('b \<times> string) option) \<Rightarrow> bool" where
  "reader g \<longleftrightarrow> (\<forall>k. (\<forall>x. reads (k x)) \<longrightarrow> reads (g k))"

lemma readsI: "(\<And>s x r. f s = Some (x, r) \<Longrightarrow> \<exists>p. s = p @ r \<and> (\<forall>r'. f (p @ r') = Some (x, r'))) \<Longrightarrow> reads f"
  by (simp add: reads_def)

lemma readsD: "reads f \<Longrightarrow> f s = Some (x, r) \<Longrightarrow> \<exists>p. s = p @ r \<and> (\<forall>r'. f (p @ r') = Some (x, r'))"
  by (simp add: reads_def)

lemma readerI: "(\<And>k. (\<And>x. reads (k x)) \<Longrightarrow> reads (g k)) \<Longrightarrow> reader g"
  by (simp add: reader_def)

lemma readerD: "reader g \<Longrightarrow> (\<And>x. reads (k x)) \<Longrightarrow> reads (g k)"
  by (simp add: reader_def)

lemma next_field_split:
  assumes "next_field s = Some (t, r)"
  shows "s = t @ NUL # r \<and> NUL \<notin> set t"
proof -
  have n: "NUL \<in> set s" "t = takeWhile (\<lambda>c. c \<noteq> NUL) s" "r = tl (dropWhile (\<lambda>c. c \<noteq> NUL) s)"
    using assms by (auto simp: next_field_def split: if_splits)
  from n(1) have d: "dropWhile (\<lambda>c. c \<noteq> NUL) s \<noteq> []" by (auto simp: dropWhile_eq_Nil_conv)
  then have "hd (dropWhile (\<lambda>c. c \<noteq> NUL) s) = NUL" using hd_dropWhile [OF d] by simp
  then have "dropWhile (\<lambda>c. c \<noteq> NUL) s = NUL # r" using d n(3) by (metis list.collapse)
  then show ?thesis using n(2) by (metis (mono_tags, lifting) set_takeWhileD takeWhile_dropWhile_id)
qed

lemma reads_field:
  assumes "\<And>t. reads (k t)" and "\<And>s. g s = (case next_field s of None \<Rightarrow> None | Some (t, r) \<Rightarrow> k t r)"
  shows "reads g"
proof (rule readsI)
  fix s x r assume "g s = Some (x, r)"
  then obtain t s' where n: "next_field s = Some (t, s')" "k t s' = Some (x, r)"
    using assms(2) [of s] by (auto split: option.splits)
  from readsD [OF assms(1) n(2)] obtain p where p: "s' = p @ r" "\<forall>r'. k t (p @ r') = Some (x, r')" by blast
  note t = next_field_split [OF n(1)]
  show "\<exists>p. s = p @ r \<and> (\<forall>r'. g (p @ r') = Some (x, r'))"
    by (rule exI [of _ "t @ NUL # p"]) (use t p in \<open>simp add: assms(2)\<close>)
qed

lemma reads_get [reads_rules]:
  "(\<And>t. reads (k t)) \<Longrightarrow> reads (get_text k)" "(\<And>n. reads (ki n)) \<Longrightarrow> reads (get_int ki)" "(\<And>n. reads (kl n)) \<Longrightarrow> reads (get_long kl)"
  "(\<And>n. reads (kt n)) \<Longrightarrow> reads (get_time kt)" "(\<And>d. reads (kd d)) \<Longrightarrow> reads (get_double kd)" "(\<And>d. reads (kc d)) \<Longrightarrow> reads (get_decimal sd kc)"
  by (rule reads_field; simp add: get_text_def get_int_def get_long_def get_time_def get_double_def get_decimal_def)+

lemma reads_get_more [reads_rules]:
  "(\<And>b. reads (k b)) \<Longrightarrow> reads (get_bool k)" "(\<And>c. reads (kc c)) \<Longrightarrow> reads (get_char kc)"
  "(\<And>n. reads (ki n)) \<Longrightarrow> reads (get_max_int ki)" "(\<And>d. reads (kd d)) \<Longrightarrow> reads (get_max_double kd)"
  by (auto simp: get_bool_def get_char_def get_max_int_def get_max_double_def intro!: reads_rules)

lemma reader_get [reads_rules]:
  "reader get_text" "reader get_int" "reader get_long" "reader get_time" "reader get_double" "reader (get_decimal sd)"
  "reader get_bool" "reader get_char" "reader get_max_int" "reader get_max_double"
  by (auto intro!: readerI reads_rules)

lemma reads_ends [reads_rules]: "reads (calls ws)" "reads (fails e)"
  by (auto simp: reads_def calls_def fails_def)

lemma reads_if [reads_rules]: "reads f \<Longrightarrow> reads g \<Longrightarrow> reads (if b then f else g)"
  by simp

lemma reader_if [reads_rules]: "reader f \<Longrightarrow> reader g \<Longrightarrow> reader (if b then f else g)"
  by simp

lemma reads_when [reads_rules]: "reader g \<Longrightarrow> (\<And>x. reads (k x)) \<Longrightarrow> reads (when_read b g d k)"
  by (simp add: when_read_def readerD)

lemma reads_list [reads_rules]: "reader g \<Longrightarrow> (\<And>xs. reads (k xs)) \<Longrightarrow> reads (get_list n g k)"
proof (induction n arbitrary: k)
  case (Suc n)
  then show ?case by (auto intro!: readerD [OF Suc.prems(1)] Suc.IH)
qed simp

lemma reads_sized [reads_rules]: "reads k \<Longrightarrow> reads (sized what n k)"
  by (simp add: sized_def reads_ends)

lemma reads_pair [reads_rules]: "(\<And>x. reads (k x)) \<Longrightarrow> reads (get_pair k)"
  by (auto simp: get_pair_def intro!: reads_rules)

lemma reads_tag_values [reads_rules]: "(\<And>x. reads (k x)) \<Longrightarrow> reads (get_tag_values k)"
  by (auto simp: get_tag_values_def intro!: reads_rules readerI)

lemma reads_contract_head [reads_rules]: "(\<And>x. reads (k x)) \<Longrightarrow> reads (get_contract_head k)"
  by (auto simp: get_contract_head_def intro!: reads_rules)

lemma reads_trade_date [reads_rules]: "(\<And>x. reads (k x)) \<Longrightarrow> reads (decodeLastTradeDate isBond cd k)"
  by (auto simp: decodeLastTradeDate_def Let_def intro!: reads_rules)

lemma reader_composed [reads_rules]: "reader get_pair" "reader get_tag_values" "reader get_contract_head" "reader (decodeLastTradeDate isBond cd)"
  by (auto intro!: readerI reads_rules)

text \<open>The contract of a decoder of messages, which the loop over the messages relies on.\<close>

locale message_decoder =
  fixes decode :: "string \<Rightarrow> ('a \<times> string) option"
  assumes decode_reads: "reads decode"
    and decode_progress: "decode s = Some (x, r) \<Longrightarrow> length r < length s"
begin

lemma reads_a_part:
  assumes "decode s = Some (x, r)"
  shows "\<exists>p. p \<noteq> [] \<and> s = p @ r \<and> (\<forall>r'. decode (p @ r') = Some (x, r'))"
proof -
  from readsD [OF decode_reads assms] obtain p where p: "s = p @ r" "\<forall>r'. decode (p @ r') = Some (x, r')" by blast
  then show ?thesis using decode_progress [OF assms] by (intro exI [of _ p]) auto
qed

end

end
