(* ===== verification/TwsMessages.thy ===== *)
theory TwsMessages
  imports TwsDecode
begin

text \<open>
  The decoders of \<open>EDecoder\<close> (\<open>external/tws/client/EDecoder.cpp\<close>), message by message, except those of
  contracts, executions and open orders. The numbers compared with the version \<open>v\<close> of the server are the
  constants \<open>MIN_SERVER_VER_\<dots>\<close> of \<open>EDecoder.h\<close>; the argument \<open>sd\<close> reads a decimal.
\<close>

section \<open>Orders and errors\<close>

text \<open>
  A field an older server sends first.
\<close>

definition skip_int_if :: "bool \<Rightarrow> (string \<Rightarrow> decoded) \<Rightarrow> string \<Rightarrow> decoded" where
  "skip_int_if b k = (if b then get_int (\<lambda>_. k) else k)"

definition processOrderStatusMsg :: "(string \<Rightarrow> decimal) \<Rightarrow> int \<Rightarrow> string \<Rightarrow> decoded" where
  "processOrderStatusMsg sd v =
     skip_int_if (v < 131) ( get_int (\<lambda>orderId. get_text (\<lambda>status. get_decimal sd (\<lambda>filled.
     get_decimal sd (\<lambda>remaining. get_double (\<lambda>avgFillPrice. get_int (\<lambda>permId.
     get_int (\<lambda>parentId. get_double (\<lambda>lastFillPrice. get_int (\<lambda>clientId.
     get_text (\<lambda>whyHeld. when_read (v \<ge> 131) get_double UnsetDouble (\<lambda>mktCapPrice.
     calls [W_orderStatus orderId status filled remaining avgFillPrice permId parentId lastFillPrice clientId whyHeld mktCapPrice]))))))))))))"

definition processErrMsgMsg :: "int \<Rightarrow> string \<Rightarrow> decoded" where
  "processErrMsgMsg v =
     get_int (\<lambda>version. get_int (\<lambda>i. get_int (\<lambda>errorCode. get_text (\<lambda>errorMsg.
     when_read (v \<ge> 166) get_text [] (\<lambda>advancedOrderRejectJson.
     calls [W_error i errorCode errorMsg advancedOrderRejectJson])))))"

definition processNextValidIdMsg :: "string \<Rightarrow> decoded" where
  "processNextValidIdMsg =
     get_int (\<lambda>version. get_int (\<lambda>orderId. calls [W_nextValidId orderId]))"

definition processOpenOrderEndMsg :: "string \<Rightarrow> decoded" where
  "processOpenOrderEndMsg =
     get_int (\<lambda>version. calls [W_openOrderEnd])"

definition processOrderBoundMsg :: "string \<Rightarrow> decoded" where
  "processOrderBoundMsg =
     get_long (\<lambda>orderId. get_int (\<lambda>apiClientId. get_int (\<lambda>apiOrderId.
     calls [W_trade (T_orderBound orderId apiClientId apiOrderId)])))"

definition processExecutionDetailsEndMsg :: "string \<Rightarrow> decoded" where
  "processExecutionDetailsEndMsg =
     get_int (\<lambda>version. get_int (\<lambda>reqId. calls [W_trade (T_execDetailsEnd reqId)]))"

definition processCompletedOrdersEndMsg :: "string \<Rightarrow> decoded" where
  "processCompletedOrdersEndMsg = calls [W_trade T_completedOrdersEnd]"

definition processCommissionReportMsg :: "string \<Rightarrow> decoded" where
  "processCommissionReportMsg =
     get_int (\<lambda>version. get_text (\<lambda>execId. get_double (\<lambda>commission.
     get_text (\<lambda>currency. get_double (\<lambda>realizedPNL. get_double (\<lambda>yield.
     get_int (\<lambda>yieldRedemptionDate.
     calls [W_trade (T_commissionReport \<lparr>cr_execId = execId, cr_commission = commission, cr_currency = currency, cr_realizedPNL = realizedPNL, cr_yield = yield, cr_yieldRedemptionDate = yieldRedemptionDate\<rparr>)])))))))"

definition processDeltaNeutralValidationMsg :: "string \<Rightarrow> decoded" where
  "processDeltaNeutralValidationMsg =
     get_int (\<lambda>version. get_int (\<lambda>reqId. get_long (\<lambda>conId. get_double (\<lambda>delta.
     get_double (\<lambda>price.
     calls [W_trade (T_deltaNeutralValidation reqId \<lparr>n_conId = conId, n_delta = delta, n_price = price\<rparr>)])))))"

section \<open>Ticks\<close>

text \<open>
  The size that comes with a price has a kind of its own for the bid, the ask and the last price, also when they are delayed.
\<close>

definition size_tick_type :: "int \<Rightarrow> int option" where
  "size_tick_type t =
     (if t = 1 then Some 0 else if t = 2 then Some 3 else if t = 4 then Some 5
      else if t = 66 then Some 69 else if t = 67 then Some 70 else if t = 68 then Some 71 else None)"

definition processTickPriceMsg :: "(string \<Rightarrow> decimal) \<Rightarrow> int \<Rightarrow> string \<Rightarrow> decoded" where
  "processTickPriceMsg sd v =
     get_int (\<lambda>version. get_int (\<lambda>tickerId. get_int (\<lambda>tickType. get_double (\<lambda>price.
     get_decimal sd (\<lambda>sz. get_int (\<lambda>attrMask.
     (let canAutoExecute = (if v \<ge> 109 then bit attrMask 0 else attrMask = 1);
          pastLimit = (v \<ge> 109 \<and> bit attrMask 1); preOpen = (v \<ge> 132 \<and> bit attrMask 2)
      in calls (W_market (M_tickPrice tickerId tickType price canAutoExecute pastLimit preOpen)
           # (case size_tick_type tickType of None \<Rightarrow> []
              | Some t \<Rightarrow> [W_market (M_tickSize tickerId t sz)])))))))))"

definition processTickSizeMsg :: "(string \<Rightarrow> decimal) \<Rightarrow> string \<Rightarrow> decoded" where
  "processTickSizeMsg sd =
     get_int (\<lambda>version. get_int (\<lambda>tickerId. get_int (\<lambda>tickType. get_decimal sd (\<lambda>sz.
     calls [W_market (M_tickSize tickerId tickType sz)]))))"

text \<open>
  Values that could not be computed are the numbers -1 or -2, for which the largest double stands.
\<close>

definition computed :: "double \<Rightarrow> double \<Rightarrow> double" where
  "computed none x = (if deq x none then DBL_MAX else x)"

definition processTickOptionComputationMsg :: "int \<Rightarrow> string \<Rightarrow> decoded" where
  "processTickOptionComputationMsg v =
     when_read (v < 156) get_int v (\<lambda>version. get_int (\<lambda>tickerId. get_int (\<lambda>tickType.
     when_read (v \<ge> 156) get_int 0 (\<lambda>tickAttrib. get_double (\<lambda>impliedVol.
     get_double (\<lambda>delta.
     when_read (version \<ge> 6 \<or> tickType = 13 \<or> tickType = 83) get_double DBL_MAX (\<lambda>optPrice.
     when_read (version \<ge> 6 \<or> tickType = 13 \<or> tickType = 83) get_double DBL_MAX (\<lambda>pvDividend.
     when_read (version \<ge> 6) get_double DBL_MAX (\<lambda>gamma.
     when_read (version \<ge> 6) get_double DBL_MAX (\<lambda>vega.
     when_read (version \<ge> 6) get_double DBL_MAX (\<lambda>theta.
     when_read (version \<ge> 6) get_double DBL_MAX (\<lambda>undPrice.
     calls [W_market (M_tickOptionComputation tickerId tickType tickAttrib
       (computed (Fin (- 1)) impliedVol) (computed (Fin (- 2)) delta) (computed (Fin (- 1)) optPrice)
       (computed (Fin (- 1)) pvDividend) (computed (Fin (- 2)) gamma) (computed (Fin (- 2)) vega)
       (computed (Fin (- 2)) theta) (computed (Fin (- 1)) undPrice))]))))))))))))"

definition processTickGenericMsg :: "string \<Rightarrow> decoded" where
  "processTickGenericMsg =
     get_int (\<lambda>version. get_int (\<lambda>tickerId. get_int (\<lambda>tickType. get_double (\<lambda>value.
     calls [W_market (M_tickGeneric tickerId tickType value)]))))"

definition processTickStringMsg :: "string \<Rightarrow> decoded" where
  "processTickStringMsg =
     get_int (\<lambda>version. get_int (\<lambda>tickerId. get_int (\<lambda>tickType. get_text (\<lambda>value.
     calls [W_market (M_tickString tickerId tickType value)]))))"

definition processTickEfpMsg :: "string \<Rightarrow> decoded" where
  "processTickEfpMsg =
     get_int (\<lambda>version. get_int (\<lambda>tickerId. get_int (\<lambda>tickType.
     get_double (\<lambda>basisPoints. get_text (\<lambda>formattedBasisPoints.
     get_double (\<lambda>impliedFuturesPrice. get_int (\<lambda>holdDays. get_text (\<lambda>futureLastTradeDate.
     get_double (\<lambda>dividendImpact. get_double (\<lambda>dividendsToLastTradeDate.
     calls [W_market (M_tickEFP tickerId tickType basisPoints formattedBasisPoints impliedFuturesPrice holdDays futureLastTradeDate dividendImpact dividendsToLastTradeDate)]))))))))))"

definition processTickSnapshotEndMsg :: "string \<Rightarrow> decoded" where
  "processTickSnapshotEndMsg =
     get_int (\<lambda>version. get_int (\<lambda>reqId. calls [W_market (M_tickSnapshotEnd reqId)]))"

definition processMarketDataTypeMsg :: "string \<Rightarrow> decoded" where
  "processMarketDataTypeMsg =
     get_int (\<lambda>version. get_int (\<lambda>reqId. get_int (\<lambda>marketDataType.
     calls [W_market (M_marketDataType reqId marketDataType)])))"

definition processTickReqParamsMsg :: "string \<Rightarrow> decoded" where
  "processTickReqParamsMsg =
     get_int (\<lambda>tickerId. get_double (\<lambda>minTick. get_text (\<lambda>bboExchange.
     get_int (\<lambda>snapshotPermissions.
     calls [W_market (M_tickReqParams tickerId minTick bboExchange snapshotPermissions)]))))"

definition processTickNewsMsg :: "string \<Rightarrow> decoded" where
  "processTickNewsMsg =
     get_int (\<lambda>tickerId. get_time (\<lambda>timeStamp. get_text (\<lambda>providerCode.
     get_text (\<lambda>articleId. get_text (\<lambda>headline. get_text (\<lambda>extraData.
     calls [W_market (M_tickNews tickerId timeStamp providerCode articleId headline extraData)]))))))"

definition processMarketDepthMsg :: "(string \<Rightarrow> decimal) \<Rightarrow> string \<Rightarrow> decoded" where
  "processMarketDepthMsg sd =
     get_int (\<lambda>version. get_int (\<lambda>i. get_int (\<lambda>position. get_int (\<lambda>operation.
     get_int (\<lambda>side. get_double (\<lambda>price. get_decimal sd (\<lambda>sz.
     calls [W_market (M_updateMktDepth i position operation side price sz)])))))))"

definition processMarketDepthL2Msg :: "(string \<Rightarrow> decimal) \<Rightarrow> int \<Rightarrow> string \<Rightarrow> decoded" where
  "processMarketDepthL2Msg sd v =
     get_int (\<lambda>version. get_int (\<lambda>i. get_int (\<lambda>position. get_text (\<lambda>marketMaker.
     get_int (\<lambda>operation. get_int (\<lambda>side. get_double (\<lambda>price. get_decimal sd (\<lambda>sz.
     when_read (v \<ge> 146) get_bool False (\<lambda>isSmartDepth.
     calls [W_market (M_updateMktDepthL2 i position marketMaker operation side price sz isSmartDepth)])))))))))"

definition processRerouteMktDataReqMsg :: "string \<Rightarrow> decoded" where
  "processRerouteMktDataReqMsg =
     get_int (\<lambda>reqId. get_int (\<lambda>conId. get_text (\<lambda>exchange.
     calls [W_market (M_rerouteMktDataReq reqId conId exchange)])))"

definition processRerouteMktDepthReqMsg :: "string \<Rightarrow> decoded" where
  "processRerouteMktDepthReqMsg =
     get_int (\<lambda>reqId. get_int (\<lambda>conId. get_text (\<lambda>exchange.
     calls [W_market (M_rerouteMktDepthReq reqId conId exchange)])))"

definition processRealTimeBarsMsg :: "(string \<Rightarrow> decimal) \<Rightarrow> string \<Rightarrow> decoded" where
  "processRealTimeBarsMsg sd =
     get_int (\<lambda>version. get_int (\<lambda>reqId. get_int (\<lambda>time. get_double (\<lambda>open'.
     get_double (\<lambda>high. get_double (\<lambda>low. get_double (\<lambda>close. get_decimal sd (\<lambda>volume.
     get_decimal sd (\<lambda>wap. get_int (\<lambda>count.
     calls [W_market (M_realtimeBar reqId time open' high low close volume wap count)]))))))))))"

section \<open>Tick by tick\<close>

definition processTickByTickDataMsg :: "(string \<Rightarrow> decimal) \<Rightarrow> string \<Rightarrow> decoded" where
  "processTickByTickDataMsg sd = get_int (\<lambda>reqId. get_int (\<lambda>tickType. get_long (\<lambda>time.
     if tickType = 1 \<or> tickType = 2 then
       get_double (\<lambda>price. get_decimal sd (\<lambda>size'. get_int (\<lambda>attrMask. get_text (\<lambda>exchange. get_text (\<lambda>specialConditions.
         calls [W_tickByTickAllLast reqId tickType time price size' (bit attrMask 0) (bit attrMask 1) exchange specialConditions])))))
     else if tickType = 3 then
       get_double (\<lambda>bidPrice. get_double (\<lambda>askPrice. get_decimal sd (\<lambda>bidSize. get_decimal sd (\<lambda>askSize. get_int (\<lambda>attrMask.
         calls [W_tickByTickBidAsk reqId time bidPrice askPrice bidSize askSize (bit attrMask 0) (bit attrMask 1)])))))
     else if tickType = 4 then get_double (\<lambda>midPoint. calls [W_tickByTickMidPoint reqId time midPoint])
     else calls [])))"

text \<open>
  Historical ticks; the decoder goes on with a null pointer when a tick is cut short, which is the same
  as giving up. The marks of a bid and an ask are in the order opposite to that of \<open>processTickByTickDataMsg\<close>.
\<close>

definition get_tick_mid :: "(string \<Rightarrow> decimal) \<Rightarrow> (int \<times> double \<times> decimal \<Rightarrow> string \<Rightarrow> 'r option) \<Rightarrow> string \<Rightarrow> 'r option" where
  "get_tick_mid sd k = get_long (\<lambda>time. get_int (\<lambda>nope. get_double (\<lambda>price. get_decimal sd (\<lambda>sz. k (time, price, sz)))))"

definition get_tick_bid_ask :: "(string \<Rightarrow> decimal) \<Rightarrow> (int \<times> bool \<times> bool \<times> double \<times> double \<times> decimal \<times> decimal \<Rightarrow> string \<Rightarrow> 'r option)
    \<Rightarrow> string \<Rightarrow> 'r option" where
  "get_tick_bid_ask sd k = get_long (\<lambda>time. get_int (\<lambda>attrMask. get_double (\<lambda>priceBid. get_double (\<lambda>priceAsk.
     get_decimal sd (\<lambda>sizeBid. get_decimal sd (\<lambda>sizeAsk.
       k (time, bit attrMask 1, bit attrMask 0, priceBid, priceAsk, sizeBid, sizeAsk)))))))"

definition get_tick_last :: "(string \<Rightarrow> decimal) \<Rightarrow> (int \<times> bool \<times> bool \<times> double \<times> decimal \<times> string \<times> string \<Rightarrow> string \<Rightarrow> 'r option)
    \<Rightarrow> string \<Rightarrow> 'r option" where
  "get_tick_last sd k = get_long (\<lambda>time. get_int (\<lambda>attrMask. get_double (\<lambda>price. get_decimal sd (\<lambda>sz.
     get_text (\<lambda>exchange. get_text (\<lambda>specialConditions.
       k (time, bit attrMask 0, bit attrMask 1, price, sz, exchange, specialConditions)))))))"

definition processHistoricalTicks :: "(string \<Rightarrow> decimal) \<Rightarrow> string \<Rightarrow> decoded" where
  "processHistoricalTicks sd =
     get_int (\<lambda>reqId. get_int (\<lambda>nTicks.
     sized ''cannot create std::vector larger than max_size()'' nTicks (
     get_list (nat nTicks) (get_tick_mid sd) (\<lambda>ticks. get_bool (\<lambda>finished.
     calls [W_market (M_historicalTicks reqId ticks finished)])))))"

definition processHistoricalTicksBidAsk :: "(string \<Rightarrow> decimal) \<Rightarrow> string \<Rightarrow> decoded" where
  "processHistoricalTicksBidAsk sd =
     get_int (\<lambda>reqId. get_int (\<lambda>nTicks.
     sized ''cannot create std::vector larger than max_size()'' nTicks (
     get_list (nat nTicks) (get_tick_bid_ask sd) (\<lambda>ticks. get_bool (\<lambda>finished.
     calls [W_market (M_historicalTicksBidAsk reqId ticks finished)])))))"

definition processHistoricalTicksLast :: "(string \<Rightarrow> decimal) \<Rightarrow> string \<Rightarrow> decoded" where
  "processHistoricalTicksLast sd =
     get_int (\<lambda>reqId. get_int (\<lambda>nTicks.
     sized ''cannot create std::vector larger than max_size()'' nTicks (
     get_list (nat nTicks) (get_tick_last sd) (\<lambda>ticks. get_bool (\<lambda>finished.
     calls [W_market (M_historicalTicksLast reqId ticks finished)])))))"

section \<open>Bars\<close>

text \<open>
  A bar of historical data; servers before the version 124 say whether it has gaps.
\<close>

definition get_bar :: "(string \<Rightarrow> decimal) \<Rightarrow> int \<Rightarrow> (bar \<Rightarrow> string \<Rightarrow> 'r option) \<Rightarrow> string \<Rightarrow> 'r option" where
  "get_bar sd v k =
     get_text (\<lambda>time. get_double (\<lambda>open'. get_double (\<lambda>high. get_double (\<lambda>low. get_double (\<lambda>close.
     get_decimal sd (\<lambda>volume. get_decimal sd (\<lambda>wap. when_read (v < 124) get_text [] (\<lambda>hasGaps. get_int (\<lambda>count.
       k \<lparr>b_time = time, b_high = high, b_low = low, b_open = open', b_close = close, b_wap = wap,
          b_volume = volume, b_count = count\<rparr>)))))))))"

definition processHistoricalDataMsg :: "(string \<Rightarrow> decimal) \<Rightarrow> int \<Rightarrow> string \<Rightarrow> decoded" where
  "processHistoricalDataMsg sd v =
     skip_int_if (v < 124) ( get_int (\<lambda>reqId. get_text (\<lambda>startDateStr. get_text (\<lambda>endDateStr.
     get_int (\<lambda>itemCount. sized ''vector::reserve'' itemCount (
     get_list (nat itemCount) (get_bar sd v) (\<lambda>bars.
     calls (map (W_historicalData reqId) bars @ [W_historicalDataEnd reqId startDateStr endDateStr]))))))))"

definition processHistoricalDataUpdateMsg :: "(string \<Rightarrow> decimal) \<Rightarrow> string \<Rightarrow> decoded" where
  "processHistoricalDataUpdateMsg sd =
     get_int (\<lambda>reqId. get_int (\<lambda>count. get_text (\<lambda>time. get_double (\<lambda>open'.
     get_double (\<lambda>close. get_double (\<lambda>high. get_double (\<lambda>low. get_decimal sd (\<lambda>wap.
     get_decimal sd (\<lambda>volume.
     calls [W_historicalDataUpdate reqId \<lparr>b_time = time, b_high = high, b_low = low, b_open = open', b_close = close, b_wap = wap, b_volume = volume, b_count = count\<rparr>])))))))))"

definition processHistogramDataMsg :: "(string \<Rightarrow> decimal) \<Rightarrow> string \<Rightarrow> decoded" where
  "processHistogramDataMsg sd =
     get_int (\<lambda>reqId. get_int (\<lambda>n.
     get_list (nat n) (\<lambda>k. get_double (\<lambda>price. get_decimal sd (\<lambda>sz. k (price, sz)))) (\<lambda>entries.
     calls [W_market (M_histogramData reqId entries)])))"

definition processHeadTimestampMsg :: "string \<Rightarrow> decoded" where
  "processHeadTimestampMsg =
     get_int (\<lambda>reqId. get_text (\<lambda>headTimestamp.
     calls [W_market (M_headTimestamp reqId headTimestamp)]))"

definition processHistoricalSchedule :: "string \<Rightarrow> decoded" where
  "processHistoricalSchedule =
     get_int (\<lambda>reqId. get_text (\<lambda>startDateTime. get_text (\<lambda>endDateTime.
     get_text (\<lambda>timeZone. get_int (\<lambda>n. sized ''cannot create std::vector larger than max_size()'' n (
     get_list (nat n) (\<lambda>k. get_text (\<lambda>a. get_text (\<lambda>b. get_text (\<lambda>d. k (a, b, d))))) (\<lambda>sessions.
     calls [W_info (I_historicalSchedule reqId startDateTime endDateTime timeZone sessions)])))))))"

section \<open>Accounts\<close>

definition processAcctValueMsg :: "string \<Rightarrow> decoded" where
  "processAcctValueMsg =
     get_int (\<lambda>version. get_text (\<lambda>key. get_text (\<lambda>val. get_text (\<lambda>cur.
     get_text (\<lambda>accountName. calls [W_account (A_updateAccountValue key val cur accountName)])))))"

definition processPortfolioValueMsg :: "(string \<Rightarrow> decimal) \<Rightarrow> int \<Rightarrow> string \<Rightarrow> decoded" where
  "processPortfolioValueMsg sd v =
     get_int (\<lambda>version. get_contract_head (\<lambda>c.
     when_read (version \<ge> 7) get_text [] (\<lambda>multiplier.
     when_read (version \<ge> 7) get_text [] (\<lambda>primaryExchange. get_text (\<lambda>currency.
     get_text (\<lambda>localSymbol. when_read (version \<ge> 8) get_text [] (\<lambda>tradingClass.
     get_decimal sd (\<lambda>position. get_double (\<lambda>marketPrice. get_double (\<lambda>marketValue.
     get_double (\<lambda>averageCost. get_double (\<lambda>unrealizedPNL. get_double (\<lambda>realizedPNL.
     get_text (\<lambda>accountName.
     when_read (version = 6 \<and> v = 39) get_text primaryExchange (\<lambda>primaryExchange'.
     calls [W_account (A_updatePortfolio (c\<lparr>c_multiplier := multiplier, c_primaryExchange := primaryExchange', c_currency := currency,
       c_localSymbol := localSymbol, c_tradingClass := tradingClass\<rparr>) position marketPrice marketValue averageCost unrealizedPNL realizedPNL accountName)])))))))))))))))"

definition processAcctUpdateTimeMsg :: "string \<Rightarrow> decoded" where
  "processAcctUpdateTimeMsg =
     get_int (\<lambda>version. get_text (\<lambda>accountTime. calls [W_account (A_updateAccountTime accountTime)]))"

definition processAcctDownloadEndMsg :: "string \<Rightarrow> decoded" where
  "processAcctDownloadEndMsg =
     get_int (\<lambda>version. get_text (\<lambda>account. calls [W_account (A_accountDownloadEnd account)]))"

definition processManagedAcctsMsg :: "string \<Rightarrow> decoded" where
  "processManagedAcctsMsg =
     get_int (\<lambda>version. get_text (\<lambda>accountsList. calls [W_account (A_managedAccounts accountsList)]))"

definition processReceiveFaMsg :: "string \<Rightarrow> decoded" where
  "processReceiveFaMsg =
     get_int (\<lambda>version. get_int (\<lambda>faDataType. get_text (\<lambda>cxml.
     calls [W_account (A_receiveFA faDataType cxml)])))"

definition processPositionDataMsg :: "(string \<Rightarrow> decimal) \<Rightarrow> string \<Rightarrow> decoded" where
  "processPositionDataMsg sd =
     get_int (\<lambda>version. get_text (\<lambda>account. get_contract_head (\<lambda>c.
     get_text (\<lambda>multiplier. get_text (\<lambda>exchange. get_text (\<lambda>currency.
     get_text (\<lambda>localSymbol. when_read (version \<ge> 2) get_text [] (\<lambda>tradingClass.
     get_decimal sd (\<lambda>position. when_read (version \<ge> 3) get_double 0 (\<lambda>avgCost.
     calls [W_account (A_position account (c\<lparr>c_multiplier := multiplier, c_exchange := exchange, c_currency := currency, c_localSymbol := localSymbol, c_tradingClass := tradingClass\<rparr>) position avgCost)]))))))))))"

definition processPositionEndMsg :: "string \<Rightarrow> decoded" where
  "processPositionEndMsg =
     get_int (\<lambda>version. calls [W_account A_positionEnd])"

definition processAccountSummaryMsg :: "string \<Rightarrow> decoded" where
  "processAccountSummaryMsg =
     get_int (\<lambda>version. get_int (\<lambda>reqId. get_text (\<lambda>account. get_text (\<lambda>tag.
     get_text (\<lambda>value. get_text (\<lambda>currency.
     calls [W_account (A_accountSummary reqId account tag value currency)]))))))"

definition processAccountSummaryEndMsg :: "string \<Rightarrow> decoded" where
  "processAccountSummaryEndMsg =
     get_int (\<lambda>version. get_int (\<lambda>reqId. calls [W_account (A_accountSummaryEnd reqId)]))"

definition processPositionMultiMsg :: "(string \<Rightarrow> decimal) \<Rightarrow> string \<Rightarrow> decoded" where
  "processPositionMultiMsg sd =
     get_int (\<lambda>version. get_int (\<lambda>reqId. get_text (\<lambda>account. get_contract_head (\<lambda>c.
     get_text (\<lambda>multiplier. get_text (\<lambda>exchange. get_text (\<lambda>currency.
     get_text (\<lambda>localSymbol. get_text (\<lambda>tradingClass. get_decimal sd (\<lambda>position.
     get_double (\<lambda>avgCost. get_text (\<lambda>modelCode.
     calls [W_account (A_positionMulti reqId account modelCode (c\<lparr>c_multiplier := multiplier, c_exchange := exchange, c_currency := currency, c_localSymbol := localSymbol, c_tradingClass := tradingClass\<rparr>) position avgCost)]))))))))))))"

definition processPositionMultiEndMsg :: "string \<Rightarrow> decoded" where
  "processPositionMultiEndMsg =
     get_int (\<lambda>version. get_int (\<lambda>reqId. calls [W_account (A_positionMultiEnd reqId)]))"

definition processAccountUpdateMultiMsg :: "string \<Rightarrow> decoded" where
  "processAccountUpdateMultiMsg =
     get_int (\<lambda>version. get_int (\<lambda>reqId. get_text (\<lambda>account. get_text (\<lambda>modelCode.
     get_text (\<lambda>key. get_text (\<lambda>value. get_text (\<lambda>currency.
     calls [W_account (A_accountUpdateMulti reqId account modelCode key value currency)])))))))"

definition processAccountUpdateMultiEndMsg :: "string \<Rightarrow> decoded" where
  "processAccountUpdateMultiEndMsg =
     get_int (\<lambda>version. get_int (\<lambda>reqId. calls [W_account (A_accountUpdateMultiEnd reqId)]))"

definition processPnLMsg :: "int \<Rightarrow> string \<Rightarrow> decoded" where
  "processPnLMsg v =
     get_int (\<lambda>reqId. get_double (\<lambda>dailyPnL.
     when_read (v \<ge> 129) get_double DBL_MAX (\<lambda>unrealizedPnL.
     when_read (v \<ge> 135) get_double DBL_MAX (\<lambda>realizedPnL.
     calls [W_account (A_pnl reqId dailyPnL unrealizedPnL realizedPnL)]))))"

definition processPnLSingleMsg :: "(string \<Rightarrow> decimal) \<Rightarrow> int \<Rightarrow> string \<Rightarrow> decoded" where
  "processPnLSingleMsg sd v =
     get_int (\<lambda>reqId. get_decimal sd (\<lambda>pos. get_double (\<lambda>dailyPnL.
     when_read (v \<ge> 129) get_double DBL_MAX (\<lambda>unrealizedPnL.
     when_read (v \<ge> 135) get_double DBL_MAX (\<lambda>realizedPnL. get_double (\<lambda>value.
     calls [W_account (A_pnlSingle reqId pos dailyPnL unrealizedPnL realizedPnL value)]))))))"

definition processFamilyCodesMsg :: "string \<Rightarrow> decoded" where
  "processFamilyCodesMsg =
     get_int (\<lambda>n. get_list (nat n) get_pair (\<lambda>familyCodes.
     calls [W_account (A_familyCodes familyCodes)]))"

definition processSoftDollarTiersMsg :: "string \<Rightarrow> decoded" where
  "processSoftDollarTiersMsg =
     get_int (\<lambda>reqId. get_int (\<lambda>nTiers.
     sized ''cannot create std::vector larger than max_size()'' nTiers (
     get_list (nat nTiers) (\<lambda>k. get_text (\<lambda>a. get_text (\<lambda>b. get_text (\<lambda>d. k (a, b, d))))) (\<lambda>tiers.
     calls [W_account (A_softDollarTiers reqId tiers)]))))"

definition processReplaceFAEndMsg :: "string \<Rightarrow> decoded" where
  "processReplaceFAEndMsg =
     get_int (\<lambda>reqId. get_text (\<lambda>txt. calls [W_account (A_replaceFAEnd reqId txt)]))"

definition processUserInfo :: "string \<Rightarrow> decoded" where
  "processUserInfo =
     get_int (\<lambda>reqId. get_text (\<lambda>whiteBrandingId.
     calls [W_account (A_userInfo reqId whiteBrandingId)]))"

section \<open>News, scanners, groups\<close>

definition processNewsBulletinsMsg :: "string \<Rightarrow> decoded" where
  "processNewsBulletinsMsg =
     get_int (\<lambda>version. get_int (\<lambda>msgId. get_int (\<lambda>msgType. get_text (\<lambda>newsMessage.
     get_text (\<lambda>originatingExch.
     calls [W_info (I_updateNewsBulletin msgId msgType newsMessage originatingExch)])))))"

text \<open>
  An entry of a scanner; its contract details have the members the message sends.
\<close>

definition get_scan :: "decode_env \<Rightarrow> (int \<times> contract_details \<times> string \<times> string \<times> string \<times> string \<Rightarrow> string \<Rightarrow> 'r option)
    \<Rightarrow> string \<Rightarrow> 'r option" where
  "get_scan env k = get_int (\<lambda>rank. get_contract_head (\<lambda>c. get_text (\<lambda>exchange. get_text (\<lambda>currency.
     get_text (\<lambda>localSymbol. get_text (\<lambda>marketName. get_text (\<lambda>tradingClass. get_text (\<lambda>distance. get_text (\<lambda>benchmark.
     get_text (\<lambda>projection. get_text (\<lambda>legsStr.
       k (rank, (new_details (de_uninit_int env))\<lparr>cd_contract := c\<lparr>c_exchange := exchange, c_currency := currency,
            c_localSymbol := localSymbol, c_tradingClass := tradingClass\<rparr>, cd_marketName := marketName\<rparr>,
          distance, benchmark, projection, legsStr))))))))))))"

definition processScannerDataMsg :: "decode_env \<Rightarrow> string \<Rightarrow> decoded" where
  "processScannerDataMsg env =
     get_int (\<lambda>version. get_int (\<lambda>tickerId. get_int (\<lambda>n. sized ''vector::reserve'' n (
     get_list (nat n) (get_scan env) (\<lambda>entries.
     calls (map (\<lambda>(rank, cd, distance, benchmark, projection, legsStr).
       W_info (I_scannerData tickerId rank cd distance benchmark projection legsStr)) entries @ [W_info (I_scannerDataEnd tickerId)]))))))"

definition processScannerParametersMsg :: "string \<Rightarrow> decoded" where
  "processScannerParametersMsg =
     get_int (\<lambda>version. get_text (\<lambda>xml. calls [W_info (I_scannerParameters xml)]))"

definition processCurrentTimeMsg :: "string \<Rightarrow> decoded" where
  "processCurrentTimeMsg =
     get_int (\<lambda>version. get_int (\<lambda>time. calls [W_info (I_currentTime time)]))"

definition processFundamentalDataMsg :: "string \<Rightarrow> decoded" where
  "processFundamentalDataMsg =
     get_int (\<lambda>version. get_int (\<lambda>reqId. get_text (\<lambda>txt.
     calls [W_info (I_fundamentalData reqId txt)])))"

definition processVerifyMessageApiMsg :: "string \<Rightarrow> decoded" where
  "processVerifyMessageApiMsg =
     get_int (\<lambda>version. get_text (\<lambda>apiData. calls [W_info (I_verifyMessageAPI apiData)]))"

definition processVerifyCompletedMsg :: "string \<Rightarrow> decoded" where
  "processVerifyCompletedMsg =
     get_int (\<lambda>version. get_text (\<lambda>isSuccessful. get_text (\<lambda>errorText.
     calls [W_info (I_verifyCompleted (isSuccessful = ''true'') errorText)])))"

definition processDisplayGroupListMsg :: "string \<Rightarrow> decoded" where
  "processDisplayGroupListMsg =
     get_int (\<lambda>version. get_int (\<lambda>reqId. get_text (\<lambda>groups.
     calls [W_info (I_displayGroupList reqId groups)])))"

definition processDisplayGroupUpdatedMsg :: "string \<Rightarrow> decoded" where
  "processDisplayGroupUpdatedMsg =
     get_int (\<lambda>version. get_int (\<lambda>reqId. get_text (\<lambda>contractInfo.
     calls [W_info (I_displayGroupUpdated reqId contractInfo)])))"

definition processVerifyAndAuthMessageApiMsg :: "string \<Rightarrow> decoded" where
  "processVerifyAndAuthMessageApiMsg =
     get_int (\<lambda>version. get_text (\<lambda>apiData. get_text (\<lambda>xyzChallenge.
     calls [W_info (I_verifyAndAuthMessageAPI apiData xyzChallenge)])))"

definition processVerifyAndAuthCompletedMsg :: "string \<Rightarrow> decoded" where
  "processVerifyAndAuthCompletedMsg =
     get_int (\<lambda>version. get_text (\<lambda>isSuccessful. get_text (\<lambda>errorText.
     calls [W_info (I_verifyAndAuthCompleted (isSuccessful = ''true'') errorText)])))"

definition processSecurityDefinitionOptionalParameterMsg :: "string \<Rightarrow> decoded" where
  "processSecurityDefinitionOptionalParameterMsg =
     get_int (\<lambda>reqId. get_text (\<lambda>exchange. get_int (\<lambda>underlyingConId.
     get_text (\<lambda>tradingClass. get_text (\<lambda>multiplier. get_int (\<lambda>n.
     get_list (nat n) get_text (\<lambda>expirations. get_int (\<lambda>m.
     get_list (nat m) get_double (\<lambda>strikes.
     calls [W_info (I_securityDefinitionOptionalParameter reqId exchange underlyingConId tradingClass multiplier (set expirations) (set strikes))])))))))))"

definition processSecurityDefinitionOptionalParameterEndMsg :: "string \<Rightarrow> decoded" where
  "processSecurityDefinitionOptionalParameterEndMsg =
     get_int (\<lambda>reqId. calls [W_info (I_securityDefinitionOptionalParameterEnd reqId)])"

definition get_depth_description :: "int \<Rightarrow> (depth_description \<Rightarrow> string \<Rightarrow> 'r option) \<Rightarrow> string \<Rightarrow> 'r option" where
  "get_depth_description v k = get_text (\<lambda>exchange. get_text (\<lambda>secType.
     if v \<ge> 120 then get_text (\<lambda>listingExch. get_text (\<lambda>serviceDataType. get_int (\<lambda>aggGroup.
       k \<lparr>dd_exchange = exchange, dd_secType = secType, dd_listingExch = listingExch, dd_serviceDataType = serviceDataType,
          dd_aggGroup = aggGroup\<rparr>)))
     else get_bool (\<lambda>isL2. k \<lparr>dd_exchange = exchange, dd_secType = secType, dd_listingExch = [],
       dd_serviceDataType = (if isL2 then ''Deep2'' else ''Deep''), dd_aggGroup = UnsetInt\<rparr>)))"

definition processMktDepthExchangesMsg :: "int \<Rightarrow> string \<Rightarrow> decoded" where
  "processMktDepthExchangesMsg v =
     get_int (\<lambda>n. get_list (nat n) (get_depth_description v) (\<lambda>ds.
     calls [W_info (I_mktDepthExchanges ds)]))"

text \<open>
  The map holds the last entry for a bit.
\<close>

definition processSmartComponentsMsg :: "string \<Rightarrow> decoded" where
  "processSmartComponentsMsg =
     get_int (\<lambda>reqId. get_int (\<lambda>n.
     get_list (nat n) (\<lambda>k. get_int (\<lambda>bitNumber. get_text (\<lambda>exchange. get_char (\<lambda>letter. k (bitNumber, exchange, letter))))) (\<lambda>entries.
     calls [W_info (I_smartComponents reqId (map_of (rev entries)))])))"

definition processNewsProvidersMsg :: "string \<Rightarrow> decoded" where
  "processNewsProvidersMsg =
     get_int (\<lambda>n. get_list (nat n) get_pair (\<lambda>newsProviders.
     calls [W_info (I_newsProviders newsProviders)]))"

definition processNewsArticleMsg :: "string \<Rightarrow> decoded" where
  "processNewsArticleMsg =
     get_int (\<lambda>requestId. get_int (\<lambda>articleType. get_text (\<lambda>articleText.
     calls [W_info (I_newsArticle requestId articleType articleText)])))"

definition processHistoricalNewsMsg :: "string \<Rightarrow> decoded" where
  "processHistoricalNewsMsg =
     get_int (\<lambda>requestId. get_text (\<lambda>time. get_text (\<lambda>providerCode.
     get_text (\<lambda>articleId. get_text (\<lambda>headline.
     calls [W_info (I_historicalNews requestId time providerCode articleId headline)])))))"

definition processHistoricalNewsEndMsg :: "string \<Rightarrow> decoded" where
  "processHistoricalNewsEndMsg =
     get_int (\<lambda>requestId. get_bool (\<lambda>hasMore. calls [W_info (I_historicalNewsEnd requestId hasMore)]))"

definition processMarketRuleMsg :: "string \<Rightarrow> decoded" where
  "processMarketRuleMsg =
     get_int (\<lambda>marketRuleId. get_int (\<lambda>n.
     get_list (nat n) (\<lambda>k. get_double (\<lambda>lowEdge. get_double (\<lambda>increment. k (lowEdge, increment)))) (\<lambda>increments.
     calls [W_info (I_marketRule marketRuleId increments)])))"

definition processWshMetaData :: "string \<Rightarrow> decoded" where
  "processWshMetaData =
     get_int (\<lambda>reqId. get_text (\<lambda>dataJson. calls [W_info (I_wshMetaData reqId dataJson)]))"

definition processWshEventData :: "string \<Rightarrow> decoded" where
  "processWshEventData =
     get_int (\<lambda>reqId. get_text (\<lambda>dataJson. calls [W_info (I_wshEventData reqId dataJson)]))"

section \<open>What the decoders read\<close>

lemma reads_skip_int [reads_rules]: "reads k \<Longrightarrow> reads (skip_int_if b k)"
  by (auto simp: skip_int_if_def intro!: reads_rules)

lemma reader_ticks [reads_rules]: "reader (get_tick_mid sd)" "reader (get_tick_bid_ask sd)" "reader (get_tick_last sd)"
    "reader (get_bar sd v)" "reader (get_scan env)" "reader (get_depth_description v)"
  by (auto simp: get_tick_mid_def get_tick_bid_ask_def get_tick_last_def get_bar_def get_scan_def get_depth_description_def
      intro!: readerI reads_rules)

lemma reads_messages_1 [reads_rules]:
  "reads (processOrderStatusMsg sd v)"
  "reads (processErrMsgMsg v)"
  "reads processNextValidIdMsg"
  "reads processOpenOrderEndMsg"
  "reads processOrderBoundMsg"
  "reads processExecutionDetailsEndMsg"
  "reads processCompletedOrdersEndMsg"
  "reads processCommissionReportMsg"
  "reads processDeltaNeutralValidationMsg"
  "reads (processTickPriceMsg sd v)"
  "reads (processTickSizeMsg sd)"
  "reads (processTickOptionComputationMsg v)"
  "reads processTickGenericMsg"
  "reads processTickStringMsg"
  "reads processTickEfpMsg"
  "reads processTickSnapshotEndMsg"
  by (auto simp: processOrderStatusMsg_def processErrMsgMsg_def processNextValidIdMsg_def
      processOpenOrderEndMsg_def processOrderBoundMsg_def processExecutionDetailsEndMsg_def
      processCompletedOrdersEndMsg_def processCommissionReportMsg_def processDeltaNeutralValidationMsg_def
      processTickPriceMsg_def processTickSizeMsg_def processTickOptionComputationMsg_def processTickGenericMsg_def
      processTickStringMsg_def processTickEfpMsg_def processTickSnapshotEndMsg_def Let_def 
      intro!: reads_rules readerI)+

lemma reads_messages_2 [reads_rules]:
  "reads processMarketDataTypeMsg"
  "reads processTickReqParamsMsg"
  "reads processTickNewsMsg"
  "reads (processMarketDepthMsg sd)"
  "reads (processMarketDepthL2Msg sd v)"
  "reads processRerouteMktDataReqMsg"
  "reads processRerouteMktDepthReqMsg"
  "reads (processRealTimeBarsMsg sd)"
  "reads (processTickByTickDataMsg sd)"
  "reads (processHistoricalTicks sd)"
  "reads (processHistoricalTicksBidAsk sd)"
  "reads (processHistoricalTicksLast sd)"
  "reads (processHistoricalDataMsg sd v)"
  "reads (processHistoricalDataUpdateMsg sd)"
  "reads (processHistogramDataMsg sd)"
  "reads processHeadTimestampMsg"
  by (auto simp: processMarketDataTypeMsg_def processTickReqParamsMsg_def processTickNewsMsg_def
      processMarketDepthMsg_def processMarketDepthL2Msg_def processRerouteMktDataReqMsg_def
      processRerouteMktDepthReqMsg_def processRealTimeBarsMsg_def processTickByTickDataMsg_def
      processHistoricalTicks_def processHistoricalTicksBidAsk_def processHistoricalTicksLast_def
      processHistoricalDataMsg_def processHistoricalDataUpdateMsg_def processHistogramDataMsg_def
      processHeadTimestampMsg_def Let_def 
      intro!: reads_rules readerI)+

lemma reads_messages_3 [reads_rules]:
  "reads processHistoricalSchedule"
  "reads processAcctValueMsg"
  "reads (processPortfolioValueMsg sd v)"
  "reads processAcctUpdateTimeMsg"
  "reads processAcctDownloadEndMsg"
  "reads processManagedAcctsMsg"
  "reads processReceiveFaMsg"
  "reads (processPositionDataMsg sd)"
  "reads processPositionEndMsg"
  "reads processAccountSummaryMsg"
  "reads processAccountSummaryEndMsg"
  "reads (processPositionMultiMsg sd)"
  "reads processPositionMultiEndMsg"
  "reads processAccountUpdateMultiMsg"
  "reads processAccountUpdateMultiEndMsg"
  "reads (processPnLMsg v)"
  by (auto simp: processHistoricalSchedule_def processAcctValueMsg_def processPortfolioValueMsg_def
      processAcctUpdateTimeMsg_def processAcctDownloadEndMsg_def processManagedAcctsMsg_def processReceiveFaMsg_def
      processPositionDataMsg_def processPositionEndMsg_def processAccountSummaryMsg_def
      processAccountSummaryEndMsg_def processPositionMultiMsg_def processPositionMultiEndMsg_def
      processAccountUpdateMultiMsg_def processAccountUpdateMultiEndMsg_def processPnLMsg_def Let_def 
      intro!: reads_rules readerI)+

lemma reads_messages_4 [reads_rules]:
  "reads (processPnLSingleMsg sd v)"
  "reads processFamilyCodesMsg"
  "reads processSoftDollarTiersMsg"
  "reads processReplaceFAEndMsg"
  "reads processUserInfo"
  "reads processNewsBulletinsMsg"
  "reads (processScannerDataMsg env)"
  "reads processScannerParametersMsg"
  "reads processCurrentTimeMsg"
  "reads processFundamentalDataMsg"
  "reads processVerifyMessageApiMsg"
  "reads processVerifyCompletedMsg"
  "reads processDisplayGroupListMsg"
  "reads processDisplayGroupUpdatedMsg"
  "reads processVerifyAndAuthMessageApiMsg"
  "reads processVerifyAndAuthCompletedMsg"
  by (auto simp: processPnLSingleMsg_def processFamilyCodesMsg_def processSoftDollarTiersMsg_def
      processReplaceFAEndMsg_def processUserInfo_def processNewsBulletinsMsg_def processScannerDataMsg_def
      processScannerParametersMsg_def processCurrentTimeMsg_def processFundamentalDataMsg_def
      processVerifyMessageApiMsg_def processVerifyCompletedMsg_def processDisplayGroupListMsg_def
      processDisplayGroupUpdatedMsg_def processVerifyAndAuthMessageApiMsg_def processVerifyAndAuthCompletedMsg_def
      Let_def 
      intro!: reads_rules readerI)+

lemma reads_messages_5 [reads_rules]:
  "reads processSecurityDefinitionOptionalParameterMsg"
  "reads processSecurityDefinitionOptionalParameterEndMsg"
  "reads (processMktDepthExchangesMsg v)"
  "reads processSmartComponentsMsg"
  "reads processNewsProvidersMsg"
  "reads processNewsArticleMsg"
  "reads processHistoricalNewsMsg"
  "reads processHistoricalNewsEndMsg"
  "reads processMarketRuleMsg"
  "reads processWshMetaData"
  "reads processWshEventData"
  by (auto simp: processSecurityDefinitionOptionalParameterMsg_def
      processSecurityDefinitionOptionalParameterEndMsg_def processMktDepthExchangesMsg_def
      processSmartComponentsMsg_def processNewsProvidersMsg_def processNewsArticleMsg_def
      processHistoricalNewsMsg_def processHistoricalNewsEndMsg_def processMarketRuleMsg_def processWshMetaData_def
      processWshEventData_def Let_def 
      intro!: reads_rules readerI)+


end
