(* ===== verification/TwsContractDecoder.thy ===== *)
theory TwsContractDecoder
  imports TwsMessages
begin

text \<open>
  The decoders of \<open>external/tws/client/EDecoder.cpp\<close> for contract details, bonds, executions and symbol
  samples. A field is read into a variable of its name; the record is put together at the end, with the
  initialisers of its constructor for what the server's version does not send.
\<close>

section \<open>Contract details\<close>

text \<open>
  The first group of fields: identity of the contract, names and orders it allows. The number of the
  message's format is the argument \<open>version\<close>.
\<close>

definition get_details_head :: "decode_env \<Rightarrow> int \<Rightarrow> (contract_details \<Rightarrow> string \<Rightarrow> 'r option) \<Rightarrow> string \<Rightarrow> 'r option" where
  "get_details_head env v k =
     get_text (\<lambda>symb. get_text (\<lambda>secType.
     decodeLastTradeDate False ((new_details (de_uninit_int env))\<lparr>cd_contract := new_contract\<lparr>c_symbol := symb, c_secType := secType\<rparr>\<rparr>) (\<lambda>cd.
     get_double (\<lambda>strike. get_text (\<lambda>right. get_text (\<lambda>exchange. get_text (\<lambda>currency.
     get_text (\<lambda>localSymbol. get_text (\<lambda>marketName. get_text (\<lambda>tradingClass.
     get_long (\<lambda>conId. get_double (\<lambda>minTick.
     when_read (v \<ge> 110 \<and> v < 164) get_int 0 (\<lambda>mdSizeMultiplier. get_text (\<lambda>multiplier.
     get_text (\<lambda>orderTypes. get_text (\<lambda>validExchanges. get_long (\<lambda>priceMagnifier.
     k (cd\<lparr>cd_contract := (cd_contract cd)\<lparr>c_strike := strike, c_right := right, c_exchange := exchange, c_currency := currency,
         c_localSymbol := localSymbol, c_tradingClass := tradingClass, c_conId := conId, c_multiplier := multiplier\<rparr>,
       cd_marketName := marketName, cd_minTick := minTick, cd_orderTypes := orderTypes, cd_validExchanges := validExchanges,
       cd_priceMagnifier := priceMagnifier\<rparr>))))))))))))))))))"

definition get_details_middle :: "int \<Rightarrow> contract_details \<Rightarrow> (contract_details \<Rightarrow> string \<Rightarrow> 'r option) \<Rightarrow> string \<Rightarrow> 'r option" where
  "get_details_middle version cd k =
     when_read (version \<ge> 4) get_int (cd_underConId cd) (\<lambda>underConId.
     when_read (version \<ge> 5) get_text [] (\<lambda>longName.
     when_read (version \<ge> 5) get_text [] (\<lambda>primaryExchange.
     when_read (version \<ge> 6) get_text (cd_contractMonth cd) (\<lambda>contractMonth.
     when_read (version \<ge> 6) get_text (cd_industry cd) (\<lambda>industry.
     when_read (version \<ge> 6) get_text (cd_category cd) (\<lambda>category.
     when_read (version \<ge> 6) get_text (cd_subcategory cd) (\<lambda>subcategory.
     when_read (version \<ge> 6) get_text (cd_timeZoneId cd) (\<lambda>timeZoneId.
     when_read (version \<ge> 6) get_text (cd_tradingHours cd) (\<lambda>tradingHours.
     when_read (version \<ge> 6) get_text (cd_liquidHours cd) (\<lambda>liquidHours.
     when_read (version \<ge> 8) get_text [] (\<lambda>evRule.
     when_read (version \<ge> 8) get_double 0 (\<lambda>evMultiplier.
     when_read (version \<ge> 7) get_tag_values [] (\<lambda>secIdList.
     k (cd\<lparr>cd_contract := (cd_contract cd)\<lparr>c_primaryExchange := primaryExchange\<rparr>, cd_underConId := underConId,
       cd_longName := longName, cd_contractMonth := contractMonth, cd_industry := industry, cd_category := category,
       cd_subcategory := subcategory, cd_timeZoneId := timeZoneId, cd_tradingHours := tradingHours, cd_liquidHours := liquidHours,
       cd_evRule := evRule, cd_evMultiplier := evMultiplier, cd_secIdList := secIdList\<rparr>))))))))))))))"

definition get_details_tail :: "(string \<Rightarrow> decimal) \<Rightarrow> int \<Rightarrow> contract_details \<Rightarrow> (contract_details \<Rightarrow> string \<Rightarrow> 'r option) \<Rightarrow> string \<Rightarrow> 'r option" where
  "get_details_tail sd v cd k =
     when_read (v \<ge> 121) get_int (cd_aggGroup cd) (\<lambda>aggGroup.
     when_read (v \<ge> 122) get_text [] (\<lambda>underSymbol.
     when_read (v \<ge> 122) get_text [] (\<lambda>underSecType.
     when_read (v \<ge> 126) get_text [] (\<lambda>marketRuleIds.
     when_read (v \<ge> 134) get_text [] (\<lambda>realExpirationDate.
     when_read (v \<ge> 152) get_text [] (\<lambda>stockType.
     when_read (v \<ge> 163 \<and> v < 164) (get_decimal sd) 0 (\<lambda>sizeMinTick.
     when_read (v \<ge> 164) (get_decimal sd) UNSET_DECIMAL (\<lambda>minSize.
     when_read (v \<ge> 164) (get_decimal sd) UNSET_DECIMAL (\<lambda>sizeIncrement.
     when_read (v \<ge> 164) (get_decimal sd) UNSET_DECIMAL (\<lambda>suggestedSizeIncrement.
     k (cd\<lparr>cd_aggGroup := aggGroup, cd_underSymbol := underSymbol, cd_underSecType := underSecType,
       cd_marketRuleIds := marketRuleIds, cd_realExpirationDate := realExpirationDate, cd_stockType := stockType,
       cd_minSize := minSize, cd_sizeIncrement := sizeIncrement, cd_suggestedSizeIncrement := suggestedSizeIncrement\<rparr>)))))))))))"

definition processContractDataMsg :: "decode_env \<Rightarrow> int \<Rightarrow> string \<Rightarrow> decoded" where
  "processContractDataMsg env v =
     when_read (v < 164) get_int 8 (\<lambda>version. when_read (version \<ge> 3) get_int (- 1) (\<lambda>reqId.
     get_details_head env v (\<lambda>cd1. get_details_middle version cd1 (\<lambda>cd2.
     get_details_tail (de_decimal env) v cd2 (\<lambda>cd. calls [W_contractDetails reqId cd])))))"

section \<open>Bonds\<close>

definition get_bond_head :: "decode_env \<Rightarrow> (contract_details \<Rightarrow> string \<Rightarrow> 'r option) \<Rightarrow> string \<Rightarrow> 'r option" where
  "get_bond_head env k =
     get_text (\<lambda>symb. get_text (\<lambda>secType. get_text (\<lambda>cusip. get_double (\<lambda>coupon.
     decodeLastTradeDate True ((new_details (de_uninit_int env))\<lparr>cd_contract := new_contract\<lparr>c_symbol := symb, c_secType := secType\<rparr>, cd_cusip := cusip, cd_coupon := coupon\<rparr>) (\<lambda>cd.
     get_text (\<lambda>issueDate. get_text (\<lambda>ratings. get_text (\<lambda>bondType.
     get_text (\<lambda>couponType. get_bool (\<lambda>convertible. get_bool (\<lambda>callable.
     get_bool (\<lambda>putable. get_text (\<lambda>descAppend.
     k (cd\<lparr>cd_ratings := ratings, cd_descAppend := descAppend, cd_bondType := bondType, cd_couponType := couponType,
       cd_callable := callable, cd_putable := putable, cd_convertible := convertible, cd_issueDate := issueDate\<rparr>))))))))))))))"

definition get_bond_middle :: "int \<Rightarrow> contract_details \<Rightarrow> (contract_details \<Rightarrow> string \<Rightarrow> 'r option) \<Rightarrow> string \<Rightarrow> 'r option" where
  "get_bond_middle v cd k =
     get_text (\<lambda>exchange. get_text (\<lambda>currency. get_text (\<lambda>marketName.
     get_text (\<lambda>tradingClass. get_long (\<lambda>conId. get_double (\<lambda>minTick.
     when_read (v \<ge> 110 \<and> v < 164) get_int 0 (\<lambda>mdSizeMultiplier. get_text (\<lambda>orderTypes.
     get_text (\<lambda>validExchanges. get_text (\<lambda>nextOptionDate. get_text (\<lambda>nextOptionType.
     get_bool (\<lambda>nextOptionPartial. get_text (\<lambda>notes.
     k (cd\<lparr>cd_contract := (cd_contract cd)\<lparr>c_exchange := exchange, c_currency := currency, c_tradingClass := tradingClass, c_conId := conId\<rparr>,
       cd_marketName := marketName, cd_minTick := minTick, cd_orderTypes := orderTypes, cd_validExchanges := validExchanges,
       cd_nextOptionDate := nextOptionDate, cd_nextOptionType := nextOptionType, cd_nextOptionPartial := nextOptionPartial, cd_notes := notes\<rparr>))))))))))))))"

definition get_bond_tail :: "(string \<Rightarrow> decimal) \<Rightarrow> int \<Rightarrow> int \<Rightarrow> contract_details \<Rightarrow> (contract_details \<Rightarrow> string \<Rightarrow> 'r option) \<Rightarrow> string \<Rightarrow> 'r option" where
  "get_bond_tail sd version v cd k =
     when_read (version \<ge> 4) get_text [] (\<lambda>longName.
     when_read (version \<ge> 6) get_text [] (\<lambda>evRule.
     when_read (version \<ge> 6) get_double 0 (\<lambda>evMultiplier.
     when_read (version \<ge> 5) get_tag_values [] (\<lambda>secIdList.
     when_read (v \<ge> 121) get_int (cd_aggGroup cd) (\<lambda>aggGroup.
     when_read (v \<ge> 126) get_text [] (\<lambda>marketRuleIds.
     when_read (v \<ge> 164) (get_decimal sd) UNSET_DECIMAL (\<lambda>minSize.
     when_read (v \<ge> 164) (get_decimal sd) UNSET_DECIMAL (\<lambda>sizeIncrement.
     when_read (v \<ge> 164) (get_decimal sd) UNSET_DECIMAL (\<lambda>suggestedSizeIncrement.
     k (cd\<lparr>cd_longName := longName, cd_evRule := evRule, cd_evMultiplier := evMultiplier, cd_aggGroup := aggGroup,
       cd_marketRuleIds := marketRuleIds, cd_minSize := minSize, cd_sizeIncrement := sizeIncrement,
       cd_suggestedSizeIncrement := suggestedSizeIncrement, cd_secIdList := secIdList\<rparr>))))))))))"

definition processBondContractDataMsg :: "decode_env \<Rightarrow> int \<Rightarrow> string \<Rightarrow> decoded" where
  "processBondContractDataMsg env v =
     when_read (v < 164) get_int 6 (\<lambda>version. when_read (version \<ge> 3) get_int (- 1) (\<lambda>reqId.
     get_bond_head env (\<lambda>cd1. get_bond_middle v cd1 (\<lambda>cd2.
     get_bond_tail (de_decimal env) version v cd2 (\<lambda>cd. calls [W_info (I_bondContractDetails reqId cd)])))))"

section \<open>Executions\<close>

definition get_execution_contract :: "int \<Rightarrow> (contract \<Rightarrow> string \<Rightarrow> 'r option) \<Rightarrow> string \<Rightarrow> 'r option" where
  "get_execution_contract version k =
     get_contract_head (\<lambda>c. when_read (version \<ge> 9) get_text [] (\<lambda>multiplier.
     get_text (\<lambda>exchange. get_text (\<lambda>currency. get_text (\<lambda>localSymbol.
     when_read (version \<ge> 10) get_text [] (\<lambda>tradingClass.
     k (c\<lparr>c_multiplier := multiplier, c_exchange := exchange, c_currency := currency, c_localSymbol := localSymbol,
       c_tradingClass := tradingClass\<rparr>)))))))"

definition get_execution :: "(string \<Rightarrow> decimal) \<Rightarrow> int \<Rightarrow> int \<Rightarrow> int \<Rightarrow> (execution \<Rightarrow> string \<Rightarrow> 'r option) \<Rightarrow> string \<Rightarrow> 'r option" where
  "get_execution sd version v orderId k =
     get_text (\<lambda>execId. get_text (\<lambda>time. get_text (\<lambda>acctNumber. get_text (\<lambda>exchange.
     get_text (\<lambda>side. get_decimal sd (\<lambda>shares. get_double (\<lambda>price. get_int (\<lambda>permId.
     get_long (\<lambda>clientId. get_int (\<lambda>liquidation.
     when_read (version \<ge> 6) (get_decimal sd) 0 (\<lambda>cumQty.
     when_read (version \<ge> 6) get_double 0 (\<lambda>avgPrice.
     when_read (version \<ge> 8) get_text [] (\<lambda>orderRef.
     when_read (version \<ge> 9) get_text [] (\<lambda>evRule.
     when_read (version \<ge> 9) get_double 0 (\<lambda>evMultiplier.
     when_read (v \<ge> 103) get_text [] (\<lambda>modelCode.
     when_read (v \<ge> 136) get_int 0 (\<lambda>lastLiquidity.
     k \<lparr>ex_execId = execId, ex_time = time, ex_acctNumber = acctNumber, ex_exchange = exchange, ex_side = side, ex_shares = shares,
       ex_price = price, ex_permId = permId, ex_clientId = clientId, ex_orderId = orderId, ex_liquidation = liquidation,
       ex_cumQty = cumQty, ex_avgPrice = avgPrice, ex_orderRef = orderRef, ex_evRule = evRule, ex_evMultiplier = evMultiplier,
       ex_modelCode = modelCode, ex_lastLiquidity = lastLiquidity\<rparr>)))))))))))))))))"

definition processExecutionDetailsMsg :: "(string \<Rightarrow> decimal) \<Rightarrow> int \<Rightarrow> string \<Rightarrow> decoded" where
  "processExecutionDetailsMsg sd v =
     when_read (v < 136) get_int v (\<lambda>version. when_read (version \<ge> 7) get_int (- 1) (\<lambda>reqId.
     get_int (\<lambda>orderId. get_execution_contract version (\<lambda>c.
     get_execution sd version v orderId (\<lambda>ex. calls [W_trade (T_execDetails reqId c ex)])))))"

section \<open>Symbol samples\<close>

definition get_contract_description :: "int \<Rightarrow> (contract_description \<Rightarrow> string \<Rightarrow> 'r option) \<Rightarrow> string \<Rightarrow> 'r option" where
  "get_contract_description v k =
     get_long (\<lambda>conId. get_text (\<lambda>symb. get_text (\<lambda>secType.
     get_text (\<lambda>primaryExchange. get_text (\<lambda>currency. get_int (\<lambda>n.
     get_list (nat n) get_text (\<lambda>derivativeSecTypes.
     when_read (v \<ge> 176) get_text [] (\<lambda>description.
     when_read (v \<ge> 176) get_text [] (\<lambda>issuerId.
     k \<lparr>cde_contract = new_contract\<lparr>c_conId := conId, c_symbol := symb, c_secType := secType, c_primaryExchange := primaryExchange,
         c_currency := currency, c_description := description, c_issuerId := issuerId\<rparr>,
       cde_derivativeSecTypes = derivativeSecTypes\<rparr>)))))))))"

definition processSymbolSamplesMsg :: "int \<Rightarrow> string \<Rightarrow> decoded" where
  "processSymbolSamplesMsg v =
     get_int (\<lambda>reqId. get_int (\<lambda>n.
     get_list (nat n) (get_contract_description v) (\<lambda>descriptions.
     calls [W_info (I_symbolSamples reqId descriptions)])))"

definition processContractDataEndMsg :: "string \<Rightarrow> decoded" where
  "processContractDataEndMsg =
     get_int (\<lambda>version. get_int (\<lambda>reqId. calls [W_contractDetailsEnd reqId]))"

section \<open>What the decoders read\<close>

lemma reader_contracts [reads_rules]:
  "reader (get_details_head env v)" "reader (get_details_middle version cd)" "reader (get_details_tail sd v cd)"
  "reader (get_bond_head env)" "reader (get_bond_middle v cd)" "reader (get_bond_tail sd version v cd)"
  "reader (get_execution_contract version)" "reader (get_execution sd version v oid)" "reader (get_contract_description v)"
  by (auto simp: get_details_head_def get_details_middle_def get_details_tail_def get_bond_head_def get_bond_middle_def
      get_bond_tail_def get_execution_contract_def get_execution_def get_contract_description_def
      intro!: readerI reads_rules)

lemma reads_contract_messages [reads_rules]:
  "reads (processContractDataMsg env v)"
  "reads (processBondContractDataMsg env v)"
  "reads (processExecutionDetailsMsg sd v)"
  "reads (processSymbolSamplesMsg v)"
  "reads processContractDataEndMsg"
  by (auto simp: processContractDataMsg_def processBondContractDataMsg_def processExecutionDetailsMsg_def
      processSymbolSamplesMsg_def processContractDataEndMsg_def 
      intro!: reads_rules reader_contracts [THEN readerD])+

end
