(* ===== verification/TwsOrderDecoder.thy ===== *)
theory TwsOrderDecoder
  imports TwsContractDecoder
begin

text \<open>
  \<open>EOrderDecoder\<close> (\<open>external/tws/client/EOrderDecoder.cpp\<close>) and the two messages it reads, open orders and
  completed orders; the conditions of an order (\<open>OrderCondition.cpp\<close> and its subclasses). Each step takes
  what has been read so far and goes on with it. \<open>version\<close> is the version of the message's format, \<open>v\<close>
  that of the server.
\<close>

section \<open>Conditions\<close>

text \<open>
  Numbers read off a stream with \<open>>>\<close>: a text of blanks leaves the variable as it was, any other text that
  is no number sets it to zero, and a number out of range to the nearest that fits. An \<open>e\<close> after the digits
  must be followed by an exponent.
\<close>

definition stream_in_int :: "int \<Rightarrow> string \<Rightarrow> int" where
  "stream_in_int old s = (case dropWhile is_white s of [] \<Rightarrow> old | c # t \<Rightarrow>
     (case signed (c # t) of (neg, u) \<Rightarrow>
        let n = int (digits_nat (takeWhile is_dig u)) in max (- (2 ^ 31)) (min (2 ^ 31 - 1) (if neg then - n else n))))"

definition stream_in_double :: "double \<Rightarrow> string \<Rightarrow> double" where
  "stream_in_double old s = (case dropWhile is_white s of [] \<Rightarrow> old | c # t \<Rightarrow>
     (case signed (c # t) of (neg, u) \<Rightarrow> case mantissa_part is_dig u of (ip, fp, r) \<Rightarrow>
        if ip @ fp = [] then 0
        else if r \<noteq> [] \<and> lower (hd r) = CHR ''e'' \<and> takeWhile is_dig (snd (signed (tl r))) = [] then 0
        else case round_double (unsigned_value u) of
            PInf \<Rightarrow> if neg then - DBL_MAX else DBL_MAX
          | x \<Rightarrow> if neg then - x else x))"

definition read_condition :: "(bool \<Rightarrow> string \<Rightarrow> 'r option) \<Rightarrow> string \<Rightarrow> 'r option" where
  "read_condition k = get_text (\<lambda>connector. k (connector = ''a''))"

definition read_operator :: "(string \<Rightarrow> 'a) \<Rightarrow> (bool \<Rightarrow> bool \<Rightarrow> 'a \<Rightarrow> string \<Rightarrow> 'r option) \<Rightarrow> string \<Rightarrow> 'r option" where
  "read_operator valueFromString k =
     read_condition (\<lambda>conn. get_bool (\<lambda>is_more. get_text (\<lambda>str. k conn is_more (valueFromString str))))"

definition read_contract :: "(string \<Rightarrow> 'a) \<Rightarrow> (bool \<Rightarrow> bool \<Rightarrow> 'a \<Rightarrow> int \<Rightarrow> string \<Rightarrow> string \<Rightarrow> 'r option) \<Rightarrow> string \<Rightarrow> 'r option" where
  "read_contract valueFromString k = read_operator valueFromString (\<lambda>conn is_more x.
     get_int (\<lambda>conId. get_text (\<lambda>exchange. k conn is_more x conId exchange)))"

text \<open>A kind that does not exist gives a null pointer, through which \<open>readExternal\<close> is called.\<close>

definition readExternal :: "decode_env \<Rightarrow> int \<Rightarrow> (order_condition \<Rightarrow> string \<Rightarrow> decoded) \<Rightarrow> string \<Rightarrow> decoded" where
  "readExternal env t k =
     (if t = 1 then read_contract (stream_in_double (de_uninit_double env)) (\<lambda>conn is_more price conId exchange.
        get_int (\<lambda>triggerMethod. k (Price_condition conn is_more price conId exchange triggerMethod)))
      else if t = 3 then read_operator (\<lambda>s. s) (\<lambda>conn is_more time. k (Time_condition conn is_more time))
      else if t = 4 then read_operator (stream_in_int (de_uninit_int env)) (\<lambda>conn is_more percent. k (Margin_condition conn is_more percent))
      else if t = 5 then read_condition (\<lambda>conn. get_text (\<lambda>secType. get_text (\<lambda>exchange. get_text (\<lambda>symb.
        k (Execution_condition conn secType exchange symb)))))
      else if t = 6 then read_contract (stream_in_int (de_uninit_int env)) (\<lambda>conn is_more volume conId exchange.
        k (Volume_condition conn is_more volume conId exchange))
      else if t = 7 then read_contract (stream_in_double UnsetDouble) (\<lambda>conn is_more percent conId exchange.
        k (PercentChange_condition conn is_more percent conId exchange))
      else fails DF_null)"

section \<open>State\<close>

record order_dec =
  od_contract :: contract
  od_order :: tws_order
  od_state :: order_state

definition od_init :: order_dec where
  "od_init = \<lparr>od_contract = new_contract, od_order = complete_order new_order, od_state = new_order_state\<rparr>"

definition set_contract :: "(contract \<Rightarrow> contract) \<Rightarrow> order_dec \<Rightarrow> order_dec" where
  "set_contract f od = od\<lparr>od_contract := f (od_contract od)\<rparr>"

definition set_order :: "(tws_order \<Rightarrow> tws_order) \<Rightarrow> order_dec \<Rightarrow> order_dec" where
  "set_order f od = od\<lparr>od_order := f (od_order od)\<rparr>"

definition set_state :: "(order_state \<Rightarrow> order_state) \<Rightarrow> order_dec \<Rightarrow> order_dec" where
  "set_state f od = od\<lparr>od_state := f (od_state od)\<rparr>"

text \<open>A conjunction of steps: the first that fails ends it.\<close>

fun run_steps :: "(order_dec \<Rightarrow> (order_dec \<Rightarrow> string \<Rightarrow> 'r option) \<Rightarrow> string \<Rightarrow> 'r option) list
    \<Rightarrow> order_dec \<Rightarrow> (order_dec \<Rightarrow> string \<Rightarrow> 'r option) \<Rightarrow> string \<Rightarrow> 'r option" where
  "run_steps [] od k = k od"
| "run_steps (f # fs) od k = f od (\<lambda>od'. run_steps fs od' k)"

section \<open>Main fields\<close>

definition decodeOrderId :: "order_dec \<Rightarrow> (order_dec \<Rightarrow> string \<Rightarrow> 'r option) \<Rightarrow> string \<Rightarrow> 'r option" where
  "decodeOrderId od k =
     get_long (\<lambda>orderId. k (set_order (\<lambda>ord. ord\<lparr>o_orderId := orderId\<rparr>) od))"

definition decodeContract :: "int \<Rightarrow> order_dec \<Rightarrow> (order_dec \<Rightarrow> string \<Rightarrow> 'r option) \<Rightarrow> string \<Rightarrow> 'r option" where
  "decodeContract version od k =
     get_contract_head (\<lambda>c. when_read (version \<ge> 32) get_text [] (\<lambda>multiplier.
     get_text (\<lambda>exchange. get_text (\<lambda>currency. get_text (\<lambda>localSymbol.
     when_read (version \<ge> 32) get_text [] (\<lambda>tradingClass.
     k (set_contract (\<lambda>_. c\<lparr>c_multiplier := multiplier, c_exchange := exchange, c_currency := currency,
       c_localSymbol := localSymbol, c_tradingClass := tradingClass\<rparr>) od)))))))"

definition decodeAction :: "order_dec \<Rightarrow> (order_dec \<Rightarrow> string \<Rightarrow> 'r option) \<Rightarrow> string \<Rightarrow> 'r option" where
  "decodeAction od k =
     get_text (\<lambda>action. k (set_order (\<lambda>ord. ord\<lparr>o_action := action\<rparr>) od))"

definition decodeTotalQuantity :: "decode_env \<Rightarrow> order_dec \<Rightarrow> (order_dec \<Rightarrow> string \<Rightarrow> 'r option) \<Rightarrow> string \<Rightarrow> 'r option" where
  "decodeTotalQuantity env od k =
     get_decimal (de_decimal env) (\<lambda>totalQuantity.
     k (set_order (\<lambda>ord. ord\<lparr>o_totalQuantity := totalQuantity\<rparr>) od))"

definition decodeOrderType :: "order_dec \<Rightarrow> (order_dec \<Rightarrow> string \<Rightarrow> 'r option) \<Rightarrow> string \<Rightarrow> 'r option" where
  "decodeOrderType od k =
     get_text (\<lambda>orderType. k (set_order (\<lambda>ord. ord\<lparr>o_orderType := orderType\<rparr>) od))"

definition decodeLmtPrice :: "int \<Rightarrow> order_dec \<Rightarrow> (order_dec \<Rightarrow> string \<Rightarrow> 'r option) \<Rightarrow> string \<Rightarrow> 'r option" where
  "decodeLmtPrice version od k =
     (if version < 29 then get_double else get_max_double) (\<lambda>lmtPrice.
     k (set_order (\<lambda>ord. ord\<lparr>o_lmtPrice := lmtPrice\<rparr>) od))"

definition decodeAuxPrice :: "int \<Rightarrow> order_dec \<Rightarrow> (order_dec \<Rightarrow> string \<Rightarrow> 'r option) \<Rightarrow> string \<Rightarrow> 'r option" where
  "decodeAuxPrice version od k =
     (if version < 30 then get_double else get_max_double) (\<lambda>auxPrice.
     k (set_order (\<lambda>ord. ord\<lparr>o_auxPrice := auxPrice\<rparr>) od))"

definition decodeTIF :: "order_dec \<Rightarrow> (order_dec \<Rightarrow> string \<Rightarrow> 'r option) \<Rightarrow> string \<Rightarrow> 'r option" where
  "decodeTIF od k =
     get_text (\<lambda>tif. k (set_order (\<lambda>ord. ord\<lparr>o_tif := tif\<rparr>) od))"

definition decodeOcaGroup :: "order_dec \<Rightarrow> (order_dec \<Rightarrow> string \<Rightarrow> 'r option) \<Rightarrow> string \<Rightarrow> 'r option" where
  "decodeOcaGroup od k =
     get_text (\<lambda>ocaGroup. k (set_order (\<lambda>ord. ord\<lparr>o_ocaGroup := ocaGroup\<rparr>) od))"

definition decodeAccount :: "order_dec \<Rightarrow> (order_dec \<Rightarrow> string \<Rightarrow> 'r option) \<Rightarrow> string \<Rightarrow> 'r option" where
  "decodeAccount od k =
     get_text (\<lambda>account. k (set_order (\<lambda>ord. ord\<lparr>o_account := account\<rparr>) od))"

definition decodeOpenClose :: "order_dec \<Rightarrow> (order_dec \<Rightarrow> string \<Rightarrow> 'r option) \<Rightarrow> string \<Rightarrow> 'r option" where
  "decodeOpenClose od k =
     get_text (\<lambda>openClose. k (set_order (\<lambda>ord. ord\<lparr>o_openClose := openClose\<rparr>) od))"

definition decodeOrigin :: "order_dec \<Rightarrow> (order_dec \<Rightarrow> string \<Rightarrow> 'r option) \<Rightarrow> string \<Rightarrow> 'r option" where
  "decodeOrigin od k =
     get_int (\<lambda>origin. k (set_order (\<lambda>ord. ord\<lparr>o_origin := origin\<rparr>) od))"

definition decodeOrderRef :: "order_dec \<Rightarrow> (order_dec \<Rightarrow> string \<Rightarrow> 'r option) \<Rightarrow> string \<Rightarrow> 'r option" where
  "decodeOrderRef od k =
     get_text (\<lambda>orderRef. k (set_order (\<lambda>ord. ord\<lparr>o_orderRef := orderRef\<rparr>) od))"

definition decodeClientId :: "order_dec \<Rightarrow> (order_dec \<Rightarrow> string \<Rightarrow> 'r option) \<Rightarrow> string \<Rightarrow> 'r option" where
  "decodeClientId od k =
     get_long (\<lambda>clientId. k (set_order (\<lambda>ord. ord\<lparr>o_clientId := clientId\<rparr>) od))"

definition decodePermId :: "order_dec \<Rightarrow> (order_dec \<Rightarrow> string \<Rightarrow> 'r option) \<Rightarrow> string \<Rightarrow> 'r option" where
  "decodePermId od k =
     get_int (\<lambda>permId. k (set_order (\<lambda>ord. ord\<lparr>o_permId := permId\<rparr>) od))"

definition decodeOutsideRth :: "order_dec \<Rightarrow> (order_dec \<Rightarrow> string \<Rightarrow> 'r option) \<Rightarrow> string \<Rightarrow> 'r option" where
  "decodeOutsideRth od k =
     get_bool (\<lambda>outsideRth. k (set_order (\<lambda>ord. ord\<lparr>o_outsideRth := outsideRth\<rparr>) od))"

definition decodeHidden :: "order_dec \<Rightarrow> (order_dec \<Rightarrow> string \<Rightarrow> 'r option) \<Rightarrow> string \<Rightarrow> 'r option" where
  "decodeHidden od k =
     get_bool (\<lambda>hidden. k (set_order (\<lambda>ord. ord\<lparr>o_hidden := hidden\<rparr>) od))"

definition decodeDiscretionaryAmount :: "order_dec \<Rightarrow> (order_dec \<Rightarrow> string \<Rightarrow> 'r option) \<Rightarrow> string \<Rightarrow> 'r option" where
  "decodeDiscretionaryAmount od k =
     get_double (\<lambda>discretionaryAmt.
     k (set_order (\<lambda>ord. ord\<lparr>o_discretionaryAmt := discretionaryAmt\<rparr>) od))"

definition decodeGoodAfterTime :: "order_dec \<Rightarrow> (order_dec \<Rightarrow> string \<Rightarrow> 'r option) \<Rightarrow> string \<Rightarrow> 'r option" where
  "decodeGoodAfterTime od k =
     get_text (\<lambda>goodAfterTime.
     k (set_order (\<lambda>ord. ord\<lparr>o_goodAfterTime := goodAfterTime\<rparr>) od))"

definition skipSharesAllocation :: "order_dec \<Rightarrow> (order_dec \<Rightarrow> string \<Rightarrow> 'r option) \<Rightarrow> string \<Rightarrow> 'r option" where
  "skipSharesAllocation od k =
     get_text (\<lambda>sharesAllocation. k od)"

definition decodeFAParams :: "order_dec \<Rightarrow> (order_dec \<Rightarrow> string \<Rightarrow> 'r option) \<Rightarrow> string \<Rightarrow> 'r option" where
  "decodeFAParams od k =
     get_text (\<lambda>faGroup. get_text (\<lambda>faMethod. get_text (\<lambda>faPercentage.
     get_text (\<lambda>faProfile.
     k (set_order (\<lambda>ord. ord\<lparr>o_faGroup := faGroup, o_faMethod := faMethod, o_faPercentage := faPercentage, o_faProfile := faProfile\<rparr>) od)))))"

definition decodeModelCode :: "int \<Rightarrow> order_dec \<Rightarrow> (order_dec \<Rightarrow> string \<Rightarrow> 'r option) \<Rightarrow> string \<Rightarrow> 'r option" where
  "decodeModelCode v od k =
     when_read (v \<ge> 103) get_text (o_modelCode (od_order od)) (\<lambda>modelCode.
     k (set_order (\<lambda>ord. ord\<lparr>o_modelCode := modelCode\<rparr>) od))"

definition decodeGoodTillDate :: "order_dec \<Rightarrow> (order_dec \<Rightarrow> string \<Rightarrow> 'r option) \<Rightarrow> string \<Rightarrow> 'r option" where
  "decodeGoodTillDate od k =
     get_text (\<lambda>goodTillDate.
     k (set_order (\<lambda>ord. ord\<lparr>o_goodTillDate := goodTillDate\<rparr>) od))"

definition decodeRule80A :: "order_dec \<Rightarrow> (order_dec \<Rightarrow> string \<Rightarrow> 'r option) \<Rightarrow> string \<Rightarrow> 'r option" where
  "decodeRule80A od k =
     get_text (\<lambda>rule80A. k (set_order (\<lambda>ord. ord\<lparr>o_rule80A := rule80A\<rparr>) od))"

definition decodePercentOffset :: "order_dec \<Rightarrow> (order_dec \<Rightarrow> string \<Rightarrow> 'r option) \<Rightarrow> string \<Rightarrow> 'r option" where
  "decodePercentOffset od k =
     get_max_double (\<lambda>percentOffset.
     k (set_order (\<lambda>ord. ord\<lparr>o_percentOffset := percentOffset\<rparr>) od))"

definition decodeSettlingFirm :: "order_dec \<Rightarrow> (order_dec \<Rightarrow> string \<Rightarrow> 'r option) \<Rightarrow> string \<Rightarrow> 'r option" where
  "decodeSettlingFirm od k =
     get_text (\<lambda>settlingFirm.
     k (set_order (\<lambda>ord. ord\<lparr>o_settlingFirm := settlingFirm\<rparr>) od))"

section \<open>Special orders\<close>

definition decodeShortSaleParams :: "int \<Rightarrow> int \<Rightarrow> order_dec \<Rightarrow> (order_dec \<Rightarrow> string \<Rightarrow> 'r option) \<Rightarrow> string \<Rightarrow> 'r option" where
  "decodeShortSaleParams version v od k =
     get_int (\<lambda>shortSaleSlot. get_text (\<lambda>designatedLocation.
     when_read (v = 51) get_int 0 (\<lambda>skipped.
     when_read (v \<noteq> 51 \<and> version \<ge> 23) get_int (o_exemptCode (od_order od)) (\<lambda>exemptCode.
     k (set_order (\<lambda>ord. ord\<lparr>o_shortSaleSlot := shortSaleSlot, o_designatedLocation := designatedLocation, o_exemptCode := exemptCode\<rparr>) od)))))"

definition decodeAuctionStrategy :: "order_dec \<Rightarrow> (order_dec \<Rightarrow> string \<Rightarrow> 'r option) \<Rightarrow> string \<Rightarrow> 'r option" where
  "decodeAuctionStrategy od k =
     get_int (\<lambda>auctionStrategy.
     k (set_order (\<lambda>ord. ord\<lparr>o_auctionStrategy := auctionStrategy\<rparr>) od))"

definition decodeBoxOrderParams :: "order_dec \<Rightarrow> (order_dec \<Rightarrow> string \<Rightarrow> 'r option) \<Rightarrow> string \<Rightarrow> 'r option" where
  "decodeBoxOrderParams od k =
     get_max_double (\<lambda>startingPrice. get_max_double (\<lambda>stockRefPrice. get_max_double (\<lambda>delta.
     k (set_order (\<lambda>ord. ord\<lparr>o_startingPrice := startingPrice, o_stockRefPrice := stockRefPrice, o_delta := delta\<rparr>) od))))"

definition decodePegToStkOrVolOrderParams :: "order_dec \<Rightarrow> (order_dec \<Rightarrow> string \<Rightarrow> 'r option) \<Rightarrow> string \<Rightarrow> 'r option" where
  "decodePegToStkOrVolOrderParams od k =
     get_max_double (\<lambda>stockRangeLower. get_max_double (\<lambda>stockRangeUpper.
     k (set_order (\<lambda>ord. ord\<lparr>o_stockRangeLower := stockRangeLower, o_stockRangeUpper := stockRangeUpper\<rparr>) od)))"

definition decodeDisplaySize :: "order_dec \<Rightarrow> (order_dec \<Rightarrow> string \<Rightarrow> 'r option) \<Rightarrow> string \<Rightarrow> 'r option" where
  "decodeDisplaySize od k =
     get_max_int (\<lambda>displaySize.
     k (set_order (\<lambda>ord. ord\<lparr>o_displaySize := displaySize\<rparr>) od))"

definition decodeBlockOrder :: "order_dec \<Rightarrow> (order_dec \<Rightarrow> string \<Rightarrow> 'r option) \<Rightarrow> string \<Rightarrow> 'r option" where
  "decodeBlockOrder od k =
     get_bool (\<lambda>blockOrder. k (set_order (\<lambda>ord. ord\<lparr>o_blockOrder := blockOrder\<rparr>) od))"

definition decodeSweepToFill :: "order_dec \<Rightarrow> (order_dec \<Rightarrow> string \<Rightarrow> 'r option) \<Rightarrow> string \<Rightarrow> 'r option" where
  "decodeSweepToFill od k =
     get_bool (\<lambda>sweepToFill. k (set_order (\<lambda>ord. ord\<lparr>o_sweepToFill := sweepToFill\<rparr>) od))"

definition decodeAllOrNone :: "order_dec \<Rightarrow> (order_dec \<Rightarrow> string \<Rightarrow> 'r option) \<Rightarrow> string \<Rightarrow> 'r option" where
  "decodeAllOrNone od k =
     get_bool (\<lambda>allOrNone. k (set_order (\<lambda>ord. ord\<lparr>o_allOrNone := allOrNone\<rparr>) od))"

definition decodeMinQty :: "order_dec \<Rightarrow> (order_dec \<Rightarrow> string \<Rightarrow> 'r option) \<Rightarrow> string \<Rightarrow> 'r option" where
  "decodeMinQty od k =
     get_max_int (\<lambda>minQty. k (set_order (\<lambda>ord. ord\<lparr>o_minQty := minQty\<rparr>) od))"

definition decodeOcaType :: "order_dec \<Rightarrow> (order_dec \<Rightarrow> string \<Rightarrow> 'r option) \<Rightarrow> string \<Rightarrow> 'r option" where
  "decodeOcaType od k =
     get_int (\<lambda>ocaType. k (set_order (\<lambda>ord. ord\<lparr>o_ocaType := ocaType\<rparr>) od))"

definition skipETradeOnly :: "order_dec \<Rightarrow> (order_dec \<Rightarrow> string \<Rightarrow> 'r option) \<Rightarrow> string \<Rightarrow> 'r option" where
  "skipETradeOnly od k =
     get_bool (\<lambda>eTradeOnly. k od)"

definition skipFirmQuoteOnly :: "order_dec \<Rightarrow> (order_dec \<Rightarrow> string \<Rightarrow> 'r option) \<Rightarrow> string \<Rightarrow> 'r option" where
  "skipFirmQuoteOnly od k =
     get_bool (\<lambda>firmQuoteOnly. k od)"

definition skipNbboPriceCap :: "order_dec \<Rightarrow> (order_dec \<Rightarrow> string \<Rightarrow> 'r option) \<Rightarrow> string \<Rightarrow> 'r option" where
  "skipNbboPriceCap od k =
     get_max_double (\<lambda>nbboPriceCap. k od)"

definition decodeParentId :: "order_dec \<Rightarrow> (order_dec \<Rightarrow> string \<Rightarrow> 'r option) \<Rightarrow> string \<Rightarrow> 'r option" where
  "decodeParentId od k =
     get_long (\<lambda>parentId. k (set_order (\<lambda>ord. ord\<lparr>o_parentId := parentId\<rparr>) od))"

definition decodeTriggerMethod :: "order_dec \<Rightarrow> (order_dec \<Rightarrow> string \<Rightarrow> 'r option) \<Rightarrow> string \<Rightarrow> 'r option" where
  "decodeTriggerMethod od k =
     get_int (\<lambda>triggerMethod.
     k (set_order (\<lambda>ord. ord\<lparr>o_triggerMethod := triggerMethod\<rparr>) od))"

definition decodeVolOrderParams :: "bool \<Rightarrow> int \<Rightarrow> order_dec \<Rightarrow> (order_dec \<Rightarrow> string \<Rightarrow> 'r option) \<Rightarrow> string \<Rightarrow> 'r option" where
  "decodeVolOrderParams open_order version od k =
     get_max_double (\<lambda>volatility. get_int (\<lambda>volatilityType. get_text (\<lambda>deltaNeutralOrderType.
     get_max_double (\<lambda>deltaNeutralAuxPrice.
     when_read (version \<ge> 27 \<and> deltaNeutralOrderType \<noteq> []) get_long (o_deltaNeutralConId (od_order od)) (\<lambda>deltaNeutralConId.
     when_read (version \<ge> 27 \<and> deltaNeutralOrderType \<noteq> [] \<and> open_order) get_text (o_deltaNeutralSettlingFirm (od_order od)) (\<lambda>deltaNeutralSettlingFirm.
     when_read (version \<ge> 27 \<and> deltaNeutralOrderType \<noteq> [] \<and> open_order) get_text (o_deltaNeutralClearingAccount (od_order od)) (\<lambda>deltaNeutralClearingAccount.
     when_read (version \<ge> 27 \<and> deltaNeutralOrderType \<noteq> [] \<and> open_order) get_text (o_deltaNeutralClearingIntent (od_order od)) (\<lambda>deltaNeutralClearingIntent.
     when_read (version \<ge> 31 \<and> deltaNeutralOrderType \<noteq> [] \<and> open_order) get_text (o_deltaNeutralOpenClose (od_order od)) (\<lambda>deltaNeutralOpenClose.
     when_read (version \<ge> 31 \<and> deltaNeutralOrderType \<noteq> []) get_bool (o_deltaNeutralShortSale (od_order od)) (\<lambda>deltaNeutralShortSale.
     when_read (version \<ge> 31 \<and> deltaNeutralOrderType \<noteq> []) get_int (o_deltaNeutralShortSaleSlot (od_order od)) (\<lambda>deltaNeutralShortSaleSlot.
     when_read (version \<ge> 31 \<and> deltaNeutralOrderType \<noteq> []) get_text (o_deltaNeutralDesignatedLocation (od_order od)) (\<lambda>deltaNeutralDesignatedLocation.
     get_bool (\<lambda>continuousUpdate. get_int (\<lambda>referencePriceType.
     k (set_order (\<lambda>ord. ord\<lparr>o_volatility := volatility, o_volatilityType := volatilityType, o_deltaNeutralOrderType := deltaNeutralOrderType, o_deltaNeutralAuxPrice := deltaNeutralAuxPrice, o_deltaNeutralConId := deltaNeutralConId, o_deltaNeutralSettlingFirm := deltaNeutralSettlingFirm, o_deltaNeutralClearingAccount := deltaNeutralClearingAccount, o_deltaNeutralClearingIntent := deltaNeutralClearingIntent, o_deltaNeutralOpenClose := deltaNeutralOpenClose, o_deltaNeutralShortSale := deltaNeutralShortSale, o_deltaNeutralShortSaleSlot := deltaNeutralShortSaleSlot, o_deltaNeutralDesignatedLocation := deltaNeutralDesignatedLocation, o_continuousUpdate := continuousUpdate, o_referencePriceType := referencePriceType\<rparr>) od)))))))))))))))"

definition decodeTrailParams :: "int \<Rightarrow> order_dec \<Rightarrow> (order_dec \<Rightarrow> string \<Rightarrow> 'r option) \<Rightarrow> string \<Rightarrow> 'r option" where
  "decodeTrailParams version od k =
     get_max_double (\<lambda>trailStopPrice.
     when_read (version \<ge> 30) get_max_double (o_trailingPercent (od_order od)) (\<lambda>trailingPercent.
     k (set_order (\<lambda>ord. ord\<lparr>o_trailStopPrice := trailStopPrice, o_trailingPercent := trailingPercent\<rparr>) od)))"

definition decodeBasisPoints :: "order_dec \<Rightarrow> (order_dec \<Rightarrow> string \<Rightarrow> 'r option) \<Rightarrow> string \<Rightarrow> 'r option" where
  "decodeBasisPoints od k =
     get_max_double (\<lambda>basisPoints. get_max_int (\<lambda>basisPointsType.
     k (set_order (\<lambda>ord. ord\<lparr>o_basisPoints := basisPoints, o_basisPointsType := basisPointsType\<rparr>) od)))"

definition get_leg :: "(combo_leg \<Rightarrow> string \<Rightarrow> 'r option) \<Rightarrow> string \<Rightarrow> 'r option" where
  "get_leg k = get_long (\<lambda>conId. get_long (\<lambda>ratio. get_text (\<lambda>action. get_text (\<lambda>exchange. get_long (\<lambda>openClose.
     get_long (\<lambda>shortSaleSlot. get_text (\<lambda>designatedLocation. get_int (\<lambda>exemptCode.
       k \<lparr>l_conId = conId, l_ratio = ratio, l_action = action, l_exchange = exchange, l_openClose = openClose,
          l_shortSaleSlot = shortSaleSlot, l_designatedLocation = designatedLocation, l_exemptCode = exemptCode\<rparr>))))))))"

definition decodeComboLegs :: "int \<Rightarrow> order_dec \<Rightarrow> (order_dec \<Rightarrow> string \<Rightarrow> 'r option) \<Rightarrow> string \<Rightarrow> 'r option" where
  "decodeComboLegs version od k =
     get_text (\<lambda>descrip. when_read (version \<ge> 29) get_int 0 (\<lambda>n.
     get_list (nat n) get_leg (\<lambda>legs. when_read (version \<ge> 29) get_int 0 (\<lambda>m.
     get_list (nat m) get_max_double (\<lambda>prices.
     k (set_order (\<lambda>ord. ord\<lparr>o_orderComboLegs := prices\<rparr>)
       (set_contract (\<lambda>c. c\<lparr>c_comboLegsDescrip := descrip, c_comboLegs := legs\<rparr>) od)))))))"

definition decodeSmartComboRoutingParams :: "int \<Rightarrow> order_dec \<Rightarrow> (order_dec \<Rightarrow> string \<Rightarrow> 'r option) \<Rightarrow> string \<Rightarrow> 'r option" where
  "decodeSmartComboRoutingParams version od k =
     when_read (version \<ge> 26) get_tag_values [] (\<lambda>params.
     k (set_order (\<lambda>ord. ord\<lparr>o_smartComboRoutingParams := params\<rparr>) od))"

definition decodeScaleOrderParams :: "int \<Rightarrow> order_dec \<Rightarrow> (order_dec \<Rightarrow> string \<Rightarrow> 'r option) \<Rightarrow> string \<Rightarrow> 'r option" where
  "decodeScaleOrderParams version od k =
     when_read (version < 20) get_max_int 0 (\<lambda>notSuppScaleNumComponents.
     get_max_int (\<lambda>scaleInitLevelSize.
     when_read (version \<ge> 20) get_max_int (o_scaleSubsLevelSize (od_order od)) (\<lambda>scaleSubsLevelSize.
     get_max_double (\<lambda>scalePriceIncrement.
     when_read (version \<ge> 28 \<and> dlt 0 scalePriceIncrement \<and> is_set_double scalePriceIncrement) get_max_double (o_scalePriceAdjustValue (od_order od)) (\<lambda>scalePriceAdjustValue.
     when_read (version \<ge> 28 \<and> dlt 0 scalePriceIncrement \<and> is_set_double scalePriceIncrement) get_max_int (o_scalePriceAdjustInterval (od_order od)) (\<lambda>scalePriceAdjustInterval.
     when_read (version \<ge> 28 \<and> dlt 0 scalePriceIncrement \<and> is_set_double scalePriceIncrement) get_max_double (o_scaleProfitOffset (od_order od)) (\<lambda>scaleProfitOffset.
     when_read (version \<ge> 28 \<and> dlt 0 scalePriceIncrement \<and> is_set_double scalePriceIncrement) get_bool (o_scaleAutoReset (od_order od)) (\<lambda>scaleAutoReset.
     when_read (version \<ge> 28 \<and> dlt 0 scalePriceIncrement \<and> is_set_double scalePriceIncrement) get_max_int (o_scaleInitPosition (od_order od)) (\<lambda>scaleInitPosition.
     when_read (version \<ge> 28 \<and> dlt 0 scalePriceIncrement \<and> is_set_double scalePriceIncrement) get_max_int (o_scaleInitFillQty (od_order od)) (\<lambda>scaleInitFillQty.
     when_read (version \<ge> 28 \<and> dlt 0 scalePriceIncrement \<and> is_set_double scalePriceIncrement) get_bool (o_scaleRandomPercent (od_order od)) (\<lambda>scaleRandomPercent.
     k (set_order (\<lambda>ord. ord\<lparr>o_scaleInitLevelSize := scaleInitLevelSize, o_scaleSubsLevelSize := scaleSubsLevelSize, o_scalePriceIncrement := scalePriceIncrement, o_scalePriceAdjustValue := scalePriceAdjustValue, o_scalePriceAdjustInterval := scalePriceAdjustInterval, o_scaleProfitOffset := scaleProfitOffset, o_scaleAutoReset := scaleAutoReset, o_scaleInitPosition := scaleInitPosition, o_scaleInitFillQty := scaleInitFillQty, o_scaleRandomPercent := scaleRandomPercent\<rparr>) od))))))))))))"

definition decodeHedgeParams :: "int \<Rightarrow> order_dec \<Rightarrow> (order_dec \<Rightarrow> string \<Rightarrow> 'r option) \<Rightarrow> string \<Rightarrow> 'r option" where
  "decodeHedgeParams version od k =
     when_read (version \<ge> 24) get_text (o_hedgeType (od_order od)) (\<lambda>hedgeType.
     when_read (version \<ge> 24 \<and> hedgeType \<noteq> []) get_text (o_hedgeParam (od_order od)) (\<lambda>hedgeParam.
     k (set_order (\<lambda>ord. ord\<lparr>o_hedgeType := hedgeType, o_hedgeParam := hedgeParam\<rparr>) od)))"

definition decodeOptOutSmartRouting :: "int \<Rightarrow> order_dec \<Rightarrow> (order_dec \<Rightarrow> string \<Rightarrow> 'r option) \<Rightarrow> string \<Rightarrow> 'r option" where
  "decodeOptOutSmartRouting version od k =
     when_read (version \<ge> 25) get_bool (o_optOutSmartRouting (od_order od)) (\<lambda>optOutSmartRouting.
     k (set_order (\<lambda>ord. ord\<lparr>o_optOutSmartRouting := optOutSmartRouting\<rparr>) od))"

definition decodeClearingParams :: "order_dec \<Rightarrow> (order_dec \<Rightarrow> string \<Rightarrow> 'r option) \<Rightarrow> string \<Rightarrow> 'r option" where
  "decodeClearingParams od k =
     get_text (\<lambda>clearingAccount. get_text (\<lambda>clearingIntent.
     k (set_order (\<lambda>ord. ord\<lparr>o_clearingAccount := clearingAccount, o_clearingIntent := clearingIntent\<rparr>) od)))"

definition decodeNotHeld :: "int \<Rightarrow> order_dec \<Rightarrow> (order_dec \<Rightarrow> string \<Rightarrow> 'r option) \<Rightarrow> string \<Rightarrow> 'r option" where
  "decodeNotHeld version od k =
     when_read (version \<ge> 22) get_bool (o_notHeld (od_order od)) (\<lambda>notHeld.
     k (set_order (\<lambda>ord. ord\<lparr>o_notHeld := notHeld\<rparr>) od))"

text \<open>
  The contract keeps a pointer to a variable of the function, which is gone when the function returns; the
  value it had is what stands here, and no code of the program follows the pointer.
\<close>

definition decodeDeltaNeutral :: "int \<Rightarrow> order_dec \<Rightarrow> (order_dec \<Rightarrow> string \<Rightarrow> 'r option) \<Rightarrow> string \<Rightarrow> 'r option" where
  "decodeDeltaNeutral version od k =
     when_read (version \<ge> 20) get_bool False (\<lambda>present.
     if present then get_long (\<lambda>conId. get_double (\<lambda>delta. get_double (\<lambda>price.
        k (set_contract (\<lambda>c. c\<lparr>c_deltaNeutralContract := Some \<lparr>n_conId = conId, n_delta = delta, n_price = price\<rparr>\<rparr>) od))))
     else k od)"

definition decodeAlgoParams :: "int \<Rightarrow> order_dec \<Rightarrow> (order_dec \<Rightarrow> string \<Rightarrow> 'r option) \<Rightarrow> string \<Rightarrow> 'r option" where
  "decodeAlgoParams version od k =
     when_read (version \<ge> 21) get_text (o_algoStrategy (od_order od)) (\<lambda>algoStrategy.
     when_read (version \<ge> 21 \<and> algoStrategy \<noteq> []) get_tag_values [] (\<lambda>params.
     k (set_order (\<lambda>ord. ord\<lparr>o_algoStrategy := algoStrategy, o_algoParams := params\<rparr>) od)))"

definition decodeSolicited :: "int \<Rightarrow> order_dec \<Rightarrow> (order_dec \<Rightarrow> string \<Rightarrow> 'r option) \<Rightarrow> string \<Rightarrow> 'r option" where
  "decodeSolicited version od k =
     when_read (version \<ge> 33) get_bool (o_solicited (od_order od)) (\<lambda>solicited.
     k (set_order (\<lambda>ord. ord\<lparr>o_solicited := solicited\<rparr>) od))"

section \<open>State of the order\<close>

definition decodeOrderStatus :: "order_dec \<Rightarrow> (order_dec \<Rightarrow> string \<Rightarrow> 'r option) \<Rightarrow> string \<Rightarrow> 'r option" where
  "decodeOrderStatus od k =
     get_text (\<lambda>status. k (set_state (\<lambda>st. st\<lparr>st_status := status\<rparr>) od))"

text \<open>
  The result of reading the status is not looked at; when the status is cut off, so is what follows it.
\<close>

definition decodeWhatIfInfoAndCommission :: "int \<Rightarrow> order_dec \<Rightarrow> (order_dec \<Rightarrow> string \<Rightarrow> 'r option) \<Rightarrow> string \<Rightarrow> 'r option" where
  "decodeWhatIfInfoAndCommission v od k =
     get_bool (\<lambda>whatIf.
     decodeOrderStatus (set_order (\<lambda>ord. ord\<lparr>o_whatIf := whatIf\<rparr>) od) (\<lambda>od.
     when_read (v \<ge> 142) get_text [] (\<lambda>initMarginBefore.
     when_read (v \<ge> 142) get_text [] (\<lambda>maintMarginBefore.
     when_read (v \<ge> 142) get_text [] (\<lambda>equityWithLoanBefore.
     when_read (v \<ge> 142) get_text [] (\<lambda>initMarginChange.
     when_read (v \<ge> 142) get_text [] (\<lambda>maintMarginChange.
     when_read (v \<ge> 142) get_text [] (\<lambda>equityWithLoanChange. get_text (\<lambda>initMarginAfter.
     get_text (\<lambda>maintMarginAfter. get_text (\<lambda>equityWithLoanAfter. get_max_double (\<lambda>commission.
     get_max_double (\<lambda>minCommission. get_max_double (\<lambda>maxCommission.
     get_text (\<lambda>commissionCurrency. get_text (\<lambda>warningText.
     k (set_state (\<lambda>st. st\<lparr>st_initMarginBefore := initMarginBefore, st_maintMarginBefore := maintMarginBefore, st_equityWithLoanBefore := equityWithLoanBefore,
       st_initMarginChange := initMarginChange, st_maintMarginChange := maintMarginChange, st_equityWithLoanChange := equityWithLoanChange,
       st_initMarginAfter := initMarginAfter, st_maintMarginAfter := maintMarginAfter, st_equityWithLoanAfter := equityWithLoanAfter,
       st_commission := commission, st_minCommission := minCommission, st_maxCommission := maxCommission, st_commissionCurrency := commissionCurrency, st_warningText := warningText\<rparr>) od)))))))))))))))))"

definition decodeVolRandomizeFlags :: "int \<Rightarrow> order_dec \<Rightarrow> (order_dec \<Rightarrow> string \<Rightarrow> 'r option) \<Rightarrow> string \<Rightarrow> 'r option" where
  "decodeVolRandomizeFlags version od k =
     when_read (version \<ge> 34) get_bool (o_randomizeSize (od_order od)) (\<lambda>randomizeSize.
     when_read (version \<ge> 34) get_bool (o_randomizePrice (od_order od)) (\<lambda>randomizePrice.
     k (set_order (\<lambda>ord. ord\<lparr>o_randomizeSize := randomizeSize, o_randomizePrice := randomizePrice\<rparr>) od)))"

definition decodePegBenchParams :: "int \<Rightarrow> order_dec \<Rightarrow> (order_dec \<Rightarrow> string \<Rightarrow> 'r option) \<Rightarrow> string \<Rightarrow> 'r option" where
  "decodePegBenchParams v od k =
     when_read (v \<ge> 102 \<and> o_orderType (od_order od) = ''PEG BENCH'') get_int (o_referenceContractId (od_order od)) (\<lambda>referenceContractId.
     when_read (v \<ge> 102 \<and> o_orderType (od_order od) = ''PEG BENCH'') get_bool (o_isPeggedChangeAmountDecrease (od_order od)) (\<lambda>isPeggedChangeAmountDecrease.
     when_read (v \<ge> 102 \<and> o_orderType (od_order od) = ''PEG BENCH'') get_double (o_peggedChangeAmount (od_order od)) (\<lambda>peggedChangeAmount.
     when_read (v \<ge> 102 \<and> o_orderType (od_order od) = ''PEG BENCH'') get_double (o_referenceChangeAmount (od_order od)) (\<lambda>referenceChangeAmount.
     when_read (v \<ge> 102 \<and> o_orderType (od_order od) = ''PEG BENCH'') get_text (o_referenceExchangeId (od_order od)) (\<lambda>referenceExchangeId.
     k (set_order (\<lambda>ord. ord\<lparr>o_referenceContractId := referenceContractId, o_isPeggedChangeAmountDecrease := isPeggedChangeAmountDecrease, o_peggedChangeAmount := peggedChangeAmount, o_referenceChangeAmount := referenceChangeAmount, o_referenceExchangeId := referenceExchangeId\<rparr>) od))))))"

definition decodeConditions :: "decode_env \<Rightarrow> int \<Rightarrow> order_dec \<Rightarrow> (order_dec \<Rightarrow> string \<Rightarrow> decoded) \<Rightarrow> string \<Rightarrow> decoded" where
  "decodeConditions env v od k =
     when_read (v \<ge> 102) get_int 0 (\<lambda>n.
       if n > 0 then get_list (nat n) (\<lambda>c. get_int (\<lambda>t. readExternal env t c)) (\<lambda>conditions.
         get_bool (\<lambda>ignoreRth. get_bool (\<lambda>cancelOrder. k (set_order (\<lambda>ord. ord\<lparr>o_conditions := o_conditions ord @ conditions,
           o_conditionsCancelOrder := cancelOrder, o_conditionsIgnoreRth := ignoreRth\<rparr>) od))))
       else k od)"

definition decodeStopPriceAndLmtPriceOffset :: "order_dec \<Rightarrow> (order_dec \<Rightarrow> string \<Rightarrow> 'r option) \<Rightarrow> string \<Rightarrow> 'r option" where
  "decodeStopPriceAndLmtPriceOffset od k =
     get_double (\<lambda>trailStopPrice. get_double (\<lambda>lmtPriceOffset.
     k (set_order (\<lambda>ord. ord\<lparr>o_trailStopPrice := trailStopPrice, o_lmtPriceOffset := lmtPriceOffset\<rparr>) od)))"

definition decodeAdjustedOrderParams :: "int \<Rightarrow> order_dec \<Rightarrow> (order_dec \<Rightarrow> string \<Rightarrow> 'r option) \<Rightarrow> string \<Rightarrow> 'r option" where
  "decodeAdjustedOrderParams v od k =
     (if v \<ge> 102 then get_text (\<lambda>adjustedOrderType. get_double (\<lambda>triggerPrice.
        decodeStopPriceAndLmtPriceOffset od (\<lambda>od. get_double (\<lambda>adjustedStopPrice. get_double (\<lambda>adjustedStopLimitPrice.
        get_double (\<lambda>adjustedTrailingAmount. get_int (\<lambda>adjustableTrailingUnit.
        k (set_order (\<lambda>ord. ord\<lparr>o_adjustedOrderType := adjustedOrderType, o_triggerPrice := triggerPrice,
          o_adjustedStopPrice := adjustedStopPrice, o_adjustedStopLimitPrice := adjustedStopLimitPrice,
          o_adjustedTrailingAmount := adjustedTrailingAmount, o_adjustableTrailingUnit := adjustableTrailingUnit\<rparr>) od))))))))
      else k od)"

definition decodeSoftDollarTier :: "int \<Rightarrow> order_dec \<Rightarrow> (order_dec \<Rightarrow> string \<Rightarrow> 'r option) \<Rightarrow> string \<Rightarrow> 'r option" where
  "decodeSoftDollarTier v od k =
     (if v \<ge> 106 then get_text (\<lambda>name. get_text (\<lambda>val. get_text (\<lambda>displayName.
        k (set_order (\<lambda>ord. ord\<lparr>o_softDollarTier := (name, val, displayName)\<rparr>) od))))
      else k od)"

definition decodeCashQty :: "int \<Rightarrow> order_dec \<Rightarrow> (order_dec \<Rightarrow> string \<Rightarrow> 'r option) \<Rightarrow> string \<Rightarrow> 'r option" where
  "decodeCashQty v od k =
     when_read (v \<ge> 111) get_max_double (o_cashQty (od_order od)) (\<lambda>cashQty.
     k (set_order (\<lambda>ord. ord\<lparr>o_cashQty := cashQty\<rparr>) od))"

definition decodeDontUseAutoPriceForHedge :: "int \<Rightarrow> order_dec \<Rightarrow> (order_dec \<Rightarrow> string \<Rightarrow> 'r option) \<Rightarrow> string \<Rightarrow> 'r option" where
  "decodeDontUseAutoPriceForHedge v od k =
     when_read (v \<ge> 141) get_bool (o_dontUseAutoPriceForHedge (od_order od)) (\<lambda>dontUseAutoPriceForHedge.
     k (set_order (\<lambda>ord. ord\<lparr>o_dontUseAutoPriceForHedge := dontUseAutoPriceForHedge\<rparr>) od))"

definition decodeIsOmsContainer :: "int \<Rightarrow> order_dec \<Rightarrow> (order_dec \<Rightarrow> string \<Rightarrow> 'r option) \<Rightarrow> string \<Rightarrow> 'r option" where
  "decodeIsOmsContainer v od k =
     when_read (v \<ge> 145) get_bool (o_isOmsContainer (od_order od)) (\<lambda>isOmsContainer.
     k (set_order (\<lambda>ord. ord\<lparr>o_isOmsContainer := isOmsContainer\<rparr>) od))"

definition decodeDiscretionaryUpToLimitPrice :: "int \<Rightarrow> order_dec \<Rightarrow> (order_dec \<Rightarrow> string \<Rightarrow> 'r option) \<Rightarrow> string \<Rightarrow> 'r option" where
  "decodeDiscretionaryUpToLimitPrice v od k =
     when_read (v \<ge> 148) get_bool (o_discretionaryUpToLimitPrice (od_order od)) (\<lambda>discretionaryUpToLimitPrice.
     k (set_order (\<lambda>ord. ord\<lparr>o_discretionaryUpToLimitPrice := discretionaryUpToLimitPrice\<rparr>) od))"

section \<open>Completed orders\<close>

definition decodeAutoCancelDate :: "order_dec \<Rightarrow> (order_dec \<Rightarrow> string \<Rightarrow> 'r option) \<Rightarrow> string \<Rightarrow> 'r option" where
  "decodeAutoCancelDate od k =
     get_text (\<lambda>autoCancelDate.
     k (set_order (\<lambda>ord. ord\<lparr>o_autoCancelDate := autoCancelDate\<rparr>) od))"

definition decodeFilledQuantity :: "decode_env \<Rightarrow> order_dec \<Rightarrow> (order_dec \<Rightarrow> string \<Rightarrow> 'r option) \<Rightarrow> string \<Rightarrow> 'r option" where
  "decodeFilledQuantity env od k =
     get_decimal (de_decimal env) (\<lambda>filledQuantity.
     k (set_order (\<lambda>ord. ord\<lparr>o_filledQuantity := filledQuantity\<rparr>) od))"

definition decodeRefFuturesConId :: "order_dec \<Rightarrow> (order_dec \<Rightarrow> string \<Rightarrow> 'r option) \<Rightarrow> string \<Rightarrow> 'r option" where
  "decodeRefFuturesConId od k =
     get_int (\<lambda>refFuturesConId.
     k (set_order (\<lambda>ord. ord\<lparr>o_refFuturesConId := refFuturesConId\<rparr>) od))"

definition decodeAutoCancelParent :: "int \<Rightarrow> int \<Rightarrow> order_dec \<Rightarrow> (order_dec \<Rightarrow> string \<Rightarrow> 'r option) \<Rightarrow> string \<Rightarrow> 'r option" where
  "decodeAutoCancelParent least version od k =
     when_read (version \<ge> least) get_bool (o_autoCancelParent (od_order od)) (\<lambda>autoCancelParent.
     k (set_order (\<lambda>ord. ord\<lparr>o_autoCancelParent := autoCancelParent\<rparr>) od))"

definition decodeShareholder :: "order_dec \<Rightarrow> (order_dec \<Rightarrow> string \<Rightarrow> 'r option) \<Rightarrow> string \<Rightarrow> 'r option" where
  "decodeShareholder od k =
     get_text (\<lambda>shareholder. k (set_order (\<lambda>ord. ord\<lparr>o_shareholder := shareholder\<rparr>) od))"

definition decodeImbalanceOnly :: "order_dec \<Rightarrow> (order_dec \<Rightarrow> string \<Rightarrow> 'r option) \<Rightarrow> string \<Rightarrow> 'r option" where
  "decodeImbalanceOnly od k =
     get_bool (\<lambda>imbalanceOnly.
     k (set_order (\<lambda>ord. ord\<lparr>o_imbalanceOnly := imbalanceOnly\<rparr>) od))"

definition decodeRouteMarketableToBbo :: "order_dec \<Rightarrow> (order_dec \<Rightarrow> string \<Rightarrow> 'r option) \<Rightarrow> string \<Rightarrow> 'r option" where
  "decodeRouteMarketableToBbo od k =
     get_bool (\<lambda>routeMarketableToBbo.
     k (set_order (\<lambda>ord. ord\<lparr>o_routeMarketableToBbo := routeMarketableToBbo\<rparr>) od))"

definition decodeParentPermId :: "order_dec \<Rightarrow> (order_dec \<Rightarrow> string \<Rightarrow> 'r option) \<Rightarrow> string \<Rightarrow> 'r option" where
  "decodeParentPermId od k =
     get_long (\<lambda>parentPermId.
     k (set_order (\<lambda>ord. ord\<lparr>o_parentPermId := parentPermId\<rparr>) od))"

definition decodeCompletedTime :: "order_dec \<Rightarrow> (order_dec \<Rightarrow> string \<Rightarrow> 'r option) \<Rightarrow> string \<Rightarrow> 'r option" where
  "decodeCompletedTime od k =
     get_text (\<lambda>completedTime.
     k (set_state (\<lambda>st. st\<lparr>st_completedTime := completedTime\<rparr>) od))"

definition decodeCompletedStatus :: "order_dec \<Rightarrow> (order_dec \<Rightarrow> string \<Rightarrow> 'r option) \<Rightarrow> string \<Rightarrow> 'r option" where
  "decodeCompletedStatus od k =
     get_text (\<lambda>completedStatus.
     k (set_state (\<lambda>st. st\<lparr>st_completedStatus := completedStatus\<rparr>) od))"

definition decodeUsePriceMgmtAlgo :: "int \<Rightarrow> order_dec \<Rightarrow> (order_dec \<Rightarrow> string \<Rightarrow> 'r option) \<Rightarrow> string \<Rightarrow> 'r option" where
  "decodeUsePriceMgmtAlgo v od k =
     when_read (v \<ge> 151) get_int (o_usePriceMgmtAlgo (od_order od)) (\<lambda>usePriceMgmtAlgo.
     k (set_order (\<lambda>ord. ord\<lparr>o_usePriceMgmtAlgo := usePriceMgmtAlgo\<rparr>) od))"

definition decodeDuration :: "int \<Rightarrow> order_dec \<Rightarrow> (order_dec \<Rightarrow> string \<Rightarrow> 'r option) \<Rightarrow> string \<Rightarrow> 'r option" where
  "decodeDuration v od k =
     when_read (v \<ge> 158) get_int (o_duration (od_order od)) (\<lambda>duration.
     k (set_order (\<lambda>ord. ord\<lparr>o_duration := duration\<rparr>) od))"

definition decodePostToAts :: "int \<Rightarrow> order_dec \<Rightarrow> (order_dec \<Rightarrow> string \<Rightarrow> 'r option) \<Rightarrow> string \<Rightarrow> 'r option" where
  "decodePostToAts v od k =
     when_read (v \<ge> 160) get_int (o_postToAts (od_order od)) (\<lambda>postToAts.
     k (set_order (\<lambda>ord. ord\<lparr>o_postToAts := postToAts\<rparr>) od))"

definition decodePegBestPegMidOrderAttributes :: "int \<Rightarrow> order_dec \<Rightarrow> (order_dec \<Rightarrow> string \<Rightarrow> 'r option) \<Rightarrow> string \<Rightarrow> 'r option" where
  "decodePegBestPegMidOrderAttributes v od k =
     when_read (v \<ge> 170) get_int (o_minTradeQty (od_order od)) (\<lambda>minTradeQty.
     when_read (v \<ge> 170) get_int (o_minCompeteSize (od_order od)) (\<lambda>minCompeteSize.
     when_read (v \<ge> 170) get_double (o_competeAgainstBestOffset (od_order od)) (\<lambda>competeAgainstBestOffset.
     when_read (v \<ge> 170) get_double (o_midOffsetAtWhole (od_order od)) (\<lambda>midOffsetAtWhole.
     when_read (v \<ge> 170) get_double (o_midOffsetAtHalf (od_order od)) (\<lambda>midOffsetAtHalf.
     k (set_order (\<lambda>ord. ord\<lparr>o_minTradeQty := minTradeQty, o_minCompeteSize := minCompeteSize, o_competeAgainstBestOffset := competeAgainstBestOffset, o_midOffsetAtWhole := midOffsetAtWhole, o_midOffsetAtHalf := midOffsetAtHalf\<rparr>) od))))))"

section \<open>Messages\<close>

definition open_order_steps :: "decode_env \<Rightarrow> int \<Rightarrow> int
    \<Rightarrow> (order_dec \<Rightarrow> (order_dec \<Rightarrow> string \<Rightarrow> decoded) \<Rightarrow> string \<Rightarrow> decoded) list" where
  "open_order_steps env version v =
     [decodeOrderId, decodeContract version, decodeAction, decodeTotalQuantity env, decodeOrderType,
      decodeLmtPrice version, decodeAuxPrice version, decodeTIF, decodeOcaGroup, decodeAccount, decodeOpenClose,
      decodeOrigin, decodeOrderRef, decodeClientId, decodePermId, decodeOutsideRth, decodeHidden,
      decodeDiscretionaryAmount, decodeGoodAfterTime, skipSharesAllocation, decodeFAParams, decodeModelCode v,
      decodeGoodTillDate, decodeRule80A, decodePercentOffset, decodeSettlingFirm, decodeShortSaleParams version v,
      decodeAuctionStrategy, decodeBoxOrderParams, decodePegToStkOrVolOrderParams, decodeDisplaySize,
      decodeBlockOrder, decodeSweepToFill, decodeAllOrNone, decodeMinQty, decodeOcaType, skipETradeOnly,
      skipFirmQuoteOnly, skipNbboPriceCap, decodeParentId, decodeTriggerMethod, decodeVolOrderParams True version,
      decodeTrailParams version, decodeBasisPoints, decodeComboLegs version, decodeSmartComboRoutingParams version,
      decodeScaleOrderParams version, decodeHedgeParams version, decodeOptOutSmartRouting version,
      decodeClearingParams, decodeNotHeld version, decodeDeltaNeutral version, decodeAlgoParams version,
      decodeSolicited version, decodeWhatIfInfoAndCommission v, decodeVolRandomizeFlags version,
      decodePegBenchParams v, decodeConditions env v, decodeAdjustedOrderParams v, decodeSoftDollarTier v,
      decodeCashQty v, decodeDontUseAutoPriceForHedge v, decodeIsOmsContainer v, decodeDiscretionaryUpToLimitPrice v,
      decodeUsePriceMgmtAlgo v, decodeDuration v, decodePostToAts v, decodeAutoCancelParent 162 version,
      decodePegBestPegMidOrderAttributes v]"

definition completed_order_steps :: "decode_env \<Rightarrow> int \<Rightarrow> int
    \<Rightarrow> (order_dec \<Rightarrow> (order_dec \<Rightarrow> string \<Rightarrow> decoded) \<Rightarrow> string \<Rightarrow> decoded) list" where
  "completed_order_steps env version v =
     [decodeContract version, decodeAction, decodeTotalQuantity env, decodeOrderType, decodeLmtPrice version,
      decodeAuxPrice version, decodeTIF, decodeOcaGroup, decodeAccount, decodeOpenClose, decodeOrigin,
      decodeOrderRef, decodePermId, decodeOutsideRth, decodeHidden, decodeDiscretionaryAmount, decodeGoodAfterTime,
      decodeFAParams, decodeModelCode v, decodeGoodTillDate, decodeRule80A, decodePercentOffset, decodeSettlingFirm,
      decodeShortSaleParams version v, decodeBoxOrderParams, decodePegToStkOrVolOrderParams, decodeDisplaySize,
      decodeSweepToFill, decodeAllOrNone, decodeMinQty, decodeOcaType, decodeTriggerMethod,
      decodeVolOrderParams False version, decodeTrailParams version, decodeComboLegs version,
      decodeSmartComboRoutingParams version, decodeScaleOrderParams version, decodeHedgeParams version,
      decodeClearingParams, decodeNotHeld version, decodeDeltaNeutral version, decodeAlgoParams version,
      decodeSolicited version, decodeOrderStatus, decodeVolRandomizeFlags version, decodePegBenchParams v,
      decodeConditions env v, decodeStopPriceAndLmtPriceOffset, decodeCashQty v, decodeDontUseAutoPriceForHedge v,
      decodeIsOmsContainer v, decodeAutoCancelDate, decodeFilledQuantity env, decodeRefFuturesConId,
      decodeAutoCancelParent 100 version, decodeShareholder, decodeImbalanceOnly, decodeRouteMarketableToBbo,
      decodeParentPermId, decodeCompletedTime, decodeCompletedStatus, decodePegBestPegMidOrderAttributes v]"

definition processOpenOrderMsg :: "decode_env \<Rightarrow> int \<Rightarrow> string \<Rightarrow> decoded" where
  "processOpenOrderMsg env v = when_read (v < 145) get_int v (\<lambda>version.
     run_steps (open_order_steps env version v) od_init (\<lambda>od.
       calls [W_openOrder (o_orderId (od_order od)) (od_contract od) (od_order od) (od_state od)]))"

definition processCompletedOrderMsg :: "decode_env \<Rightarrow> int \<Rightarrow> string \<Rightarrow> decoded" where
  "processCompletedOrderMsg env v =
     run_steps (completed_order_steps env UnsetInt v) od_init (\<lambda>od.
       calls [W_trade (T_completedOrder (od_contract od) (od_order od) (od_state od))])"

section \<open>What the decoders read\<close>

lemma reads_condition [reads_rules]: "(\<And>c. reads (k c)) \<Longrightarrow> reads (readExternal env t k)"
  by (auto simp: readExternal_def read_contract_def read_operator_def read_condition_def intro!: reads_rules)

lemma reader_leg [reads_rules]: "reader get_leg"
  by (auto simp: get_leg_def intro!: readerI reads_rules)

lemma reader_steps_0: "reader (decodeOrderStatus od)" "reader (decodeStopPriceAndLmtPriceOffset od)"
  by (auto simp: decodeOrderStatus_def decodeStopPriceAndLmtPriceOffset_def intro!: readerI reads_rules)

lemma reader_steps_1 [reads_rules]:
  "reader (decodeOrderId od)"
  "reader (decodeContract version od)"
  "reader (decodeAction od)"
  "reader (decodeTotalQuantity env od)"
  "reader (decodeOrderType od)"
  "reader (decodeLmtPrice version od)"
  "reader (decodeAuxPrice version od)"
  "reader (decodeTIF od)"
  "reader (decodeOcaGroup od)"
  "reader (decodeAccount od)"
  "reader (decodeOpenClose od)"
  "reader (decodeOrigin od)"
  "reader (decodeOrderRef od)"
  "reader (decodeClientId od)"
  "reader (decodePermId od)"
  by (auto simp: decodeOrderId_def decodeContract_def decodeAction_def decodeTotalQuantity_def decodeOrderType_def
      decodeLmtPrice_def decodeAuxPrice_def decodeTIF_def decodeOcaGroup_def decodeAccount_def decodeOpenClose_def
      decodeOrigin_def decodeOrderRef_def decodeClientId_def decodePermId_def 
      intro!: readerI reads_rules reader_steps_0 [THEN readerD])+

lemma reader_steps_2 [reads_rules]:
  "reader (decodeOutsideRth od)"
  "reader (decodeHidden od)"
  "reader (decodeDiscretionaryAmount od)"
  "reader (decodeGoodAfterTime od)"
  "reader (skipSharesAllocation od)"
  "reader (decodeFAParams od)"
  "reader (decodeModelCode v od)"
  "reader (decodeGoodTillDate od)"
  "reader (decodeRule80A od)"
  "reader (decodePercentOffset od)"
  "reader (decodeSettlingFirm od)"
  "reader (decodeShortSaleParams version v od)"
  "reader (decodeAuctionStrategy od)"
  "reader (decodeBoxOrderParams od)"
  "reader (decodePegToStkOrVolOrderParams od)"
  by (auto simp: decodeOutsideRth_def decodeHidden_def decodeDiscretionaryAmount_def decodeGoodAfterTime_def
      skipSharesAllocation_def decodeFAParams_def decodeModelCode_def decodeGoodTillDate_def decodeRule80A_def
      decodePercentOffset_def decodeSettlingFirm_def decodeShortSaleParams_def decodeAuctionStrategy_def
      decodeBoxOrderParams_def decodePegToStkOrVolOrderParams_def 
      intro!: readerI reads_rules reader_steps_0 [THEN readerD])+

lemma reader_steps_3 [reads_rules]:
  "reader (decodeDisplaySize od)"
  "reader (decodeBlockOrder od)"
  "reader (decodeSweepToFill od)"
  "reader (decodeAllOrNone od)"
  "reader (decodeMinQty od)"
  "reader (decodeOcaType od)"
  "reader (skipETradeOnly od)"
  "reader (skipFirmQuoteOnly od)"
  "reader (skipNbboPriceCap od)"
  "reader (decodeParentId od)"
  "reader (decodeTriggerMethod od)"
  "reader (decodeVolOrderParams open_order version od)"
  "reader (decodeTrailParams version od)"
  "reader (decodeBasisPoints od)"
  "reader (decodeComboLegs version od)"
  by (auto simp: decodeDisplaySize_def decodeBlockOrder_def decodeSweepToFill_def decodeAllOrNone_def
      decodeMinQty_def decodeOcaType_def skipETradeOnly_def skipFirmQuoteOnly_def skipNbboPriceCap_def
      decodeParentId_def decodeTriggerMethod_def decodeVolOrderParams_def decodeTrailParams_def
      decodeBasisPoints_def decodeComboLegs_def 
      intro!: readerI reads_rules reader_steps_0 [THEN readerD])+

lemma reader_steps_4 [reads_rules]:
  "reader (decodeSmartComboRoutingParams version od)"
  "reader (decodeScaleOrderParams version od)"
  "reader (decodeHedgeParams version od)"
  "reader (decodeOptOutSmartRouting version od)"
  "reader (decodeClearingParams od)"
  "reader (decodeNotHeld version od)"
  "reader (decodeDeltaNeutral version od)"
  "reader (decodeAlgoParams version od)"
  "reader (decodeSolicited version od)"
  "reader (decodeOrderStatus od)"
  "reader (decodeWhatIfInfoAndCommission v od)"
  "reader (decodeVolRandomizeFlags version od)"
  "reader (decodePegBenchParams v od)"
  "reader (decodeConditions env v od)"
  "reader (decodeStopPriceAndLmtPriceOffset od)"
  by (auto simp: decodeSmartComboRoutingParams_def decodeScaleOrderParams_def decodeHedgeParams_def
      decodeOptOutSmartRouting_def decodeClearingParams_def decodeNotHeld_def decodeDeltaNeutral_def
      decodeAlgoParams_def decodeSolicited_def decodeOrderStatus_def decodeWhatIfInfoAndCommission_def
      decodeVolRandomizeFlags_def decodePegBenchParams_def decodeConditions_def
      decodeStopPriceAndLmtPriceOffset_def 
      intro!: readerI reads_rules reader_steps_0 [THEN readerD])+

lemma reader_steps_5 [reads_rules]:
  "reader (decodeAdjustedOrderParams v od)"
  "reader (decodeSoftDollarTier v od)"
  "reader (decodeCashQty v od)"
  "reader (decodeDontUseAutoPriceForHedge v od)"
  "reader (decodeIsOmsContainer v od)"
  "reader (decodeDiscretionaryUpToLimitPrice v od)"
  "reader (decodeAutoCancelDate od)"
  "reader (decodeFilledQuantity env od)"
  "reader (decodeRefFuturesConId od)"
  "reader (decodeAutoCancelParent least version od)"
  "reader (decodeShareholder od)"
  "reader (decodeImbalanceOnly od)"
  "reader (decodeRouteMarketableToBbo od)"
  "reader (decodeParentPermId od)"
  "reader (decodeCompletedTime od)"
  by (auto simp: decodeAdjustedOrderParams_def decodeSoftDollarTier_def decodeCashQty_def
      decodeDontUseAutoPriceForHedge_def decodeIsOmsContainer_def decodeDiscretionaryUpToLimitPrice_def
      decodeAutoCancelDate_def decodeFilledQuantity_def decodeRefFuturesConId_def decodeAutoCancelParent_def
      decodeShareholder_def decodeImbalanceOnly_def decodeRouteMarketableToBbo_def decodeParentPermId_def
      decodeCompletedTime_def 
      intro!: readerI reads_rules reader_steps_0 [THEN readerD])+

lemma reader_steps_6 [reads_rules]:
  "reader (decodeCompletedStatus od)"
  "reader (decodeUsePriceMgmtAlgo v od)"
  "reader (decodeDuration v od)"
  "reader (decodePostToAts v od)"
  "reader (decodePegBestPegMidOrderAttributes v od)"
  by (auto simp: decodeCompletedStatus_def decodeUsePriceMgmtAlgo_def decodeDuration_def decodePostToAts_def
      decodePegBestPegMidOrderAttributes_def 
      intro!: readerI reads_rules reader_steps_0 [THEN readerD])+

lemma reads_run_steps: "(\<And>f od. f \<in> set fs \<Longrightarrow> reader (f od)) \<Longrightarrow> (\<And>od. reads (k od)) \<Longrightarrow> reads (run_steps fs od k)"
proof (induction fs arbitrary: od)
  case (Cons f fs)
  show ?case using Cons by (auto intro!: readerD [of "f od"])
qed simp

lemma reader_of_steps:
  "f \<in> set (open_order_steps env version v) \<Longrightarrow> reader (f od)"
  "f \<in> set (completed_order_steps env version v) \<Longrightarrow> reader (f od)"
  by (auto simp: open_order_steps_def completed_order_steps_def reads_rules)

lemma reads_order_messages [reads_rules]: "reads (processOpenOrderMsg env v)" "reads (processCompletedOrderMsg env v)"
  unfolding processOpenOrderMsg_def processCompletedOrderMsg_def
  by (intro reads_when reads_run_steps reads_rules; erule reader_of_steps)+

end
