(* ===== verification/TwsDecoder.thy ===== *)
theory TwsDecoder
  imports TwsOrderDecoder
begin

text \<open>
  \<open>EDecoder::parseAndProcessMsg\<close> of \<open>external/tws/client/EDecoder.cpp\<close> chooses the decoder of a message by
  its number; the very first message is the answer to the connection (\<open>processConnectAck\<close>).
\<close>

section \<open>Any message\<close>

definition UNKNOWN_ID :: "int \<times> string" where
  "UNKNOWN_ID = (505, ''Fatal Error: Unknown message id.'')"

text \<open>The cases of the switch, in its order and in three parts, with the numbers of \<open>EDecoder.h\<close>.\<close>

definition decoders_first :: "decode_env \<Rightarrow> int \<Rightarrow> (int \<times> (string \<Rightarrow> decoded)) list" where
  "decoders_first env v =
     [(1, processTickPriceMsg (de_decimal env) v), (2, processTickSizeMsg (de_decimal env)),
      (21, processTickOptionComputationMsg v), (45, processTickGenericMsg), (46, processTickStringMsg),
      (47, processTickEfpMsg), (3, processOrderStatusMsg (de_decimal env) v), (4, processErrMsgMsg v),
      (5, processOpenOrderMsg env v), (6, processAcctValueMsg), (7, processPortfolioValueMsg (de_decimal env) v),
      (8, processAcctUpdateTimeMsg), (9, processNextValidIdMsg), (10, processContractDataMsg env v),
      (18, processBondContractDataMsg env v), (11, processExecutionDetailsMsg (de_decimal env) v),
      (12, processMarketDepthMsg (de_decimal env)), (13, processMarketDepthL2Msg (de_decimal env) v),
      (14, processNewsBulletinsMsg), (15, processManagedAcctsMsg), (16, processReceiveFaMsg),
      (17, processHistoricalDataMsg (de_decimal env) v), (20, processScannerDataMsg env),
      (19, processScannerParametersMsg), (49, processCurrentTimeMsg), (50, processRealTimeBarsMsg (de_decimal env)),
      (51, processFundamentalDataMsg)]"

definition decoders_middle :: "decode_env \<Rightarrow> int \<Rightarrow> (int \<times> (string \<Rightarrow> decoded)) list" where
  "decoders_middle env v =
     [(52, processContractDataEndMsg), (53, processOpenOrderEndMsg), (54, processAcctDownloadEndMsg),
      (55, processExecutionDetailsEndMsg), (56, processDeltaNeutralValidationMsg), (57, processTickSnapshotEndMsg),
      (58, processMarketDataTypeMsg), (59, processCommissionReportMsg),
      (61, processPositionDataMsg (de_decimal env)), (62, processPositionEndMsg), (63, processAccountSummaryMsg),
      (64, processAccountSummaryEndMsg), (65, processVerifyMessageApiMsg), (66, processVerifyCompletedMsg),
      (67, processDisplayGroupListMsg), (68, processDisplayGroupUpdatedMsg), (69, processVerifyAndAuthMessageApiMsg),
      (70, processVerifyAndAuthCompletedMsg), (71, processPositionMultiMsg (de_decimal env)),
      (72, processPositionMultiEndMsg), (73, processAccountUpdateMultiMsg), (74, processAccountUpdateMultiEndMsg),
      (75, processSecurityDefinitionOptionalParameterMsg), (76, processSecurityDefinitionOptionalParameterEndMsg),
      (77, processSoftDollarTiersMsg), (78, processFamilyCodesMsg), (82, processSmartComponentsMsg),
      (81, processTickReqParamsMsg)]"

definition decoders_last :: "decode_env \<Rightarrow> int \<Rightarrow> (int \<times> (string \<Rightarrow> decoded)) list" where
  "decoders_last env v =
     [(79, processSymbolSamplesMsg v), (80, processMktDepthExchangesMsg v), (84, processTickNewsMsg),
      (85, processNewsProvidersMsg), (83, processNewsArticleMsg), (86, processHistoricalNewsMsg),
      (87, processHistoricalNewsEndMsg), (88, processHeadTimestampMsg),
      (89, processHistogramDataMsg (de_decimal env)), (90, processHistoricalDataUpdateMsg (de_decimal env)),
      (91, processRerouteMktDataReqMsg), (92, processRerouteMktDepthReqMsg), (93, processMarketRuleMsg),
      (94, processPnLMsg v), (95, processPnLSingleMsg (de_decimal env) v),
      (96, processHistoricalTicks (de_decimal env)), (97, processHistoricalTicksBidAsk (de_decimal env)),
      (98, processHistoricalTicksLast (de_decimal env)), (99, processTickByTickDataMsg (de_decimal env)),
      (100, processOrderBoundMsg), (101, processCompletedOrderMsg env v), (102, processCompletedOrdersEndMsg),
      (103, processReplaceFAEndMsg), (104, processWshMetaData), (105, processWshEventData),
      (106, processHistoricalSchedule), (107, processUserInfo)]"

definition decoders :: "decode_env \<Rightarrow> int \<Rightarrow> (int \<times> (string \<Rightarrow> decoded)) list" where
  "decoders env v = decoders_first env v @ decoders_middle env v @ decoders_last env v"

lemmas decoder_tables = decoders_def decoders_first_def decoders_middle_def decoders_last_def

definition decoder_of :: "decode_env \<Rightarrow> int \<Rightarrow> int \<Rightarrow> string \<Rightarrow> decoded" where
  "decoder_of env v msgId =
     (case map_of (decoders env v) msgId of
        Some f \<Rightarrow> f
      | None \<Rightarrow> calls [W_error msgId (fst UNKNOWN_ID) (snd UNKNOWN_ID) [], W_connectionClosed])"

definition decode_msg :: "decode_env \<Rightarrow> int \<Rightarrow> string \<Rightarrow> decoded" where
  "decode_msg env v = get_int (decoder_of env v)"

section \<open>The first message\<close>

text \<open>
  The server's answer to the connection: its version and the time, or a redirection. The decoder's
  own version is the first part of the state; a redirection is refused, as the program never allows
  one, when it names another host or port.
\<close>

definition redirect :: "string \<Rightarrow> int \<Rightarrow> eclient \<Rightarrow> eclient" where
  "redirect host port ec =
     (let hostNorm = (if host \<noteq> [] then host else ''127.0.0.1'') in
      if hostNorm \<noteq> ec_host ec \<or> (port > 0 \<and> port \<noteq> ec_port ec)
      then ec_error NO_VALID_ID CONNECT_FAIL [] ec else ec)"

definition processConnectAck :: "kernel \<Rightarrow> (decimal \<Rightarrow> string) \<Rightarrow> string \<Rightarrow> int \<times> eclient \<Rightarrow> nat \<times> int \<times> eclient" where
  "processConnectAck k ds s st =
     (case st of (v, ec) \<Rightarrow>
        case next_field s of
          None \<Rightarrow> (0, v, ec)
        | Some (t, r) \<Rightarrow>
            (let version = atoi t in
             if version < 0 then
               (case next_field r of
                  None \<Rightarrow> (0, 0, ec)
                | Some (hostport, r2) \<Rightarrow>
                    (let host = takeWhile (\<lambda>c. c \<noteq> CHR '':'') hostport;
                         port = (if CHR '':'' \<in> set hostport then atoi (drop (Suc (length host)) hostport) else - 1)
                     in (length s - length r2, 0, redirect host port ec)))
             else if version \<ge> 20 then
               (case next_field r of
                  None \<Rightarrow> (0, version, ec)
                | Some (twsTime, r2) \<Rightarrow>
                    (length s - length r2, version, ec_call W_connectAck (set_serverVersion k ds version twsTime ec)))
             else (length s - length r, version, ec_call W_connectAck (set_serverVersion k ds version [] ec))))"

section \<open>What is decoded of a message\<close>

lemma reads_decoders: "(i, f) \<in> set (decoders env v) \<Longrightarrow> reads f"
  by (auto simp: decoder_tables reads_rules)

lemma reads_decoder_of: "reads (decoder_of env v i)"
proof (cases "map_of (decoders env v) i")
  case (Some f)
  then show ?thesis using reads_decoders [OF map_of_SomeD [OF Some]] by (simp add: decoder_of_def)
qed (simp add: decoder_of_def reads_ends)

lemma reads_decode_msg: "reads (decode_msg env v)"
  unfolding decode_msg_def by (intro reads_rules reads_decoder_of)

lemma decode_msg_shorter:
  assumes "decode_msg env v s = Some (x, r)"
  shows "length r < length s"
proof -
  obtain t s' where n: "next_field s = Some (t, s')" "decoder_of env v (atoi t) s' = Some (x, r)"
    using assms by (auto simp: decode_msg_def get_int_def split: option.splits)
  from readsD [OF reads_decoder_of n(2)] obtain p where "s' = p @ r" by blast
  then show ?thesis using next_field_split [OF n(1)] by simp
qed

interpretation msg: message_decoder "decode_msg env v" for env v
  by unfold_locales (use decode_msg_shorter reads_decode_msg in auto)

text \<open>
  Whatever the message and whatever its number, a decoder that comes to an end has read a first part of
  the text that is not empty, so the loop over the messages goes on, and what follows that part has no
  bearing on the callbacks.
\<close>

lemma decoding_is_local:
  assumes "decode_msg env v s = Some (x, r)"
  shows "\<exists>p. p \<noteq> [] \<and> s = p @ r \<and> (\<forall>r'. decode_msg env v (p @ r') = Some (x, r'))"
  by (rule msg.reads_a_part [OF assms])

end
