(* ===== verification/TwsConditions.thy ===== *)
theory TwsConditions
  imports TwsOrderDecoder
begin

text \<open>
  The conditions of an order (\<open>external/tws/client/*Condition.cpp\<close>) as \<open>EClient::placeOrder\<close> writes them and
  \<open>EOrderDecoder\<close> reads them.
\<close>

section \<open>Conditions are read as they were written\<close>

lemma printable_no_NUL: "isAsciiPrintable s \<Longrightarrow> NUL \<notin> set s"
  by (auto simp: isAsciiPrintable_def list_all_iff)

lemma encode_string:
  assumes "encode_fields ds (F_string t # fs) = Inr s"
  shows "\<exists>u. s = t @ NUL # u \<and> encode_fields ds fs = Inr u \<and> NUL \<notin> set t"
  using assms printable_no_NUL [of t] by (auto split: if_splits sum.splits)

lemma encode_int:
  assumes "encode_fields ds (F_int n # fs) = Inr s"
  shows "\<exists>u. s = int_str n @ NUL # u \<and> encode_fields ds fs = Inr u"
  using assms by (auto split: sum.splits)

lemma encode_bool:
  assumes "encode_fields ds (F_bool b # fs) = Inr s"
  shows "\<exists>u. s = int_str (if b then 1 else 0) @ NUL # u \<and> encode_fields ds fs = Inr u"
  using assms by (auto split: sum.splits)

lemmas encode_cons = encode_string encode_int encode_bool

lemma stream_in_int_str:
  assumes "- (2 ^ 31) \<le> n" "n < 2 ^ 31"
  shows "stream_in_int old (int_str n) = n"
proof (cases "n < 0")
  case True
  then show ?thesis using assms by (simp add: stream_in_int_def int_str_def signed_def is_white_def)
next
  case False
  obtain c t where s: "dec (nat n) = c # t" by (cases "dec (nat n)") auto
  then have c: "is_dig c" using hd_dec_dig [of "nat n"] by simp
  have d: "digits_nat (c # t) = nat n" using digits_nat_dec [of "nat n"] s by simp
  have tk: "takeWhile is_dig t = t" using takeWhile_dec [of "nat n"] s c by (simp del: takeWhile_eq_all_conv)
  show ?thesis
    using False assms is_dig_plain [OF c] by (simp add: stream_in_int_def int_str_def s signed_dig [OF c] c d tk)
qed

lemma get_bool_wire: "get_bool k (int_str (if b then 1 else 0) @ NUL # r) = k b r"
  by (simp add: get_bool_def)

text \<open>The numbers of a condition fit their types, and a double is read back from its text with six digits.\<close>

fun condition_exact :: "decode_env \<Rightarrow> order_condition \<Rightarrow> bool" where
  "condition_exact env (Price_condition conn is_more price conId exchange triggerMethod) \<longleftrightarrow>
     stream_in_double (de_uninit_double env) (stream_double price) = price \<and> - (2 ^ 31) \<le> conId \<and> conId < 2 ^ 31
     \<and> - (2 ^ 31) \<le> triggerMethod \<and> triggerMethod < 2 ^ 31"
| "condition_exact env (Time_condition conn is_more time) \<longleftrightarrow> True"
| "condition_exact env (Margin_condition conn is_more percent) \<longleftrightarrow> - (2 ^ 31) \<le> percent \<and> percent < 2 ^ 31"
| "condition_exact env (Execution_condition conn secType exchange symb) \<longleftrightarrow> True"
| "condition_exact env (Volume_condition conn is_more volume conId exchange) \<longleftrightarrow>
     - (2 ^ 31) \<le> volume \<and> volume < 2 ^ 31 \<and> - (2 ^ 31) \<le> conId \<and> conId < 2 ^ 31"
| "condition_exact env (PercentChange_condition conn is_more percent conId exchange) \<longleftrightarrow>
     stream_in_double UnsetDouble (stream_double percent) = percent \<and> - (2 ^ 31) \<le> conId \<and> conId < 2 ^ 31"

lemma connector_read: "read_condition k ((if conn then ''a'' else ''o'') @ NUL # r) = k conn r"
  using get_text_wire [of "''a''" "\<lambda>connector. k (connector = ''a'')" r]
    get_text_wire [of "''o''" "\<lambda>connector. k (connector = ''a'')" r] by (simp add: read_condition_def)

lemma operator_roundtrip:
  assumes "encode_fields ds (write_operator conn is_more x @ fs) = Inr s"
  obtains u where "encode_fields ds fs = Inr u" "read_operator f k (s @ r) = k conn is_more (f x) (u @ r)"
proof -
  from assms obtain u1 where 1: "s = (if conn then ''a'' else ''o'') @ NUL # u1"
      "encode_fields ds (F_bool is_more # F_string x # fs) = Inr u1"
    using encode_string [of ds "if conn then ''a'' else ''o''"] by (auto simp: write_operator_def write_condition_def simp del: encode_fields.simps)
  from encode_bool [OF 1(2)] obtain u2 where 2: "u1 = int_str (if is_more then 1 else 0) @ NUL # u2"
      "encode_fields ds (F_string x # fs) = Inr u2" by blast
  from encode_string [OF 2(2)] obtain u3 where 3: "u2 = x @ NUL # u3" "encode_fields ds fs = Inr u3" "NUL \<notin> set x" by blast
  show thesis
    by (rule that [OF 3(2)])
      (simp only: 1(1) 2(1) 3(1) append_assoc append_Cons read_operator_def connector_read get_bool_wire get_text_wire [OF 3(3)])
qed

lemma contract_roundtrip:
  assumes "encode_fields ds (write_contract conn is_more x conId exchange @ fs) = Inr s" and "- (2 ^ 31) \<le> conId" "conId < 2 ^ 31"
  obtains u where "encode_fields ds fs = Inr u" "read_contract f k (s @ r) = k conn is_more (f x) conId exchange (u @ r)"
proof -
  let ?k = "\<lambda>conn is_more x. get_int (\<lambda>conId. get_text (k conn is_more x conId))"
  have "encode_fields ds (write_operator conn is_more x @ F_int conId # F_string exchange # fs) = Inr s"
    using assms(1) by (simp only: write_contract_def append_assoc append.simps)
  from operator_roundtrip [OF this, of f ?k r] obtain u where 1: "encode_fields ds (F_int conId # F_string exchange # fs) = Inr u"
    "read_operator f ?k (s @ r) = ?k conn is_more (f x) (u @ r)" by blast
  from encode_int [OF 1(1)] obtain u2 where 2: "u = int_str conId @ NUL # u2" "encode_fields ds (F_string exchange # fs) = Inr u2" by blast
  from encode_string [OF 2(2)] obtain u3 where 3: "u2 = exchange @ NUL # u3" "encode_fields ds fs = Inr u3" "NUL \<notin> set exchange" by blast
  have "read_contract f k (s @ r) = ?k conn is_more (f x) (u @ r)" unfolding read_contract_def by (rule 1(2))
  also have "\<dots> = k conn is_more (f x) conId exchange (u3 @ r)"
    by (simp only: 2(1) 3(1) append_assoc append_Cons get_int_wire [OF assms(2,3)] get_text_wire [OF 3(3)])
  finally show thesis by (rule that [OF 3(2)])
qed

lemma encode_nil: "encode_fields ds [] = Inr s \<Longrightarrow> s = []"
  by simp

lemmas encode_all = encode_cons encode_nil

text \<open>
  Property C19. A condition of an order that can be written to a message and, a price or a percentage,
  needs no more than six digits, is read back as the same condition, and what follows it is left to
  read.
\<close>

theorem condition_roundtrip:
  assumes "encode_fields ds (writeExternal c) = Inr s" and "condition_exact env c"
  shows "readExternal env (condition_type c) k (s @ r) = k c r"
proof (cases c)
  case (Price_condition conn is_more price conId exchange triggerMethod)
  have e: "encode_fields ds (write_contract conn is_more (stream_double price) conId exchange @ [F_int triggerMethod]) = Inr s"
    and b: "stream_in_double (de_uninit_double env) (stream_double price) = price" "- (2 ^ 31) \<le> conId" "conId < 2 ^ 31"
      "- (2 ^ 31) \<le> triggerMethod" "triggerMethod < 2 ^ 31"
    using assms by (simp_all only: Price_condition writeExternal.simps condition_exact.simps)
  let ?k = "\<lambda>conn is_more price conId exchange. get_int (\<lambda>m. k (Price_condition conn is_more price conId exchange m))"
  from contract_roundtrip [OF e b(2,3), of "stream_in_double (de_uninit_double env)" ?k r]
  obtain u where u: "encode_fields ds [F_int triggerMethod] = Inr u"
    "read_contract (stream_in_double (de_uninit_double env)) ?k (s @ r) = ?k conn is_more price conId exchange (u @ r)"
    unfolding b(1) by blast
  from encode_int [OF u(1)] obtain u2 where "u = int_str triggerMethod @ NUL # u2" "encode_fields ds [] = Inr u2" by blast
  then have "u @ r = int_str triggerMethod @ NUL # r" by simp
  then show ?thesis
    using u(2) get_int_wire [OF b(4,5), of "\<lambda>m. k (Price_condition conn is_more price conId exchange m)" r]
    by (simp add: Price_condition readExternal_def)
next
  case (Time_condition conn is_more time)
  then have e: "encode_fields ds (write_operator conn is_more time @ []) = Inr s" using assms by simp
  from operator_roundtrip [OF e, of "\<lambda>x. x" "\<lambda>conn is_more time. k (Time_condition conn is_more time)" r]
  show ?thesis by (auto simp: Time_condition readExternal_def)
next
  case (Margin_condition conn is_more percent)
  then have e: "encode_fields ds (write_operator conn is_more (int_str percent) @ []) = Inr s" using assms by simp
  from operator_roundtrip [OF e, of "stream_in_int (de_uninit_int env)" "\<lambda>conn is_more percent. k (Margin_condition conn is_more percent)" r]
  show ?thesis using assms(2) by (auto simp: Margin_condition readExternal_def stream_in_int_str)
next
  case (Execution_condition conn secType exchange symb)
  have e: "encode_fields ds (F_string (if conn then ''a'' else ''o'') # F_string secType # F_string exchange # [F_string symb]) = Inr s"
    using assms(1) by (simp only: Execution_condition writeExternal.simps write_condition_def append.simps)
  from encode_string [OF e] obtain u1 where 1: "s = (if conn then ''a'' else ''o'') @ NUL # u1"
    "encode_fields ds (F_string secType # F_string exchange # [F_string symb]) = Inr u1" by blast
  from encode_string [OF 1(2)] obtain u2 where 2: "u1 = secType @ NUL # u2"
    "encode_fields ds (F_string exchange # [F_string symb]) = Inr u2" "NUL \<notin> set secType" by blast
  from encode_string [OF 2(2)] obtain u3 where 3: "u2 = exchange @ NUL # u3"
    "encode_fields ds [F_string symb] = Inr u3" "NUL \<notin> set exchange" by blast
  from encode_string [OF 3(2)] obtain u4 where 4: "u3 = symb @ NUL # u4" "encode_fields ds [] = Inr u4" "NUL \<notin> set symb" by blast
  have "s @ r = (if conn then ''a'' else ''o'') @ NUL # secType @ NUL # exchange @ NUL # symb @ NUL # u4 @ r"
    by (simp only: 1(1) 2(1) 3(1) 4(1) append_assoc append.simps)
  then have "readExternal env 5 k (s @ r) = k (Execution_condition conn secType exchange symb) (u4 @ r)"
    by (simp add: readExternal_def connector_read 2(3) 3(3) 4(3) split del: if_split)
  then show ?thesis using 4(2) by (simp add: Execution_condition)
next
  case (Volume_condition conn is_more volume conId exchange)
  then have e: "encode_fields ds (write_contract conn is_more (int_str volume) conId exchange @ []) = Inr s"
    and b: "- (2 ^ 31) \<le> conId" "conId < 2 ^ 31" using assms by simp_all
  from contract_roundtrip [OF e b, of "stream_in_int (de_uninit_int env)" "\<lambda>conn is_more volume conId exchange. k (Volume_condition conn is_more volume conId exchange)" r]
  show ?thesis using assms(2) by (auto simp: Volume_condition readExternal_def stream_in_int_str)
next
  case (PercentChange_condition conn is_more percent conId exchange)
  then have e: "encode_fields ds (write_contract conn is_more (stream_double percent) conId exchange @ []) = Inr s"
    and b: "- (2 ^ 31) \<le> conId" "conId < 2 ^ 31" using assms by simp_all
  from contract_roundtrip [OF e b, of "stream_in_double UnsetDouble" "\<lambda>conn is_more percent conId exchange. k (PercentChange_condition conn is_more percent conId exchange)" r]
  show ?thesis using assms(2) by (auto simp: PercentChange_condition readExternal_def)
qed

lemma demo_price: "stream_double (Fin (5 / 2)) = ''2.5''"
proof -
  have "fmt_g 6 (5 / 2) = fmt_digits 6 0 (strip_zeros (dec (nat 250000)))"
    by (rule fmt_g_digits) (simp_all add: power_int_def)
  moreover have "fmt_digits 6 0 (strip_zeros (dec (nat 250000))) = ''2.5''"
    by (simp add: dec.simps digit_chars strip_zeros_def fmt_digits_def)
  ultimately show ?thesis by (simp add: stream_double_def)
qed

lemma demo_price_read: "stream_in_double old ''2.5'' = Fin (5 / 2)"
proof -
  have "round_double (5 / 2) = Fin (5 / 2)" by (rule round_double_dyadic [of 1]) (simp_all add: dyadic_def grid_bound_def)
  then show ?thesis
    by (simp add: stream_in_double_def signed_def is_white_def mantissa_part_def is_dig_def unsigned_value_def exponent_part_def
        digits_nat_def dig_val_def lower_def)
qed

theorem condition_roundtrip_witness:
  "\<exists>s. encode_fields (\<lambda>_. []) (writeExternal (Price_condition True True (Fin (5 / 2)) 265598 ''SMART'' 0)) = Inr s
     \<and> readExternal \<lparr>de_decimal = \<lambda>_. 0, de_uninit_int = 0, de_uninit_double = 0\<rparr> 1 (\<lambda>c. if c = Price_condition True True (Fin (5 / 2)) 265598 ''SMART'' 0 then calls [] else fails DF_null)
         (s @ ''rest'') = Some (Inr [], ''rest'')"
proof -
  let ?c = "Price_condition True True (Fin (5 / 2)) 265598 ''SMART'' 0"
  obtain s where s: "encode_fields (\<lambda>_. []) (writeExternal ?c) = Inr s"
    using demo_price by (simp add: write_contract_def write_operator_def write_condition_def isAsciiPrintable_def)
  show ?thesis
    using s condition_roundtrip [OF s, of "\<lparr>de_decimal = \<lambda>_. 0, de_uninit_int = 0, de_uninit_double = 0\<rparr>" "\<lambda>c. if c = ?c then calls [] else fails DF_null" "''rest''"] demo_price demo_price_read by (auto simp: calls_def)
qed

text \<open>A price with more digits is written like its neighbour with six.\<close>

lemma price_condition_loses_digits:
  "writeExternal (Price_condition conn is_more (Fin (19753 / 16)) conId exchange m)
    = writeExternal (Price_condition conn is_more (Fin (1264189 / 1024)) conId exchange m)"
proof -
  have "fmt_g 6 (19753 / 16) = fmt_digits 6 3 (strip_zeros (dec (nat 123456)))"
    "fmt_g 6 (1264189 / 1024) = fmt_digits 6 3 (strip_zeros (dec (nat 123456)))"
    by (rule fmt_g_digits; simp add: power_int_def)+
  then show ?thesis by (simp add: stream_double_def)
qed

end
