(* ===== verification/TwsOrderWire.thy ===== *)
theory TwsOrderWire
  imports TwsPlaceOrder
begin

text \<open>
  The orders of the gateway (\<open>IBApi::generate_ib_order\<close>) as \<open>EClient::placeOrder\<close> writes them to the socket.
\<close>

section \<open>The orders of the gateway\<close>

definition printable_field :: "field \<Rightarrow> bool" where
  "printable_field f = (case f of F_string s \<Rightarrow> s = [] \<or> isAsciiPrintable s | _ \<Rightarrow> True)"

definition text_of :: "(decimal \<Rightarrow> string) \<Rightarrow> field \<Rightarrow> string" where
  "text_of ds f = (case field_text ds f of Inl t \<Rightarrow> t | Inr t \<Rightarrow> t)"

lemma encode_printable: "list_all printable_field fs \<Longrightarrow> encode_fields ds fs = Inr (wire (map (text_of ds) fs))"
  by (induction fs) (auto simp: printable_field_def text_of_def split: field.splits)

lemma text_of_simps [simp]:
  "text_of ds (F_int n) = int_str n" "text_of ds (F_bool b) = int_str (if b then 1 else 0)"
  "text_of ds (F_double x) = double_str x" "text_of ds (F_string s) = s" "text_of ds (F_chars s) = s"
  "text_of ds (F_decimal d) = take 127 (ds d)"
  by (simp_all add: text_of_def)

lemma printable_field_simps [simp]:
  "printable_field (F_int n)" "printable_field (F_bool b)" "printable_field (F_double x)" "printable_field (F_chars s)"
  "printable_field (F_decimal d)" "printable_field (F_string s) \<longleftrightarrow> s = [] \<or> isAsciiPrintable s"
  by (simp_all add: printable_field_def)

lemma max_fields [simp]: "printable_field (field_max_int n)" "printable_field (field_max_double x)"
  by (simp_all add: field_max_int_def field_max_double_def)

lemma text_of_max [simp]:
  "text_of ds (field_max_double UnsetDouble) = []" "text_of ds (field_max_int UnsetInt) = []"
  by (simp_all add: field_max_int_def field_max_double_def UnsetDouble_def deq_def DBL_MAX_def)

lemma list_all_since [simp]: "list_all P (since v n fs) \<longleftrightarrow> v < n \<or> list_all P fs"
  by (auto simp: since_def)

abbreviation gateway_order :: "(double \<Rightarrow> decimal) \<Rightarrow> order_req \<Rightarrow> tws_order" where
  "gateway_order td req \<equiv> complete_order (ib_order_of td req)"

lemma not_set_double [simp]: "\<not> is_set_double UnsetDouble"
  by (simp add: is_set_double_def UnsetDouble_def deq_def DBL_MAX_def)

lemma gateway_order_accepted: "refusal v (place_checks (sent_contract req) (gateway_order td req)) = None"
  by (simp add: place_checks_def place_checks_old_def place_checks_neutral_def place_checks_classes_def place_checks_new_def
      complete_order_def sent_contract_def contract_of_def Let_def new_contract_def)


lemma gateway_order_printable:
  assumes "list_all isAsciiPrintable [c_symbol c, c_secType c, c_exchange c, c_currency c]" and "c = sent_contract req"
  shows "list_all printable_field (place_order_fields v i c (gateway_order td req))"
proof -
  have p: "isAsciiPrintable ''BUY''" "isAsciiPrintable ''SELL''" "isAsciiPrintable ''LMT''" "isAsciiPrintable ''MKT''" "isAsciiPrintable ''DAY''"
    by (simp_all add: isAsciiPrintable_def)
  note d = complete_order_def ib_order_of_def new_order_def sent_contract_def contract_of_def Let_def new_contract_def
  have "list_all printable_field (place_contract_fields v i c)" "list_all printable_field (place_main_fields v (gateway_order td req))"
    "list_all printable_field (place_extended_fields (gateway_order td req))" "list_all printable_field (place_combo_fields v c (gateway_order td req))"
    "list_all printable_field (place_advisor_fields v (gateway_order td req))" "list_all printable_field (place_volatility_fields v (gateway_order td req))"
    "list_all printable_field (place_scale_fields v (gateway_order td req))" "list_all printable_field (place_hedge_fields v c (gateway_order td req))"
    "list_all printable_field (place_pegged_fields v (gateway_order td req))" "list_all printable_field (place_rule_fields v (gateway_order td req))"
    "list_all printable_field (place_peg_best_fields v c (gateway_order td req))"
    using assms(1) unfolding assms(2)
    by (simp_all add: place_contract_fields_def place_main_fields_def place_extended_fields_def place_combo_fields_def place_advisor_fields_def
      place_volatility_fields_def place_scale_fields_def place_hedge_fields_def place_pegged_fields_def place_rule_fields_def
      place_peg_best_fields_def contract_fields_def contract_head_def tag_value_list_def tag_value_fields_def d p
      split: action.split order_type.split option.split)
  then show ?thesis by (simp add: place_order_fields_def)
qed


text \<open>A market order for one share, on a server of the client's own version.\<close>

definition demo_server :: eclient where
  "demo_server = ec_init\<lparr>ec_fd := 3, ec_connState := CS_CONNECTED, ec_serverVersion := 176, ec_useV100Plus := True\<rparr>"


end
