(* ===== verification/TwsGateway.thy ===== *)
theory TwsGateway
  imports TwsDecoder TwsConditions TwsOrderWire
begin

text \<open>
  The gateway and the TWS client together: the calls to \<open>m_pClient\<close> become bytes, and the bytes that
  come back become callbacks of \<open>IBApi\<close> (\<open>EDecoder::parseAndProcessMsg\<close>, \<open>EReader::processMsgs\<close>,
  \<open>IBApi::process_messages\<close>). An exception of a callback ends in the handler of the decoder, which
  reports it as an error; its text is the argument \<open>what\<close>.
\<close>

section \<open>Requests\<close>

fun client_exec :: "kernel \<Rightarrow> (decimal \<Rightarrow> string) \<Rightarrow> client_call \<Rightarrow> eclient \<Rightarrow> (unit, eclient) outcome" where
  "client_exec k ds (C_reqMarketDataType n) ec = Ret () (reqMarketDataType k ds n ec)"
| "client_exec k ds (C_reqTickByTickData i c tickType n ignoreSize) ec = Ret () (reqTickByTickData k ds i c tickType n ignoreSize ec)"
| "client_exec k ds (C_placeOrder i c ord) ec = Ret () (placeOrder k ds i c (complete_order ord) ec)"
| "client_exec k ds (C_cancelOrder i time) ec = cancelOrder k ds i time ec"
| "client_exec k ds C_reqGlobalCancel ec = Ret () (reqGlobalCancel k ds ec)"
| "client_exec k ds (C_reqContractDetails i c) ec = Ret () (reqContractDetails k ds i c ec)"
| "client_exec k ds (C_reqHistoricalData i c en dur size' wts rth format keep) ec =
     Ret () (reqHistoricalData k ds i c en dur size' wts rth format keep [] ec)"
| "client_exec k ds C_eDisconnect ec = Ret () (eDisconnect True ec)"

section \<open>Callbacks\<close>

text \<open>The callbacks \<open>IBApi\<close> overrides with more than a line of the log.\<close>

fun wrapper_op :: "wrapper_call \<Rightarrow> ib_op option" where
  "wrapper_op (W_error i code msg json) = Some (Op_error i code msg json)"
| "wrapper_op (W_nextValidId i) = Some (Op_nextValidId i)"
| "wrapper_op (W_openOrder i c ord st) = Some (Op_open_order i (st_commission st))"
| "wrapper_op (W_orderStatus i status filled remaining avg perm parent lastPx client why cap) = Some (Op_order_status i status filled avg)"
| "wrapper_op (W_tickByTickAllLast r t time price size' past unreported exchange cond) = Some (Op_all_last r t time price size')"
| "wrapper_op (W_tickByTickBidAsk r time bid ask bsize asize low high) = Some (Op_bid_ask r time bid ask bsize asize)"
| "wrapper_op (W_historicalData r b) = Some (Op_hist_data r b)"
| "wrapper_op (W_historicalDataEnd r s e) = Some (Op_hist_data_end r s e)"
| "wrapper_op _ = None"

fun deliver :: "(decimal \<Rightarrow> double) \<Rightarrow> (double \<Rightarrow> decimal) \<Rightarrow> wrapper_call list \<Rightarrow> ib_api
    \<Rightarrow> (event list \<times> exn option, ib_api) outcome" where
  "deliver dd td [] ib = Ret ([], None) ib"
| "deliver dd td (w # ws) ib =
     (case wrapper_op w of
        None \<Rightarrow> deliver dd td ws ib
      | Some op \<Rightarrow>
          (case ib_exec dd td op ib of
             Ret evs ib1 \<Rightarrow> bind_o (deliver dd td ws ib1) (\<lambda>(evs', x) ib2. Ret (evs @ evs', x) ib2)
           | Throw e ib1 \<Rightarrow> Ret ([], Some e) ib1
           | Crash c \<Rightarrow> Crash c))"

section \<open>Messages\<close>

text \<open>
  \<open>parseAndProcessMsg\<close> once the version is known: the number of bytes processed, which is zero when
  the text ends early or a callback throws.
\<close>

definition parseAndProcessMsg :: "decode_env \<Rightarrow> (decimal \<Rightarrow> double) \<Rightarrow> (double \<Rightarrow> decimal)
    \<Rightarrow> (exn \<Rightarrow> string) \<Rightarrow> int \<Rightarrow> string \<Rightarrow> ib_api \<Rightarrow> (nat \<times> event list, ib_api) outcome" where
  "parseAndProcessMsg env dd td what v s ib =
     (let socket_error = (\<lambda>text evs ib. bind_o (ib_exec dd td
            (Op_error NO_VALID_ID (fst SOCKET_EXCEPTION) (snd SOCKET_EXCEPTION @ text) []) ib) (\<lambda>evs' ib'. Ret (0, evs @ evs') ib'))
      in case decode_msg env v s of
           None \<Rightarrow> Ret (0, []) ib
         | Some (Inl (DF_exception text), r) \<Rightarrow> socket_error text [] ib
         | Some (Inl DF_null, r) \<Rightarrow> Crash Null_deref
         | Some (Inr ws, r) \<Rightarrow>
             bind_o (deliver dd td ws ib) (\<lambda>(evs, x) ib1.
               case x of
                 None \<Rightarrow> Ret (length s - length r, evs) ib1
               | Some e \<Rightarrow> socket_error (what e) evs ib1))"

text \<open>
  The messages of the queue one by one, until one has not been processed, which is gone all the same;
  the rest waits for the next signal.
\<close>

fun process_queue :: "decode_env \<Rightarrow> (decimal \<Rightarrow> double) \<Rightarrow> (double \<Rightarrow> decimal)
    \<Rightarrow> (exn \<Rightarrow> string) \<Rightarrow> int \<Rightarrow> string list \<Rightarrow> ib_api \<Rightarrow> (string list \<times> event list, ib_api) outcome" where
  "process_queue env dd td what v [] ib = Ret ([], []) ib"
| "process_queue env dd td what v (m # ms) ib =
     bind_o (parseAndProcessMsg env dd td what v m ib) (\<lambda>(n, evs) ib1.
       if n > 0 then bind_o (process_queue env dd td what v ms ib1) (\<lambda>(rest, evs') ib2. Ret (rest, evs @ evs') ib2)
       else Ret (ms, evs) ib1)"

text \<open>
  \<open>EReader::processMsgs\<close>: what waits in the output buffer is sent first. The reader is the second part
  of the state; the callbacks of its client about the socket are recorded there.
\<close>

definition processMsgs :: "kernel \<Rightarrow> decode_env \<Rightarrow> (decimal \<Rightarrow> double) \<Rightarrow> (double \<Rightarrow> decimal)
    \<Rightarrow> (exn \<Rightarrow> string) \<Rightarrow> int \<Rightarrow> ereader \<Rightarrow> ib_api \<Rightarrow> (event list \<times> ereader, ib_api) outcome" where
  "processMsgs k env dd td what v rd ib =
     (let rd1 = rd\<lparr>rd_client := onSend k (rd_client rd)\<rparr> in
      bind_o (process_queue env dd td what v (rd_msgQueue rd1) ib) (\<lambda>(ms, evs) ib1.
        Ret (evs, rd1\<lparr>rd_msgQueue := ms\<rparr>) ib1))"

section \<open>Requests without a connection\<close>

lemma not_connected_call: "ec_error i NOT_CONNECTED [] ec = ec\<lparr>ec_cbs := ec_cbs ec @ [W_error i 504 ''Not connected'' []]\<rparr>"
  by (simp add: ec_error_def ec_call_def NOT_CONNECTED_def)

lemma unconnected:
  assumes "\<not> isConnected ec"
  shows "reqMarketDataType k ds n ec = ec_error NO_VALID_ID NOT_CONNECTED [] ec"
    "reqTickByTickData k ds i c t n b ec = ec_error NO_VALID_ID NOT_CONNECTED [] ec"
    "placeOrder k ds i c ord ec = ec_error i NOT_CONNECTED [] ec"
    "cancelOrder k ds i time ec = Ret () (ec_error i NOT_CONNECTED [] ec)"
    "reqGlobalCancel k ds ec = ec_error NO_VALID_ID NOT_CONNECTED [] ec"
    "reqContractDetails k ds i c ec = ec_error NO_VALID_ID NOT_CONNECTED [] ec"
    "reqHistoricalData k ds i c en dur sz wts rth fm keep opts ec = ec_error i NOT_CONNECTED [] ec"
  using assms
  by (simp_all only: reqMarketDataType_def reqTickByTickData_def placeOrder_def cancelOrder_def reqGlobalCancel_def
      reqContractDetails_def reqHistoricalData_def not_True_eq_False if_True simp_thms)

text \<open>
  A request made while the client is not connected sends nothing; it reports the error 504 once and
  changes nothing else.
\<close>

theorem unconnected_request_reports:
  assumes "ec_connState ec \<noteq> CS_CONNECTED" and "call \<noteq> C_eDisconnect"
  shows "\<exists>i. client_exec k ds call ec = Ret () (ec\<lparr>ec_cbs := ec_cbs ec @ [W_error i 504 ''Not connected'' []]\<rparr>)"
proof -
  have "\<not> isConnected ec" using assms(1) by (simp add: isConnected_def)
  note u = unconnected [OF this, unfolded not_connected_call]
  show ?thesis using assms(2) by (cases call) (simp_all only: client_exec.simps u, blast+)
qed

theorem unconnected_request_reports_witness:
  "\<exists>i. client_exec (\<lambda>s. Sent (length s)) (\<lambda>_. []) C_reqGlobalCancel ec_init = Ret () (ec_init\<lparr>ec_cbs := [W_error i 504 ''Not connected'' []]\<rparr>)"
  using unconnected_request_reports [of ec_init C_reqGlobalCancel "(\<lambda>s. Sent (length s))" "\<lambda>_. []"] by (simp add: ec_init_def)

section \<open>From the network to the events\<close>

lemma ib_run_append:
  "ib_run dd td (xs @ ys) ib = bind_o (ib_run dd td xs ib) (\<lambda>evs ib1. bind_o (ib_run dd td ys ib1) (\<lambda>evs' ib2. Ret (evs @ evs') ib2))"
  by (induction xs arbitrary: ib) (simp_all add: bind_o_assoc)

definition ops_of :: "wrapper_call list \<Rightarrow> ib_op list" where
  "ops_of ws = List.map_filter wrapper_op ws"

lemma ops_of_simps [simp]:
  "ops_of [] = []" "ops_of (w # ws) = (case wrapper_op w of None \<Rightarrow> ops_of ws | Some op \<Rightarrow> op # ops_of ws)"
  "ops_of (ws @ ws') = ops_of ws @ ops_of ws'"
  by (simp_all add: ops_of_def map_filter_def split: option.split)

lemma deliver_runs: "ib_run dd td (ops_of ws) ib = Ret evs ib' \<Longrightarrow> deliver dd td ws ib = Ret (evs, None) ib'"
  by (induction ws arbitrary: ib evs) (fastforce simp: bind_o_eq_Ret split: option.splits)+

lemma message_runs:
  assumes "decode_msg env v m = Some (Inr ws, r)" and "ib_run dd td (ops_of ws) ib = Ret evs ib'"
  shows "\<exists>n > 0. parseAndProcessMsg env dd td what v m ib = Ret (n, evs) ib'"
  using decode_msg_shorter [OF assms(1)] deliver_runs [OF assms(2)] assms(1) by (simp add: parseAndProcessMsg_def)

definition decodes :: "decode_env \<Rightarrow> int \<Rightarrow> string \<Rightarrow> wrapper_call list \<Rightarrow> bool" where
  "decodes env v m ws \<longleftrightarrow> (case decode_msg env v m of Some (Inr ws', r) \<Rightarrow> ws' = ws | _ \<Rightarrow> False)"

lemma decodes_decode: "decodes env v m ws \<Longrightarrow> \<exists>r. decode_msg env v m = Some (Inr ws, r)"
  by (auto simp: decodes_def split: option.splits sum.splits)

lemma queue_runs:
  assumes "list_all2 (decodes env v) ms wss" and "ib_run dd td (ops_of (concat wss)) ib = Ret evs ib'"
  shows "process_queue env dd td what v ms ib = Ret ([], evs) ib'"
  using assms
proof (induction arbitrary: ib evs rule: list_all2_induct)
  case (Cons m ms ws wss)
  from Cons.prems obtain evs1 ib1 evs2 where r: "ib_run dd td (ops_of ws) ib = Ret evs1 ib1"
    "ib_run dd td (ops_of (concat wss)) ib1 = Ret evs2 ib'" "evs = evs1 @ evs2"
    by (auto simp: ib_run_append bind_o_eq_Ret)
  obtain r' where "decode_msg env v m = Some (Inr ws, r')" using decodes_decode [OF Cons.hyps(1)] by blast
  from message_runs [OF this r(1), of what] Cons.IH [OF r(2)] show ?case using r(3) by auto
qed simp

lemma arriving_append: "arriving (xs @ ys) = arriving xs @ arriving ys"
  by (induction xs rule: arriving.induct) simp_all

text \<open>
  Whatever pieces and pauses the network makes of the frames of some messages, when the thread of the
  gateway has been signalled the events published are those of the callbacks the messages stand for,
  called one after another, and the queue is empty.
\<close>

lemma network_runs:
  assumes "isSocketOK ec" and "list_all works evs" and "arriving evs = concat (map frame ms)"
    and "\<forall>m \<in> set ms. m \<noteq> [] \<and> length m \<le> MAX_MSG_LEN"
    and "list_all2 (decodes env v) ms wss" and "ib_run dd td (ops_of (concat wss)) ib = Ret out ib'"
  shows "\<exists>rd rd'. readToQueue (rd_init ec (evs @ closing)) = Some rd
    \<and> processMsgs k env dd td what v rd ib = Ret (out, rd') ib' \<and> rd_msgQueue rd' = []"
proof -
  have "reading (rd_init ec (evs @ closing)) (concat (map frame ms) @ []) closing (rd_init ec (evs @ closing))"
    using reading_init [OF assms(1,2), of closing] by (simp add: assms(3))
  from readToQueue_messages [OF this assms(4)] readToQueue_closed
  obtain rd where "readToQueue (rd_init ec (evs @ closing)) = Some rd" "rd_msgQueue rd = ms"
    by (fastforce simp: rd_init_def)
  then show ?thesis using queue_runs [OF assms(5,6), of what] by (auto simp: processMsgs_def Let_def)
qed

section \<open>A tick that is cut short\<close>

lemma get_double_text: "NUL \<notin> set t \<Longrightarrow> get_double k (t @ NUL # r) = k (if t = INFINITY_STR then PInf else atof t) r"
  by (simp add: get_double_def)

lemma empty_field: "next_field (NUL # r) = Some ([], r)"
  using next_field_text [of "[]" r] by simp

lemma empty_fields:
  "get_decimal sd k (NUL # r) = k (sd []) r" "get_text k' (NUL # r) = k' [] r" "get_int k'' (NUL # r) = k'' 0 r"
proof -
  have "atoi [] = 0" by code_simp
  then show "get_decimal sd k (NUL # r) = k (sd []) r" "get_text k' (NUL # r) = k' [] r" "get_int k'' (NUL # r) = k'' 0 r"
    by (simp_all add: get_decimal_def get_text_def get_int_def empty_field)
qed


lemma get_long_wire: "- (2 ^ 63) \<le> n \<Longrightarrow> n < 2 ^ 63 \<Longrightarrow> get_long k (int_str n @ NUL # r) = k n r"
  by (simp add: get_long_def strtol_int_str)

lemma decode_tick: "decode_msg env v (int_str 99 @ NUL # u) = processTickByTickDataMsg (de_decimal env) u"
  by (simp add: decode_msg_def decoder_of_def decoder_tables)

lemma cut_trade_decodes:
  assumes "- (2 ^ 31) \<le> r" "r < 2 ^ 31" "tt = 1 \<or> tt = 2" "- (2 ^ 63) \<le> time" "time < 2 ^ 63" "NUL \<notin> set p" "p \<noteq> INFINITY_STR" "5 \<le> n"
  shows "decodes env v (wire [int_str 99, int_str r, int_str tt, int_str time] @ p @ replicate n NUL)
    [W_tickByTickAllLast r tt time (atof p) (de_decimal env []) False False [] []]"
proof -
  obtain m where "n = m + 5" using le_Suc_ex [OF assms(8)] by (auto simp: add.commute)
  then have n: "replicate n NUL = NUL # NUL # NUL # NUL # NUL # replicate m NUL" by (simp add: numeral_eq_Suc)
  have t: "- (2 ^ 31) \<le> tt" "tt < 2 ^ 31" using assms(3) by auto
  have "processTickByTickDataMsg (de_decimal env) (int_str r @ NUL # int_str tt @ NUL # int_str time @ NUL # p @ NUL # NUL # NUL # NUL # NUL # z)
    = calls [W_tickByTickAllLast r tt time (atof p) (de_decimal env []) (bit (0::int) 0) (bit (0::int) 1) [] []] z" for z
    unfolding processTickByTickDataMsg_def get_int_wire [OF assms(1,2)] get_int_wire [OF t] get_long_wire [OF assms(4,5)]
    using assms(3,7) by (simp add: get_double_text [OF assms(6)] empty_fields)
  then show ?thesis by (simp add: decodes_def n decode_tick calls_def)
qed

text \<open>
  Property C14. When the connection ends within the price of a trade, at least five characters before
  the end of its message and with no NUL among the digits that have arrived, the gateway publishes a
  tick of the subscribed symbol with these digits as its price: a trade at 2345.5 whose message ends
  after two digits is a trade at 23.
\<close>

theorem cut_trade_is_published:
  assumes "isSocketOK ec" and "list_all works evs"
    and "arriving evs = htonl_bytes n @ wire [int_str 99, int_str r, int_str tt, int_str time] @ p"
    and "length (wire [int_str 99, int_str r, int_str tt, int_str time] @ p) + 5 \<le> n" "n \<le> IN_BUF_SIZE_DEFAULT"
    and "- (2 ^ 31) \<le> r" "r < 2 ^ 31" "tt = 1 \<or> tt = 2" "- (2 ^ 63) \<le> time" "time < 2 ^ 63" "NUL \<notin> set p" "p \<noteq> INFINITY_STR"
    and "ib_req_id2sym ib r = Some symb"
  shows "\<exists>rd rd' ib'. readToQueue (rd_init ec (evs @ closing)) = Some rd
    \<and> processMsgs k env dd td what v rd ib
      = Ret ([on_tick ((tick_ref ib symb)\<lparr>t_last_price := atof p, t_last_size := dd (de_decimal env []), t_timestamp := time\<rparr>)], rd') ib'"
proof -
  let ?q = "wire [int_str 99, int_str r, int_str tt, int_str time] @ p"
  define j where "j = n - length ?q"
  have j: "5 \<le> j" using assms(4) unfolding j_def by linarith
  have n: "n \<le> MAX_MSG_LEN" "length ?q < n" using assms(4,5) by (simp_all add: IN_BUF_SIZE_DEFAULT_def MAX_MSG_LEN_def)
  have "reading (rd_init ec (evs @ closing)) (htonl_bytes n @ ?q) closing (rd_init ec (evs @ closing))"
    using reading_init [OF assms(1,2), of closing] by (simp only: assms(3))
  from readToQueue_cut [OF this n(2) _ n(1)] assms(5) obtain rd where
    rd: "readToQueue (rd_init ec (evs @ closing)) = Some rd" "rd_msgQueue rd = [?q @ replicate j NUL]"
    by (auto simp: rd_init_def j_def)
  have "decodes env v (?q @ replicate j NUL) [W_tickByTickAllLast r tt time (atof p) (de_decimal env []) False False [] []]"
    using cut_trade_decodes [OF assms(6-12) j, of env v] by simp
  then have d: "list_all2 (decodes env v) (rd_msgQueue rd) [[W_tickByTickAllLast r tt time (atof p) (de_decimal env []) False False [] []]]"
    by (simp add: rd(2))
  have "ib_run dd td (ops_of (concat [[W_tickByTickAllLast r tt time (atof p) (de_decimal env []) False False [] []]])) ib
    = Ret [on_tick ((tick_ref ib symb)\<lparr>t_last_price := atof p, t_last_size := dd (de_decimal env []), t_timestamp := time\<rparr>)]
        (snd (ib_tickByTickAllLast dd r tt time (atof p) (de_decimal env []) ib))"
    using assms(13) by (simp add: lift_o_def ib_tickByTickAllLast_def Let_def)
  from queue_runs [OF d this, of what] rd(1) show ?thesis by (auto simp: processMsgs_def Let_def)
qed

text \<open>Of a trade of request 7 the digits 23 of the price arrive, with 28 more bytes to come.\<close>

theorem cut_trade_is_published_witness:
  "\<exists>rd rd' ib'. readToQueue (rd_init demo_client ([Sel_ready False (Some (Recv (htonl_bytes 40 @
        wire [int_str 99, int_str 7, int_str 2, int_str 100] @ ''23'')))] @ closing)) = Some rd
    \<and> processMsgs (\<lambda>s. Sent (length s)) \<lparr>de_decimal = \<lambda>_. 0, de_uninit_int = 0, de_uninit_double = 0\<rparr> (\<lambda>_. 0) (\<lambda>_. 0) (\<lambda>_. []) 176 rd (ib_init\<lparr>ib_req_id2sym := [7 \<mapsto> ''6758-STK-JPY.TSEJ'']\<rparr>)
      = Ret ([on_tick ((tick_ref (ib_init\<lparr>ib_req_id2sym := [7 \<mapsto> ''6758-STK-JPY.TSEJ'']\<rparr>) ''6758-STK-JPY.TSEJ'')
          \<lparr>t_last_price := atof ''23'', t_last_size := 0, t_timestamp := 100\<rparr>)], rd') ib'"
proof (rule cut_trade_is_published [OF demo_client_ok])
  have i: "int_str 99 = ''99''" "int_str 7 = ''7''" "int_str 2 = ''2''" "int_str 100 = ''100''" by code_simp+
  show "length (wire [int_str 99, int_str 7, int_str 2, int_str 100] @ ''23'') + 5 \<le> 40" by (simp add: i)
qed (simp_all add: IN_BUF_SIZE_DEFAULT_def INFINITY_STR_def)

section \<open>A callback that throws\<close>

text \<open>
  Property C15. A message that decodes to a status of an order the gateway does not know ends the
  processing of the queue: the engine gets the error 509 of a socket, every order keeps its record, and
  the messages behind stay in the queue until the next signal. The gateway has no order under the id -1,
  which the error carries.
\<close>

theorem unknown_status_stops_queue:
  assumes "decode_msg env v m = Some (Inr [W_orderStatus i status filled remaining avg perm parent px client why cap], r)"
    and "um_at order_status_to_calm status = Inl e" and "ib_orders ib (- 1) = None"
  shows "process_queue env dd td what v (m # ms) ib
    = Ret (ms, [on_error \<lparr>em_id = - 1, em_error_code = 509, em_message = snd SOCKET_EXCEPTION @ what e, em_order_rejection_json = []\<rparr>]) ib"
  using assms by (simp add: parseAndProcessMsg_def Let_def ib_orderStatus_def lift_o_def ib_error_def NO_VALID_ID_def SOCKET_EXCEPTION_def)

lemma status_unknown: "um_at order_status_to_calm ''ApiPending'' = Inl Out_of_range"
  by code_simp

text \<open>The status of order 5, followed by another message.\<close>

definition demo_env :: decode_env where
  "demo_env = \<lparr>de_decimal = \<lambda>_. 0, de_uninit_int = 0, de_uninit_double = 0\<rparr>"

theorem unknown_status_stops_queue_witness:
  "process_queue demo_env (\<lambda>_. 0) (\<lambda>_. 0) (\<lambda>_. ''x'') 176
      [wire [''3'', ''5'', ''ApiPending'', ''0'', ''1'', ''0'', ''0'', ''0'', ''0'', ''1'', '''', ''0''], wire [''9'', ''1'', ''7'']] ib_init
    = Ret ([wire [''9'', ''1'', ''7'']],
        [on_error \<lparr>em_id = - 1, em_error_code = 509, em_message = snd SOCKET_EXCEPTION @ ''x'', em_order_rejection_json = []\<rparr>]) ib_init"
proof (rule unknown_status_stops_queue [OF _ status_unknown])
  have i: "atoi ''3'' = 3" "atoi ''5'' = 5" "atoi ''0'' = 0" "atoi ''1'' = 1" by code_simp+
  show "decode_msg demo_env 176
      (wire [''3'', ''5'', ''ApiPending'', ''0'', ''1'', ''0'', ''0'', ''0'', ''0'', ''1'', '''', ''0''])
    = Some (Inr [W_orderStatus 5 ''ApiPending'' 0 0 (atof ''0'') 0 0 (atof ''0'') 1 [] (atof ''0'')], [])"
    unfolding wire_simps by (simp add: demo_env_def decode_msg_def decoder_of_def decoder_tables processOrderStatusMsg_def skip_int_if_def
      get_int_def get_text_def get_decimal_def get_double_def when_read_def next_field_def calls_def i INFINITY_STR_def)
qed (simp add: ib_init_def)

end
