(* ===== verification/TwsThreads.thy ===== *)
theory TwsThreads
  imports TwsGateway
begin

text \<open>
  The two threads between the socket and the gateway: the thread of \<open>EReader::readToQueue\<close> puts messages
  into the queue and raises a signal after each (\<open>external/tws/client/EReader.cpp\<close>), the thread of
  \<open>IBApi::process_messages\<close> (\<open>lib/gateway/gateway.cpp\<close>) waits for the signal and takes messages off until
  there are none or one fails. The signal (\<open>EReaderOSSignal.cpp\<close>) is a flag under a mutex, which a wait
  clears. One step is one critical section of the queue or of the signal, or the handling of one
  message, whose effect is the argument \<open>h\<close>. Signals the reader raises only because the socket can be
  written, and waits that end without a signal, are \<open>timeouts\<close>: they only give the second thread more turns.
  The gateway is taken to be running; its requests, which other threads make, are not among the steps.
\<close>

section \<open>States and steps\<close>

datatype reader_pc = RD_idle | RD_signal | RD_done

text \<open>The second thread is about to wait, waits inside, takes a message or handles one.\<close>

datatype proc_pc = PR_wait | PR_blocked | PR_get | PR_handle string

record msg_sys =
  ms_arriving :: "string list"
  ms_reader :: reader_pc
  ms_open :: bool
  ms_queue :: "string list"
  ms_proc :: proc_pc
  ms_ib :: ib_api
  ms_out :: "event list"

definition msg_init :: "string list \<Rightarrow> ib_api \<Rightarrow> msg_sys" where
  "msg_init ms ib = \<lparr>ms_arriving = ms, ms_reader = RD_idle, ms_open = False, ms_queue = [], ms_proc = PR_wait,
     ms_ib = ib, ms_out = []\<rparr>"

definition issueSignal :: "msg_sys \<Rightarrow> msg_sys" where
  "issueSignal s = s\<lparr>ms_open := True\<rparr>"

text \<open>
  A flag that is up ends the wait at once; else the thread blocks, until the flag is up or, with
  \<open>timeouts\<close>, by itself. Then the flag is down.
\<close>

definition signal_taken :: "msg_sys \<Rightarrow> msg_sys" where
  "signal_taken s = s\<lparr>ms_open := False, ms_proc := PR_get\<rparr>"

definition waitForSignal :: "msg_sys \<Rightarrow> msg_sys" where
  "waitForSignal s = (if ms_open s then signal_taken s else s\<lparr>ms_proc := PR_blocked\<rparr>)"

definition wake_up :: "bool \<Rightarrow> msg_sys \<Rightarrow> msg_sys option" where
  "wake_up timeouts s = (if ms_open s \<or> timeouts then Some (signal_taken s) else None)"

type_synonym handler = "string \<Rightarrow> ib_api \<Rightarrow> (nat \<times> event list, ib_api) outcome"

inductive msg_step :: "handler \<Rightarrow> bool \<Rightarrow> msg_sys \<Rightarrow> msg_sys \<Rightarrow> bool" for h timeouts where
  read_put: "ms_reader s = RD_idle \<Longrightarrow> ms_arriving s = m # ms \<Longrightarrow>
    msg_step h timeouts s (s\<lparr>ms_arriving := ms, ms_queue := ms_queue s @ [m], ms_reader := RD_signal\<rparr>)"
| read_signal: "ms_reader s = RD_signal \<Longrightarrow> msg_step h timeouts s (issueSignal (s\<lparr>ms_reader := RD_idle\<rparr>))"
| read_end: "ms_reader s = RD_idle \<Longrightarrow> ms_arriving s = [] \<Longrightarrow>
    msg_step h timeouts s (issueSignal (s\<lparr>ms_reader := RD_done\<rparr>))"
| proc_wait: "ms_proc s = PR_wait \<Longrightarrow> msg_step h timeouts s (waitForSignal s)"
| proc_wake: "ms_proc s = PR_blocked \<Longrightarrow> wake_up timeouts s = Some t \<Longrightarrow> msg_step h timeouts s t"
| proc_empty: "ms_proc s = PR_get \<Longrightarrow> ms_queue s = [] \<Longrightarrow> msg_step h timeouts s (s\<lparr>ms_proc := PR_wait\<rparr>)"
| proc_get: "ms_proc s = PR_get \<Longrightarrow> ms_queue s = m # ms \<Longrightarrow>
    msg_step h timeouts s (s\<lparr>ms_queue := ms, ms_proc := PR_handle m\<rparr>)"
| proc_handle: "ms_proc s = PR_handle m \<Longrightarrow> h m (ms_ib s) = Ret (n, evs) ib \<Longrightarrow>
    msg_step h timeouts s (s\<lparr>ms_ib := ib, ms_out := ms_out s @ evs, ms_proc := (if n > 0 then PR_get else PR_wait)\<rparr>)"

inductive msg_reach :: "handler \<Rightarrow> bool \<Rightarrow> msg_sys \<Rightarrow> msg_sys \<Rightarrow> bool" for h timeouts s0 where
  start: "msg_reach h timeouts s0 s0"
| step: "msg_reach h timeouts s0 s \<Longrightarrow> msg_step h timeouts s t \<Longrightarrow> msg_reach h timeouts s0 t"

inductive_cases msg_stepE: "msg_step h timeouts s t"

text \<open>Whatever is scheduled, a state with the property is reached.\<close>

inductive inevitably :: "('s \<Rightarrow> 's \<Rightarrow> bool) \<Rightarrow> ('s \<Rightarrow> bool) \<Rightarrow> 's \<Rightarrow> bool" for stp P where
  now: "P s \<Longrightarrow> inevitably stp P s"
| later: "stp s t \<Longrightarrow> (\<And>u. stp s u \<Longrightarrow> inevitably stp P u) \<Longrightarrow> inevitably stp P s"

section \<open>What is left to do\<close>

definition to_do :: "msg_sys \<Rightarrow> string list" where
  "to_do s = (case ms_proc s of PR_handle m \<Rightarrow> [m] | _ \<Rightarrow> []) @ ms_queue s @ ms_arriving s"

text \<open>The messages handled one after another, none of which fails.\<close>

fun handled :: "handler \<Rightarrow> string list \<Rightarrow> ib_api \<Rightarrow> event list \<Rightarrow> ib_api \<Rightarrow> bool" where
  "handled h [] ib evs ib' \<longleftrightarrow> evs = [] \<and> ib' = ib"
| "handled h (m # ms) ib evs ib' \<longleftrightarrow> (case h m ib of
     Ret (n, evs1) ib1 \<Rightarrow> n > 0 \<and> (\<exists>evs2. evs = evs1 @ evs2 \<and> handled h ms ib1 evs2 ib')
   | _ \<Rightarrow> False)"

text \<open>No wake-up is lost: a queue that is not empty is known to the thread that waits, or will be.\<close>

definition wake_ok :: "msg_sys \<Rightarrow> bool" where
  "wake_ok s \<longleftrightarrow> (ms_proc s \<in> {PR_wait, PR_blocked} \<and> ms_queue s \<noteq> [] \<longrightarrow> ms_open s \<or> ms_reader s = RD_signal)"

definition msg_inv :: "handler \<Rightarrow> event list \<Rightarrow> ib_api \<Rightarrow> msg_sys \<Rightarrow> bool" where
  "msg_inv h out ib' s \<longleftrightarrow> wake_ok s \<and> (ms_reader s = RD_done \<longrightarrow> ms_arriving s = [])
     \<and> (\<exists>evs. handled h (to_do s) (ms_ib s) evs ib' \<and> out = ms_out s @ evs)"

lemmas signal_defs = issueSignal_def waitForSignal_def wake_up_def signal_taken_def

lemmas msg_defs = msg_inv_def wake_ok_def to_do_def signal_defs

lemma msg_inv_init: "handled h ms ib out ib' \<Longrightarrow> msg_inv h out ib' (msg_init ms ib)"
  by (simp add: msg_defs msg_init_def)

lemma msg_inv_step: "msg_step h timeouts s t \<Longrightarrow> msg_inv h out ib' s \<Longrightarrow> msg_inv h out ib' t"
  by (induction rule: msg_step.induct) (auto simp: msg_defs split: if_splits)

lemma msg_inv_reach: "msg_reach h timeouts s0 s \<Longrightarrow> msg_inv h out ib' s0 \<Longrightarrow> msg_inv h out ib' s"
  by (induction rule: msg_reach.induct) (auto intro: msg_inv_step)

section \<open>Every message is handled\<close>

fun reader_left :: "reader_pc \<Rightarrow> nat" where
  "reader_left RD_signal = 8"
| "reader_left RD_idle = 4"
| "reader_left RD_done = 0"

fun proc_left :: "proc_pc \<Rightarrow> nat" where
  "proc_left PR_blocked = 0"
| "proc_left PR_wait = 1"
| "proc_left PR_get = 2"
| "proc_left (PR_handle _) = 3"

definition work_left :: "msg_sys \<Rightarrow> nat" where
  "work_left s = 7 * length (ms_arriving s) + 2 * length (ms_queue s) + reader_left (ms_reader s)
     + (if ms_open s then 3 else 0) + proc_left (ms_proc s)"

lemma work_decreases: "msg_step h False s t \<Longrightarrow> work_left t < work_left s"
  by (induction rule: msg_step.induct) (auto simp: work_left_def signal_defs split: if_splits)

lemma msg_progress:
  assumes "msg_inv h out ib' s" and "to_do s \<noteq> []"
  shows "\<exists>t. msg_step h False s t"
proof (cases "ms_proc s")
  case PR_get
  then show ?thesis by (cases "ms_queue s") (auto intro: msg_step.proc_empty msg_step.proc_get)
next
  case (PR_handle m)
  then obtain n evs ib where "h m (ms_ib s) = Ret (n, evs) ib"
    using assms(1) by (cases "h m (ms_ib s)") (auto simp: msg_defs)
  with PR_handle show ?thesis by (blast intro: msg_step.proc_handle)
next
  case PR_wait
  then show ?thesis by (blast intro: msg_step.proc_wait)
next
  case PR_blocked
  show ?thesis
  proof (cases "ms_reader s = RD_signal \<or> ms_open s")
    case True
    then show ?thesis
    proof
      assume "ms_open s"
      then have "wake_up False s = Some (signal_taken s)" by (simp add: wake_up_def)
      with PR_blocked show ?thesis by (blast intro: msg_step.proc_wake)
    qed (blast intro: msg_step.read_signal)
  next
    case False
    then have "ms_arriving s \<noteq> []" using assms PR_blocked by (auto simp: msg_defs)
    then obtain m ms where a: "ms_arriving s = m # ms" by (cases "ms_arriving s") auto
    have "ms_reader s = RD_idle" using False assms(1) a by (cases "ms_reader s") (auto simp: msg_defs)
    with a show ?thesis by (auto intro: msg_step.read_put)
  qed
qed

lemma inevitably_handled:
  "msg_inv h out ib' s \<Longrightarrow> inevitably (msg_step h False) (\<lambda>t. to_do t = [] \<and> ms_out t = out \<and> ms_ib t = ib') s"
proof (induction "work_left s" arbitrary: s rule: less_induct)
  case less
  show ?case
  proof (cases "to_do s = []")
    case True
    then show ?thesis using less.prems by (intro inevitably.now) (auto simp: msg_inv_def)
  next
    case False
    then obtain t where t: "msg_step h False s t" using msg_progress [OF less.prems] by blast
    show ?thesis
    proof (rule inevitably.later [where stp = "msg_step h False", OF t])
      fix u assume u: "msg_step h False s u"
      show "inevitably (msg_step h False) (\<lambda>t. to_do t = [] \<and> ms_out t = out \<and> ms_ib t = ib') u"
        by (rule less.hyps [OF work_decreases [OF u] msg_inv_step [OF u less.prems]])
    qed
  qed
qed

lemma run_handled:
  assumes "list_all2 (decodes env v) ms wss" and "ib_run dd td (ops_of (concat wss)) ib = Ret out ib'"
  shows "handled (parseAndProcessMsg env dd td what v) ms ib out ib'"
  using assms
proof (induction arbitrary: ib out rule: list_all2_induct)
  case (Cons m ms ws wss)
  from Cons.prems obtain evs1 ib1 evs2 where r: "ib_run dd td (ops_of ws) ib = Ret evs1 ib1"
    "ib_run dd td (ops_of (concat wss)) ib1 = Ret evs2 ib'" "out = evs1 @ evs2"
    by (auto simp: ib_run_append bind_o_eq_Ret)
  obtain r' where "decode_msg env v m = Some (Inr ws, r')" using decodes_decode [OF Cons.hyps(1)] by blast
  from message_runs [OF this r(1), of what] Cons.IH [OF r(2)] show ?case using r(3) by auto
qed simp

text \<open>
  Property C16. When every message decodes and no callback they stand for throws, no message waits for
  ever: however the thread that reads and the thread of the gateway are scheduled, and although no wait
  ends by itself, from every state they can reach all messages are handled, and then the events
  published and the state of the gateway are those of the callbacks the messages stand for, called one
  after another. A message that fails is another matter: it can leave those behind it in the queue.
\<close>

theorem every_message_handled:
  assumes "list_all2 (decodes env v) ms wss" and "ib_run dd td (ops_of (concat wss)) ib = Ret out ib'"
    and "msg_reach (parseAndProcessMsg env dd td what v) False (msg_init ms ib) s"
  shows "inevitably (msg_step (parseAndProcessMsg env dd td what v) False)
    (\<lambda>t. to_do t = [] \<and> ms_out t = out \<and> ms_ib t = ib') s"
  by (intro inevitably_handled msg_inv_reach [OF assms(3)] msg_inv_init run_handled [OF assms(1,2)])

text \<open>The message of a next identifier, when it is in the queue and its signal has not been raised.\<close>

theorem every_message_handled_witness:
  "inevitably (msg_step (parseAndProcessMsg demo_env (\<lambda>_. 0) (\<lambda>_. 0) (\<lambda>_. []) 176) False)
    (\<lambda>t. to_do t = [] \<and> ms_out t = [] \<and> ms_ib t = ib_nextValidId 7 ib_init)
    ((msg_init [wire [''9'', ''1'', ''7'']] ib_init)
       \<lparr>ms_arriving := [], ms_queue := [wire [''9'', ''1'', ''7'']], ms_reader := RD_signal\<rparr>)"
proof (rule every_message_handled [where wss = "[[W_nextValidId 7]]"])
  have i: "''9'' = int_str 9" "''1'' = int_str 1" "''7'' = int_str 7" by (code_simp+)
  show "list_all2 (decodes demo_env 176) [wire [''9'', ''1'', ''7'']] [[W_nextValidId 7]]"
    unfolding i by (simp add: demo_env_def decodes_def decode_msg_def decoder_of_def decoder_tables processNextValidIdMsg_def calls_def)
  show "msg_reach (parseAndProcessMsg demo_env (\<lambda>_. 0) (\<lambda>_. 0) (\<lambda>_. []) 176) False (msg_init [wire [''9'', ''1'', ''7'']] ib_init)
    ((msg_init [wire [''9'', ''1'', ''7'']] ib_init)
       \<lparr>ms_arriving := [], ms_queue := [wire [''9'', ''1'', ''7'']], ms_reader := RD_signal\<rparr>)"
    by (rule msg_reach.step [OF msg_reach.start])
      (use msg_step.read_put [where s = "msg_init [wire [''9'', ''1'', ''7'']] ib_init" and ms = "[]"] in \<open>simp add: msg_init_def\<close>)
qed simp

section \<open>A message that fails\<close>

text \<open>
  A message that is not processed ends the turn of the thread, whose signal may already be used up:
  then the message behind it waits although nothing else will ever happen, until a wait ends by
  itself.
\<close>

lemma failed_message_strands_rest:
  assumes "h m ib = Ret (0, evs) ib'"
  shows "\<exists>s. msg_reach h False (msg_init [m, m2] ib) s \<and> ms_queue s = [m2] \<and> ms_ib s = ib' \<and> (\<forall>t. \<not> msg_step h False s t)"
proof -
  define st where "st arr rd op q pr ib out = \<lparr>ms_arriving = arr, ms_reader = rd, ms_open = op, ms_queue = q, ms_proc = pr,
    ms_ib = ib, ms_out = out\<rparr>" for arr rd op q pr ib out
  note steps = msg_step.intros [where h = h and timeouts = False]
  have "msg_reach h False (msg_init [m, m2] ib) (st [m, m2] RD_idle False [] PR_wait ib [])"
    using msg_reach.start by (simp add: st_def msg_init_def)
  then have "msg_reach h False (msg_init [m, m2] ib) (st [m2] RD_signal False [m] PR_wait ib [])"
    by (rule msg_reach.step) (use steps(1) [of "st [m, m2] RD_idle False [] PR_wait ib []"] in \<open>simp add: st_def\<close>)
  then have "msg_reach h False (msg_init [m, m2] ib) (st [m2] RD_idle True [m] PR_wait ib [])"
    by (rule msg_reach.step) (use steps(2) [of "st [m2] RD_signal False [m] PR_wait ib []"] in \<open>simp add: st_def signal_defs\<close>)
  then have "msg_reach h False (msg_init [m, m2] ib) (st [] RD_signal True [m, m2] PR_wait ib [])"
    by (rule msg_reach.step) (use steps(1) [of "st [m2] RD_idle True [m] PR_wait ib []"] in \<open>simp add: st_def\<close>)
  then have "msg_reach h False (msg_init [m, m2] ib) (st [] RD_idle True [m, m2] PR_wait ib [])"
    by (rule msg_reach.step) (use steps(2) [of "st [] RD_signal True [m, m2] PR_wait ib []"] in \<open>simp add: st_def signal_defs\<close>)
  then have "msg_reach h False (msg_init [m, m2] ib) (st [] RD_done True [m, m2] PR_wait ib [])"
    by (rule msg_reach.step) (use steps(3) [of "st [] RD_idle True [m, m2] PR_wait ib []"] in \<open>simp add: st_def signal_defs\<close>)
  then have "msg_reach h False (msg_init [m, m2] ib) (st [] RD_done False [m, m2] PR_get ib [])"
    by (rule msg_reach.step) (use steps(4) [of "st [] RD_done True [m, m2] PR_wait ib []"] in \<open>simp add: st_def signal_defs\<close>)
  then have "msg_reach h False (msg_init [m, m2] ib) (st [] RD_done False [m2] (PR_handle m) ib [])"
    by (rule msg_reach.step) (use steps(7) [of "st [] RD_done False [m, m2] PR_get ib []"] in \<open>simp add: st_def\<close>)
  then have "msg_reach h False (msg_init [m, m2] ib) (st [] RD_done False [m2] PR_wait ib' evs)"
    by (rule msg_reach.step) (use steps(8) [of "st [] RD_done False [m2] (PR_handle m) ib []" m 0 evs ib'] assms in \<open>simp add: st_def\<close>)
  then have "msg_reach h False (msg_init [m, m2] ib) (st [] RD_done False [m2] PR_blocked ib' evs)"
    by (rule msg_reach.step) (use steps(4) [of "st [] RD_done False [m2] PR_wait ib' evs"] in \<open>simp add: st_def signal_defs\<close>)
  moreover have "\<not> msg_step h False (st [] RD_done False [m2] PR_blocked ib' evs) t" for t
    by (auto simp: st_def signal_defs elim: msg_stepE)
  ultimately show ?thesis by (intro exI [of _ "st [] RD_done False [m2] PR_blocked ib' evs"]) (simp add: st_def)
qed

end
