(* ===== verification/TwsConnect.thy ===== *)
theory TwsConnect
  imports TwsGateway
begin

text \<open>
  Connecting to TWS: \<open>EClientSocket::eConnect\<close> and \<open>eConnectImpl\<close> (\<open>external/tws/client/EClientSocket.cpp\<close>) and
  \<open>IBApi::connect\<close> (\<open>lib/gateway/gateway.cpp\<close>). The client opens the socket, asks for a version of the
  protocol, waits with a reader of its own for the answer, and starts the session. What the operating
  system answers is an argument. A wait that does not end is \<open>None\<close>.
\<close>

section \<open>Opening the socket\<close>

definition ALREADY_CONNECTED :: "int \<times> string" where
  "ALREADY_CONNECTED = (501, ''Already connected.'')"

definition FAIL_CREATE_SOCK :: "int \<times> string" where
  "FAIL_CREATE_SOCK = (520, ''Failed to create socket'')"

text \<open>
  Whether \<open>gethostbyname\<close> knows a host; the descriptor \<open>socket\<close> makes, or its error; the error of \<open>connect\<close>
  for a host and a port, if any; the error of \<open>SetSocketNonBlocking\<close>, if any.
\<close>

record os =
  os_resolves :: "string \<Rightarrow> bool"
  os_socket :: "errno + nat"
  os_connect :: "string \<Rightarrow> int \<Rightarrow> errno option"
  os_non_blocking :: "errno option"

text \<open>
  The temporary reader's \<open>processMsgs\<close>: it has put at most one message into its queue, and its decoder
  has no version yet, so the message is the answer to the connection.
\<close>

definition ack_processMsgs :: "kernel \<Rightarrow> (decimal \<Rightarrow> string) \<Rightarrow> int \<times> ereader \<Rightarrow> int \<times> ereader" where
  "ack_processMsgs k ds st =
     (case st of (v, rd) \<Rightarrow>
        case getMsg (rd\<lparr>rd_client := onSend k (rd_client rd)\<rparr>) of
          (None, rd1) \<Rightarrow> (v, rd1)
        | (Some m, rd1) \<Rightarrow>
            (case processConnectAck k ds m (v, rd_client rd1) of
               (n, v', ec) \<Rightarrow> (v', rd1\<lparr>rd_client := ec\<rparr>)))"

text \<open>The loop that waits for the version of the server, signal by signal.\<close>

partial_function (option) await_version :: "kernel \<Rightarrow> (decimal \<Rightarrow> string) \<Rightarrow> int \<times> ereader \<Rightarrow> ereader option" where
  "await_version k ds st =
     (if ec_serverVersion (rd_client (snd st)) = 0 \<and> isSocketOK (rd_client (snd st))
      then await_version k ds (ack_processMsgs k ds st)
      else Some (snd st))"

text \<open>What follows once the socket is connected: the result, the client, and what is left on the network.\<close>

definition handshake :: "kernel \<Rightarrow> (decimal \<Rightarrow> string) \<Rightarrow> os \<Rightarrow> select_result list \<Rightarrow> eclient
    \<Rightarrow> (bool \<times> eclient \<times> select_result list) option" where
  "handshake k ds os net ec =
     (case sendConnectRequest k ec of (res, ec1) \<Rightarrow>
        case (if res < 0 then handleSocketError ec1 else (True, ec1)) of (ok, ec2) \<Rightarrow>
          if \<not> ok then Some (False, ec2, net)
          else if \<not> isConnected ec2
          then Some (False, if ec_connState ec2 \<noteq> CS_DISCONNECTED then eDisconnect True ec2 else ec2, net)
          else case os_non_blocking os of
            Some e \<Rightarrow> Some (False, ec_error NO_VALID_ID CONNECT_FAIL [] (eDisconnect True (ec2\<lparr>ec_errno := e\<rparr>)), net)
          | None \<Rightarrow>
              if ec_asyncEConnect ec2 then Some (isSocketOK ec2, ec2, net)
              else (case putMessageToQueue (rd_init ec2 net) of
                None \<Rightarrow> None
              | Some (_, rd) \<Rightarrow> map_option (\<lambda>rd'. (isSocketOK (rd_client rd'), rd_client rd', rd_net rd'))
                  (await_version k ds (ec_serverVersion ec2, rd))))"

definition eConnectImpl :: "kernel \<Rightarrow> (decimal \<Rightarrow> string) \<Rightarrow> os \<Rightarrow> select_result list \<Rightarrow> int \<Rightarrow> bool \<Rightarrow> eclient
    \<Rightarrow> (bool \<times> eclient \<times> select_result list) option" where
  "eConnectImpl k ds os net clientId extraAuth ec =
     (if \<not> os_resolves os (ec_host ec) then Some (False, ec_error NO_VALID_ID CONNECT_FAIL [] ec, net)
      else case os_socket os of
        Inl e \<Rightarrow> Some (False, ec_error NO_VALID_ID FAIL_CREATE_SOCK [] (ec\<lparr>ec_fd := - 1, ec_errno := e\<rparr>), net)
      | Inr fd \<Rightarrow>
          (case os_connect os (ec_host ec) (ec_port ec) of
             Some e \<Rightarrow> Some (False, ec_error NO_VALID_ID CONNECT_FAIL [] (ec\<lparr>ec_fd := - 1, ec_errno := e\<rparr>), net)
           | None \<Rightarrow> handshake k ds os net (ec\<lparr>ec_fd := int fd, ec_clientId := clientId, ec_extraAuth := extraAuth\<rparr>)))"

definition eConnect :: "kernel \<Rightarrow> (decimal \<Rightarrow> string) \<Rightarrow> os \<Rightarrow> select_result list \<Rightarrow> string \<Rightarrow> int \<Rightarrow> int \<Rightarrow> bool \<Rightarrow> eclient
    \<Rightarrow> (bool \<times> eclient \<times> select_result list) option" where
  "eConnect k ds os net host port clientId extraAuth ec =
     (if ec_fd ec = - 2 then Some (False, ec_error NO_VALID_ID FAIL_CREATE_SOCK [] ec, net)
      else if ec_fd ec \<ge> 0
      then Some (False, ec_error NO_VALID_ID ALREADY_CONNECTED [] (ec\<lparr>ec_errno := E_isconn\<rparr>), net)
      else eConnectImpl k ds os net clientId extraAuth
        (ec\<lparr>ec_errno := E_none, ec_host := (if host \<noteq> [] then host else ''127.0.0.1''), ec_port := port\<rparr>))"

text \<open>\<open>IBApi::connect\<close>: a reader of its own for the thread that follows.\<close>

definition ib_connect :: "kernel \<Rightarrow> (decimal \<Rightarrow> string) \<Rightarrow> os \<Rightarrow> select_result list \<Rightarrow> string \<Rightarrow> int \<Rightarrow> int \<Rightarrow> eclient
    \<Rightarrow> (bool \<times> eclient \<times> ereader option) option" where
  "ib_connect k ds os net host port client_id ec =
     map_option (\<lambda>(bRes, ec', net'). (bRes, ec', if bRes then Some (rd_init ec' net') else None))
       (eConnect k ds os net host port client_id False ec)"

section \<open>What a socket that takes bytes does to the client\<close>

definition takes :: "kernel \<Rightarrow> bool" where
  "takes k \<longleftrightarrow> (\<forall>s. \<exists>n. k s = Sent n)"

definition sends :: "string \<Rightarrow> eclient \<Rightarrow> eclient \<Rightarrow> bool" where
  "sends s ec ec' \<longleftrightarrow> (\<exists>a b. ec' = ec\<lparr>ec_sent := a, ec_outBuffer := b\<rparr>) \<and> ec_stream ec' = ec_stream ec @ s"

definition same_client :: "eclient \<Rightarrow> eclient \<Rightarrow> bool" where
  "same_client ec ec' \<longleftrightarrow> (\<exists>a b. ec' = ec\<lparr>ec_sent := a, ec_outBuffer := b\<rparr>)"

lemma same_client_refl: "same_client ec ec"
  unfolding same_client_def by (rule exI [of _ "ec_sent ec"], rule exI [of _ "ec_outBuffer ec"]) simp

lemma same_client_sent: "same_client ec ec1 \<Longrightarrow> same_client ec (ec1\<lparr>ec_sent := a\<rparr>)"
proof -
  assume "same_client ec ec1"
  then obtain x y where "ec1 = ec\<lparr>ec_sent := x, ec_outBuffer := y\<rparr>" by (auto simp: same_client_def)
  then have "ec1\<lparr>ec_sent := a\<rparr> = ec\<lparr>ec_sent := a, ec_outBuffer := y\<rparr>" by simp
  then show ?thesis unfolding same_client_def by blast
qed

lemma same_client_out: "same_client ec ec1 \<Longrightarrow> same_client ec (ec1\<lparr>ec_outBuffer := b\<rparr>)"
  unfolding same_client_def by (elim exE, hypsubst) (rule exI, rule exI [of _ b], simp)

lemma same_client_trans: "same_client ec ec1 \<Longrightarrow> same_client ec1 ec2 \<Longrightarrow> same_client ec ec2"
  unfolding same_client_def by (elim exE, hypsubst) (rule exI, rule exI, simp)

lemmas same_client_intros = same_client_refl same_client_sent same_client_out

lemma sends_alt: "sends s ec ec' \<longleftrightarrow> same_client ec ec' \<and> ec_stream ec' = ec_stream ec @ s"
  by (simp add: sends_def same_client_def)

lemma sends_trans: "sends s ec ec1 \<Longrightarrow> sends t ec1 ec2 \<Longrightarrow> sends (s @ t) ec ec2"
  unfolding sends_alt using same_client_trans [of ec ec1 ec2] by simp

lemma es_send_form:
  assumes "takes k" and "es_send k buf ec = (n, ec1)"
  shows "0 \<le> n \<and> same_client ec ec1"
proof -
  obtain m where "k buf = Sent m" using assms(1) by (auto simp: takes_def)
  then show ?thesis using assms(2) same_client_refl [of ec] same_client_sent [OF same_client_refl]
    by (auto simp: es_send_def split: if_splits)
qed

lemma sendBufferedData_form:
  assumes "takes k" and "sendBufferedData k ec = (n, ec1)"
  shows "0 \<le> n \<and> sends [] ec ec1"
proof -
  obtain m ec2 where e: "es_send k (ec_outBuffer ec) ec = (m, ec2)" by (cases "es_send k (ec_outBuffer ec) ec") auto
  note f = es_send_form [OF assms(1) e]
  have "0 \<le> n \<and> same_client ec ec1" using assms(2) e f same_client_refl [of ec] same_client_out [of ec ec2]
    by (auto simp: sendBufferedData_def split: if_splits)
  then show ?thesis using sendBufferedData_stream(1) [OF assms(2)] by (simp add: sends_alt)
qed

lemma bufferedSend_form:
  assumes "takes k" and "bufferedSend k s ec = (n, ec1)"
  shows "0 \<le> n \<and> sends s ec ec1"
proof -
  have "0 \<le> n \<and> same_client ec ec1"
  proof (cases "s = [] \<or> ec_outBuffer ec \<noteq> []")
    case True
    let ?ec = "ec\<lparr>ec_outBuffer := ec_outBuffer ec @ s\<rparr>"
    have "same_client ec ?ec" by (intro same_client_intros)
    then show ?thesis using assms(2) True sendBufferedData_form [OF assms(1), of ?ec n ec1] same_client_refl [of ec] same_client_trans [of ec ?ec ec1]
      by (auto simp: bufferedSend_def sends_alt split: if_splits)
  next
    case False
    obtain m ec2 where e: "es_send k s ec = (m, ec2)" by (cases "es_send k s ec") auto
    then show ?thesis using assms(2) False es_send_form [OF assms(1) e] same_client_out [of ec ec2]
      by (auto simp: bufferedSend_def split: if_splits)
  qed
  then show ?thesis using bufferedSend_stream(1) [OF assms(2)] by (simp add: sends_alt)
qed

lemma closeAndSend_sends:
  assumes "takes k" and "ec_useV100Plus ec" and "length s \<le> MAX_MSG_LEN"
  shows "\<exists>ec1. closeAndSend k (p @ replicate HEADER_LEN NUL @ s) (length p) ec = (True, ec1) \<and> sends (p @ frame s) ec ec1"
proof -
  obtain n ec1 where b: "bufferedSend k (p @ frame s) ec = (n, ec1)" by (cases "bufferedSend k (p @ frame s) ec") auto
  then show ?thesis using bufferedSend_form [OF assms(1) b] assms(2) encodeMsgLen_frame [OF assms(3) refl, of p ec]
    by (simp add: closeAndSend_def)
qed

lemma onSend_sends: "takes k \<Longrightarrow> sends [] ec (onSend k ec)"
  by (cases "sendBufferedData k ec") (auto simp: onSend_def dest: sendBufferedData_form)

lemma sends_keeps:
  assumes "sends s ec ec1"
  shows "ec_fd ec1 = ec_fd ec" "ec_connState ec1 = ec_connState ec" "ec_serverVersion ec1 = ec_serverVersion ec"
    "ec_clientId ec1 = ec_clientId ec" "ec_useV100Plus ec1 = ec_useV100Plus ec" "ec_cbs ec1 = ec_cbs ec"
    "ec_asyncEConnect ec1 = ec_asyncEConnect ec" "ec_optionalCapabilities ec1 = ec_optionalCapabilities ec"
    "ec_TwsTime ec1 = ec_TwsTime ec" "ec_host ec1 = ec_host ec" "ec_port ec1 = ec_port ec"
    "ec_stream ec1 = ec_stream ec @ s"
  using assms by (auto simp: sends_def)

section \<open>The messages of the client\<close>

lemma int_str_length: "- (2 ^ 31) \<le> n \<Longrightarrow> n < 2 ^ 31 \<Longrightarrow> length (int_str n) \<le> 20"
proof -
  have d: "length (dec m) \<le> 19" if "m \<le> 2 ^ 31" for m
  proof (cases "m = 0")
    case False
    have "(10::nat) ^ (length (dec m) - 1) \<le> m" using dec_bounds [of m] False by simp
    also have "m < 10 ^ 18" by (rule le_less_trans [OF that]) simp
    finally have "length (dec m) - 1 < 18" by (simp only: power_less_imp_less_exp power_strict_increasing_iff)
    then show ?thesis by simp
  qed (simp add: dec.simps)
  assume "- (2 ^ 31) \<le> n" "n < 2 ^ 31"
  then show ?thesis using d [of "nat n"] d [of "nat (- n)"] by (auto simp: int_str_def nat_le_iff)
qed

definition version_range :: string where
  "version_range = ''v100..176''"

definition idle :: "eclient \<Rightarrow> bool" where
  "idle ec \<longleftrightarrow> ec_fd ec = - 1 \<and> ec_useV100Plus ec \<and> ec_serverVersion ec = 0 \<and> \<not> ec_asyncEConnect ec
     \<and> ec_connectOptions ec = [] \<and> ec_optionalCapabilities ec = []"

lemma sends_connState:
  assumes "sends s (ec\<lparr>ec_connState := c\<rparr>) ec1"
  shows "sends s (ec\<lparr>ec_connState := c'\<rparr>) (ec1\<lparr>ec_connState := c'\<rparr>)"
proof -
  from assms obtain x y where "ec1 = ec\<lparr>ec_connState := c, ec_sent := x, ec_outBuffer := y\<rparr>" by (auto simp: sends_def)
  then have "ec1\<lparr>ec_connState := c'\<rparr> = ec\<lparr>ec_connState := c', ec_sent := x, ec_outBuffer := y\<rparr>" by simp
  moreover have "ec_stream (ec1\<lparr>ec_connState := c'\<rparr>) = ec_stream (ec\<lparr>ec_connState := c'\<rparr>) @ s"
    using assms by (simp add: sends_def)
  ultimately show ?thesis unfolding sends_def by blast
qed

lemma connect_request:
  assumes "takes k" and "ec_useV100Plus ec" and "ec_connectOptions ec = []"
  shows "\<exists>ec1. sendConnectRequest k ec = (1, ec1) \<and> sends (API_SIGN @ frame version_range) (ec\<lparr>ec_connState := CS_CONNECTED\<rparr>) ec1"
proof -
  let ?ec = "ec\<lparr>ec_connState := CS_CONNECTING\<rparr>"
  have i: "int_str 100 = ''100''" "int_str 176 = ''176''" by code_simp+
  have l: "length version_range \<le> MAX_MSG_LEN" by (simp add: version_range_def MAX_MSG_LEN_def)
  obtain ec1 where c: "closeAndSend k (API_SIGN @ replicate HEADER_LEN NUL @ version_range) (length API_SIGN) ?ec = (True, ec1)"
    "sends (API_SIGN @ frame version_range) ?ec ec1"
    using closeAndSend_sends [OF assms(1) _ l, of ?ec API_SIGN] assms(2) by auto
  have "sendConnectRequest k ec = (1, ec1\<lparr>ec_connState := CS_CONNECTED\<rparr>)"
    using c(1) assms(2,3) by (simp add: sendConnectRequest_def Let_def MIN_CLIENT_VER_def MAX_CLIENT_VER_def i version_range_def)
  moreover have "sends (API_SIGN @ frame version_range) (ec\<lparr>ec_connState := CS_CONNECTED\<rparr>) (ec1\<lparr>ec_connState := CS_CONNECTED\<rparr>)"
    by (rule sends_connState [OF c(2)])
  ultimately show ?thesis by blast
qed

abbreviation start_api :: "int \<Rightarrow> string" where
  "start_api clientId \<equiv> wire [int_str 71, int_str 2, int_str clientId, []]"

lemma startApi_sends:
  assumes "takes k" and "isConnected ec" and "ec_useV100Plus ec" and "72 \<le> ec_serverVersion ec"
    and "ec_optionalCapabilities ec = []" and "- (2 ^ 31) \<le> ec_clientId ec" "ec_clientId ec < 2 ^ 31"
  shows "sends (frame (start_api (ec_clientId ec))) ec (startApi k ds ec)"
proof -
  have e: "encode_fields ds [F_int 71, F_int 2, F_int (ec_clientId ec), F_string []] = Inr (start_api (ec_clientId ec))"
    by (simp add: isAsciiPrintable_def)
  have "length (int_str 71) \<le> 20" "length (int_str 2) \<le> 20" by (rule int_str_length; simp)+
  then have l: "length (start_api (ec_clientId ec)) \<le> MAX_MSG_LEN"
    using int_str_length [OF assms(6,7)] by (simp add: MAX_MSG_LEN_def)
  obtain ec1 where "closeAndSend k (replicate HEADER_LEN NUL @ start_api (ec_clientId ec)) 0 ec = (True, ec1)"
    "sends (frame (start_api (ec_clientId ec))) ec ec1"
    using closeAndSend_sends [OF assms(1,3) l, of "[]"] by auto
  then show ?thesis using assms(2-5) e by (simp add: startApi_def since_def send_fields_def prepareBuffer_def del: wire_simps encode_fields.simps)
qed

section \<open>The answer of the server\<close>

lemma ack_accepted:
  assumes "takes k" and "isConnected ec" and "ec_useV100Plus ec" and "\<not> ec_asyncEConnect ec" and "ec_optionalCapabilities ec = []"
    and "- (2 ^ 31) \<le> ec_clientId ec" "ec_clientId ec < 2 ^ 31"
    and "100 \<le> v" "v \<le> 176" "NUL \<notin> set time"
  shows "\<exists>n ec1. processConnectAck k ds (wire [int_str v, time]) (0, ec) = (n, v, ec_call W_connectAck ec1)
    \<and> sends (frame (start_api (ec_clientId ec))) (ec\<lparr>ec_serverVersion := v, ec_TwsTime := time, ec_redirectCount := 0\<rparr>) ec1"
proof -
  have a: "atoi (int_str v) = v" using assms(8,9) by (intro atoi_int_str) auto
  let ?ec = "ec\<lparr>ec_serverVersion := v, ec_TwsTime := time, ec_redirectCount := 0\<rparr>"
  have "set_serverVersion k ds v time ec = startApi k ds ?ec"
    using assms(3,4,8,9) by (simp add: set_serverVersion_def Let_def MIN_CLIENT_VER_def MAX_CLIENT_VER_def)
  then show ?thesis
    using startApi_sends [of k ?ec ds] assms by (auto simp: processConnectAck_def Let_def a isConnected_def)
qed

section \<open>The session that follows\<close>

definition session :: "int \<Rightarrow> string \<Rightarrow> int \<Rightarrow> eclient \<Rightarrow> eclient \<Rightarrow> bool" where
  "session v time clientId ec ec' \<longleftrightarrow> isConnected ec' \<and> isSocketOK ec' \<and> ec_serverVersion ec' = v \<and> ec_TwsTime ec' = time
     \<and> ec_cbs ec' = ec_cbs ec @ [W_connectAck]
     \<and> ec_stream ec' = ec_stream ec @ API_SIGN @ frame version_range @ frame (start_api clientId)"

lemma reading_empty:
  assumes "reading rd0 [] tail rd"
  obtains evs where "rd_net rd = evs @ tail" "list_all works evs" "arriving evs = []"
  using assms by (auto simp: reading_def)

lemma ack_read:
  assumes "isSocketOK ec" and "list_all works evs" and "arriving evs = frame m" and "m \<noteq> []" "length m \<le> MAX_MSG_LEN"
  obtains rd evs' where "putMessageToQueue (rd_init ec (evs @ tail)) = Some (True, rd)" "rd_client rd = ec" "rd_msgQueue rd = [m]"
    "rd_net rd = evs' @ tail" "list_all works evs'" "arriving evs' = []"
proof -
  have "reading (rd_init ec (evs @ tail)) (frame m @ []) tail (rd_init ec (evs @ tail))"
    using reading_init [OF assms(1,2), of tail] by (simp add: assms(3))
  from put_reading [OF this assms(4,5)] obtain rd where p: "putMessageToQueue (rd_init ec (evs @ tail)) = Some (True, rd)"
    "reading ((rd_init ec (evs @ tail))\<lparr>rd_msgQueue := [m]\<rparr>) [] tail rd" by (auto simp: rd_init_def)
  then have "rd_client rd = ec" "rd_msgQueue rd = [m]" by (auto simp: reading_def rd_init_def)
  with p that reading_empty [OF p(2)] show ?thesis by metis
qed

lemma version_awaited:
  assumes "takes k" and "isConnected (rd_client rd)" "isSocketOK (rd_client rd)" "ec_useV100Plus (rd_client rd)"
    "ec_serverVersion (rd_client rd) = 0" "\<not> ec_asyncEConnect (rd_client rd)" "ec_optionalCapabilities (rd_client rd) = []"
    and "- (2 ^ 31) \<le> ec_clientId (rd_client rd)" "ec_clientId (rd_client rd) < 2 ^ 31"
    and "100 \<le> v" "v \<le> 176" "NUL \<notin> set time" and "rd_msgQueue rd = [wire [int_str v, time]]"
  shows "\<exists>rd'. await_version k ds (0, rd) = Some rd' \<and> rd_net rd' = rd_net rd
    \<and> isConnected (rd_client rd') \<and> isSocketOK (rd_client rd') \<and> ec_serverVersion (rd_client rd') = v \<and> ec_TwsTime (rd_client rd') = time
    \<and> ec_cbs (rd_client rd') = ec_cbs (rd_client rd) @ [W_connectAck]
    \<and> ec_stream (rd_client rd') = ec_stream (rd_client rd) @ frame (start_api (ec_clientId (rd_client rd)))"
proof -
  let ?ec = "rd_client rd" and ?ec1 = "onSend k (rd_client rd)"
  have s: "sends [] ?ec ?ec1" by (rule onSend_sends [OF assms(1)])
  note keep = sends_keeps [OF s]
  have c: "isConnected ?ec1" using assms(2) keep by (simp add: isConnected_def)
  obtain n ec2 where a: "processConnectAck k ds (wire [int_str v, time]) (0, ?ec1) = (n, v, ec_call W_connectAck ec2)"
    "sends (frame (start_api (ec_clientId ?ec1))) (?ec1\<lparr>ec_serverVersion := v, ec_TwsTime := time, ec_redirectCount := 0\<rparr>) ec2"
    using ack_accepted [OF assms(1) c, of v time ds] assms keep by auto
  note keep2 = sends_keeps [OF a(2)]
  let ?rd = "rd\<lparr>rd_client := ec_call W_connectAck ec2, rd_msgQueue := []\<rparr>"
  have "ack_processMsgs k ds (0, rd) = (v, ?rd)"
    using assms(13) a(1) by (simp add: ack_processMsgs_def getMsg_def del: wire_simps)
  moreover have "ec_serverVersion (rd_client ?rd) \<noteq> 0" using keep2 assms(10) by (simp add: ec_call_def)
  ultimately have "await_version k ds (0, rd) = Some ?rd"
    using assms(3,5) by (subst await_version.simps, simp, subst await_version.simps, simp)
  then show ?thesis
    using keep keep2 c assms(3) by (auto simp: isConnected_def isSocketOK_def ec_call_def ec_stream_def)
qed

lemma handshake_accepted:
  assumes "takes k" and "isSocketOK ec" "ec_useV100Plus ec" "ec_serverVersion ec = 0" "\<not> ec_asyncEConnect ec"
    "ec_connectOptions ec = []" "ec_optionalCapabilities ec = []"
    and "- (2 ^ 31) \<le> ec_clientId ec" "ec_clientId ec < 2 ^ 31" and "os_non_blocking os = None"
    and "100 \<le> v" "v \<le> 176" "NUL \<notin> set time" "length time \<le> 1000"
    and "list_all works evs" and "arriving evs = frame (wire [int_str v, time])"
  shows "\<exists>ec' evs'. handshake k ds os (evs @ tail) ec = Some (True, ec', evs' @ tail)
    \<and> list_all works evs' \<and> arriving evs' = [] \<and> session v time (ec_clientId ec) ec ec'"
proof -
  let ?ec = "ec\<lparr>ec_connState := CS_CONNECTED\<rparr>" and ?m = "wire [int_str v, time]"
  obtain ec1 where r: "sendConnectRequest k ec = (1, ec1)" "sends (API_SIGN @ frame version_range) ?ec ec1"
    using connect_request [OF assms(1,3,6)] by blast
  note keep = sends_keeps [OF r(2)]
  have ok: "isSocketOK ec1" "isConnected ec1" using assms(2) keep by (simp_all add: isSocketOK_def isConnected_def)
  have "length (int_str v) \<le> 20" using assms(11,12) by (intro int_str_length) auto
  then have l: "?m \<noteq> []" "length ?m \<le> MAX_MSG_LEN" using assms(14) by (simp_all add: MAX_MSG_LEN_def)
  obtain rd evs' where p: "putMessageToQueue (rd_init ec1 (evs @ tail)) = Some (True, rd)" "rd_client rd = ec1" "rd_msgQueue rd = [?m]"
    "rd_net rd = evs' @ tail" "list_all works evs'" "arriving evs' = []"
    by (rule ack_read [OF ok(1) assms(15,16) l])
  obtain rd' where w: "await_version k ds (0, rd) = Some rd'" "rd_net rd' = rd_net rd"
    "isConnected (rd_client rd')" "isSocketOK (rd_client rd')" "ec_serverVersion (rd_client rd') = v" "ec_TwsTime (rd_client rd') = time"
    "ec_cbs (rd_client rd') = ec_cbs ec1 @ [W_connectAck]"
    "ec_stream (rd_client rd') = ec_stream ec1 @ frame (start_api (ec_clientId ec))"
    using version_awaited [of k rd v time ds] assms ok keep p by auto
  have "handshake k ds os (evs @ tail) ec = Some (True, rd_client rd', evs' @ tail)"
    using r(1) ok(2) assms(4,5,10) keep p(1,4) w(1,2,4) by (simp add: handshake_def del: wire_simps)
  moreover have "session v time (ec_clientId ec) ec (rd_client rd')"
    using w keep by (simp add: session_def)
  ultimately show ?thesis using p(5,6) by blast
qed

definition reachable :: "os \<Rightarrow> string \<Rightarrow> int \<Rightarrow> bool" where
  "reachable os host port \<longleftrightarrow> host \<noteq> [] \<and> os_resolves os host \<and> (\<exists>fd. os_socket os = Inr fd) \<and> os_connect os host port = None
     \<and> os_non_blocking os = None"

definition open_socket :: "nat \<Rightarrow> string \<Rightarrow> int \<Rightarrow> int \<Rightarrow> eclient \<Rightarrow> eclient" where
  "open_socket fd host port clientId ec = ec\<lparr>ec_errno := E_none, ec_host := host, ec_port := port, ec_fd := int fd,
     ec_clientId := clientId, ec_extraAuth := False\<rparr>"

lemma connect_handshake:
  assumes "idle ec" and "reachable os host port"
  obtains fd where "ib_connect k ds os net host port clientId ec
    = map_option (\<lambda>(bRes, ec', net'). (bRes, ec', if bRes then Some (rd_init ec' net') else None))
        (handshake k ds os net (open_socket fd host port clientId ec))"
  using assms by (auto simp: idle_def reachable_def ib_connect_def eConnect_def eConnectImpl_def open_socket_def)

lemma open_socket_simps [simp]:
  "ec_fd (open_socket fd host port clientId ec) = int fd" "ec_clientId (open_socket fd host port clientId ec) = clientId"
  "ec_useV100Plus (open_socket fd host port clientId ec) = ec_useV100Plus ec"
  "ec_serverVersion (open_socket fd host port clientId ec) = ec_serverVersion ec"
  "ec_asyncEConnect (open_socket fd host port clientId ec) = ec_asyncEConnect ec"
  "ec_connectOptions (open_socket fd host port clientId ec) = ec_connectOptions ec"
  "ec_optionalCapabilities (open_socket fd host port clientId ec) = ec_optionalCapabilities ec"
  "ec_cbs (open_socket fd host port clientId ec) = ec_cbs ec" "ec_stream (open_socket fd host port clientId ec) = ec_stream ec"
  by (simp_all add: open_socket_def ec_stream_def)

text \<open>
  Property C11. From the connection to the events: when the host can be reached, the system takes what
  is sent, and the server answers with a version of the protocol the client knows, the client has sent
  its request for a version and the start of its session, the reading thread begins where the answer
  ended, and whatever pieces the network makes of the messages that follow, provided each of them
  decodes and no callback throws, they become, decoded for that version, the events of the callbacks
  they stand for.
\<close>

theorem session_refines_callbacks:
  assumes "takes k" and "idle ec" and "reachable os host port"
    and "- (2 ^ 31) \<le> clientId" "clientId < 2 ^ 31"
    and "100 \<le> v" "v \<le> 176" "NUL \<notin> set time" "length time \<le> 1000"
    and "list_all works evs1" and "arriving evs1 = frame (wire [int_str v, time])"
    and "list_all works evs2" and "arriving evs2 = concat (map frame ms)" and "\<forall>m \<in> set ms. m \<noteq> [] \<and> length m \<le> MAX_MSG_LEN"
    and "list_all2 (decodes env v) ms wss" and "ib_run dd td (ops_of (concat wss)) (ib_start True ib) = Ret out ib'"
  shows "\<exists>ec' rd0 rd rd'. ib_connect k ds os (evs1 @ evs2 @ closing) host port clientId ec = Some (True, ec', Some rd0)
    \<and> session v time clientId ec ec' \<and> readToQueue rd0 = Some rd
    \<and> processMsgs k env dd td what (ec_serverVersion ec') rd (ib_start True ib) = Ret (out, rd') ib' \<and> rd_msgQueue rd' = []"
proof -
  obtain fd where c: "ib_connect k ds os (evs1 @ evs2 @ closing) host port clientId ec
    = map_option (\<lambda>(bRes, ec', net'). (bRes, ec', if bRes then Some (rd_init ec' net') else None))
        (handshake k ds os (evs1 @ evs2 @ closing) (open_socket fd host port clientId ec))"
    by (rule connect_handshake [OF assms(2,3)])
  have "isSocketOK (open_socket fd host port clientId ec)" by (simp add: isSocketOK_def)
  then obtain ec' evs' where h: "handshake k ds os (evs1 @ evs2 @ closing) (open_socket fd host port clientId ec)
      = Some (True, ec', evs' @ evs2 @ closing)" "list_all works evs'" "arriving evs' = []"
      "session v time clientId (open_socket fd host port clientId ec) ec'"
    using handshake_accepted [of k "open_socket fd host port clientId ec" os v time evs1 ds "evs2 @ closing"] assms
    by (auto simp: idle_def reachable_def)
  have "arriving (evs' @ evs2) = concat (map frame ms)" by (simp add: arriving_append h(3) assms(13))
  moreover have "isSocketOK ec'" "list_all works (evs' @ evs2)" using h(2,4) assms(12) by (simp_all add: session_def)
  ultimately obtain rd rd' where "readToQueue (rd_init ec' ((evs' @ evs2) @ closing)) = Some rd"
    "processMsgs k env dd td what v rd (ib_start True ib) = Ret (out, rd') ib'" "rd_msgQueue rd' = []"
    using network_runs [of ec' "evs' @ evs2" ms env v wss dd td "ib_start True ib" out ib' k what] assms(14-16) by blast
  then show ?thesis using c h(1,4) by (auto simp: session_def)
qed

text \<open>A server of version 176 whose answer comes in two pieces, and one \<open>nextValidId\<close> after it.\<close>

definition demo_kernel :: kernel where
  "demo_kernel = (\<lambda>s. Sent (length s))"

definition demo_os :: os where
  "demo_os = \<lparr>os_resolves = \<lambda>host. host = ''localhost'', os_socket = Inr 3, os_connect = \<lambda>_ _. None, os_non_blocking = None\<rparr>"

definition demo_answer :: "select_result list" where
  "demo_answer = [Sel_ready False (Some (Recv [NUL, NUL, NUL])), Sel_timeout,
     Sel_ready False (Some (Recv (CHR 0x0D # wire [''176'', ''20250103''])))]"

lemma demo_network:
  "takes demo_kernel" "idle ec_init" "reachable demo_os ''localhost'' 7496" "list_all works demo_answer"
  "arriving demo_answer = frame (wire [int_str 176, ''20250103''])"
proof -
  have "int_str 176 = ''176''" "htonl_bytes 13 = [NUL, NUL, NUL, CHR 0x0D]" by code_simp+
  then show "arriving demo_answer = frame (wire [int_str 176, ''20250103''])"
    by (simp add: demo_answer_def frame_def numeral_eq_Suc)
qed (simp_all add: takes_def demo_kernel_def idle_def ec_init_def reachable_def demo_os_def demo_answer_def)

theorem session_refines_callbacks_witness:
  "\<exists>ec' rd0 rd rd'. ib_connect demo_kernel (\<lambda>_. []) demo_os
      (demo_answer @ [Sel_ready False (Some (Recv (frame (wire [''9'', ''1'', ''7'']))))] @ closing) ''localhost'' 7496 2 ec_init
      = Some (True, ec', Some rd0)
    \<and> session 176 ''20250103'' 2 ec_init ec' \<and> readToQueue rd0 = Some rd
    \<and> processMsgs demo_kernel \<lparr>de_decimal = \<lambda>_. 0, de_uninit_int = 0, de_uninit_double = 0\<rparr> (\<lambda>_. 0) (\<lambda>_. 0) (\<lambda>_. [])
        (ec_serverVersion ec') rd (ib_start True ib_init) = Ret ([], rd') (ib_nextValidId 7 (ib_start True ib_init))
    \<and> rd_msgQueue rd' = []"
proof (rule session_refines_callbacks [OF demo_network(1-3), where ms = "[wire [''9'', ''1'', ''7'']]" and wss = "[[W_nextValidId 7]]"])
  have i: "''9'' = int_str 9" "''1'' = int_str 1" "''7'' = int_str 7" by (code_simp+)
  show "list_all2 (decodes \<lparr>de_decimal = \<lambda>_. 0, de_uninit_int = 0, de_uninit_double = 0\<rparr> 176) [wire [''9'', ''1'', ''7'']] [[W_nextValidId 7]]"
    unfolding i by (simp add: decodes_def decode_msg_def decoder_of_def decoder_tables processNextValidIdMsg_def calls_def)
  show "arriving demo_answer = frame (wire [int_str 176, ''20250103''])" "list_all works demo_answer" by (rule demo_network)+
qed (simp_all add: MAX_MSG_LEN_def frame_def htonl_bytes_def)

section \<open>A redirection\<close>

definition waiting :: "ereader \<Rightarrow> bool" where
  "waiting rd \<longleftrightarrow> ec_serverVersion (rd_client rd) = 0 \<and> isSocketOK (rd_client rd) \<and> rd_msgQueue rd = []"

lemma waiting_on:
  assumes "takes k" and "waiting rd"
  shows "\<exists>rd'. ack_processMsgs k ds (v, rd) = (v, rd') \<and> waiting rd'"
  using sends_keeps [OF onSend_sends [OF assms(1)], of "rd_client rd"] assms(2)
  by (simp add: ack_processMsgs_def getMsg_def waiting_def isSocketOK_def)

lemma waits_for_ever:
  assumes "takes k" and "waiting (snd st)"
  shows "await_version k ds st = None"
proof (rule ccontr)
  assume "await_version k ds st \<noteq> None"
  then obtain rd where "await_version k ds st = Some rd" by blast
  then have "takes k \<longrightarrow> \<not> waiting (snd st)"
  proof (induction rule: await_version.raw_induct [rotated 1, consumes 1])
    case (1 f k ds st y)
    show ?case
    proof (intro impI notI)
      assume k: "takes k" and w: "waiting (snd st)"
      obtain rd' where a: "ack_processMsgs k ds st = (fst st, rd')" "waiting rd'"
        using waiting_on [OF k w, of ds "fst st"] by auto
      have "f k ds (ack_processMsgs k ds st) = Some y" using 1(2) w by (simp add: waiting_def)
      from 1(1) [OF this] k a show False by simp
    qed
  qed
  then show False using assms by blast
qed

lemma redirect_ignored:
  assumes "- (2 ^ 31) \<le> w" "w < 0" "NUL \<notin> set hostport"
  shows "\<exists>n ec'. processConnectAck k ds (wire [int_str w, hostport]) (0, ec) = (n, 0, ec') \<and> ec_fd ec' = ec_fd ec
    \<and> ec_serverVersion ec' = ec_serverVersion ec"
proof -
  have "atoi (int_str w) = w" using assms by (intro atoi_int_str) auto
  then show ?thesis using assms(2,3) by (simp add: processConnectAck_def Let_def redirect_def ec_error_def ec_call_def)
qed

text \<open>
  Property C12. A server that can be reached and answers the connection with a redirection, a negative
  version, is never left: the redirection is refused, no version ever comes, and the loop that waits for
  it does not end, whatever else the network does.
\<close>

theorem redirected_connection_hangs:
  assumes "takes k" and "idle ec" and "reachable os host port"
    and "- (2 ^ 31) \<le> w" "w < 0" "NUL \<notin> set hostport" "length hostport \<le> 1000"
    and "list_all works evs" and "arriving evs = frame (wire [int_str w, hostport])"
  shows "ib_connect k ds os (evs @ tail) host port clientId ec = None"
proof -
  obtain fd where c: "ib_connect k ds os (evs @ tail) host port clientId ec
    = map_option (\<lambda>(bRes, ec', net'). (bRes, ec', if bRes then Some (rd_init ec' net') else None))
        (handshake k ds os (evs @ tail) (open_socket fd host port clientId ec))"
    by (rule connect_handshake [OF assms(2,3)])
  let ?ec = "open_socket fd host port clientId ec" and ?m = "wire [int_str w, hostport]"
  obtain ec1 where r: "sendConnectRequest k ?ec = (1, ec1)" "sends (API_SIGN @ frame version_range) (?ec\<lparr>ec_connState := CS_CONNECTED\<rparr>) ec1"
    using connect_request [OF assms(1), of ?ec] assms(2) by (auto simp: idle_def)
  note keep = sends_keeps [OF r(2)]
  have i: "ec_serverVersion ec = 0" "\<not> ec_asyncEConnect ec" using assms(2) by (simp_all add: idle_def)
  have ok: "isSocketOK ec1" "isConnected ec1" using keep by (simp_all add: isSocketOK_def isConnected_def)
  have "length (int_str w) \<le> 20" using assms(4,5) by (intro int_str_length) auto
  then have l: "?m \<noteq> []" "length ?m \<le> MAX_MSG_LEN" using assms(7) by (simp_all add: MAX_MSG_LEN_def)
  obtain rd evs' where p: "putMessageToQueue (rd_init ec1 (evs @ tail)) = Some (True, rd)" "rd_client rd = ec1" "rd_msgQueue rd = [?m]"
    by (rule ack_read [OF ok(1) assms(8,9) l])
  obtain n ec2 where a: "processConnectAck k ds ?m (0, onSend k ec1) = (n, 0, ec2)" "ec_fd ec2 = ec_fd (onSend k ec1)"
    "ec_serverVersion ec2 = ec_serverVersion (onSend k ec1)"
    using redirect_ignored [OF assms(4-6)] by blast
  note keep2 = sends_keeps [OF onSend_sends [OF assms(1)], of ec1]
  have s: "ack_processMsgs k ds (0, rd) = (0, rd\<lparr>rd_client := ec2, rd_msgQueue := []\<rparr>)"
    using p(2,3) a(1) by (simp add: ack_processMsgs_def getMsg_def del: wire_simps)
  have "waiting (snd (ack_processMsgs k ds (0, rd)))"
    unfolding s using a(2,3) keep keep2 i ok(1) by (simp add: waiting_def isSocketOK_def)
  from waits_for_ever [OF assms(1) this, of ds] have "await_version k ds (0, rd) = None"
    using p(2) ok(1) keep i by (subst await_version.simps) simp
  then show ?thesis
    using c r(1) ok(2) i keep p(1) assms(3) by (simp add: handshake_def reachable_def del: wire_simps)
qed

theorem redirected_connection_hangs_witness:
  "ib_connect demo_kernel (\<lambda>_. []) demo_os ([Sel_ready False (Some (Recv (frame (wire [int_str (- 1), ''10.0.0.2:4001'']))))] @ closing)
    ''localhost'' 7496 2 ec_init = None"
  by (rule redirected_connection_hangs [OF demo_network(1-3), where w = "- 1" and hostport = "''10.0.0.2:4001''"])
    (simp_all add: frame_def htonl_bytes_def)

end
