(* ===== verification/TwsTraffic.thy ===== *)
theory TwsTraffic
  imports TwsConnect
begin

text \<open>
  Two exchanges of the gateway with TWS from end to end: a subscription (\<open>IBApi::subscribe\<close> in
  \<open>lib/gateway/gateway.cpp\<close>) down to the bytes of its three requests, and a message with historical bars
  up to the events the gateway publishes (\<open>EDecoder::processHistoricalDataMsg\<close>, \<open>IBApi::historicalData\<close>,
  \<open>IBApi::historicalDataEnd\<close>).
\<close>

section \<open>A subscription on the wire\<close>

text \<open>The calls of the gateway to its client, one after another.\<close>

fun client_run :: "kernel \<Rightarrow> (decimal \<Rightarrow> string) \<Rightarrow> client_call list \<Rightarrow> eclient \<Rightarrow> (unit, eclient) outcome" where
  "client_run k ds [] ec = Ret () ec"
| "client_run k ds (c # cs) ec = bind_o (client_exec k ds c ec) (\<lambda>_. client_run k ds cs)"

lemma send_fields_sends:
  assumes "takes k" and "ec_useV100Plus ec" and "list_all printable_field fs" and "length (wire (map (text_of ds) fs)) \<le> MAX_MSG_LEN"
  shows "sends (frame (wire (map (text_of ds) fs))) ec (send_fields k ds i fs ec)"
  using closeAndSend_sends [OF assms(1,2,4), of "[]"]
  by (auto simp: send_fields_def prepareBuffer_def encode_printable [OF assms(3)] assms(2))

text \<open>The fields of the two requests.\<close>

definition tick_request :: "contract \<Rightarrow> int \<Rightarrow> string \<Rightarrow> string list" where
  "tick_request c i tick_type =
     [''97'', int_str i, ''0'', c_symbol c, c_secType c, [], ''0'', [], [], c_exchange c, [], c_currency c, [], [], tick_type,
      ''10'', ''0'']"

definition data_type_request :: "bool \<Rightarrow> string list" where
  "data_type_request delayed = [''59'', ''1'', if delayed then ''4'' else ''1'']"

lemma small_numbers:
  "int_str 97 = ''97''" "int_str 59 = ''59''" "int_str 10 = ''10''" "int_str 4 = ''4''" "int_str 1 = ''1''" "int_str 0 = ''0''"
  "double_str 0 = ''0''"
  by code_simp+

lemma data_type_sends:
  assumes "takes k" and "isConnected ec" and "ec_useV100Plus ec" and "140 \<le> ec_serverVersion ec"
  shows "sends (frame (wire (data_type_request delayed))) ec (reqMarketDataType k ds (if delayed then 4 else 1) ec)"
proof -
  let ?fs = "[F_int 59, F_int 1, F_int (if delayed then 4 else 1)]"
  have t: "map (text_of ds) ?fs = data_type_request delayed" by (simp add: data_type_request_def small_numbers)
  have "length (wire (data_type_request delayed)) \<le> MAX_MSG_LEN" by (simp add: data_type_request_def MAX_MSG_LEN_def)
  then show ?thesis using send_fields_sends [OF assms(1,3), of ?fs ds] assms(2,4) unfolding t
    by (simp add: reqMarketDataType_def)
qed

lemma tick_request_fields:
  assumes "140 \<le> v" and "c = contract_of symb"
  shows "map (text_of ds) (tick_by_tick_fields v i c tick_type 10 False) = tick_request c i tick_type"
  using assms by (simp add: tick_by_tick_fields_def contract_fields_def contract_head_def since_def tick_request_def contract_of_def
      new_contract_def Let_def small_numbers)

lemma tick_request_sends:
  assumes "takes k" and "isConnected ec" and "ec_useV100Plus ec" and "140 \<le> ec_serverVersion ec" and "c = contract_of symb"
    and "list_all isAsciiPrintable [c_symbol c, c_secType c, c_exchange c, c_currency c, tick_type]"
    and "length (wire (tick_request c i tick_type)) \<le> MAX_MSG_LEN"
  shows "sends (frame (wire (tick_request c i tick_type))) ec (reqTickByTickData k ds i c tick_type 10 False ec)"
proof -
  let ?fs = "tick_by_tick_fields (ec_serverVersion ec) i c tick_type 10 False"
  note t = tick_request_fields [OF assms(4,5), of ds i tick_type]
  have "list_all printable_field ?fs"
    using assms(4-6) by (simp add: tick_by_tick_fields_def contract_fields_def contract_head_def since_def contract_of_def new_contract_def Let_def)
  from send_fields_sends [OF assms(1,3) this, of ds] assms(2,4,7) show ?thesis
    unfolding t by (simp add: reqTickByTickData_def)
qed

text \<open>
  Property C21. A subscription of a running gateway to a new, well-formed symbol reaches a server of at
  least version 140 as exactly three frames: the type of the market data, and a request for the trades
  and one for the quotes of the contract the symbol names, each with ten earlier ticks, under two ids
  that the gateway maps back to the symbol. No error is reported. The client is connected and the system
  takes what it sends; the texts of the symbol can be printed and fit a message.
\<close>

theorem subscription_on_wire:
  assumes "takes k" and "isConnected ec" and "ec_useV100Plus ec" and "140 \<le> ec_serverVersion ec"
    and "ib_running ib" and "ib_sym2req_ids ib symb = None" and "symbol_wf symb" and "c = contract_of symb"
    and "list_all isAsciiPrintable [c_symbol c, c_secType c, c_exchange c, c_currency c]"
    and "i = ib_req_id ib"
    and "length (wire (tick_request c i ''Last'')) \<le> MAX_MSG_LEN" "length (wire (tick_request c (i + 1) ''BidAsk'')) \<le> MAX_MSG_LEN"
  shows "\<exists>ib' cs ec'. ib_subscribe symb delayed ib = Ret [] ib' \<and> ib_calls ib' = ib_calls ib @ cs
    \<and> client_run k ds cs ec = Ret () ec'
    \<and> ec_stream ec' = ec_stream ec @ frame (wire (data_type_request delayed))
        @ frame (wire (tick_request c i ''Last'')) @ frame (wire (tick_request c (i + 1) ''BidAsk''))
    \<and> ec_cbs ec' = ec_cbs ec
    \<and> ib_req_id2sym ib' i = Some symb \<and> ib_req_id2sym ib' (i + 1) = Some symb"
proof -
  define ec1 where "ec1 = reqMarketDataType k ds (if delayed then 4 else 1) ec"
  define ec2 where "ec2 = reqTickByTickData k ds i c ''Last'' 10 False ec1"
  define ec3 where "ec3 = reqTickByTickData k ds (i + 1) c ''BidAsk'' 10 False ec2"
  have p: "list_all isAsciiPrintable [c_symbol c, c_secType c, c_exchange c, c_currency c, ''Last'']"
    "list_all isAsciiPrintable [c_symbol c, c_secType c, c_exchange c, c_currency c, ''BidAsk'']"
    using assms(9) by (simp_all add: isAsciiPrintable_def)
  have s1: "sends (frame (wire (data_type_request delayed))) ec ec1"
    unfolding ec1_def by (rule data_type_sends [OF assms(1-4)])
  then have c1: "isConnected ec1" "ec_useV100Plus ec1" "140 \<le> ec_serverVersion ec1"
    using assms(2-4) sends_keeps [OF s1] by (simp_all add: isConnected_def)
  have s2: "sends (frame (wire (tick_request c i ''Last''))) ec1 ec2"
    unfolding ec2_def by (rule tick_request_sends [OF assms(1) c1 assms(8) p(1) assms(11)])
  then have c2: "isConnected ec2" "ec_useV100Plus ec2" "140 \<le> ec_serverVersion ec2"
    using c1 sends_keeps [OF s2] by (simp_all add: isConnected_def)
  have s3: "sends (frame (wire (tick_request c (i + 1) ''BidAsk''))) ec2 ec3"
    unfolding ec3_def by (rule tick_request_sends [OF assms(1) c2 assms(8) p(2) assms(12)])
  let ?ib = "subscribed symb delayed ib"
  let ?cs = "[C_reqMarketDataType (if delayed then 4 else 1), C_reqTickByTickData i c ''Last'' 10 False,
    C_reqTickByTickData (i + 1) c ''BidAsk'' 10 False]"
  have "ib_subscribe symb delayed ib = Ret [] ?ib" using assms(5-7) by (simp add: ib_subscribe_eq)
  moreover have "ib_calls ?ib = ib_calls ib @ ?cs" "ib_req_id2sym ?ib i = Some symb" "ib_req_id2sym ?ib (i + 1) = Some symb"
    using assms(8,10) by (simp_all add: subscribed_def)
  moreover have "client_run k ds ?cs ec = Ret () ec3"
    by (simp only: client_run.simps client_exec.simps bind_o.simps ec1_def [symmetric] ec2_def [symmetric] ec3_def [symmetric])
  moreover have "ec_stream ec3 = ec_stream ec @ frame (wire (data_type_request delayed))
      @ frame (wire (tick_request c i ''Last'')) @ frame (wire (tick_request c (i + 1) ''BidAsk''))" "ec_cbs ec3 = ec_cbs ec"
    using sends_keeps [OF s1] sends_keeps [OF s2] sends_keeps [OF s3] by simp_all
  ultimately show ?thesis by blast
qed

lemma demo_contract:
  "contract_of ''6758-STK-JPY.TSEJ'' = new_contract\<lparr>c_symbol := ''6758'', c_secType := ''STK'', c_currency := ''JPY'', c_exchange := ''TSEJ''\<rparr>"
  by (simp add: contract_of_def Let_def)

theorem subscription_on_wire_witness:
  "\<exists>ib' cs ec'. ib_subscribe ''6758-STK-JPY.TSEJ'' False (ib_start True ib_init) = Ret [] ib' \<and> ib_calls ib' = [] @ cs
    \<and> client_run demo_kernel (\<lambda>_. []) cs demo_server = Ret () ec'
    \<and> ec_stream ec' = ec_stream demo_server @ frame (wire [''59'', ''1'', ''1''])
        @ frame (wire [''97'', ''10000000'', ''0'', ''6758'', ''STK'', [], ''0'', [], [], ''TSEJ'', [], ''JPY'', [], [], ''Last'', ''10'', ''0''])
        @ frame (wire [''97'', ''10000001'', ''0'', ''6758'', ''STK'', [], ''0'', [], [], ''TSEJ'', [], ''JPY'', [], [], ''BidAsk'', ''10'', ''0''])
    \<and> ec_cbs ec' = ec_cbs demo_server
    \<and> ib_req_id2sym ib' 10000000 = Some ''6758-STK-JPY.TSEJ'' \<and> ib_req_id2sym ib' (10000000 + 1) = Some ''6758-STK-JPY.TSEJ''"
proof -
  let ?c = "contract_of ''6758-STK-JPY.TSEJ''"
  have c: "c_symbol ?c = ''6758''" "c_secType ?c = ''STK''" "c_exchange ?c = ''TSEJ''" "c_currency ?c = ''JPY''"
    by (simp_all only: demo_contract) simp_all
  have digits_01: "digit 0 = CHR ''0''" "digit 1 = CHR ''1''" by code_simp+
  have n: "int_str 10000000 = ''10000000''" "int_str (10000000 + 1) = ''10000001''"
    using digits_01 by (simp_all add: int_str_def dec.simps)
  have t: "tick_request ?c 10000000 ''Last'' = [''97'', ''10000000'', ''0'', ''6758'', ''STK'', [], ''0'', [], [], ''TSEJ'', [], ''JPY'', [], [], ''Last'', ''10'', ''0'']"
    "tick_request ?c (10000000 + 1) ''BidAsk'' = [''97'', ''10000001'', ''0'', ''6758'', ''STK'', [], ''0'', [], [], ''TSEJ'', [], ''JPY'', [], [], ''BidAsk'', ''10'', ''0'']"
    "data_type_request False = [''59'', ''1'', ''1'']"
    unfolding tick_request_def data_type_request_def c n by simp_all
  have h: "takes demo_kernel" "isConnected demo_server" "ec_useV100Plus demo_server" "140 \<le> ec_serverVersion demo_server"
    by (simp_all add: demo_network demo_server_def isConnected_def)
  have g: "ib_running (ib_start True ib_init)" "ib_sym2req_ids (ib_start True ib_init) ''6758-STK-JPY.TSEJ'' = None" "symbol_wf ''6758-STK-JPY.TSEJ''"
    "10000000 = ib_req_id (ib_start True ib_init)" "ib_calls (ib_start True ib_init) = []"
    by (simp_all add: ib_start_def ib_init_def symbol_wf_def)
  have p: "list_all isAsciiPrintable [c_symbol ?c, c_secType ?c, c_exchange ?c, c_currency ?c]"
    unfolding c by (simp add: isAsciiPrintable_def)
  have l: "length (wire (tick_request ?c 10000000 ''Last'')) \<le> MAX_MSG_LEN" "length (wire (tick_request ?c (10000000 + 1) ''BidAsk'')) \<le> MAX_MSG_LEN"
    unfolding t by (simp_all add: MAX_MSG_LEN_def)
  from subscription_on_wire [OF h g(1-3) refl p g(4) l, of False "\<lambda>_. []"] show ?thesis unfolding t g(5) .
qed

section \<open>Historical bars up to the events\<close>

text \<open>A bar as TWS writes it; servers before the version 124 also say whether it has gaps.\<close>

record wire_bar =
  bt_time :: string
  bt_open :: string
  bt_high :: string
  bt_low :: string
  bt_close :: string
  bt_volume :: string
  bt_wap :: string
  bt_gaps :: string
  bt_count :: int

definition bar_fields :: "int \<Rightarrow> wire_bar \<Rightarrow> string list" where
  "bar_fields v b = [bt_time b, bt_open b, bt_high b, bt_low b, bt_close b, bt_volume b, bt_wap b]
     @ (if v < 124 then [bt_gaps b] else []) @ [int_str (bt_count b)]"

definition bars_message :: "int \<Rightarrow> int \<Rightarrow> int \<Rightarrow> string \<Rightarrow> string \<Rightarrow> wire_bar list \<Rightarrow> string" where
  "bars_message v version r st en bs =
     wire ([int_str 17] @ (if v < 124 then [int_str version] else []) @ [int_str r, st, en, int_str (int (length bs))]
       @ concat (map (bar_fields v) bs))"

definition wire_bar_ok :: "wire_bar \<Rightarrow> bool" where
  "wire_bar_ok b \<longleftrightarrow> list_all (\<lambda>t. NUL \<notin> set t)
       [bt_time b, bt_open b, bt_high b, bt_low b, bt_close b, bt_volume b, bt_wap b, bt_gaps b]
     \<and> - (2 ^ 31) \<le> bt_count b \<and> bt_count b < 2 ^ 31"

definition double_of :: "string \<Rightarrow> double" where
  "double_of t = (if t = INFINITY_STR then PInf else atof t)"

text \<open>The texts of the largest integers and the largest double stand for a decimal that is not set, as no text does.\<close>

definition decimal_of :: "(string \<Rightarrow> decimal) \<Rightarrow> string \<Rightarrow> decimal" where
  "decimal_of sd t = sd (if t \<in> {''2147483647'', ''9223372036854775807'', ''1.7976931348623157E308''} then [] else t)"

definition bar_of :: "(string \<Rightarrow> decimal) \<Rightarrow> wire_bar \<Rightarrow> bar" where
  "bar_of sd b = \<lparr>b_time = bt_time b, b_high = double_of (bt_high b), b_low = double_of (bt_low b), b_open = double_of (bt_open b),
     b_close = double_of (bt_close b), b_wap = decimal_of sd (bt_wap b), b_volume = decimal_of sd (bt_volume b), b_count = bt_count b\<rparr>"

text \<open>The event of a bar, with the numbers its texts stand for.\<close>

definition bar_event :: "(string \<Rightarrow> decimal) \<Rightarrow> (decimal \<Rightarrow> double) \<Rightarrow> int \<Rightarrow> wire_bar \<Rightarrow> event" where
  "bar_event sd dd r b = on_hist_bar \<lparr>hb_id = r, hb_time = bt_time b, hb_high = double_of (bt_high b), hb_low = double_of (bt_low b),
     hb_open = double_of (bt_open b), hb_close = double_of (bt_close b), hb_wap = dd (decimal_of sd (bt_wap b)),
     hb_volume = dd (decimal_of sd (bt_volume b)), hb_count = bt_count b\<rparr>"

lemma get_values:
  "NUL \<notin> set t \<Longrightarrow> get_double k (t @ NUL # r) = k (double_of t) r"
  "NUL \<notin> set t \<Longrightarrow> get_decimal sd k' (t @ NUL # r) = k' (decimal_of sd t) r"
  by (simp_all add: get_double_def get_decimal_def double_of_def decimal_of_def)

lemma get_bar_fields:
  assumes "wire_bar_ok b"
  shows "get_bar sd v k (wire (bar_fields v b) @ s) = k (bar_of sd b) s"
  using assms by (simp add: get_bar_def bar_fields_def wire_bar_ok_def bar_of_def get_values when_read_def)

lemma get_bars:
  "list_all wire_bar_ok bs \<Longrightarrow> get_list (length bs) (get_bar sd v) k (wire (concat (map (bar_fields v) bs)) @ s) = k (map (bar_of sd) bs) s"
proof (induction bs arbitrary: k)
  case (Cons b bs)
  then show ?case by (simp add: get_bar_fields del: wire_simps(2))
qed simp

lemma bars_decode:
  assumes "list_all wire_bar_ok bs" and "- (2 ^ 31) \<le> r" "r < 2 ^ 31" and "- (2 ^ 31) \<le> version" "version < 2 ^ 31"
    and "NUL \<notin> set st" "NUL \<notin> set en" and "length bs < 2 ^ 31"
  shows "decode_msg env v (bars_message v version r st en bs)
    = Some (Inr (map (W_historicalData r) (map (bar_of (de_decimal env)) bs) @ [W_historicalDataEnd r st en]), [])"
proof -
  have n: "- (2 ^ 31) \<le> int (length bs)" "int (length bs) < 2 ^ 31" using assms(8) by simp_all
  have d: "decode_msg env v (int_str 17 @ NUL # u) = processHistoricalDataMsg (de_decimal env) v u" for u
    by (simp add: decode_msg_def decoder_of_def decoder_tables)
  have "get_int k (int_str version @ NUL # u) = k version u" for k :: "int \<Rightarrow> string \<Rightarrow> decoded" and u
    by (rule get_int_wire [OF assms(4,5)])
  note version = this
  have "get_list (nat (int (length bs))) (get_bar (de_decimal env) v) k (wire (concat (map (bar_fields v) bs))) = k (map (bar_of (de_decimal env)) bs) []" for k :: "bar list \<Rightarrow> string \<Rightarrow> decoded"
    using get_bars [OF assms(1), of "de_decimal env" v k "[]"] by simp
  then show ?thesis using assms(6,7)
    by (simp add: bars_message_def d processHistoricalDataMsg_def skip_int_if_def sized_def calls_def
        version get_int_wire [OF assms(2,3)] get_int_wire [OF n] del: map_map nat_int)
qed

lemma bars_run:
  "ib_run dd td (ops_of (map (W_historicalData r) (map (bar_of sd) bs) @ [W_historicalDataEnd r st en])) ib
    = Ret (map (bar_event sd dd r) bs @ [on_hist_bar_end \<lparr>he_id = r, he_start = st, he_end = en\<rparr>]) ib"
proof (induction bs)
  case Nil
  show ?case by (simp add: ib_historicalDataEnd_def)
next
  case (Cons b bs)
  then show ?case by (simp add: ib_historicalData_def bar_event_def bar_of_def)
qed

text \<open>
  Property C17. A message with historical bars, in the form a server of the session's version writes, is
  processed to its end and makes the gateway publish one event for each bar, in the order of the message
  and with the numbers of its own open, high, low, close, volume, average price and count, and then one
  event for the end of the request with its two times; the gateway itself is unchanged. The texts have
  no NUL in them and the numbers are values of type \<open>int\<close>.
\<close>

theorem bars_message_published:
  assumes "list_all wire_bar_ok bs" and "- (2 ^ 31) \<le> r" "r < 2 ^ 31" and "- (2 ^ 31) \<le> version" "version < 2 ^ 31"
    and "NUL \<notin> set st" "NUL \<notin> set en" and "length bs < 2 ^ 31"
  shows "parseAndProcessMsg env dd td what v (bars_message v version r st en bs) ib
    = Ret (length (bars_message v version r st en bs),
        map (bar_event (de_decimal env) dd r) bs @ [on_hist_bar_end \<lparr>he_id = r, he_start = st, he_end = en\<rparr>]) ib"
  using deliver_runs [OF bars_run, of dd td r "de_decimal env" bs st en ib]
  by (simp only: parseAndProcessMsg_def bars_decode [OF assms] Let_def option.case sum.case prod.case bind_o.simps list.size diff_zero)

definition demo_wire_bar :: "string \<Rightarrow> string \<Rightarrow> wire_bar" where
  "demo_wire_bar day px = \<lparr>bt_time = day, bt_open = px, bt_high = px, bt_low = px, bt_close = px, bt_volume = ''100'', bt_wap = px,
     bt_gaps = ''false'', bt_count = 3\<rparr>"

theorem bars_message_published_witness:
  "parseAndProcessMsg demo_env (\<lambda>_. 0) (\<lambda>_. 0) (\<lambda>_. []) 176
      (bars_message 176 3 7 ''20250103'' ''20250110'' [demo_wire_bar ''20250103'' ''21'', demo_wire_bar ''20250106'' ''22'']) ib_init
    = Ret (length (bars_message 176 3 7 ''20250103'' ''20250110'' [demo_wire_bar ''20250103'' ''21'', demo_wire_bar ''20250106'' ''22'']),
       [bar_event (\<lambda>_. 0) (\<lambda>_. 0) 7 (demo_wire_bar ''20250103'' ''21''), bar_event (\<lambda>_. 0) (\<lambda>_. 0) 7 (demo_wire_bar ''20250106'' ''22''),
        on_hist_bar_end \<lparr>he_id = 7, he_start = ''20250103'', he_end = ''20250110''\<rparr>]) ib_init"
  using bars_message_published [of "[demo_wire_bar ''20250103'' ''21'', demo_wire_bar ''20250106'' ''22'']" 7 3 "''20250103''" "''20250110''"
      demo_env "\<lambda>_. 0" "\<lambda>_. 0" "\<lambda>_. []" 176 ib_init]
  by (simp add: wire_bar_ok_def demo_wire_bar_def demo_env_def)

end
