(* ===== verification/Spec2Isabelle.thy ===== *)
theory Spec2Isabelle
  imports Calendar EngineStop HistConfig HistRuns ObjectsText PnlRace Trader TwsApi TwsThreads TwsTraffic
begin

text \<open>
  \<^bold>\<open>CALM, a trading system on Interactive Brokers.\<close>

  The program (\<open>src/lib\<close>, \<open>src/trader.cpp\<close>) connects to a Trader Workstation (TWS), turns what it hears into
  events, keeps positions and limits, and sends the orders of its algorithms. It is built on the client
  library of TWS (\<open>src/external/tws\<close>) and a date library (\<open>src/external/date\<close>), which are part of the
  repository and of this model.

  \<^bold>\<open>How the parts work together.\<close> TWS sends framed messages. The reading thread of \<open>EReader\<close> collects them in
  a queue; the thread of \<open>IBApi::process_messages\<close> decodes them (\<open>EDecoder\<close>, \<open>EOrderDecoder\<close>) into callbacks
  of \<open>IBApi\<close>, which updates its tables and posts events. \<open>EventEngine\<close> hands each event, on its own thread,
  to the callbacks registered for its type: the market data manager keeps the last ticks, the portfolio
  the positions and the profit and loss, the risk manager the active orders, the data recorder and each
  algorithm engine put a copy into their own queues for their own threads. An algorithm engine gets
  target positions from Redis and sends orders through \<open>TradingEngine\<close>, which asks the risk manager and
  passes them to the gateway, and this to the \<open>EClient\<close>, which writes them to the socket. The main thread
  sends a timer event each second. The historical data download is a program of its own on the same
  gateway.

  \<^bold>\<open>Theories and code.\<close>
  \<^item> \<open>Prelude\<close>: outcomes (a result, an exception or a crash), the containers, the locale of keyed stores.
    \<open>Doubles\<close>: IEEE doubles as rationals with rounding. \<open>Bytes\<close>: memory images of integers, doubles and
    strings. \<open>Objects\<close>, \<open>Utils\<close>, \<open>Events\<close>: \<open>lib/objects\<close>, \<open>lib/utils/utils.cpp\<close>, \<open>lib/core/event.h\<close>.
  \<^item> \<open>LBQueue\<close> (\<open>lib/utils/lock_based_queue.h\<close>), \<open>EventEngine\<close> and \<open>EngineStop\<close> (\<open>lib/core/event.cpp\<close>): the queue,
    the loop of the engine, and its shutdown as a step relation over locks and the join.
  \<^item> \<open>Contracts\<close>, \<open>Gateway\<close> (\<open>lib/gateway/gateway.cpp\<close>): the state of \<open>IBApi\<close> is the record \<open>ib_api\<close>; each
    method is a function \<open>ib_\<dots>\<close>, and \<open>ib_exec\<close> and \<open>ib_run\<close> run any sequence of requests and callbacks.
  \<^item> \<open>MarketData\<close>, \<open>Portfolio\<close>, \<open>Accounting\<close>, \<open>Pnl\<close>, \<open>Risk\<close>, \<open>TradingEngine\<close> (\<open>lib/core\<close>), \<open>AlgoEngine\<close>, \<open>AlgoOrders\<close>
    (\<open>lib/algo\<close>), \<open>Redis\<close> (\<open>lib/database\<close>), \<open>DataRecorder\<close> (\<open>lib/data/data_recorder.cpp\<close>): one record per class,
    one function per method, one function per round of the loop of its thread. \<open>PnlRace\<close>: the assignments of
    \<open>Portfolio::timer_cb\<close> one by one, which a reader without the mutex can fall between.
  \<^item> \<open>Trader\<close> (\<open>lib/core/trader.h\<close>): all objects in one record, the interleaving of the threads as a step
    relation, the timer.
  \<^item> \<open>Dates\<close>, \<open>DateFormat\<close>, \<open>Calendar\<close> (\<open>date.h\<close>), \<open>HistRequests\<close>, \<open>HistGetter\<close>, \<open>HistRuns\<close>
    (\<open>lib/data/historical_data.cpp\<close>): the calendar (the year a \<open>short\<close>), the formats of times, the requests of a download and its run.
    \<open>HistConfig\<close>: \<open>lib/cfg/cfg.h\<close> and the file of downloads. \<open>ObjectsText\<close>: the functions \<open>to_string\<close> of the records.
  \<^item> \<open>WireFormat\<close>, \<open>WirePrices\<close>: the fields of messages (\<open>EncodeField\<close>, \<open>DecodeField\<close>) with the C functions
    behind them. \<open>TwsOrder\<close>, \<open>TwsData\<close>: \<open>Order.h\<close>, the conditions, the records and callbacks of \<open>EWrapper\<close>.
    \<open>TwsClient\<close>, \<open>TwsRequests\<close>, \<open>TwsPlaceOrder\<close>, \<open>TwsOrderWire\<close>, \<open>TwsMarketRequests\<close>, \<open>TwsAccountRequests\<close>,
    \<open>TwsInfoRequests\<close>, \<open>TwsApi\<close>: \<open>EClient\<close>, \<open>EClientSocket\<close>, \<open>ESocket\<close>; the record
    \<open>eclient\<close> is their state. \<open>TwsReader\<close>: \<open>EReader\<close>. \<open>TwsDecode\<close>, \<open>TwsMessages\<close>, \<open>TwsContractDecoder\<close>,
    \<open>TwsOrderDecoder\<close>, \<open>TwsConditions\<close>, \<open>TwsDecoder\<close>: the decoders of all messages, one function per method of
    \<open>EDecoder\<close> and \<open>EOrderDecoder\<close>. \<open>TwsGateway\<close>: the gateway on top of the client and the reader.
    \<open>TwsConnect\<close>: opening the socket and the handshake, up to \<open>IBApi::connect\<close>. \<open>TwsThreads\<close>: the reading thread, the
    signal of \<open>EReaderOSSignal\<close> and the thread of the gateway as a step relation. \<open>TwsTraffic\<close>: a subscription down to
    the bytes of its requests and historical bars up to the events, with the records of \<open>TwsGateway\<close> and \<open>TwsClient\<close>.

  \<^bold>\<open>What the lemmas show.\<close> Invariants of the components and that every operation keeps them (\<open>Gateway\<close>,
  \<open>AlgoEngine\<close>, \<open>Trader\<close>, \<open>HistRuns\<close>, \<open>Risk\<close>); what the books, the profit and loss and the position of an algorithm
  are after a stream of events, exactly when the numbers lie on a binary grid that doubles hold without
  rounding (\<open>Accounting\<close>, \<open>Pnl\<close>, \<open>AlgoOrders\<close>); that only checked orders reach TWS
  (\<open>TradingEngine\<close>); delivery in order (\<open>LBQueue\<close>, \<open>EventEngine\<close>, \<open>DataRecorder\<close>, \<open>Redis\<close>); shutdown and its
  deadlock (\<open>EngineStop\<close>); the calendar, the formats and the tiling of a span by requests (\<open>Calendar\<close>,
  \<open>DateFormat\<close>, \<open>HistRequests\<close>); that the reader refines a queue of messages whatever pieces the network
  makes, that prices and conditions survive the wire, and that from the connection on the events published
  are those of the callbacks the messages stand for, as long as each decodes and none throws
  (\<open>TwsReader\<close>, \<open>WirePrices\<close>, \<open>TwsConditions\<close>, \<open>TwsConnect\<close>); that under the same condition no signal
  between the threads is lost, so that every message is handled under any schedule (\<open>TwsThreads\<close>); the
  frames of an order and of a subscription, and the events of the bars of a message (\<open>TwsOrderWire\<close>,
  \<open>TwsTraffic\<close>). Laws of the combinators, such as that a decoder reads a first part of its text
  (\<open>TwsDecoder\<close>) or that a request ends with one error or one message (\<open>TwsApi\<close>), are lemmas. Where the code does not do what it means to, the theorem says
  what it does: \<open>engine_stop_can_deadlock\<close>, \<open>missing_tick_disables_limits\<close>, \<open>unlocked_check_passes\<close>,
  \<open>late_report_corrupts_position\<close>, \<open>cut_trade_is_published\<close> and others.

  \<^bold>\<open>Interfaces.\<close> The locales are \<open>keyed_store\<close> (\<open>Prelude\<close>), \<open>fifo_queue\<close> (\<open>LBQueue\<close>), \<open>last_tick_source\<close>
  (\<open>MarketData\<close>), \<open>order_gateway\<close> (\<open>TradingEngine\<close>) and \<open>message_decoder\<close> (\<open>TwsDecode\<close>), each interpreted on the
  code's own definitions.

  \<^bold>\<open>Loops.\<close> Loops over data are structural recursions or functions with a measure. A loop that may not end
  is a partial function whose value is \<open>None\<close> then (the requests of a span, the wait for the version of the
  server), or a step relation. The network is a list of the answers of \<open>select\<close> and \<open>recv\<close>; the reading
  thread is a partial function over it, and the theorems that it ends do so for a network that closes at
  the end. No fuel is used.

  \<^bold>\<open>What is assumed.\<close> Doubles follow IEEE 754 without contraction of multiplications and additions; the C
  library is glibc and the streams are those of libstdc++; assertions are compiled out; memory does not run
  out; sums of an \<open>int\<close> do not overflow in the date library (that needs days millions of years away); a class under a mutex takes one step per critical section, except where \<open>PnlRace\<close> looks inside one;
  the two readings of the clock in \<open>send_timer\<close> fall into the same second. The decimal format of Intel's
  library, the text the format library makes of a double, hiredis, MongoDB, Arrow and the YAML files are
  arguments of the definitions: the texts and values of decimals, the answers of the servers, the
  configuration. Members that no constructor sets have the values of \<open>decode_env\<close>.

  \<^bold>\<open>Not modelled.\<close> Setting up the logs and writing to them (\<open>lib/utils/logging.cpp\<close>): output only. The
  operating system's calls for hosts and sockets, whose answers are arguments. Following a redirection,
  which the program never allows, and reading the protocol of TWS before its version 100. Time zones,
  weeks and the other formats of the date library, which the program does not use. The samples and
  tests.
\<close>

end
